(* ===== verification/Prelude.thy ===== *)
theory Prelude
  imports Main "HOL-Library.Word" "HOL-Library.Sublist"
begin

section \<open>Prelude: collections, Go error values and generic lemmas\<close>

text \<open>
  What every other theory of the development uses: the named collections of facts, the
  machine integer type of Go's \<open>int64\<close>, Go's \<open>error\<close> values with the two classifications of
  the Kubernetes API machinery the code asks about (\<open>errors.IsNotFound\<close> and
  \<open>errors.IsAlreadyExists\<close>), and a few lemmas on lists and maps.
\<close>

named_theorems go_defs \<open>unfolding equations of the small helper definitions\<close>
named_theorems emits_intros \<open>composition rules of the effect logic\<close>
named_theorems traces_intros \<open>composition rules of the trace logic\<close>
named_theorems call_defs \<open>definitions of the primitive external calls\<close>

type_synonym int64 = "64 word"

subsection \<open>Errors\<close>

text \<open>
  A Go error is its text and, for an error of the Kubernetes API, its reason. Wrapping with
  \<open>fmt.Errorf("...: %w", err)\<close> prefixes the text and keeps the wrapped error findable, so the
  reason survives. The zero value \<open>nil\<close> is \<open>None\<close> of an \<open>option\<close>.
\<close>

datatype api_reason = NotFound | AlreadyExists | OtherReason

datatype go_error = GoError (err_reason: api_reason) (err_text: string)

definition wrap_error :: "string \<Rightarrow> go_error \<Rightarrow> go_error" where
  "wrap_error pre e = GoError (err_reason e) (pre @ '': '' @ err_text e)"

definition new_error :: "string \<Rightarrow> go_error" where
  "new_error s = GoError OtherReason s"

definition is_not_found :: "go_error option \<Rightarrow> bool" where
  "is_not_found eo = (case eo of None \<Rightarrow> False | Some e \<Rightarrow> err_reason e = NotFound)"

definition is_already_exists :: "go_error \<Rightarrow> bool" where
  "is_already_exists e = (err_reason e = AlreadyExists)"

lemma wrap_error_reason [simp]: "err_reason (wrap_error p e) = err_reason e"
  by (simp add: wrap_error_def)

lemma is_not_found_simps [simp]:
  "is_not_found None = False"
  "is_not_found (Some e) = (err_reason e = NotFound)"
  by (simp_all add: is_not_found_def)

subsection \<open>Generic lemmas\<close>

lemma butlast_last_update:
  "xs \<noteq> [] \<Longrightarrow> xs[length xs - 1 := y] = butlast xs @ [y]"
  by (induction xs) (auto simp: nth_append list_update_append split: nat.splits list.splits)

lemma dropWhile_length_le: "length (dropWhile P xs) \<le> length xs"
  by (induction xs) auto

lemma find_prefix_length:
  "find (\<lambda>r. r \<noteq> [] \<and> prefix r s) rs = Some r \<Longrightarrow> r \<noteq> [] \<and> length r \<le> length s"
  by (auto simp: find_Some_iff prefix_length_le)

lemma set_map_filter: "set (List.map_filter f xs) = {y. \<exists>x \<in> set xs. f x = Some y}"
  by (induction xs) (auto simp: List.map_filter_def)

end
