(* ===== verification/Go_Strings.thy ===== *)
theory Go_Strings
  imports Prelude "HOL-Library.Char_ord"
begin

section \<open>Go strings: the operations of \<open>strings\<close>, \<open>strconv\<close> and \<open>fmt\<close> the program uses\<close>

text \<open>
  A Go string is a sequence of bytes, so it is a \<open>string\<close> of HOL (a \<open>char list\<close>, a \<open>char\<close>
  being one byte). The operations that look at runes (\<open>strings.TrimSpace\<close>,
  \<open>strings.Fields\<close>, \<open>strings.ToLower\<close>) are given on the UTF-8 bytes.
\<close>

abbreviation nl :: string where "nl \<equiv> [CHR 0x0A]"
abbreviation sq :: string where "sq \<equiv> [CHR 0x27]"
abbreviation dq :: string where "dq \<equiv> [CHR 0x22]"
abbreviation bsl :: string where "bsl \<equiv> [CHR 0x5C]"
abbreviation tick :: string where "tick \<equiv> [CHR 0x60]"

subsection \<open>Searching: \<open>strings.Contains\<close>, \<open>strings.Index\<close>, \<open>strings.HasPrefix\<close>\<close>

fun str_contains :: "string \<Rightarrow> string \<Rightarrow> bool" where
  "str_contains [] sub = (sub = [])"
| "str_contains (c # s) sub = (prefix sub (c # s) \<or> str_contains s sub)"

text \<open>\<open>strings.Index\<close>, with \<open>None\<close> for the result \<open>-1\<close>.\<close>

fun str_index :: "string \<Rightarrow> string \<Rightarrow> nat option" where
  "str_index [] sub = (if sub = [] then Some 0 else None)"
| "str_index (c # s) sub =
     (if prefix sub (c # s) then Some 0 else map_option Suc (str_index s sub))"

lemma str_contains_sublist: "str_contains s sub \<longleftrightarrow> sublist sub s"
  by (induction s) (auto simp: sublist_Cons_right)

lemma str_contains_iff: "str_contains s sub \<longleftrightarrow> (\<exists>a b. s = a @ sub @ b)"
  by (simp add: str_contains_sublist sublist_def)

lemma str_containsI [intro]: "str_contains (a @ sub @ b) sub"
  by (auto simp: str_contains_iff)

lemma str_index_None: "str_index s sub = None \<longleftrightarrow> \<not> str_contains s sub"
  by (induction s) auto

lemma str_index_Some:
  "str_index s sub = Some i \<Longrightarrow> s = take i s @ sub @ drop (i + length sub) s"
proof (induction s arbitrary: i)
  case Nil
  then show ?case by (simp split: if_splits)
next
  case (Cons c s)
  show ?case
  proof (cases "prefix sub (c # s)")
    case True
    with Cons.prems have "i = 0" by simp
    moreover from True obtain b where "c # s = sub @ b" by (auto simp: prefix_def)
    ultimately show ?thesis by simp
  next
    case False
    with Cons.prems obtain j where j: "i = Suc j" "str_index s sub = Some j" by auto
    from Cons.IH [OF j(2)] j(1) show ?thesis by simp
  qed
qed

lemma str_index_least:
  "str_index s sub = Some i \<Longrightarrow> j < i \<Longrightarrow> \<not> prefix sub (drop j s)"
proof (induction s arbitrary: i j)
  case Nil
  then show ?case by (simp split: if_splits)
next
  case (Cons c s)
  then show ?case by (cases j) (auto split: if_splits)
qed

subsection \<open>Splitting and joining\<close>

text \<open>\<open>strings.SplitN(s, c, 2)\<close> for a one-byte separator: at most one cut, at the first \<open>c\<close>.\<close>

definition split2 :: "char \<Rightarrow> string \<Rightarrow> string list" where
  "split2 c s =
     (if c \<in> set s then [takeWhile (\<lambda>x. x \<noteq> c) s, tl (dropWhile (\<lambda>x. x \<noteq> c) s)] else [s])"

text \<open>\<open>strings.Split(s, c)\<close> for a one-byte separator.\<close>

fun split_all :: "char \<Rightarrow> string \<Rightarrow> string list" where
  "split_all c [] = [[]]"
| "split_all c (x # s) =
     (if x = c then [] # split_all c s
      else (case split_all c s of [] \<Rightarrow> [[x]] | p # ps \<Rightarrow> (x # p) # ps))"

fun str_join :: "string \<Rightarrow> string list \<Rightarrow> string" where
  "str_join sep [] = []"
| "str_join sep [p] = p"
| "str_join sep (p # q # ps) = p @ sep @ str_join sep (q # ps)"

lemma split2_no_sep: "c \<notin> set a \<Longrightarrow> split2 c (a @ c # b) = [a, b]"
proof -
  assume "c \<notin> set a"
  then have "takeWhile (\<lambda>x. x \<noteq> c) (a @ c # b) = a" "dropWhile (\<lambda>x. x \<noteq> c) (a @ c # b) = c # b"
    by (induction a) auto
  then show ?thesis by (simp add: split2_def)
qed

lemma split2_cases:
  obtains "c \<notin> set s" "split2 c s = [s]"
  | a b where "s = a @ c # b" "c \<notin> set a" "split2 c s = [a, b]"
proof (cases "c \<in> set s")
  case True
  then obtain a b where "s = a @ c # b" "c \<notin> set a" by (meson split_list_first)
  with split2_no_sep that(2) show ?thesis by blast
next
  case False
  then show ?thesis by (simp add: split2_def that(1))
qed

lemma split_all_nonempty [simp]: "split_all c s \<noteq> []"
  by (induction s) (auto split: list.splits)

lemma split_all_join: "str_join [c] (split_all c s) = s"
proof (induction s)
  case Nil
  then show ?case by simp
next
  case (Cons x s)
  then show ?case by (cases "split_all c s" rule: remdups_adj.cases) auto
qed

lemma split_all_no_sep: "p \<in> set (split_all c s) \<Longrightarrow> c \<notin> set p"
proof (induction s arbitrary: p)
  case Nil
  then show ?case by simp
next
  case (Cons x s)
  obtain q qs where q: "split_all c s = q # qs" by (cases "split_all c s") auto
  show ?case
  proof (cases "x = c")
    case True
    with Cons show ?thesis by auto
  next
    case False
    with Cons.prems q consider "p = x # q" | "p \<in> set qs" by auto
    then show ?thesis using False Cons.IH q by cases auto
  qed
qed

subsection \<open>White space: \<open>strings.TrimSpace\<close> and \<open>strings.Fields\<close>\<close>

text \<open>
  The runes for which \<open>unicode.IsSpace\<close> holds, as their UTF-8 encodings: tab, newline,
  vertical tab, form feed, carriage return, space, U+0085, U+00A0, U+1680, U+2000 to U+200A,
  U+2028, U+2029, U+202F, U+205F and U+3000. The first (last) rune of a string is a space
  exactly when the string starts (ends) with one of them; and since no encoding starts with
  a continuation byte, scanning byte by byte meets the same spaces as scanning rune by rune.
\<close>

definition space_runes :: "string list" where
  "space_runes =
     [[CHR 0x09], [CHR 0x0A], [CHR 0x0B], [CHR 0x0C], [CHR 0x0D], [CHR 0x20],
      [CHR 0xC2, CHR 0x85], [CHR 0xC2, CHR 0xA0], [CHR 0xE1, CHR 0x9A, CHR 0x80],
      [CHR 0xE2, CHR 0x80, CHR 0x80], [CHR 0xE2, CHR 0x80, CHR 0x81],
      [CHR 0xE2, CHR 0x80, CHR 0x82], [CHR 0xE2, CHR 0x80, CHR 0x83],
      [CHR 0xE2, CHR 0x80, CHR 0x84], [CHR 0xE2, CHR 0x80, CHR 0x85],
      [CHR 0xE2, CHR 0x80, CHR 0x86], [CHR 0xE2, CHR 0x80, CHR 0x87],
      [CHR 0xE2, CHR 0x80, CHR 0x88], [CHR 0xE2, CHR 0x80, CHR 0x89],
      [CHR 0xE2, CHR 0x80, CHR 0x8A], [CHR 0xE2, CHR 0x80, CHR 0xA8],
      [CHR 0xE2, CHR 0x80, CHR 0xA9], [CHR 0xE2, CHR 0x80, CHR 0xAF],
      [CHR 0xE2, CHR 0x81, CHR 0x9F], [CHR 0xE3, CHR 0x80, CHR 0x80]]"

text \<open>The length of the entry of the table \<open>s\<close> starts with, 0 when there is none.\<close>

definition lead_len :: "string list \<Rightarrow> string \<Rightarrow> nat" where
  "lead_len rs s = (case find (\<lambda>r. r \<noteq> [] \<and> prefix r s) rs of None \<Rightarrow> 0 | Some r \<Rightarrow> length r)"

lemma lead_len_le: "lead_len rs s \<le> length s"
  by (auto simp: lead_len_def dest: find_prefix_length split: option.splits)

lemma lead_len_Nil [simp]: "lead_len rs [] = 0"
  using lead_len_le [of rs "[]"] by simp

function trim_front :: "string list \<Rightarrow> string \<Rightarrow> string" where
  "trim_front rs s = (if lead_len rs s = 0 then s else trim_front rs (drop (lead_len rs s) s))"
  by pat_completeness auto
termination
proof (relation "measure (\<lambda>(rs, s). length s)", goal_cases)
  case (2 rs s)
  then show ?case using lead_len_le [of rs s] by simp
qed simp

declare trim_front.simps [simp del]

definition trim_space :: "string \<Rightarrow> string" where
  "trim_space s = rev (trim_front (map rev space_runes) (rev (trim_front space_runes s)))"

function fields_from :: "string \<Rightarrow> string \<Rightarrow> string list" where
  "fields_from acc s =
     (case s of
        [] \<Rightarrow> (if acc = [] then [] else [rev acc])
      | c # s' \<Rightarrow>
          (let k = lead_len space_runes s in
           if k = 0 then fields_from (c # acc) s'
           else if acc = [] then fields_from [] (drop k s)
           else rev acc # fields_from [] (drop k s)))"
  by pat_completeness auto
termination
proof (relation "measure (\<lambda>(acc, s). length s)", goal_cases)
  case (3 acc s c s' k)
  then show ?case using lead_len_le [of space_runes s] by simp
next
  case (4 acc s c s' k)
  then show ?case using lead_len_le [of space_runes s] by simp
qed simp_all

declare fields_from.simps [simp del]

definition str_fields :: "string \<Rightarrow> string list" where
  "str_fields s = fields_from [] s"

lemma trim_front_suffix: "suffix (trim_front rs s) s"
proof (induction rs s rule: trim_front.induct)
  case (1 rs s)
  show ?case
  proof (cases "lead_len rs s = 0")
    case True
    then show ?thesis by (simp add: trim_front.simps [of rs s])
  next
    case False
    with 1 have "suffix (trim_front rs (drop (lead_len rs s) s)) (drop (lead_len rs s) s)" by simp
    then have "suffix (trim_front rs (drop (lead_len rs s) s)) s"
      using suffix_drop suffix_order.order_trans by blast
    with False show ?thesis by (simp add: trim_front.simps [of rs s])
  qed
qed

lemma trim_front_lead: "lead_len rs (trim_front rs s) = 0"
proof (induction rs s rule: trim_front.induct)
  case (1 rs s)
  then show ?case
    by (cases "lead_len rs s = 0") (simp_all add: trim_front.simps [of rs s])
qed

text \<open>Trimming keeps a contiguous part of the string.\<close>

lemma trim_space_sublist: "sublist (trim_space s) s"
proof -
  have "suffix (trim_front (map rev space_runes) (rev (trim_front space_runes s)))
          (rev (trim_front space_runes s))" by (rule trim_front_suffix)
  then have "prefix (trim_space s) (trim_front space_runes s)"
    by (simp add: trim_space_def suffix_to_prefix)
  then show ?thesis
    using trim_front_suffix [of space_runes s]
    by (meson prefix_imp_sublist sublist_order.order_trans suffix_imp_sublist)
qed

subsection \<open>Replacing and case\<close>

text \<open>\<open>strings.ReplaceAll(s, old, new)\<close> for a one-byte \<open>old\<close>.\<close>

definition replace_char :: "char \<Rightarrow> string \<Rightarrow> string \<Rightarrow> string" where
  "replace_char c new s = concat (map (\<lambda>x. if x = c then new else [x]) s)"

definition byte :: "char \<Rightarrow> nat" where
  "byte c = of_char c"

definition lower_byte :: "char \<Rightarrow> char" where
  "lower_byte c = (if 65 \<le> byte c \<and> byte c \<le> 90 then char_of (byte c + 32) else c)"

text \<open>
  \<open>strings.ToLower\<close>, up to the non-ASCII runes whose lower-case form is not ASCII either: those
  are left as they are here. The two non-ASCII runes with an ASCII lower-case form are U+0130
  (to \<open>i\<close>) and U+212A (to \<open>k\<close>). The program lowers a string only to feed a filter that
  replaces every non-ASCII rune, so the difference is never seen.
\<close>

fun to_lower :: "string \<Rightarrow> string" where
  "to_lower [] = []"
| "to_lower (c # s) =
     (if prefix [CHR 0xE2, CHR 0x84, CHR 0xAA] (c # s) then CHR ''k'' # to_lower (drop 2 s)
      else if prefix [CHR 0xC4, CHR 0xB0] (c # s) then CHR ''i'' # to_lower (drop 1 s)
      else lower_byte c # to_lower s)"

subsection \<open>Decimal numbers: \<open>%d\<close>\<close>

definition digit_char :: "nat \<Rightarrow> char" where
  "digit_char d = ''0123456789'' ! d"

fun show_nat :: "nat \<Rightarrow> string" where
  "show_nat n = (if n < 10 then [digit_char n] else show_nat (n div 10) @ [digit_char (n mod 10)])"

declare show_nat.simps [simp del]

definition show_int :: "int \<Rightarrow> string" where
  "show_int i = (if i < 0 then ''-'' @ show_nat (nat (- i)) else show_nat (nat i))"

definition is_digit :: "char \<Rightarrow> bool" where
  "is_digit c = (48 \<le> byte c \<and> byte c \<le> 57)"

definition nat_of_digits :: "string \<Rightarrow> nat" where
  "nat_of_digits s = foldl (\<lambda>n c. 10 * n + (byte c - 48)) 0 s"

lemma digit_char_facts:
  assumes "d < 10"
  shows "is_digit (digit_char d)" "byte (digit_char d) = 48 + d"
proof -
  from assms have "d \<in> {0, 1, 2, 3, 4, 5, 6, 7, 8, 9}" by auto
  then show "is_digit (digit_char d)" "byte (digit_char d) = 48 + d"
    by (auto simp: digit_char_def is_digit_def byte_def)
qed

lemma show_nat_nonempty [simp]: "show_nat n \<noteq> []"
  by (subst show_nat.simps) simp

lemma show_nat_digits: "list_all is_digit (show_nat n)"
proof (induction n rule: show_nat.induct)
  case (1 n)
  then show ?case by (simp add: show_nat.simps [of n] digit_char_facts)
qed

lemma nat_of_digits_snoc: "nat_of_digits (s @ [c]) = 10 * nat_of_digits s + (byte c - 48)"
  by (simp add: nat_of_digits_def)

lemma nat_of_digits_show: "nat_of_digits (show_nat n) = n"
proof (induction n rule: show_nat.induct)
  case (1 n)
  show ?case
  proof (cases "n < 10")
    case True
    then show ?thesis
      by (simp add: show_nat.simps [of n] nat_of_digits_def digit_char_facts)
  next
    case False
    with 1 have "nat_of_digits (show_nat (n div 10)) = n div 10" by simp
    with False show ?thesis
      by (simp add: show_nat.simps [of n] nat_of_digits_snoc digit_char_facts)
  qed
qed

lemma show_nat_inject [simp]: "show_nat m = show_nat n \<longleftrightarrow> m = n"
  by (metis nat_of_digits_show)

lemma digit_not_minus: "is_digit c \<Longrightarrow> c \<noteq> CHR ''-''"
  by (auto simp: is_digit_def byte_def)

lemma show_nat_no_minus: "CHR ''-'' \<notin> set (show_nat n)"
  using show_nat_digits [of n] digit_not_minus by (auto simp: list_all_iff)

lemma show_int_inject [simp]: "show_int i = show_int j \<longleftrightarrow> i = j"
proof
  assume eq: "show_int i = show_int j"
  have hd: "hd (show_nat n) \<noteq> CHR ''-''" for n
    using show_nat_no_minus [of n] hd_in_set [OF show_nat_nonempty, of n] by metis
  from eq hd have "i < 0 \<longleftrightarrow> j < 0"
    by (metis append_Cons append_Nil list.sel(1) show_int_def)
  with eq show "i = j" by (auto simp: show_int_def split: if_splits)
qed simp

end
