(* ===== verification/Server_Setup.thy ===== *)
theory Server_Setup
  imports Prelude Go_Strings
begin

section \<open>The servers' options (\<open>main\<close> of \<open>cmd/main.go\<close>, up to the manager)\<close>

text \<open>
  The first part of \<open>main\<close>: the command-line flags with their defaults and what they make of the
  TLS options of the admission webhook server and the metrics server. A TLS option is a function
  on the configuration, and the library applies a server's options in order. A certificate
  watcher is the pair of the files it watches; whether it can be made is an answer of the
  library. The two servers' lists of options start from one slice, whose capacity is its length,
  so appending to either never writes into the other: lists model them.
\<close>

subsection \<open>Flags\<close>

record flags =
  metricsAddr :: string
  metricsCertPath :: string
  metricsCertName :: string
  metricsCertKey :: string
  webhookCertPath :: string
  webhookCertName :: string
  webhookCertKey :: string
  enableLeaderElection :: bool
  probeAddr :: string
  secureMetrics :: bool
  enableHTTP2 :: bool

text \<open>The values given on the command line, by flag, and the defaults of the others.\<close>

definition flag_or :: "('k \<rightharpoonup> 'v) \<Rightarrow> 'k \<Rightarrow> 'v \<Rightarrow> 'v" where
  "flag_or given name dflt = (case given name of None \<Rightarrow> dflt | Some v \<Rightarrow> v)"

definition parse_flags :: "(string \<rightharpoonup> string) \<Rightarrow> (string \<rightharpoonup> bool) \<Rightarrow> flags" where
  "parse_flags strs bools =
     \<lparr>metricsAddr = flag_or strs ''metrics-bind-address'' ''0'',
      metricsCertPath = flag_or strs ''metrics-cert-path'' [],
      metricsCertName = flag_or strs ''metrics-cert-name'' ''tls.crt'',
      metricsCertKey = flag_or strs ''metrics-cert-key'' ''tls.key'',
      webhookCertPath = flag_or strs ''webhook-cert-path'' [],
      webhookCertName = flag_or strs ''webhook-cert-name'' ''tls.crt'',
      webhookCertKey = flag_or strs ''webhook-cert-key'' ''tls.key'',
      enableLeaderElection = flag_or bools ''leader-elect'' False,
      probeAddr = flag_or strs ''health-probe-bind-address'' '':8081'',
      secureMetrics = flag_or bools ''metrics-secure'' True,
      enableHTTP2 = flag_or bools ''enable-http2'' False\<rparr>"

subsection \<open>Paths\<close>

text \<open>
  The elements of a path in its shortest form, as \<open>path.Clean\<close> leaves them: no empty element and
  no dot, and no element before two dots. The dots at the start of a rooted path go away, those
  at the start of a relative one stay.
\<close>

fun clean_elements :: "bool \<Rightarrow> string list \<Rightarrow> string list \<Rightarrow> string list" where
  "clean_elements rooted st [] = rev st"
| "clean_elements rooted st (e # es) =
     (if e = [] \<or> e = ''.'' then clean_elements rooted st es
      else if e = ''..'' then
        (if st \<noteq> [] \<and> hd st \<noteq> ''..'' then clean_elements rooted (tl st) es
         else if rooted then clean_elements rooted st es
         else clean_elements rooted (e # st) es)
      else clean_elements rooted (e # st) es)"

definition path_Clean :: "string \<Rightarrow> string" where
  "path_Clean p =
     (let rooted = prefix ''/'' p;
          body = str_join ''/'' (clean_elements rooted [] (split_all (CHR ''/'') p))
      in if rooted then ''/'' @ body else if body = [] then ''.'' else body)"

definition filepath_Join :: "string \<Rightarrow> string \<Rightarrow> string" where
  "filepath_Join a b =
     (let parts = filter (\<lambda>e. e \<noteq> []) [a, b] in
      if parts = [] then [] else path_Clean (str_join ''/'' parts))"

subsection \<open>TLS\<close>

type_synonym cert_files = "string \<times> string"

record tls_config =
  NextProtos :: "string list"
  GetCertificate :: "cert_files option"

type_synonym tls_option = "tls_config \<Rightarrow> tls_config"

definition disableHTTP2 :: tls_option where
  "disableHTTP2 c = c\<lparr>NextProtos := [''http/1.1'']\<rparr>"

definition tlsOpts :: "flags \<Rightarrow> tls_option list" where
  "tlsOpts f = (if \<not> enableHTTP2 f then [disableHTTP2] else [])"

definition use_watcher :: "cert_files \<Rightarrow> tls_option" where
  "use_watcher watcher c = c\<lparr>GetCertificate := Some watcher\<rparr>"

record metrics_options =
  BindAddress :: string
  SecureServing :: bool
  metricsTLSOpts :: "tls_option list"
  WithAuthenticationAndAuthorization :: bool

record server_options =
  webhookTLSOpts :: "tls_option list"
  metricsServerOptions :: metrics_options
  webhookCertWatcher :: "cert_files option"
  metricsCertWatcher :: "cert_files option"

text \<open>A watcher for a directory that is given.\<close>

definition make_watcher ::
  "(cert_files \<Rightarrow> go_error option) \<Rightarrow> string \<Rightarrow> string \<Rightarrow> string \<Rightarrow> go_error + cert_files option" where
  "make_watcher certwatcher_New dir name key =
     (if dir = [] then Inr None
      else
        (let watcher = (filepath_Join dir name, filepath_Join dir key) in
         case certwatcher_New watcher of Some err \<Rightarrow> Inl err | None \<Rightarrow> Inr (Some watcher)))"

definition with_watcher :: "cert_files option \<Rightarrow> tls_option list \<Rightarrow> tls_option list" where
  "with_watcher watcher opts =
     (case watcher of None \<Rightarrow> opts | Some files \<Rightarrow> opts @ [use_watcher files])"

definition setup_servers :: "(cert_files \<Rightarrow> go_error option) \<Rightarrow> flags \<Rightarrow> go_error + server_options" where
  "setup_servers certwatcher_New f =
     (case make_watcher certwatcher_New (webhookCertPath f) (webhookCertName f) (webhookCertKey f) of
        Inl err \<Rightarrow> Inl err
      | Inr webhookWatcher \<Rightarrow>
          (case make_watcher certwatcher_New (metricsCertPath f) (metricsCertName f) (metricsCertKey f) of
             Inl err \<Rightarrow> Inl err
           | Inr metricsWatcher \<Rightarrow>
               Inr \<lparr>webhookTLSOpts = with_watcher webhookWatcher (tlsOpts f),
                    metricsServerOptions =
                      \<lparr>BindAddress = metricsAddr f, SecureServing = secureMetrics f,
                       metricsTLSOpts = with_watcher metricsWatcher (tlsOpts f),
                       WithAuthenticationAndAuthorization = secureMetrics f\<rparr>,
                    webhookCertWatcher = webhookWatcher, metricsCertWatcher = metricsWatcher\<rparr>))"

record manager_options =
  managerServers :: server_options
  HealthProbeBindAddress :: string
  LeaderElection :: bool
  LeaderElectionID :: string

definition manager_setup :: "flags \<Rightarrow> server_options \<Rightarrow> manager_options" where
  "manager_setup f servers =
     \<lparr>managerServers = servers, HealthProbeBindAddress = probeAddr f,
      LeaderElection = enableLeaderElection f, LeaderElectionID = ''103dbcae.claude-town.io''\<rparr>"

subsection \<open>What the servers end up with\<close>

definition apply_options :: "tls_option list \<Rightarrow> tls_config \<Rightarrow> tls_config" where
  "apply_options opts c = fold (\<lambda>opt c. opt c) opts c"

lemma apply_with_watcher:
  "apply_options (with_watcher w (tlsOpts f)) c =
     c\<lparr>NextProtos := (if enableHTTP2 f then NextProtos c else [''http/1.1'']),
       GetCertificate := (case w of None \<Rightarrow> GetCertificate c | Some files \<Rightarrow> Some files)\<rparr>"
  by (simp add: apply_options_def with_watcher_def tlsOpts_def use_watcher_def disableHTTP2_def
      split: option.split)

lemma make_watcher_Inr:
  "make_watcher cw dir name key = Inr w \<Longrightarrow>
     w = (if dir = [] then None else Some (filepath_Join dir name, filepath_Join dir key))"
  by (auto simp: make_watcher_def Let_def split: if_splits option.splits)

text \<open>
  C32: When the options can be made, both servers negotiate HTTP/1.1 only unless HTTP/2 was
  enabled, each serves the certificate of its own flags and no other, a server without a
  certificate path keeps the library's certificate, and the metrics endpoint asks for
  authentication and authorization exactly when it is served securely.
\<close>

theorem servers_hardened:
  assumes "setup_servers cw f = Inr s"
  shows "apply_options (webhookTLSOpts s) c =
           c\<lparr>NextProtos := (if enableHTTP2 f then NextProtos c else [''http/1.1'']),
             GetCertificate := (if webhookCertPath f = [] then GetCertificate c
               else Some (filepath_Join (webhookCertPath f) (webhookCertName f),
                          filepath_Join (webhookCertPath f) (webhookCertKey f)))\<rparr>
         \<and> apply_options (metricsTLSOpts (metricsServerOptions s)) c =
           c\<lparr>NextProtos := (if enableHTTP2 f then NextProtos c else [''http/1.1'']),
             GetCertificate := (if metricsCertPath f = [] then GetCertificate c
               else Some (filepath_Join (metricsCertPath f) (metricsCertName f),
                          filepath_Join (metricsCertPath f) (metricsCertKey f)))\<rparr>
         \<and> WithAuthenticationAndAuthorization (metricsServerOptions s) = SecureServing (metricsServerOptions s)"
  using assms
  by (auto simp: setup_servers_def apply_with_watcher dest!: make_watcher_Inr split: sum.splits)


definition certificate_flags :: flags where
  "certificate_flags = parse_flags [''webhook-cert-path'' \<mapsto> ''/certs/''] Map.empty"

definition certificate_servers :: server_options where
  "certificate_servers = projr (setup_servers (\<lambda>_. None) certificate_flags)"

theorem servers_hardened_witness:
  "NextProtos (apply_options (webhookTLSOpts certificate_servers) \<lparr>NextProtos = [''h2''], GetCertificate = None\<rparr>)
     = [''http/1.1'']
   \<and> GetCertificate (apply_options (webhookTLSOpts certificate_servers) \<lparr>NextProtos = [''h2''], GetCertificate = None\<rparr>)
     = Some (''/certs/tls.crt'', ''/certs/tls.key'')"
proof -
  have "setup_servers (\<lambda>_. None) certificate_flags = Inr certificate_servers"
    by (simp add: certificate_servers_def setup_servers_def make_watcher_def Let_def)
  moreover have "webhookCertPath certificate_flags = ''/certs/''" "\<not> enableHTTP2 certificate_flags"
      "webhookCertName certificate_flags = ''tls.crt''" "webhookCertKey certificate_flags = ''tls.key''"
    by (simp_all add: certificate_flags_def parse_flags_def flag_or_def)
  moreover have "filepath_Join ''/certs/'' ''tls.crt'' = ''/certs/tls.crt''"
      "filepath_Join ''/certs/'' ''tls.key'' = ''/certs/tls.key''"
    by code_simp+
  ultimately show ?thesis using servers_hardened by simp
qed

end
