(* ===== verification/Api_Types.thy ===== *)
theory Api_Types
  imports Go_Strings
begin

section \<open>The custom resources (\<open>api/v1alpha1\<close>)\<close>

text \<open>
  The two resources of the API group: \<open>ClaudeTask\<close> (\<open>claudetask_types.go\<close>) and
  \<open>ClaudeRepository\<close> (\<open>clauderepository_types.go\<close>). A Go struct is a record with the same
  fields in the same order; a string type with named constants is a datatype with one
  constructor per constant, one for the empty string where it is a case of the code, and one
  for every other string. Go's \<open>int\<close> fields are only stored, compared and printed, so they are
  \<open>int\<close>; the token counters are added up and keep their 64 bits. A time is a number of
  nanoseconds. The \<open>Conditions\<close> slices are never read nor written and are left out here; theory
  \<open>Deep_Copies\<close> copies them.
\<close>

type_synonym time = int

subsection \<open>ClaudeTask\<close>

datatype task_type = IssueSolve | PRReviewFix | OtherTaskType string

definition ClaudeTaskType :: "string \<Rightarrow> task_type" where
  "ClaudeTaskType s =
     (if s = ''IssueSolve'' then IssueSolve
      else if s = ''PRReviewFix'' then PRReviewFix else OtherTaskType s)"

datatype task_phase =
    PhaseUnset | Pending | Running | WaitingForClarification | Completed | Failed
  | UnknownPhase string

record clarification_exchange =
  Question :: string
  Answer :: string

record claude_task_spec =
  Repository :: string
  Issue :: int
  PullRequest :: int
  TaskType :: task_type
  Branch :: string
  Prompt :: string
  ReviewCommentID :: int
  MaxIterations :: int
  MaxClarifications :: int

record cost_report =
  InputTokens :: int64
  OutputTokens :: int64
  CacheReadInputTokens :: int64
  CacheCreationInputTokens :: int64
  EstimatedCost :: string
  DurationMs :: int64

record claude_task_status =
  Phase :: task_phase
  SandboxClaimName :: string
  PodName :: string
  PodIP :: string
  StartTime :: "time option"
  CompletionTime :: "time option"
  PullRequestURL :: string
  CostReport :: "cost_report option"
  Clarifications :: "clarification_exchange list"

record claude_task =
  TaskName :: string
  TaskGenerateName :: string
  TaskNamespace :: string
  Spec :: claude_task_spec
  Status :: claude_task_status

definition zero_cost_report :: cost_report where
  "zero_cost_report =
     \<lparr>InputTokens = 0, OutputTokens = 0, CacheReadInputTokens = 0, CacheCreationInputTokens = 0,
      EstimatedCost = [], DurationMs = 0\<rparr>"

definition zero_task_status :: claude_task_status where
  "zero_task_status =
     \<lparr>Phase = PhaseUnset, SandboxClaimName = [], PodName = [], PodIP = [], StartTime = None,
      CompletionTime = None, PullRequestURL = [], CostReport = None, Clarifications = []\<rparr>"

text \<open>The phases of \<open>Reconcile\<close> in which nothing is left to do.\<close>

definition terminal_phase :: "task_phase \<Rightarrow> bool" where
  "terminal_phase p = (p = Completed \<or> p = Failed)"

subsection \<open>ClaudeRepository\<close>

record secret_ref =
  SecretName :: string
  SecretKey :: string

record claude_repository_spec =
  Owner :: string
  Repo :: string
  RepositoryPattern :: string
  Labels :: "string list"
  MaxConcurrentTasks :: int
  PATSecretRef :: "secret_ref option"
  AllowedUsers :: "string list"
  AllowedRoles :: "string list"

record claude_repository_status =
  ActiveTasks :: int
  WebhookID :: int

record claude_repository =
  RepoObjName :: string
  RepoNamespace :: string
  DeletionTimestamp :: "time option"
  RSpec :: claude_repository_spec
  RStatus :: claude_repository_status

definition IsPattern :: "claude_repository \<Rightarrow> bool" where
  "IsPattern r = (RepositoryPattern (RSpec r) \<noteq> [])"

definition FullName :: "claude_repository \<Rightarrow> string" where
  "FullName r =
     (if IsPattern r then RepositoryPattern (RSpec r)
      else Owner (RSpec r) @ ''/'' @ Repo (RSpec r))"

lemma terminal_phase_simps [simp]:
  "terminal_phase Completed" "terminal_phase Failed"
  "\<not> terminal_phase PhaseUnset" "\<not> terminal_phase Pending" "\<not> terminal_phase Running"
  "\<not> terminal_phase WaitingForClarification" "\<not> terminal_phase (UnknownPhase s)"
  by (simp_all add: terminal_phase_def)

lemma ClaudeTaskType_simps [simp]:
  "ClaudeTaskType ''IssueSolve'' = IssueSolve" "ClaudeTaskType ''PRReviewFix'' = PRReviewFix"
  by (simp_all add: ClaudeTaskType_def)

end
