(* ===== verification/Go_Float.thy ===== *)
theory Go_Float
  imports Go_Strings "HOL-Library.Log_Nat"
begin

section \<open>Go's \<open>float64\<close>: rounding, parsing and \<open>%.nf\<close>\<close>

text \<open>
  A finite \<open>float64\<close> is the rational number it denotes; every arithmetic result is rounded to
  53 significant bits, ties to even, as IEEE 754 prescribes (subnormals included). Parsing a
  decimal gives the nearest float, and \<open>fmt\<close> with a precision rounds the exact value of the
  float to that many decimals, ties to even. Left out: the sign of zero, and the infinities
  that only a sum beyond \<open>1.7e308\<close> reaches.
\<close>

type_synonym float64 = rat

definition round_half_even :: "rat \<Rightarrow> int" where
  "round_half_even x =
     (let f = \<lfloor>x\<rfloor>; d = x - of_int f in
      if d < 1 / 2 then f else if 1 / 2 < d then f + 1 else if even f then f else f + 1)"

text \<open>The exponent of the leading bit of a positive rational.\<close>

definition ilog2 :: "rat \<Rightarrow> int" where
  "ilog2 x =
     (if 1 \<le> x then int (floorlog 2 (nat \<lfloor>x\<rfloor>)) - 1
      else - int (floorlog 2 (nat (\<lceil>inverse x\<rceil> - 1))))"

definition pow2 :: "int \<Rightarrow> rat" where
  "pow2 k = (if 0 \<le> k then 2 ^ nat k else 1 / 2 ^ nat (- k))"

definition pow10 :: "int \<Rightarrow> rat" where
  "pow10 k = (if 0 \<le> k then 10 ^ nat k else 1 / 10 ^ nat (- k))"

definition rnd64 :: "rat \<Rightarrow> float64" where
  "rnd64 x =
     (if x = 0 then 0
      else let e = max (ilog2 \<bar>x\<bar> - 52) (- 1074) in of_int (round_half_even (x / pow2 e)) * pow2 e)"

definition max_float64 :: rat where
  "max_float64 = 2 ^ 1024"

text \<open>The value of a decimal numeral: sign, digits before and after the point, exponent.\<close>

definition decimal_value :: "bool \<Rightarrow> string \<Rightarrow> string \<Rightarrow> int \<Rightarrow> rat" where
  "decimal_value neg ip fp ex =
     (if neg then - 1 else 1) * of_nat (nat_of_digits (ip @ fp)) * pow10 (ex - int (length fp))"

text \<open>\<open>Sprintf("%.nf", x)\<close>.\<close>

definition pad_left :: "nat \<Rightarrow> string \<Rightarrow> string" where
  "pad_left n s = replicate (n - length s) (CHR ''0'') @ s"

definition fmt_fixed :: "nat \<Rightarrow> float64 \<Rightarrow> string" where
  "fmt_fixed n x =
     (let k = nat (round_half_even (\<bar>x\<bar> * 10 ^ n)) in
      (if x < 0 then ''-'' else []) @ show_nat (k div 10 ^ n) @
      (if n = 0 then [] else ''.'' @ pad_left n (show_nat (k mod 10 ^ n))))"

text \<open>
  \<open>fmt.Sscanf(s, "$%f", &v)\<close> on an optional sign, digits and an optional fraction, after a
  dollar sign: the value read, or 0 (the variable keeps its zero value) when the scan fails.
  The other numerals \<open>Sscanf\<close> takes (exponents, hexadecimal, underscores, \<open>Inf\<close>, \<open>NaN\<close>) are
  not those the program stores.
\<close>

definition scan_dollar :: "string \<Rightarrow> float64" where
  "scan_dollar s =
     (case s of
        [] \<Rightarrow> 0
      | c # s1 \<Rightarrow>
          if c \<noteq> CHR ''$'' then 0
          else
            (let neg = (s1 \<noteq> [] \<and> hd s1 = CHR ''-'');
                 s2 = (if s1 \<noteq> [] \<and> (hd s1 = CHR ''-'' \<or> hd s1 = CHR ''+'') then tl s1 else s1);
                 ip = takeWhile is_digit s2;
                 s3 = dropWhile is_digit s2;
                 fp = (if s3 \<noteq> [] \<and> hd s3 = CHR ''.'' then takeWhile is_digit (tl s3) else [])
             in rnd64 (decimal_value neg ip fp 0)))"

subsection \<open>Rounding errors\<close>

lemma round_half_even_error: "\<bar>of_int (round_half_even x) - x\<bar> \<le> 1 / 2"
proof -
  define d where "d = x - of_int \<lfloor>x\<rfloor>"
  have d: "0 \<le> d" "d < 1" by (simp_all add: d_def) linarith
  then show ?thesis
    unfolding round_half_even_def Let_def d_def [symmetric]
    by (auto simp: d_def)
qed

lemma round_half_even_of_int [simp]: "round_half_even (of_int k) = k"
  by (simp add: round_half_even_def)

lemma round_half_even_nonneg: "0 \<le> x \<Longrightarrow> 0 \<le> round_half_even x"
  by (auto simp: round_half_even_def Let_def)

lemma rnd64_zero [simp]: "rnd64 0 = 0"
  by (simp add: rnd64_def)

subsection \<open>Evaluation by the simplifier\<close>

lemma floor_frac_numeral [simp]:
  "\<lfloor>numeral a / numeral b :: rat\<rfloor> = numeral a div numeral b"
  "\<lfloor>1 / numeral b :: rat\<rfloor> = 1 div numeral b"
  by (metis floor_divide_of_int_eq of_int_numeral of_int_1)+

lemma ceil_frac_numeral [simp]:
  "\<lceil>numeral a / numeral b :: rat\<rceil> = - (- numeral a div numeral b)"
  by (metis ceiling_def floor_divide_of_int_eq minus_divide_left of_int_minus of_int_numeral)

lemmas float_eval =
  rnd64_def ilog2_def round_half_even_def compute_floorlog pow2_def pow10_def Let_def
  fmt_fixed_def show_nat.simps pad_left_def digit_char_def scan_dollar_def decimal_value_def
  is_digit_def byte_def nat_of_digits_def

lemma rnd64_one_tenth: "rnd64 (1 / 10) * 2 ^ 55 = 3602879701896397"
  by (simp add: float_eval)

lemma cost_text_example:
  "fmt_fixed 4 (rnd64 (scan_dollar ''$0.1400'' + rnd64 (5 / 100))) = ''0.1900''"
  by (simp add: float_eval)

end
