(* ===== verification/Go_Json.thy ===== *)
theory Go_Json
  imports Go_Float
begin

section \<open>Go's \<open>encoding/json\<close>: syntax and decoding into structs\<close>

text \<open>
  \<open>json.Unmarshal\<close> first checks the syntax of the whole input, then decodes it into the
  target. The syntax is a lexer and a pushdown parser, both one pass over their input (so both
  are total without fuel); nesting is limited to 10000 as in the library. Decoding follows the
  library's rules: \<open>null\<close> leaves a target as it is (a pointer becomes nil), an object member
  goes to the field with its exact name or else with its name up to case folding, other
  members are ignored, a later member overwrites an earlier one, and a value of the wrong type
  makes the whole call fail.
\<close>

datatype json =
    JNull
  | JBool bool
  | JNum string
  | JStr string
  | JArr "json list"
  | JObj "(string \<times> json) list"

subsection \<open>UTF-8 and string literals\<close>

definition cont_byte :: "char \<Rightarrow> bool" where
  "cont_byte c = (128 \<le> byte c \<and> byte c \<le> 191)"

text \<open>The width of the valid encoding of a rune at the front of the string, 0 if there is none.\<close>

fun utf8_width :: "string \<Rightarrow> nat" where
  "utf8_width [] = 0"
| "utf8_width (a # s) =
     (let x = byte a in
      if x < 128 then 1
      else
        (case s of
           [] \<Rightarrow> 0
         | b # s1 \<Rightarrow>
             if 194 \<le> x \<and> x \<le> 223 then (if cont_byte b then 2 else 0)
             else if 224 \<le> x \<and> x \<le> 239 then
               (if cont_byte b \<and> (x = 224 \<longrightarrow> 160 \<le> byte b) \<and> (x = 237 \<longrightarrow> byte b \<le> 159)
                   \<and> s1 \<noteq> [] \<and> cont_byte (hd s1) then 3 else 0)
             else if 240 \<le> x \<and> x \<le> 244 then
               (if cont_byte b \<and> (x = 240 \<longrightarrow> 144 \<le> byte b) \<and> (x = 244 \<longrightarrow> byte b \<le> 143)
                   \<and> 2 \<le> length s1 \<and> cont_byte (s1 ! 0) \<and> cont_byte (s1 ! 1) then 4 else 0)
             else 0))"

definition encode_rune :: "nat \<Rightarrow> string" where
  "encode_rune r =
     (if r < 128 then [char_of r]
      else if r < 2048 then [char_of (192 + r div 64), char_of (128 + r mod 64)]
      else if r < 65536 then
        [char_of (224 + r div 4096), char_of (128 + r div 64 mod 64), char_of (128 + r mod 64)]
      else
        [char_of (240 + r div 262144), char_of (128 + r div 4096 mod 64),
         char_of (128 + r div 64 mod 64), char_of (128 + r mod 64)])"

definition rune_error :: string where
  "rune_error = [CHR 0xEF, CHR 0xBF, CHR 0xBD]"

definition hex_value :: "char \<Rightarrow> nat option" where
  "hex_value c =
     (if 48 \<le> byte c \<and> byte c \<le> 57 then Some (byte c - 48)
      else if 97 \<le> byte c \<and> byte c \<le> 102 then Some (byte c - 87)
      else if 65 \<le> byte c \<and> byte c \<le> 70 then Some (byte c - 55)
      else None)"

fun hex4 :: "string \<Rightarrow> nat option" where
  "hex4 (a # b # c # d # s) =
     (case (hex_value a, hex_value b, hex_value c, hex_value d) of
        (Some w, Some x, Some y, Some z) \<Rightarrow> Some (4096 * w + 256 * x + 16 * y + z)
      | _ \<Rightarrow> None)"
| "hex4 s = None"

text \<open>\<open>getu4\<close>: the value of an escape \<open>\uXXXX\<close> at the front of the string.\<close>

definition get_u4 :: "string \<Rightarrow> nat option" where
  "get_u4 s = (if prefix (bsl @ ''u'') s then hex4 (drop 2 s) else None)"

definition simple_escape :: "char \<Rightarrow> char option" where
  "simple_escape c =
     (if c = CHR 0x22 \<or> c = CHR 0x5C \<or> c = CHR ''/'' then Some c
      else if c = CHR ''b'' then Some (CHR 0x08)
      else if c = CHR ''f'' then Some (CHR 0x0C)
      else if c = CHR ''n'' then Some (CHR 0x0A)
      else if c = CHR ''r'' then Some (CHR 0x0D)
      else if c = CHR ''t'' then Some (CHR 0x09)
      else None)"

text \<open>
  The text between the quotes, already checked by the lexer, to the string it denotes:
  surrogate pairs are joined, a lone surrogate and every invalid byte become U+FFFD.
\<close>

function unquote :: "string \<Rightarrow> string" where
  "unquote s =
     (case s of
        [] \<Rightarrow> []
      | c # s1 \<Rightarrow>
          if c = CHR 0x5C then
            (case get_u4 s of
               Some r \<Rightarrow>
                 if 55296 \<le> r \<and> r < 57344 then
                   (case get_u4 (drop 6 s) of
                      Some r2 \<Rightarrow>
                        if r < 56320 \<and> 56320 \<le> r2 \<and> r2 < 57344
                        then encode_rune ((r - 55296) * 1024 + (r2 - 56320) + 65536)
                             @ unquote (drop 12 s)
                        else rune_error @ unquote (drop 6 s)
                    | None \<Rightarrow> rune_error @ unquote (drop 6 s))
                 else encode_rune r @ unquote (drop 6 s)
             | None \<Rightarrow>
                 (case s1 of
                    [] \<Rightarrow> []
                  | e # s2 \<Rightarrow> (case simple_escape e of Some x \<Rightarrow> [x] | None \<Rightarrow> []) @ unquote s2))
          else
            (let w = utf8_width s in
             if w = 0 then rune_error @ unquote s1
             else take w s @ unquote (drop w s)))"
  by pat_completeness auto
termination by (relation "measure length") auto

declare unquote.simps [simp del]

subsection \<open>Numbers\<close>

record num_lit =
  num_neg :: bool
  num_int :: string
  num_frac :: string
  num_exp :: int
  num_is_int :: bool

text \<open>The number grammar: \<open>-?(0|[1-9][0-9]*)(\.[0-9]+)?([eE][+-]?[0-9]+)?\<close>.\<close>

definition parse_exponent :: "string \<Rightarrow> int option" where
  "parse_exponent s =
     (let neg = (s \<noteq> [] \<and> hd s = CHR ''-'');
          ds = (if s \<noteq> [] \<and> (hd s = CHR ''-'' \<or> hd s = CHR ''+'') then tl s else s)
      in if ds = [] \<or> \<not> list_all is_digit ds then None
         else Some ((if neg then - 1 else 1) * int (nat_of_digits ds)))"

definition parse_number :: "string \<Rightarrow> num_lit option" where
  "parse_number s =
     (let neg = (s \<noteq> [] \<and> hd s = CHR ''-'');
          s1 = (if neg then tl s else s);
          ip = takeWhile is_digit s1;
          s2 = dropWhile is_digit s1;
          hasf = (s2 \<noteq> [] \<and> hd s2 = CHR ''.'');
          fp = (if hasf then takeWhile is_digit (tl s2) else []);
          s3 = (if hasf then dropWhile is_digit (tl s2) else s2)
      in if ip = [] \<or> (1 < length ip \<and> hd ip = CHR ''0'') \<or> (hasf \<and> fp = []) then None
         else
           (case s3 of
              [] \<Rightarrow> Some \<lparr>num_neg = neg, num_int = ip, num_frac = fp, num_exp = 0, num_is_int = (\<not> hasf)\<rparr>
            | c # r \<Rightarrow>
                if c = CHR ''e'' \<or> c = CHR ''E'' then
                  map_option (\<lambda>ex. \<lparr>num_neg = neg, num_int = ip, num_frac = fp, num_exp = ex,
                                    num_is_int = False\<rparr>) (parse_exponent r)
                else None))"

text \<open>\<open>strconv.ParseInt(lit, 10, 64)\<close> and \<open>strconv.ParseFloat(lit, 64)\<close> on a literal.\<close>

definition number_int :: "string \<Rightarrow> int option" where
  "number_int s =
     (case parse_number s of
        None \<Rightarrow> None
      | Some n \<Rightarrow>
          (let v = (if num_neg n then - 1 else 1) * int (nat_of_digits (num_int n)) in
           if num_is_int n \<and> - (2 ^ 63) \<le> v \<and> v < 2 ^ 63 then Some v else None))"

definition number_float :: "string \<Rightarrow> float64 option" where
  "number_float s =
     (case parse_number s of
        None \<Rightarrow> None
      | Some n \<Rightarrow>
          (let v = rnd64 (decimal_value (num_neg n) (num_int n) (num_frac n) (num_exp n)) in
           if \<bar>v\<bar> < max_float64 then Some v else None))"

subsection \<open>Lexer\<close>

datatype token =
    TLBrace | TRBrace | TLBrack | TRBrack | TColon | TComma
  | TValue json

datatype lex_mode = LTop | LStr string | LEsc string | LHex nat string | LNum string | LWord string

definition json_space :: "char \<Rightarrow> bool" where
  "json_space c = (c = CHR 0x20 \<or> c = CHR 0x09 \<or> c = CHR 0x0A \<or> c = CHR 0x0D)"

definition num_char :: "char \<Rightarrow> bool" where
  "num_char c = (is_digit c \<or> c = CHR ''+'' \<or> c = CHR ''-'' \<or> c = CHR ''.'' \<or> c = CHR ''e'' \<or> c = CHR ''E'')"

definition lower_letter :: "char \<Rightarrow> bool" where
  "lower_letter c = (97 \<le> byte c \<and> byte c \<le> 122)"

definition word_token :: "string \<Rightarrow> token option" where
  "word_token w =
     (if w = ''true'' then Some (TValue (JBool True))
      else if w = ''false'' then Some (TValue (JBool False))
      else if w = ''null'' then Some (TValue JNull) else None)"

definition num_token :: "string \<Rightarrow> token option" where
  "num_token w = (if parse_number w = None then None else Some (TValue (JNum w)))"

definition cons_token :: "token option \<Rightarrow> token list option \<Rightarrow> token list option" where
  "cons_token t ts = (case t of None \<Rightarrow> None | Some x \<Rightarrow> map_option ((#) x) ts)"

function lex :: "lex_mode \<Rightarrow> string \<Rightarrow> token list option" where
  "lex LTop [] = Some []"
| "lex LTop (c # s) =
     (if json_space c then lex LTop s
      else if c = CHR 0x7B then cons_token (Some TLBrace) (lex LTop s)
      else if c = CHR 0x7D then cons_token (Some TRBrace) (lex LTop s)
      else if c = CHR ''['' then cons_token (Some TLBrack) (lex LTop s)
      else if c = CHR '']'' then cons_token (Some TRBrack) (lex LTop s)
      else if c = CHR '':'' then cons_token (Some TColon) (lex LTop s)
      else if c = CHR '','' then cons_token (Some TComma) (lex LTop s)
      else if c = CHR 0x22 then lex (LStr []) s
      else if c = CHR ''-'' \<or> is_digit c then lex (LNum [c]) s
      else if lower_letter c then lex (LWord [c]) s
      else None)"
| "lex (LStr acc) [] = None"
| "lex (LStr acc) (c # s) =
     (if c = CHR 0x22 then cons_token (Some (TValue (JStr (unquote (rev acc))))) (lex LTop s)
      else if c = CHR 0x5C then lex (LEsc (c # acc)) s
      else if byte c < 32 then None
      else lex (LStr (c # acc)) s)"
| "lex (LEsc acc) [] = None"
| "lex (LEsc acc) (c # s) =
     (if c = CHR ''u'' then lex (LHex 4 (c # acc)) s
      else if simple_escape c = None then None
      else lex (LStr (c # acc)) s)"
| "lex (LHex n acc) [] = None"
| "lex (LHex n acc) (c # s) =
     (if hex_value c = None then None
      else if n \<le> 1 then lex (LStr (c # acc)) s
      else lex (LHex (n - 1) (c # acc)) s)"
| "lex (LNum acc) [] = cons_token (num_token (rev acc)) (Some [])"
| "lex (LNum acc) (c # s) =
     (if num_char c then lex (LNum (c # acc)) s
      else cons_token (num_token (rev acc)) (lex LTop (c # s)))"
| "lex (LWord acc) [] = cons_token (word_token (rev acc)) (Some [])"
| "lex (LWord acc) (c # s) =
     (if lower_letter c then lex (LWord (c # acc)) s
      else cons_token (word_token (rev acc)) (lex LTop (c # s)))"
  by pat_completeness auto
termination
  by (relation "measure (\<lambda>(m, s). 2 * length s + (if m = LTop then 0 else 1))") auto

subsection \<open>Parser\<close>

datatype frame = FArr "json list" | FObj "(string \<times> json) list" string

datatype expect = XVal | XArr0 | XObj0 | XKey | XColon | XAfter json

definition max_nesting :: nat where
  "max_nesting = 10000"

definition open_frame :: "frame \<Rightarrow> expect \<Rightarrow> frame list \<Rightarrow> (frame list \<times> expect) option" where
  "open_frame f x st = (if length st < max_nesting then Some (f # st, x) else None)"

definition begin_value :: "token \<Rightarrow> frame list \<Rightarrow> (frame list \<times> expect) option" where
  "begin_value t st =
     (case t of
        TValue v \<Rightarrow> Some (st, XAfter v)
      | TLBrack \<Rightarrow> open_frame (FArr []) XArr0 st
      | TLBrace \<Rightarrow> open_frame (FObj [] []) XObj0 st
      | _ \<Rightarrow> None)"

definition begin_key :: "token \<Rightarrow> frame list \<Rightarrow> (frame list \<times> expect) option" where
  "begin_key t st =
     (case t of
        TValue (JStr k) \<Rightarrow>
          (case st of FObj fs k0 # st' \<Rightarrow> Some (FObj fs k # st', XColon) | _ \<Rightarrow> None)
      | _ \<Rightarrow> None)"

fun parse_step :: "frame list \<times> expect \<Rightarrow> token \<Rightarrow> (frame list \<times> expect) option" where
  "parse_step (st, XVal) t = begin_value t st"
| "parse_step (FArr vs # st, XArr0) TRBrack = Some (st, XAfter (JArr (rev vs)))"
| "parse_step (st, XArr0) t = begin_value t st"
| "parse_step (FObj fs k # st, XObj0) TRBrace = Some (st, XAfter (JObj (rev fs)))"
| "parse_step (st, XObj0) t = begin_key t st"
| "parse_step (st, XKey) t = begin_key t st"
| "parse_step (st, XColon) t = (if t = TColon then Some (st, XVal) else None)"
| "parse_step (FArr vs # st, XAfter v) TComma = Some (FArr (v # vs) # st, XVal)"
| "parse_step (FArr vs # st, XAfter v) TRBrack = Some (st, XAfter (JArr (rev (v # vs))))"
| "parse_step (FObj fs k # st, XAfter v) TComma = Some (FObj ((k, v) # fs) [] # st, XKey)"
| "parse_step (FObj fs k # st, XAfter v) TRBrace = Some (st, XAfter (JObj (rev ((k, v) # fs))))"
| "parse_step (st, XAfter v) t = None"

fun parse_tokens :: "frame list \<times> expect \<Rightarrow> token list \<Rightarrow> json option" where
  "parse_tokens (st, x) [] =
     (case (st, x) of ([], XAfter v) \<Rightarrow> Some v | _ \<Rightarrow> None)"
| "parse_tokens s (t # ts) =
     (case parse_step s t of None \<Rightarrow> None | Some s' \<Rightarrow> parse_tokens s' ts)"

definition parse_json :: "string \<Rightarrow> json option" where
  "parse_json s = (case lex LTop s of None \<Rightarrow> None | Some ts \<Rightarrow> parse_tokens ([], XVal) ts)"

subsection \<open>Decoding\<close>

text \<open>
  A decoder takes the value and the target's old contents to its new contents, \<open>None\<close> for the
  error of a wrong type.
\<close>

type_synonym 'a decoder = "json \<Rightarrow> 'a \<Rightarrow> 'a option"

fun dec_string :: "string decoder" where
  "dec_string (JStr s) old = Some s"
| "dec_string JNull old = Some old"
| "dec_string _ old = None"

fun dec_int :: "int decoder" where
  "dec_int (JNum s) old = number_int s"
| "dec_int JNull old = Some old"
| "dec_int _ old = None"

fun dec_int64 :: "int64 decoder" where
  "dec_int64 (JNum s) old = map_option word_of_int (number_int s)"
| "dec_int64 JNull old = Some old"
| "dec_int64 _ old = None"

fun dec_float :: "float64 decoder" where
  "dec_float (JNum s) old = number_float s"
| "dec_float JNull old = Some old"
| "dec_float _ old = None"

fun dec_bool :: "bool decoder" where
  "dec_bool (JBool b) old = Some b"
| "dec_bool JNull old = Some old"
| "dec_bool _ old = None"

text \<open>
  The library folds field names by simple case folding: besides the ASCII letters, U+212A
  folds with \<open>k\<close> and U+017F with \<open>s\<close>. The fields of the program have ASCII names.
\<close>

fun fold_name :: "string \<Rightarrow> string" where
  "fold_name [] = []"
| "fold_name (c # s) =
     (if prefix [CHR 0xE2, CHR 0x84, CHR 0xAA] (c # s) then CHR ''k'' # fold_name (drop 2 s)
      else if prefix [CHR 0xC5, CHR 0xBF] (c # s) then CHR ''s'' # fold_name (drop 1 s)
      else lower_byte c # fold_name s)"

type_synonym 'a fields_spec = "(string \<times> (json \<Rightarrow> 'a \<Rightarrow> 'a option)) list"

definition find_field :: "'a fields_spec \<Rightarrow> string \<Rightarrow> (json \<Rightarrow> 'a \<Rightarrow> 'a option) option" where
  "find_field fs k =
     (case map_of fs k of
        Some d \<Rightarrow> Some d
      | None \<Rightarrow> map_option snd (find (\<lambda>(n, d). fold_name n = fold_name k) fs))"

fun dec_members :: "'a fields_spec \<Rightarrow> (string \<times> json) list \<Rightarrow> 'a \<Rightarrow> 'a option" where
  "dec_members fs [] a = Some a"
| "dec_members fs ((k, v) # kvs) a =
     (case find_field fs k of
        None \<Rightarrow> dec_members fs kvs a
      | Some d \<Rightarrow> (case d v a of None \<Rightarrow> None | Some a' \<Rightarrow> dec_members fs kvs a'))"

fun dec_struct :: "'a fields_spec \<Rightarrow> 'a decoder" where
  "dec_struct fs (JObj kvs) a = dec_members fs kvs a"
| "dec_struct fs JNull a = Some a"
| "dec_struct fs _ a = None"

text \<open>A pointer to a struct: \<open>null\<close> sets it to nil, an object allocates it when it is nil.\<close>

definition dec_ptr :: "'a \<Rightarrow> 'a decoder \<Rightarrow> 'a option decoder" where
  "dec_ptr zero d v old =
     (if v = JNull then Some None
      else map_option Some (d v (case old of None \<Rightarrow> zero | Some a \<Rightarrow> a)))"

text \<open>A slice of structs, each element decoded into a zero value.\<close>

fun dec_elems :: "'a \<Rightarrow> 'a decoder \<Rightarrow> json list \<Rightarrow> 'a list option" where
  "dec_elems zero d [] = Some []"
| "dec_elems zero d (v # vs) =
     (case d v zero of
        None \<Rightarrow> None
      | Some a \<Rightarrow> map_option ((#) a) (dec_elems zero d vs))"

definition dec_slice :: "'a \<Rightarrow> 'a decoder \<Rightarrow> 'a list decoder" where
  "dec_slice zero d v old =
     (case v of JArr vs \<Rightarrow> dec_elems zero d vs | JNull \<Rightarrow> Some [] | _ \<Rightarrow> None)"

text \<open>A field of a record: decode into the field's old value and put the result back.\<close>

definition fld ::
  "string \<Rightarrow> 'b decoder \<Rightarrow> ('a \<Rightarrow> 'b) \<Rightarrow> ('b \<Rightarrow> 'a \<Rightarrow> 'a) \<Rightarrow> string \<times> (json \<Rightarrow> 'a \<Rightarrow> 'a option)" where
  "fld name d get put = (name, \<lambda>v a. map_option (\<lambda>x. put x a) (d v (get a)))"

definition json_unmarshal :: "'a decoder \<Rightarrow> 'a \<Rightarrow> string \<Rightarrow> 'a option" where
  "json_unmarshal d zero s = (case parse_json s of None \<Rightarrow> None | Some v \<Rightarrow> d v zero)"

end
