(* ===== verification/Effects.thy ===== *)
theory Effects
  imports Api_Types Go_Json "HOL-Library.State_Monad"
begin

section \<open>External calls: the history, the effect monad and its logic\<close>

text \<open>
  Everything outside the process (the Kubernetes API, the pod's exec stream, GitHub, the
  clock) answers as it likes. A computation with effects is a state transformer over the
  history of the external calls made so far; a call asks an oracle, a function of the history
  and of the call's arguments, for the answer and appends the call to the history. The oracles
  are arguments of every definition, so a theorem about all oracles is a theorem about every
  behaviour of the outside world, failures at any call included. A call that changes something
  outside records its answer in the history.
\<close>

subsection \<open>Histories\<close>

text \<open>How a GitHub request is authenticated: as the App, as an installation, by a token.\<close>

datatype gh_auth = AppAuth | InstallationAuth | TokenAuth string

text \<open>
  Namespaces come before names. A watch and an exec carry the time limit of their context.
\<close>

datatype event =
    Clock time
  | TaskGet string string
  | TaskList string
  | TaskCreate claude_task "go_error option"
  | TaskUpdate claude_task "go_error option"
  | RepoGet string string
  | RepoUpdate claude_repository "go_error option"
  | SecretGet string string
  | ClaimCreate string json "go_error option"
  | ClaimDelete string string "go_error option"
  | ClaimGet string string
  | ClaimWatch string string time
  | SandboxGet string string
  | SandboxWatch string string time
  | PodGet string string
  | PodExec string string string "string list" time
  | CacheRead
  | GhToken gh_auth
  | GhHookConfig gh_auth string string "go_error option"
  | GhIssueGet gh_auth string string int
  | GhIssueComments gh_auth string string int int
  | GhComment gh_auth string string int string "go_error option"
  | GhPullGet gh_auth string string int
  | GhReviewCommentGet gh_auth string string int
  | GhReviewComments gh_auth string string int int
  | GhReply gh_auth string string int int string "go_error option"
  | GhHookCreate gh_auth string string string string "go_error + int"
  | GhHookDelete gh_auth string string int "go_error option"
  | GhPermission gh_auth string string string

type_synonym hist = "event list"

type_synonym 'a io = "(hist, 'a) state"

text \<open>The requests sent to GitHub.\<close>

fun gh_event :: "event \<Rightarrow> bool" where
  "gh_event (GhToken a) = True"
| "gh_event (GhHookConfig a u s r) = True"
| "gh_event (GhIssueGet a ow re n) = True"
| "gh_event (GhIssueComments a ow re n p) = True"
| "gh_event (GhComment a ow re n b r) = True"
| "gh_event (GhPullGet a ow re n) = True"
| "gh_event (GhReviewCommentGet a ow re i) = True"
| "gh_event (GhReviewComments a ow re n p) = True"
| "gh_event (GhReply a ow re n i b r) = True"
| "gh_event (GhHookCreate a ow re u s r) = True"
| "gh_event (GhHookDelete a ow re i r) = True"
| "gh_event (GhPermission a ow re u) = True"
| "gh_event _ = False"

text \<open>The successful writes of task objects, in order, and the last of them.\<close>

fun task_write :: "event \<Rightarrow> claude_task option" where
  "task_write (TaskUpdate t None) = Some t"
| "task_write _ = None"

definition stored_after :: "claude_task \<Rightarrow> hist \<Rightarrow> claude_task" where
  "stored_after t h = (case List.map_filter task_write h of [] \<Rightarrow> t | ws \<Rightarrow> last ws)"

subsection \<open>The monad\<close>

abbreviation ret :: "'a \<Rightarrow> 'a io" where
  "ret \<equiv> State_Monad.return"

text \<open>A call: the oracle's answer at the present history, and the event to record.\<close>

definition ext_call :: "(hist \<Rightarrow> 'a) \<Rightarrow> ('a \<Rightarrow> event) \<Rightarrow> 'a io" where
  "ext_call ask ev = State (\<lambda>h. (ask h, h @ [ev (ask h)]))"

lemma run_ext_call [simp]: "run_state (ext_call ask ev) h = (ask h, h @ [ev (ask h)])"
  by (simp add: ext_call_def)

subsection \<open>What a computation may emit\<close>

text \<open>
  \<open>emits P m Q\<close>: from every history, \<open>m\<close> only appends events that satisfy \<open>P\<close>, and its
  result satisfies \<open>Q\<close>.
\<close>

definition emits :: "(event \<Rightarrow> bool) \<Rightarrow> 'a io \<Rightarrow> ('a \<Rightarrow> bool) \<Rightarrow> bool" where
  "emits P m Q \<longleftrightarrow>
     (\<forall>h. \<exists>evs. snd (run_state m h) = h @ evs \<and> list_all P evs \<and> Q (fst (run_state m h)))"

lemma emitsD:
  assumes "emits P m Q" and "run_state m h = (r, h')"
  obtains evs where "h' = h @ evs" "list_all P evs" "Q r"
  using assms by (metis emits_def fst_conv snd_conv)

lemma emits_return [emits_intros]: "Q x \<Longrightarrow> emits P (ret x) Q"
  by (simp add: emits_def)

lemma emits_ext_call: "(\<And>h. P (ev (ask h)) \<and> Q (ask h)) \<Longrightarrow> emits P (ext_call ask ev) Q"
  by (simp add: emits_def)

lemma emits_bind:
  assumes m: "emits P m Q" and f: "\<And>x. Q x \<Longrightarrow> emits P (f x) R"
  shows "emits P (State_Monad.bind m f) R"
  unfolding emits_def
proof
  fix h
  obtain r h1 where r: "run_state m h = (r, h1)" by (cases "run_state m h")
  with m obtain e1 where e1: "h1 = h @ e1" "list_all P e1" "Q r" by (rule emitsD)
  obtain r2 h2 where r2: "run_state (f r) h1 = (r2, h2)" by (cases "run_state (f r) h1")
  with f [OF e1(3)] obtain e2 where e2: "h2 = h1 @ e2" "list_all P e2" "R r2" by (rule emitsD)
  show "\<exists>evs. snd (run_state (State_Monad.bind m f) h) = h @ evs \<and> list_all P evs
          \<and> R (fst (run_state (State_Monad.bind m f) h))"
    using r r2 e1 e2 by (intro exI [of _ "e1 @ e2"]) simp
qed

lemma emits_weaken:
  assumes "emits P m Q" "\<And>e. P e \<Longrightarrow> P' e" "\<And>x. Q x \<Longrightarrow> Q' x"
  shows "emits P' m Q'"
  using assms unfolding emits_def list_all_iff by metis

lemma emits_post: "emits P m (\<lambda>_. True) \<Longrightarrow> (\<And>x. Q x) \<Longrightarrow> emits P m Q"
  by (rule emits_weaken)

lemma emits_bind_any [emits_intros]:
  "emits P m (\<lambda>_. True) \<Longrightarrow> (\<And>x. emits P (f x) R) \<Longrightarrow> emits P (State_Monad.bind m f) R"
  by (rule emits_bind)

lemma emits_if [emits_intros]:
  "(b \<Longrightarrow> emits P m Q) \<Longrightarrow> (\<not> b \<Longrightarrow> emits P n Q) \<Longrightarrow> emits P (if b then m else n) Q"
  by simp

lemma emits_case_option [emits_intros]:
  "(x = None \<Longrightarrow> emits P m Q) \<Longrightarrow> (\<And>y. x = Some y \<Longrightarrow> emits P (n y) Q) \<Longrightarrow>
   emits P (case x of None \<Rightarrow> m | Some y \<Rightarrow> n y) Q"
  by (cases x) auto

lemma emits_case_sum [emits_intros]:
  "(\<And>y. x = Inl y \<Longrightarrow> emits P (m y) Q) \<Longrightarrow> (\<And>y. x = Inr y \<Longrightarrow> emits P (n y) Q) \<Longrightarrow>
   emits P (case x of Inl y \<Rightarrow> m y | Inr y \<Rightarrow> n y) Q"
  by (cases x) auto

lemma emits_case_prod [emits_intros]:
  "(\<And>a b. x = (a, b) \<Longrightarrow> emits P (m a b) Q) \<Longrightarrow> emits P (case x of (a, b) \<Rightarrow> m a b) Q"
  by (cases x) auto

lemma emits_case_list [emits_intros]:
  "(xs = [] \<Longrightarrow> emits P m Q) \<Longrightarrow> (\<And>y ys. xs = y # ys \<Longrightarrow> emits P (n y ys) Q) \<Longrightarrow>
   emits P (case xs of [] \<Rightarrow> m | y # ys \<Rightarrow> n y ys) Q"
  by (cases xs) auto

lemma emits_Let [emits_intros]: "emits P (m x) Q \<Longrightarrow> emits P (let y = x in m y) Q"
  by simp

subsection \<open>What a computation does, in order\<close>

text \<open>
  \<open>traces m R\<close>: from every history, \<open>m\<close> appends a sequence of events that its result is
  related to by \<open>R\<close>. The rules below take a goal about a whole operation apart, call by
  call, into goals about the sequences along its paths.
\<close>

definition traces :: "'a io \<Rightarrow> ('a \<Rightarrow> event list \<Rightarrow> bool) \<Rightarrow> bool" where
  "traces m R \<longleftrightarrow>
     (\<forall>h. \<exists>evs. snd (run_state m h) = h @ evs \<and> R (fst (run_state m h)) evs)"

lemma emits_traces: "emits P m Q \<longleftrightarrow> traces m (\<lambda>x evs. list_all P evs \<and> Q x)"
  by (simp add: emits_def traces_def)

lemma tracesD:
  assumes "traces m R" and "run_state m h = (r, h')"
  obtains evs where "h' = h @ evs" "R r evs"
  using assms by (metis traces_def fst_conv snd_conv)

lemma traces_return [traces_intros]: "R x [] \<Longrightarrow> traces (ret x) R"
  by (simp add: traces_def)

lemma traces_ext_call: "(\<And>h. R (ask h) [ev (ask h)]) \<Longrightarrow> traces (ext_call ask ev) R"
  by (simp add: traces_def)

lemma traces_bind:
  assumes m: "traces m S" and f: "\<And>x e1. S x e1 \<Longrightarrow> traces (f x) (\<lambda>y e2. R y (e1 @ e2))"
  shows "traces (State_Monad.bind m f) R"
  unfolding traces_def
proof
  fix h
  obtain x h1 where r: "run_state m h = (x, h1)" by (cases "run_state m h")
  with m obtain e1 where e1: "h1 = h @ e1" "S x e1" by (rule tracesD)
  obtain y h2 where r2: "run_state (f x) h1 = (y, h2)" by (cases "run_state (f x) h1")
  with f [OF e1(2)] obtain e2 where e2: "h2 = h1 @ e2" "R y (e1 @ e2)" by (rule tracesD)
  show "\<exists>evs. snd (run_state (State_Monad.bind m f) h) = h @ evs
          \<and> R (fst (run_state (State_Monad.bind m f) h)) evs"
    using r r2 e1 e2 by (intro exI [of _ "e1 @ e2"]) simp
qed

lemma traces_bind_return [traces_intros]:
  "traces (f x) R \<Longrightarrow> traces (State_Monad.bind (ret x) f) R"
  by (simp add: bind_left_identity)

lemma traces_bind_call:
  assumes "\<And>h. traces (f (ask h)) (\<lambda>y es. R y (ev (ask h) # es))"
  shows "traces (State_Monad.bind (ext_call ask ev) f) R"
  by (rule traces_bind [where S = "\<lambda>x es. \<exists>h. x = ask h \<and> es = [ev (ask h)]"])
    (use assms in \<open>auto intro: traces_ext_call\<close>)

lemma traces_bind_emits:
  assumes "emits P m Q" and "\<And>x e1. Q x \<Longrightarrow> list_all P e1 \<Longrightarrow> traces (f x) (\<lambda>y e2. R y (e1 @ e2))"
  shows "traces (State_Monad.bind m f) R"
  using assms by (intro traces_bind [OF assms(1) [unfolded emits_traces]]) auto

lemma traces_weaken: "traces m R \<Longrightarrow> (\<And>x es. R x es \<Longrightarrow> R' x es) \<Longrightarrow> traces m R'"
  unfolding traces_def by metis

lemma traces_if [traces_intros]:
  "(b \<Longrightarrow> traces m R) \<Longrightarrow> (\<not> b \<Longrightarrow> traces n R) \<Longrightarrow> traces (if b then m else n) R"
  by simp

lemma traces_case_option [traces_intros]:
  "(x = None \<Longrightarrow> traces m R) \<Longrightarrow> (\<And>y. x = Some y \<Longrightarrow> traces (n y) R) \<Longrightarrow>
   traces (case x of None \<Rightarrow> m | Some y \<Rightarrow> n y) R"
  by (cases x) auto

lemma traces_case_sum [traces_intros]:
  "(\<And>y. x = Inl y \<Longrightarrow> traces (m y) R) \<Longrightarrow> (\<And>y. x = Inr y \<Longrightarrow> traces (n y) R) \<Longrightarrow>
   traces (case x of Inl y \<Rightarrow> m y | Inr y \<Rightarrow> n y) R"
  by (cases x) auto

lemma traces_case_prod [traces_intros]:
  "(\<And>a b. x = (a, b) \<Longrightarrow> traces (m a b) R) \<Longrightarrow> traces (case x of (a, b) \<Rightarrow> m a b) R"
  by (cases x) auto

lemma traces_Let [traces_intros]: "traces (m x) R \<Longrightarrow> traces (let y = x in m y) R"
  by simp

subsection \<open>What is stored after a run\<close>

lemma map_filter_append: "List.map_filter f (xs @ ys) = List.map_filter f xs @ List.map_filter f ys"
  by (simp add: List.map_filter_def)

lemma stored_after_Nil [simp]: "stored_after t [] = t"
  by (simp add: stored_after_def List.map_filter_def)

lemma stored_after_no_write: "list_all (\<lambda>e. task_write e = None) evs \<Longrightarrow> stored_after t evs = t"
  by (induction evs) (auto simp: stored_after_def List.map_filter_def)

text \<open>A property of every task written, and of the task before, holds of what is stored.\<close>

lemma stored_after_inv:
  assumes "list_all (\<lambda>e. \<forall>t'. task_write e = Some t' \<longrightarrow> R t') evs" and "R t"
  shows "R (stored_after t evs)"
proof -
  have "\<forall>w \<in> set (List.map_filter task_write evs). R w"
    using assms(1) by (induction evs) (auto simp: List.map_filter_def)
  with assms(2) show ?thesis
    by (auto simp: stored_after_def split: list.splits)
qed

end
