(* ===== verification/Go_Quote.thy ===== *)
theory Go_Quote
  imports Go_Json
begin

section \<open>\<open>%q\<close>: \<open>strconv.Quote\<close>\<close>

text \<open>
  A string in double quotes with Go's escapes. Every printable rune stands for itself; for the
  runes beyond ASCII printability is a table of the runtime (\<open>unicode.IsPrint\<close>), the argument
  \<open>printable\<close>.
\<close>

definition hex_digit :: "nat \<Rightarrow> char" where
  "hex_digit d = ''0123456789abcdef'' ! d"

fun hex_pad :: "nat \<Rightarrow> nat \<Rightarrow> string" where
  "hex_pad 0 n = []"
| "hex_pad (Suc k) n = hex_pad k (n div 16) @ [hex_digit (n mod 16)]"

text \<open>The code point of the valid encoding of width \<open>w\<close> at the front of a string.\<close>

definition rune_value :: "nat \<Rightarrow> string \<Rightarrow> nat" where
  "rune_value w s =
     (if w = 1 then byte (s ! 0)
      else if w = 2 then (byte (s ! 0) - 192) * 64 + (byte (s ! 1) - 128)
      else if w = 3 then (byte (s ! 0) - 224) * 4096 + (byte (s ! 1) - 128) * 64 + (byte (s ! 2) - 128)
      else (byte (s ! 0) - 240) * 262144 + (byte (s ! 1) - 128) * 4096
           + (byte (s ! 2) - 128) * 64 + (byte (s ! 3) - 128))"

definition quote_ascii :: "char \<Rightarrow> string" where
  "quote_ascii c =
     (if c = CHR 0x22 \<or> c = CHR 0x5C then [CHR 0x5C, c]
      else if 32 \<le> byte c \<and> byte c \<le> 126 then [c]
      else if c = CHR 0x07 then bsl @ ''a''
      else if c = CHR 0x08 then bsl @ ''b''
      else if c = CHR 0x0C then bsl @ ''f''
      else if c = CHR 0x0A then bsl @ ''n''
      else if c = CHR 0x0D then bsl @ ''r''
      else if c = CHR 0x09 then bsl @ ''t''
      else if c = CHR 0x0B then bsl @ ''v''
      else bsl @ ''x'' @ hex_pad 2 (byte c))"

function quote_body :: "(nat \<Rightarrow> bool) \<Rightarrow> string \<Rightarrow> string" where
  "quote_body printable s =
     (case s of
        [] \<Rightarrow> []
      | c # s' \<Rightarrow>
          (let w = utf8_width s in
           if w = 1 then quote_ascii c @ quote_body printable s'
           else if w = 0 then bsl @ ''x'' @ hex_pad 2 (byte c) @ quote_body printable s'
           else
             (let r = rune_value w s in
              (if printable r then take w s
               else if r < 65536 then bsl @ ''u'' @ hex_pad 4 r
               else bsl @ ''U'' @ hex_pad 8 r)
              @ quote_body printable (drop w s))))"
  by pat_completeness auto
termination by (relation "measure (\<lambda>(p, s). length s)") auto

declare quote_body.simps [simp del]

definition go_quote :: "(nat \<Rightarrow> bool) \<Rightarrow> string \<Rightarrow> string" where
  "go_quote printable s = dq @ quote_body printable s @ dq"

subsection \<open>Quoted text stays on one line\<close>

lemma hex_digit_facts: "d < 16 \<Longrightarrow> 33 \<le> byte (hex_digit d) \<and> byte (hex_digit d) \<le> 126"
proof -
  assume "d < 16"
  moreover have "list_all (\<lambda>d. 33 \<le> byte (hex_digit d) \<and> byte (hex_digit d) \<le> 126) [0..<16]"
    by code_simp
  ultimately show ?thesis by (simp add: list_all_iff)
qed

lemma hex_pad_visible: "c \<in> set (hex_pad k n) \<Longrightarrow> 32 \<le> byte c"
proof (induction k arbitrary: n)
  case (Suc k)
  then show ?case using hex_digit_facts [of "n mod 16"] by auto
qed simp

lemma quote_ascii_visible: "c' \<in> set (quote_ascii c) \<Longrightarrow> 32 \<le> byte c'"
  by (auto simp: quote_ascii_def byte_def dest: hex_pad_visible [unfolded byte_def] split: if_splits)

lemma utf8_width_high:
  assumes "utf8_width s = w" and "1 < w" and "c \<in> set (take w s)"
  shows "128 \<le> byte c"
proof -
  have *: "2 \<le> length x \<Longrightarrow> c \<in> set (take 2 x) \<Longrightarrow> c = x ! 0 \<or> c = x ! 1" for x
    by (cases x rule: remdups_adj.cases) auto
  have **: "x \<noteq> [] \<Longrightarrow> c \<in> set (take (Suc 0) x) \<Longrightarrow> c = x ! 0" for x
    by (cases x) auto
  from assms show ?thesis
    by (cases s rule: utf8_width.cases)
      (auto simp: Let_def cont_byte_def take_Cons' hd_conv_nth dest!: * ** split: if_splits list.splits)
qed

lemma quote_body_visible: "c \<in> set (quote_body printable s) \<Longrightarrow> 32 \<le> byte c"
proof (induction printable s rule: quote_body.induct)
  case (1 printable s)
  show ?case
  proof (cases s)
    case Nil
    with 1 show ?thesis by (simp add: quote_body.simps)
  next
    case (Cons a s')
    consider "utf8_width s = 0" | "utf8_width s = 1" | "1 < utf8_width s" by linarith
    then show ?thesis
    proof cases
      case 1
      with "1.prems" Cons "1.IH"(2) [OF Cons refl] show ?thesis
        by (auto simp: quote_body.simps [of _ "a # s'"] byte_def dest: hex_pad_visible [unfolded byte_def])
    next
      case 2
      with "1.prems" Cons "1.IH"(1) [OF Cons refl] show ?thesis
        by (auto simp: quote_body.simps [of _ "a # s'"] dest: quote_ascii_visible)
    next
      case 3
      with "1.prems" Cons "1.IH"(3) [OF Cons refl] utf8_width_high [OF refl 3] show ?thesis
        by (fastforce simp: quote_body.simps [of _ "a # s'"] Let_def byte_def
            dest: hex_pad_visible [unfolded byte_def] split: if_splits)
    qed
  qed
qed

end
