(* ===== verification/Go_Crypto.thy ===== *)
theory Go_Crypto
  imports Go_Quote
begin

section \<open>\<open>crypto/sha256\<close>, \<open>crypto/hmac\<close> and \<open>encoding/hex\<close>\<close>

text \<open>
  The hash and the message authentication code of the webhook's signature, on 32-bit words as
  FIPS 180-4 and RFC 2104 define them, and the hexadecimal coding of the header.
\<close>

unbundle bit_operations_syntax

type_synonym word32 = "32 word"

subsection \<open>SHA-256\<close>

definition rotr32 :: "nat \<Rightarrow> word32 \<Rightarrow> word32" where
  "rotr32 n x = drop_bit n x OR push_bit (32 - n) x"

text \<open>
  The constants of the standard, computed as it describes them: the first 32 bits of the
  fractional parts of the cube roots of the first 64 primes, and of the square roots of the
  first eight. \<open>root_bits k n b acc\<close> is the greatest number whose \<open>k\<close>-th power is at most \<open>n\<close>,
  found bit by bit from bit \<open>b - 1\<close> down.
\<close>

primrec root_bits :: "nat \<Rightarrow> nat \<Rightarrow> nat \<Rightarrow> nat \<Rightarrow> nat" where
  "root_bits k n 0 acc = acc"
| "root_bits k n (Suc b) acc =
     (let acc' = acc + 2 ^ b in root_bits k n b (if acc' ^ k \<le> n then acc' else acc))"

definition frac_root :: "nat \<Rightarrow> nat \<Rightarrow> word32" where
  "frac_root k p = of_nat (root_bits k (p * 2 ^ (32 * k)) 40 0)"

definition primes_below :: "nat \<Rightarrow> nat list" where
  "primes_below n = filter (\<lambda>p. list_all (\<lambda>d. p mod d \<noteq> 0) [2..<p]) [2..<n]"

definition sha256_k :: "word32 list" where
  "sha256_k = map (frac_root 3) (primes_below 312)"

definition sha256_init :: "word32 list" where
  "sha256_init = map (frac_root 2) (primes_below 20)"

definition small_sigma0 :: "word32 \<Rightarrow> word32" where
  "small_sigma0 x = rotr32 7 x XOR rotr32 18 x XOR drop_bit 3 x"

definition small_sigma1 :: "word32 \<Rightarrow> word32" where
  "small_sigma1 x = rotr32 17 x XOR rotr32 19 x XOR drop_bit 10 x"

definition big_sigma0 :: "word32 \<Rightarrow> word32" where
  "big_sigma0 x = rotr32 2 x XOR rotr32 13 x XOR rotr32 22 x"

definition big_sigma1 :: "word32 \<Rightarrow> word32" where
  "big_sigma1 x = rotr32 6 x XOR rotr32 11 x XOR rotr32 25 x"

text \<open>
  The message schedule: the last sixteen words determine the next one; \<open>schedule n ws\<close> lists
  the words of \<open>ws\<close> and \<open>n\<close> more.
\<close>

fun schedule :: "nat \<Rightarrow> word32 list \<Rightarrow> word32 list" where
  "schedule 0 ws = ws"
| "schedule (Suc n) ws =
     (case ws of
        [] \<Rightarrow> []
      | w # rest \<Rightarrow>
          w # schedule n (rest @
            [small_sigma1 (ws ! 14) + ws ! 9 + small_sigma0 (ws ! 1) + w]))"

fun sha256_round :: "word32 list \<Rightarrow> word32 \<times> word32 \<Rightarrow> word32 list" where
  "sha256_round [a, b, c, d, e, f, g, h] (k, w) =
     (let t1 = h + big_sigma1 e + ((e AND f) XOR (NOT e AND g)) + k + w;
          t2 = big_sigma0 a + ((a AND b) XOR (a AND c) XOR (b AND c))
      in [t1 + t2, a, b, c, d + t1, e, f, g])"
| "sha256_round s kw = s"

definition word_of_bytes :: "string \<Rightarrow> word32" where
  "word_of_bytes s = foldl (\<lambda>x c. push_bit 8 x + of_nat (byte c)) 0 s"

definition bytes_of_word :: "word32 \<Rightarrow> string" where
  "bytes_of_word x = map (\<lambda>i. char_of (unat (take_bit 8 (drop_bit i x)))) [24, 16, 8, 0]"

fun chunks :: "nat \<Rightarrow> nat \<Rightarrow> 'a list \<Rightarrow> 'a list list" where
  "chunks k 0 xs = []"
| "chunks k (Suc n) xs = take k xs # chunks k n (drop k xs)"

definition sha256_block :: "word32 list \<Rightarrow> string \<Rightarrow> word32 list" where
  "sha256_block st blk =
     map2 (+) st
       (foldl sha256_round st (zip sha256_k (schedule 48 (map word_of_bytes (chunks 4 16 blk)))))"

text \<open>A one bit, zeros up to a multiple of 64 bytes, the length in bits in eight bytes.\<close>

definition sha256_pad :: "string \<Rightarrow> string" where
  "sha256_pad m =
     m @ [char_of (128::nat)] @ replicate ((119 - length m mod 64) mod 64) (char_of (0::nat))
       @ map (\<lambda>i. char_of (unat (take_bit 8 (drop_bit i (of_nat (8 * length m) :: 64 word)))))
           [56, 48, 40, 32, 24, 16, 8, 0]"

definition sha256 :: "string \<Rightarrow> string" where
  "sha256 m =
     (let p = sha256_pad m in
      concat (map bytes_of_word (foldl sha256_block sha256_init (chunks 64 (length p div 64) p))))"

subsection \<open>HMAC\<close>

definition hmac_key :: "string \<Rightarrow> string" where
  "hmac_key k =
     (let k' = (if 64 < length k then sha256 k else k) in k' @ replicate (64 - length k') (char_of (0::nat)))"

definition xor_bytes :: "nat \<Rightarrow> string \<Rightarrow> string" where
  "xor_bytes p s = map (\<lambda>c. char_of (byte c XOR p)) s"

definition hmac_sha256 :: "string \<Rightarrow> string \<Rightarrow> string" where
  "hmac_sha256 key m =
     (let k = hmac_key key in sha256 (xor_bytes 92 k @ sha256 (xor_bytes 54 k @ m)))"

subsection \<open>Hexadecimal\<close>

definition hex_encode :: "string \<Rightarrow> string" where
  "hex_encode s = concat (map (\<lambda>c. [hex_digit (byte c div 16), hex_digit (byte c mod 16)]) s)"

text \<open>\<open>hex.DecodeString\<close>: an odd length or a character that is no digit is an error.\<close>

fun hex_decode :: "string \<Rightarrow> string option" where
  "hex_decode [] = Some []"
| "hex_decode [a] = None"
| "hex_decode (a # b # s) =
     (case (hex_value a, hex_value b) of
        (Some x, Some y) \<Rightarrow> map_option ((#) (char_of (16 * x + y))) (hex_decode s)
      | _ \<Rightarrow> None)"

lemma hex_value_digit: "d < 16 \<Longrightarrow> hex_value (hex_digit d) = Some d"
proof -
  assume "d < 16"
  moreover have "list_all (\<lambda>d. hex_value (hex_digit d) = Some d) [0..<16]" by code_simp
  ultimately show ?thesis by (simp add: list_all_iff)
qed

lemma byte_less: "byte c < 256"
  by (simp add: byte_def)

lemma char_of_byte [simp]: "char_of (byte c) = c"
  by (simp add: byte_def)

lemma hex_decode_encode: "hex_decode (hex_encode s) = Some s"
proof (induction s)
  case Nil
  then show ?case by (simp add: hex_encode_def)
next
  case (Cons c s)
  have "byte c div 16 < 16" "byte c mod 16 < 16" using byte_less [of c] by auto
  moreover have "hex_encode (c # s)
      = hex_digit (byte c div 16) # hex_digit (byte c mod 16) # hex_encode s"
    by (simp add: hex_encode_def)
  ultimately show ?case using Cons by (simp add: hex_value_digit)
qed

lemma sha256_length: "length (sha256 m) = 32"
proof -
  have rnd: "length st = 8 \<Longrightarrow> length (sha256_round st kw) = 8" for st kw
    by (cases "(st, kw)" rule: sha256_round.cases) (auto simp: Let_def)
  have rnds: "length st = 8 \<Longrightarrow> length (foldl sha256_round st kws) = 8" for st kws
    by (induction kws arbitrary: st) (simp_all add: rnd)
  have "length st = 8 \<Longrightarrow> length (sha256_block st b) = 8" for st b
    by (simp add: sha256_block_def rnds)
  then have "length st = 8 \<Longrightarrow> length (foldl sha256_block st bs) = 8" for st bs
    by (induction bs arbitrary: st) simp_all
  moreover have "length sha256_init = 8"
    by (simp add: sha256_init_def primes_below_def upt_rec)
  moreover have "length (concat (map bytes_of_word ws)) = 4 * length ws" for ws
    by (induction ws) (simp_all add: bytes_of_word_def)
  ultimately show ?thesis by (simp add: sha256_def Let_def)
qed

lemma hmac_sha256_length: "length (hmac_sha256 k m) = 32"
  by (simp add: hmac_sha256_def Let_def sha256_length)

end
