(* ===== verification/Webhook.thy ===== *)
theory Webhook
  imports Effects Go_Crypto
begin

section \<open>The webhook handler (\<open>internal/webhook/github.go\<close>)\<close>

text \<open>
  The HTTP handler: it checks method and signature, routes by event type, and each of the four
  event handlers decodes its payload, applies its guards in the order of the code and calls
  the \<open>TaskCreator\<close>, a record of operations here. Every path writes the response exactly
  once, so a handler returns it.
\<close>

subsection \<open>The interface \<open>TaskCreator\<close>\<close>

record task_request =
  ReqOwner :: string
  ReqRepo :: string
  ReqIssue :: int
  ReqPullRequest :: int
  ReqTaskType :: string
  ReqBranch :: string
  ReqPrompt :: string
  ReqReviewCommentID :: int
  ClarificationAnswer :: string

definition zero_request :: task_request where
  "zero_request =
     \<lparr>ReqOwner = [], ReqRepo = [], ReqIssue = 0, ReqPullRequest = 0, ReqTaskType = [],
      ReqBranch = [], ReqPrompt = [], ReqReviewCommentID = 0, ClarificationAnswer = []\<rparr>"

record task_creator =
  CreateTask :: "task_request \<Rightarrow> go_error option io"
  IsRepoAllowed :: "string \<Rightarrow> string \<Rightarrow> (go_error + bool) io"
  IsUserAllowed :: "string \<Rightarrow> string \<Rightarrow> string \<Rightarrow> (go_error + bool) io"
  ResumeClarification :: "task_request \<Rightarrow> (go_error + bool) io"
  GetAutoLabels :: "string \<Rightarrow> string \<Rightarrow> string list io"

record handler =
  webhookSecret :: string
  botName :: string
  creator :: task_creator

definition NewHandler :: "string \<Rightarrow> string \<Rightarrow> task_creator \<Rightarrow> handler" where
  "NewHandler secret bname tc = \<lparr>webhookSecret = secret, botName = bname, creator = tc\<rparr>"

subsection \<open>Requests and responses\<close>

record http_request =
  Method :: string
  Body :: "go_error + string"
  Header :: "string \<Rightarrow> string"

record http_response =
  StatusCode :: nat
  ResponseBody :: string

definition write_header :: "nat \<Rightarrow> http_response" where
  "write_header code = \<lparr>StatusCode = code, ResponseBody = []\<rparr>"

definition http_error :: "string \<Rightarrow> nat \<Rightarrow> http_response" where
  "http_error msg code = \<lparr>StatusCode = code, ResponseBody = msg @ nl\<rparr>"

abbreviation StatusOK :: nat where "StatusOK \<equiv> 200"
abbreviation StatusCreated :: nat where "StatusCreated \<equiv> 201"
abbreviation StatusBadRequest :: nat where "StatusBadRequest \<equiv> 400"
abbreviation StatusUnauthorized :: nat where "StatusUnauthorized \<equiv> 401"
abbreviation StatusMethodNotAllowed :: nat where "StatusMethodNotAllowed \<equiv> 405"
abbreviation StatusInternalServerError :: nat where "StatusInternalServerError \<equiv> 500"

subsection \<open>Guards\<close>

definition HasBotMention :: "string \<Rightarrow> string \<Rightarrow> bool" where
  "HasBotMention body bname = str_contains body (''@'' @ bname)"

definition isBotComment :: "string \<Rightarrow> string \<Rightarrow> bool" where
  "isBotComment login bname = (login = bname \<or> login = bname @ ''[bot]'')"

definition signature_prefix :: string where
  "signature_prefix = ''sha256=''"

definition validateSignature :: "string \<Rightarrow> string \<Rightarrow> string \<Rightarrow> bool" where
  "validateSignature body signature secret =
     (if secret = [] then True
      else if signature = [] then False
      else if \<not> prefix signature_prefix signature then False
      else
        (case hex_decode (drop (length signature_prefix) signature) of
           None \<Rightarrow> False
         | Some sigBytes \<Rightarrow> sigBytes = hmac_sha256 secret body))"

definition computeSignature :: "string \<Rightarrow> string \<Rightarrow> string" where
  "computeSignature body secret = ''sha256='' @ hex_encode (hmac_sha256 secret body)"

definition buildReviewCommentPrompt ::
  "(nat \<Rightarrow> bool) \<Rightarrow> int \<Rightarrow> string \<Rightarrow> int \<Rightarrow> string \<Rightarrow> string \<Rightarrow> string" where
  "buildReviewCommentPrompt printable pr path line diffHunk comment =
     ''Fix the review comment on PR #'' @ show_int pr @ ''.'' @ nl @ nl
     @ (if path \<noteq> [] then
          ''The reviewer commented on file '' @ tick @ path @ tick
          @ (if 0 < line then '' at line '' @ show_int line else [])
          @ '':'' @ nl @ nl
        else [])
     @ (if diffHunk \<noteq> [] then
          tick @ tick @ tick @ ''diff'' @ nl @ diffHunk @ nl @ tick @ tick @ tick @ nl @ nl
        else [])
     @ ''Reviewer said: '' @ go_quote printable comment @ nl @ nl
     @ ''Fix this specific issue, commit, and push to the same branch.''"

subsection \<open>Events\<close>

text \<open>
  The structs of the payloads. A nested anonymous struct is flattened into its leaves; a
  nested struct that may be absent is an option.
\<close>

record repo_info =
  OwnerLogin :: string
  RepoName :: string

definition zero_repo :: repo_info where
  "zero_repo = \<lparr>OwnerLogin = [], RepoName = []\<rparr>"

definition owner_login_fields :: "repo_info fields_spec" where
  "owner_login_fields = [fld ''login'' dec_string OwnerLogin (\<lambda>x r. r\<lparr>OwnerLogin := x\<rparr>)]"

text \<open>A nested struct whose leaves are fields of the surrounding record.\<close>

definition nested :: "string \<Rightarrow> 'a fields_spec \<Rightarrow> string \<times> (json \<Rightarrow> 'a \<Rightarrow> 'a option)" where
  "nested name fs = (name, dec_struct fs)"

definition dec_repo :: "repo_info decoder" where
  "dec_repo = dec_struct
     [nested ''owner'' owner_login_fields,
      fld ''name'' dec_string RepoName (\<lambda>x r. r\<lparr>RepoName := x\<rparr>)]"

record issue_comment_event =
  icAction :: string
  icCommentBody :: string
  icCommentLogin :: string
  icIssueNumber :: int
  icIssuePullRequest :: "string option"
  icRepository :: repo_info

definition zero_issue_comment :: issue_comment_event where
  "zero_issue_comment =
     \<lparr>icAction = [], icCommentBody = [], icCommentLogin = [], icIssueNumber = 0,
      icIssuePullRequest = None, icRepository = zero_repo\<rparr>"

definition dec_issue_comment :: "issue_comment_event decoder" where
  "dec_issue_comment = dec_struct
     [fld ''action'' dec_string icAction (\<lambda>x e. e\<lparr>icAction := x\<rparr>),
      nested ''comment''
        [fld ''body'' dec_string icCommentBody (\<lambda>x e. e\<lparr>icCommentBody := x\<rparr>),
         nested ''user'' [fld ''login'' dec_string icCommentLogin (\<lambda>x e. e\<lparr>icCommentLogin := x\<rparr>)]],
      nested ''issue''
        [fld ''number'' dec_int icIssueNumber (\<lambda>x e. e\<lparr>icIssueNumber := x\<rparr>),
         fld ''pull_request'' (dec_ptr [] (dec_struct [fld ''url'' dec_string id (\<lambda>x _. x)]))
           icIssuePullRequest (\<lambda>x e. e\<lparr>icIssuePullRequest := x\<rparr>)],
      fld ''repository'' dec_repo icRepository (\<lambda>x e. e\<lparr>icRepository := x\<rparr>)]"

record issues_event =
  isAction :: string
  isIssueNumber :: int
  isIssueLabels :: "string list"
  isLabel :: "string option"
  isSenderLogin :: string
  isRepository :: repo_info

definition zero_issues :: issues_event where
  "zero_issues =
     \<lparr>isAction = [], isIssueNumber = 0, isIssueLabels = [], isLabel = None, isSenderLogin = [],
      isRepository = zero_repo\<rparr>"

definition dec_label :: "string decoder" where
  "dec_label = dec_struct [fld ''name'' dec_string id (\<lambda>x _. x)]"

definition dec_issues :: "issues_event decoder" where
  "dec_issues = dec_struct
     [fld ''action'' dec_string isAction (\<lambda>x e. e\<lparr>isAction := x\<rparr>),
      nested ''issue''
        [fld ''number'' dec_int isIssueNumber (\<lambda>x e. e\<lparr>isIssueNumber := x\<rparr>),
         fld ''labels'' (dec_slice [] dec_label) isIssueLabels (\<lambda>x e. e\<lparr>isIssueLabels := x\<rparr>)],
      fld ''label'' (dec_ptr [] dec_label) isLabel (\<lambda>x e. e\<lparr>isLabel := x\<rparr>),
      nested ''sender'' [fld ''login'' dec_string isSenderLogin (\<lambda>x e. e\<lparr>isSenderLogin := x\<rparr>)],
      fld ''repository'' dec_repo isRepository (\<lambda>x e. e\<lparr>isRepository := x\<rparr>)]"

record pr_review_event =
  prAction :: string
  prReviewBody :: string
  prReviewLogin :: string
  prNumber :: int
  prHeadRef :: string
  prRepository :: repo_info

definition zero_pr_review :: pr_review_event where
  "zero_pr_review =
     \<lparr>prAction = [], prReviewBody = [], prReviewLogin = [], prNumber = 0, prHeadRef = [],
      prRepository = zero_repo\<rparr>"

definition dec_pr_review :: "pr_review_event decoder" where
  "dec_pr_review = dec_struct
     [fld ''action'' dec_string prAction (\<lambda>x e. e\<lparr>prAction := x\<rparr>),
      nested ''review''
        [fld ''body'' dec_string prReviewBody (\<lambda>x e. e\<lparr>prReviewBody := x\<rparr>),
         nested ''user'' [fld ''login'' dec_string prReviewLogin (\<lambda>x e. e\<lparr>prReviewLogin := x\<rparr>)]],
      nested ''pull_request''
        [fld ''number'' dec_int prNumber (\<lambda>x e. e\<lparr>prNumber := x\<rparr>),
         nested ''head'' [fld ''ref'' dec_string prHeadRef (\<lambda>x e. e\<lparr>prHeadRef := x\<rparr>)]],
      fld ''repository'' dec_repo prRepository (\<lambda>x e. e\<lparr>prRepository := x\<rparr>)]"

record pr_review_comment_event =
  rcAction :: string
  rcID :: int
  rcBody :: string
  rcPath :: string
  rcLine :: int
  rcDiffHunk :: string
  rcLogin :: string
  rcNumber :: int
  rcHeadRef :: string
  rcRepository :: repo_info

definition zero_pr_review_comment :: pr_review_comment_event where
  "zero_pr_review_comment =
     \<lparr>rcAction = [], rcID = 0, rcBody = [], rcPath = [], rcLine = 0, rcDiffHunk = [], rcLogin = [],
      rcNumber = 0, rcHeadRef = [], rcRepository = zero_repo\<rparr>"

definition dec_pr_review_comment :: "pr_review_comment_event decoder" where
  "dec_pr_review_comment = dec_struct
     [fld ''action'' dec_string rcAction (\<lambda>x e. e\<lparr>rcAction := x\<rparr>),
      nested ''comment''
        [fld ''id'' dec_int rcID (\<lambda>x e. e\<lparr>rcID := x\<rparr>),
         fld ''body'' dec_string rcBody (\<lambda>x e. e\<lparr>rcBody := x\<rparr>),
         fld ''path'' dec_string rcPath (\<lambda>x e. e\<lparr>rcPath := x\<rparr>),
         fld ''line'' dec_int rcLine (\<lambda>x e. e\<lparr>rcLine := x\<rparr>),
         fld ''diff_hunk'' dec_string rcDiffHunk (\<lambda>x e. e\<lparr>rcDiffHunk := x\<rparr>),
         nested ''user'' [fld ''login'' dec_string rcLogin (\<lambda>x e. e\<lparr>rcLogin := x\<rparr>)]],
      nested ''pull_request''
        [fld ''number'' dec_int rcNumber (\<lambda>x e. e\<lparr>rcNumber := x\<rparr>),
         nested ''head'' [fld ''ref'' dec_string rcHeadRef (\<lambda>x e. e\<lparr>rcHeadRef := x\<rparr>)]],
      fld ''repository'' dec_repo rcRepository (\<lambda>x e. e\<lparr>rcRepository := x\<rparr>)]"

subsection \<open>Handlers\<close>

definition handleIssueComment :: "handler \<Rightarrow> string \<Rightarrow> http_response io" where
  "handleIssueComment hn body =
     (case json_unmarshal dec_issue_comment zero_issue_comment body of
        None \<Rightarrow> ret (http_error ''invalid JSON'' StatusBadRequest)
      | Some event \<Rightarrow>
          if icAction event \<noteq> ''created'' then ret (write_header StatusOK)
          else if \<not> HasBotMention (icCommentBody event) (botName hn) then ret (write_header StatusOK)
          else if isBotComment (icCommentLogin event) (botName hn) then ret (write_header StatusOK)
          else
            (let owner = OwnerLogin (icRepository event); repo = RepoName (icRepository event) in do {
               allowed \<leftarrow> IsRepoAllowed (creator hn) owner repo;
               (case allowed of
                  Inl err \<Rightarrow> ret (http_error ''internal error'' StatusInternalServerError)
                | Inr False \<Rightarrow> ret (write_header StatusOK)
                | Inr True \<Rightarrow> do {
                    user_allowed \<leftarrow> IsUserAllowed (creator hn) owner repo (icCommentLogin event);
                    (case user_allowed of
                       Inl err \<Rightarrow> ret (http_error ''internal error'' StatusInternalServerError)
                     | Inr False \<Rightarrow> ret (write_header StatusOK)
                     | Inr True \<Rightarrow> do {
                         resumed \<leftarrow> ResumeClarification (creator hn)
                           (zero_request\<lparr>ReqOwner := owner, ReqRepo := repo,
                              ReqIssue := icIssueNumber event,
                              ClarificationAnswer := icCommentBody event\<rparr>);
                         (if resumed = Inr True then ret (write_header StatusOK)
                          else do {
                            err \<leftarrow> CreateTask (creator hn)
                              (zero_request\<lparr>ReqOwner := owner, ReqRepo := repo,
                                 ReqIssue := icIssueNumber event, ReqTaskType := ''IssueSolve''\<rparr>);
                            ret (case err of
                                   Some e \<Rightarrow> http_error ''failed to create task'' StatusInternalServerError
                                 | None \<Rightarrow> write_header StatusCreated)
                          })
                       })
                  })
             }))"

definition handleIssuesEvent :: "handler \<Rightarrow> string \<Rightarrow> http_response io" where
  "handleIssuesEvent hn body =
     (case json_unmarshal dec_issues zero_issues body of
        None \<Rightarrow> ret (http_error ''invalid JSON'' StatusBadRequest)
      | Some event \<Rightarrow>
          if isAction event \<noteq> ''labeled'' then ret (write_header StatusOK)
          else
            (let owner = OwnerLogin (isRepository event); repo = RepoName (isRepository event) in do {
               allowed \<leftarrow> IsRepoAllowed (creator hn) owner repo;
               (case allowed of
                  Inl err \<Rightarrow> ret (http_error ''internal error'' StatusInternalServerError)
                | Inr False \<Rightarrow> ret (write_header StatusOK)
                | Inr True \<Rightarrow> do {
                    autoLabels \<leftarrow> GetAutoLabels (creator hn) owner repo;
                    (if autoLabels = [] then ret (write_header StatusOK)
                     else
                       (case isLabel event of
                          None \<Rightarrow> ret (write_header StatusOK)
                        | Some label \<Rightarrow>
                            if \<not> list_ex (\<lambda>al. al = label) autoLabels then ret (write_header StatusOK)
                            else do {
                              user_allowed \<leftarrow> IsUserAllowed (creator hn) owner repo (isSenderLogin event);
                              (case user_allowed of
                                 Inl err \<Rightarrow> ret (http_error ''internal error'' StatusInternalServerError)
                               | Inr False \<Rightarrow> ret (write_header StatusOK)
                               | Inr True \<Rightarrow> do {
                                   err \<leftarrow> CreateTask (creator hn)
                                     (zero_request\<lparr>ReqOwner := owner, ReqRepo := repo,
                                        ReqIssue := isIssueNumber event,
                                        ReqTaskType := ''IssueSolve''\<rparr>);
                                   ret (case err of
                                          Some e \<Rightarrow>
                                            http_error ''failed to create task'' StatusInternalServerError
                                        | None \<Rightarrow> write_header StatusCreated)
                                 })
                            }))
                  })
             }))"

definition handlePRReview :: "handler \<Rightarrow> string \<Rightarrow> http_response io" where
  "handlePRReview hn body =
     (case json_unmarshal dec_pr_review zero_pr_review body of
        None \<Rightarrow> ret (http_error ''invalid JSON'' StatusBadRequest)
      | Some event \<Rightarrow>
          if prAction event \<noteq> ''submitted'' then ret (write_header StatusOK)
          else if \<not> HasBotMention (prReviewBody event) (botName hn) then ret (write_header StatusOK)
          else if isBotComment (prReviewLogin event) (botName hn) then ret (write_header StatusOK)
          else
            (let owner = OwnerLogin (prRepository event); repo = RepoName (prRepository event) in do {
               allowed \<leftarrow> IsRepoAllowed (creator hn) owner repo;
               (case allowed of
                  Inl err \<Rightarrow> ret (http_error ''internal error'' StatusInternalServerError)
                | Inr False \<Rightarrow> ret (write_header StatusOK)
                | Inr True \<Rightarrow> do {
                    user_allowed \<leftarrow> IsUserAllowed (creator hn) owner repo (prReviewLogin event);
                    (case user_allowed of
                       Inl err \<Rightarrow> ret (http_error ''internal error'' StatusInternalServerError)
                     | Inr False \<Rightarrow> ret (write_header StatusOK)
                     | Inr True \<Rightarrow> do {
                         resumed \<leftarrow> ResumeClarification (creator hn)
                           (zero_request\<lparr>ReqOwner := owner, ReqRepo := repo,
                              ReqPullRequest := prNumber event,
                              ClarificationAnswer := prReviewBody event\<rparr>);
                         (if resumed = Inr True then ret (write_header StatusOK)
                          else do {
                            err \<leftarrow> CreateTask (creator hn)
                              (zero_request\<lparr>ReqOwner := owner, ReqRepo := repo,
                                 ReqPullRequest := prNumber event, ReqTaskType := ''PRReviewFix'',
                                 ReqBranch := prHeadRef event\<rparr>);
                            ret (case err of
                                   Some e \<Rightarrow> http_error ''failed to create task'' StatusInternalServerError
                                 | None \<Rightarrow> write_header StatusCreated)
                          })
                       })
                  })
             }))"

definition handlePRReviewComment ::
  "(nat \<Rightarrow> bool) \<Rightarrow> handler \<Rightarrow> string \<Rightarrow> http_response io" where
  "handlePRReviewComment printable hn body =
     (case json_unmarshal dec_pr_review_comment zero_pr_review_comment body of
        None \<Rightarrow> ret (http_error ''invalid JSON'' StatusBadRequest)
      | Some event \<Rightarrow>
          if rcAction event \<noteq> ''created'' then ret (write_header StatusOK)
          else if \<not> HasBotMention (rcBody event) (botName hn) then ret (write_header StatusOK)
          else if isBotComment (rcLogin event) (botName hn) then ret (write_header StatusOK)
          else
            (let owner = OwnerLogin (rcRepository event); repo = RepoName (rcRepository event) in do {
               allowed \<leftarrow> IsRepoAllowed (creator hn) owner repo;
               (case allowed of
                  Inl err \<Rightarrow> ret (http_error ''internal error'' StatusInternalServerError)
                | Inr False \<Rightarrow> ret (write_header StatusOK)
                | Inr True \<Rightarrow> do {
                    user_allowed \<leftarrow> IsUserAllowed (creator hn) owner repo (rcLogin event);
                    (case user_allowed of
                       Inl err \<Rightarrow> ret (http_error ''internal error'' StatusInternalServerError)
                     | Inr False \<Rightarrow> ret (write_header StatusOK)
                     | Inr True \<Rightarrow> do {
                         resumed \<leftarrow> ResumeClarification (creator hn)
                           (zero_request\<lparr>ReqOwner := owner, ReqRepo := repo,
                              ReqPullRequest := rcNumber event,
                              ClarificationAnswer := rcBody event\<rparr>);
                         (if resumed = Inr True then ret (write_header StatusOK)
                          else do {
                            err \<leftarrow> CreateTask (creator hn)
                              (zero_request\<lparr>ReqOwner := owner, ReqRepo := repo,
                                 ReqPullRequest := rcNumber event, ReqTaskType := ''PRReviewFix'',
                                 ReqBranch := rcHeadRef event,
                                 ReqPrompt := buildReviewCommentPrompt printable (rcNumber event)
                                   (rcPath event) (rcLine event) (rcDiffHunk event) (rcBody event),
                                 ReqReviewCommentID := rcID event\<rparr>);
                            ret (case err of
                                   Some e \<Rightarrow> http_error ''failed to create task'' StatusInternalServerError
                                 | None \<Rightarrow> write_header StatusCreated)
                          })
                       })
                  })
             }))"

definition ServeHTTP :: "(nat \<Rightarrow> bool) \<Rightarrow> handler \<Rightarrow> http_request \<Rightarrow> http_response io" where
  "ServeHTTP printable hn r =
     (if Method r \<noteq> ''POST'' then ret (http_error ''method not allowed'' StatusMethodNotAllowed)
      else
        (case Body r of
           Inl err \<Rightarrow> ret (http_error ''failed to read body'' StatusBadRequest)
         | Inr body \<Rightarrow>
             if \<not> validateSignature body (Header r ''X-Hub-Signature-256'') (webhookSecret hn)
             then ret (http_error ''invalid signature'' StatusUnauthorized)
             else
               (let event = Header r ''X-GitHub-Event'' in
                if event = ''issues'' then handleIssuesEvent hn body
                else if event = ''issue_comment'' then handleIssueComment hn body
                else if event = ''pull_request_review'' then handlePRReview hn body
                else if event = ''pull_request_review_comment'' then handlePRReviewComment printable hn body
                else ret (write_header StatusOK))))"

subsection \<open>Signatures\<close>

lemma byte_lower: "byte (lower_byte c) = (if 65 \<le> byte c \<and> byte c \<le> 90 then byte c + 32 else byte c)"
proof -
  have "n < 256 \<Longrightarrow> byte (char_of n) = n" for n by (simp add: byte_def)
  then show ?thesis by (simp add: lower_byte_def)
qed

lemma byte_inject: "byte a = byte b \<longleftrightarrow> a = b"
  by (simp add: byte_def)

lemma byte_hex_digit: "d < 16 \<Longrightarrow> byte (hex_digit d) = (if d < 10 then 48 + d else 87 + d)"
proof -
  assume "d < 16"
  moreover have "list_all (\<lambda>d. byte (hex_digit d) = (if d < 10 then 48 + d else 87 + d)) [0..<16]"
    by code_simp
  ultimately show ?thesis by (simp add: list_all_iff)
qed

lemma hex_value_lower: "hex_value (lower_byte c) = hex_value c"
  by (auto simp: hex_value_def byte_lower)

lemma hex_digit_value: "hex_value c = Some d \<Longrightarrow> d < 16 \<and> hex_digit d = lower_byte c"
  by (auto simp: hex_value_def byte_hex_digit byte_lower byte_inject [symmetric] split: if_splits)

lemma hex_decode_lower: "hex_decode (map lower_byte s) = hex_decode s"
  by (induction s rule: hex_decode.induct) (simp_all add: hex_value_lower split: option.splits)

lemma hex_decode_iff: "hex_decode s = Some bs \<longleftrightarrow> map lower_byte s = hex_encode bs"
proof
  show "hex_decode s = Some bs \<Longrightarrow> map lower_byte s = hex_encode bs"
  proof (induction s arbitrary: bs rule: hex_decode.induct)
    case (3 a b s)
    then obtain x y bs' where v: "hex_value a = Some x" "hex_value b = Some y"
      "hex_decode s = Some bs'" "bs = char_of (16 * x + y) # bs'"
      by (auto split: option.splits)
    have "x < 16" "y < 16" using v hex_digit_value by blast+
    then have "byte (char_of (16 * x + y)) = 16 * x + y" by (simp add: byte_def)
    with v "3.IH" \<open>y < 16\<close> show ?case
      by (simp add: hex_encode_def hex_digit_value)
  qed (simp_all add: hex_encode_def)
next
  assume "map lower_byte s = hex_encode bs"
  then show "hex_decode s = Some bs"
    by (metis hex_decode_encode hex_decode_lower)
qed

text \<open>
  C13: With a secret configured a delivery is accepted exactly when its header is the computed
  signature of the body, up to the case of the hexadecimal digits; without a secret every
  delivery is accepted.
\<close>

theorem validateSignature_iff:
  "validateSignature body sig secret \<longleftrightarrow>
     secret = [] \<or>
     (\<exists>x. sig = ''sha256='' @ x \<and> ''sha256='' @ map lower_byte x = computeSignature body secret)"
  by (auto simp: validateSignature_def computeSignature_def signature_prefix_def hex_decode_iff
      split: option.splits elim!: prefixE)
    (metis hex_decode_iff option.discI option.inject)+

text \<open>
  The program's own signature function and its check agree on every body and secret.
\<close>

lemma signature_roundtrip: "validateSignature body (computeSignature body secret) secret"
  by (simp add: validateSignature_def computeSignature_def signature_prefix_def hex_decode_encode)

subsection \<open>The contract between the handler and the task creator\<close>

text \<open>The calls that changed a task: those whose answer was success.\<close>

fun task_effect :: "event \<Rightarrow> bool" where
  "task_effect (TaskCreate t None) = True"
| "task_effect (TaskUpdate t None) = True"
| "task_effect _ = False"

lemma task_effect_iff:
  "task_effect (TaskCreate t r) \<longleftrightarrow> r = None" "task_effect (TaskUpdate t r) \<longleftrightarrow> r = None"
  by (cases r; simp)+

abbreviation task_effects :: "event list \<Rightarrow> event list" where
  "task_effects es \<equiv> filter task_effect es"

text \<open>The owner, the repository and the acting user of a payload, per kind of event.\<close>

definition payload_actor :: "string \<Rightarrow> string \<Rightarrow> (string \<times> string \<times> string) option" where
  "payload_actor event body =
     (let by = (\<lambda>r u. (OwnerLogin r, RepoName r, u)) in
      if event = ''issues'' then
        map_option (\<lambda>e. by (isRepository e) (isSenderLogin e)) (json_unmarshal dec_issues zero_issues body)
      else if event = ''issue_comment'' then
        map_option (\<lambda>e. by (icRepository e) (icCommentLogin e))
          (json_unmarshal dec_issue_comment zero_issue_comment body)
      else if event = ''pull_request_review'' then
        map_option (\<lambda>e. by (prRepository e) (prReviewLogin e))
          (json_unmarshal dec_pr_review zero_pr_review body)
      else if event = ''pull_request_review_comment'' then
        map_option (\<lambda>e. by (rcRepository e) (rcLogin e))
          (json_unmarshal dec_pr_review_comment zero_pr_review_comment body)
      else None)"

text \<open>
  What a delivery does to the tasks. It answers 201 exactly when it created one, for the
  payload's repository; it may instead have resumed one, and then answers 200; it never does
  both. And it did either only after the creator admitted the repository and the user.
\<close>

definition delivery_outcome ::
  "task_creator \<Rightarrow> (task_request \<Rightarrow> claude_task) \<Rightarrow> (task_request \<Rightarrow> claude_task \<Rightarrow> bool) \<Rightarrow>
   string \<Rightarrow> string \<Rightarrow> string \<Rightarrow> http_response \<Rightarrow> event list \<Rightarrow> bool" where
  "delivery_outcome tc made resumes ow rp us resp es \<longleftrightarrow>
     (if StatusCode resp = StatusCreated
      then (\<exists>req. ReqOwner req = ow \<and> ReqRepo req = rp \<and> task_effects es = [TaskCreate (made req) None])
      else task_effects es = [] \<or>
           StatusCode resp = StatusOK \<and>
           (\<exists>req t. ReqOwner req = ow \<and> ReqRepo req = rp \<and> resumes req t
              \<and> task_effects es = [TaskUpdate t None])) \<and>
     (task_effects es \<noteq> [] \<longrightarrow>
        (\<exists>h. fst (run_state (IsRepoAllowed tc ow rp) h) = Inr True) \<and>
        (\<exists>h. fst (run_state (IsUserAllowed tc ow rp us) h) = Inr True))"

lemma outcome_idle:
  "StatusCode resp \<noteq> StatusCreated \<Longrightarrow> task_effects es = [] \<Longrightarrow>
     delivery_outcome tc made resumes ow rp us resp es"
  by (simp add: delivery_outcome_def)

lemma outcome_skip:
  "task_effects es = [] \<Longrightarrow>
     (\<lambda>y e2. delivery_outcome tc made resumes ow rp us y (es @ e2)) =
     delivery_outcome tc made resumes ow rp us"
  by (simp add: delivery_outcome_def fun_eq_iff)

lemma status_simps [simp]:
  "StatusCode (write_header n) = n" "StatusCode (http_error m n) = n"
  by (simp_all add: write_header_def http_error_def)

locale creator_contract =
  fixes tc :: task_creator
    and made :: "task_request \<Rightarrow> claude_task"
    and resumes :: "task_request \<Rightarrow> claude_task \<Rightarrow> bool"
  assumes repo_reads: "emits (\<lambda>e. \<not> task_effect e) (IsRepoAllowed tc ow rp) (\<lambda>_. True)"
    and user_reads: "emits (\<lambda>e. \<not> task_effect e) (IsUserAllowed tc ow rp us) (\<lambda>_. True)"
    and label_reads: "emits (\<lambda>e. \<not> task_effect e) (GetAutoLabels tc ow rp) (\<lambda>_. True)"
    and create_effect:
      "traces (CreateTask tc req)
         (\<lambda>r es. task_effects es = (if r = None then [TaskCreate (made req) None] else []))"
    and resume_effect:
      "traces (ResumeClarification tc req)
         (\<lambda>r es. if r = Inr True then \<exists>t. resumes req t \<and> task_effects es = [TaskUpdate t None]
                 else task_effects es = [])"
begin

lemma repo_answer:
  "traces (IsRepoAllowed tc ow rp)
     (\<lambda>r es. task_effects es = [] \<and> (\<exists>h. fst (run_state (IsRepoAllowed tc ow rp) h) = r))"
  using repo_reads [of ow rp] unfolding emits_def traces_def
  by (metis filter_False list_all_iff)

lemma user_answer:
  "traces (IsUserAllowed tc ow rp us)
     (\<lambda>r es. task_effects es = [] \<and> (\<exists>h. fst (run_state (IsUserAllowed tc ow rp us) h) = r))"
  using user_reads [of ow rp us] unfolding emits_def traces_def
  by (metis filter_False list_all_iff)

lemma label_quiet: "traces (GetAutoLabels tc ow rp) (\<lambda>r es. task_effects es = [])"
  using label_reads [of ow rp] unfolding emits_def traces_def
  by (metis filter_False list_all_iff)

text \<open>Creating a task and answering.\<close>

lemma create_step:
  assumes "ReqOwner req = ow" "ReqRepo req = rp"
    and "fst (run_state (IsRepoAllowed tc ow rp) h1) = Inr True"
    and "fst (run_state (IsUserAllowed tc ow rp us) h2) = Inr True"
  shows "traces (do { err \<leftarrow> CreateTask tc req;
                      ret (case err of Some e \<Rightarrow> http_error m StatusInternalServerError
                                     | None \<Rightarrow> write_header StatusCreated) })
           (delivery_outcome tc made resumes ow rp us)"
  by (rule traces_bind [OF create_effect])
    (use assms in \<open>auto simp: delivery_outcome_def intro!: traces_return split: option.splits if_splits\<close>)

text \<open>Resuming a task, or else creating one.\<close>

lemma resume_or_create_step:
  assumes "ReqOwner req1 = ow" "ReqRepo req1 = rp" "ReqOwner req2 = ow" "ReqRepo req2 = rp"
    and "fst (run_state (IsRepoAllowed tc ow rp) h1) = Inr True"
    and "fst (run_state (IsUserAllowed tc ow rp us) h2) = Inr True"
  shows "traces (do { resumed \<leftarrow> ResumeClarification tc req1;
                      (if resumed = Inr True then ret (write_header StatusOK)
                       else do { err \<leftarrow> CreateTask tc req2;
                                 ret (case err of Some e \<Rightarrow> http_error m StatusInternalServerError
                                                | None \<Rightarrow> write_header StatusCreated) }) })
           (delivery_outcome tc made resumes ow rp us)"
proof (rule traces_bind [OF resume_effect], rule traces_if, goal_cases)
  case (1 r es)
  then show ?case using assms by (auto simp: delivery_outcome_def intro!: traces_return)
next
  case (2 r es)
  then have "task_effects es = []" by simp
  then show ?case using create_step [OF assms(3-6)] by (simp add: outcome_skip)
qed

text \<open>Asking for the repository, then for the user.\<close>

lemma repo_gate:
  assumes "\<And>h. fst (run_state (IsRepoAllowed tc ow rp) h) = Inr True \<Longrightarrow>
             traces k (delivery_outcome tc made resumes ow rp us)"
  shows "traces (do { allowed \<leftarrow> IsRepoAllowed tc ow rp;
                      (case allowed of
                         Inl err \<Rightarrow> ret (http_error m StatusInternalServerError)
                       | Inr False \<Rightarrow> ret (write_header StatusOK)
                       | Inr True \<Rightarrow> k) })
           (delivery_outcome tc made resumes ow rp us)"
proof (rule traces_bind [OF repo_answer], goal_cases)
  case (1 r es)
  then show ?case
    using assms
    by (auto simp: outcome_skip split: sum.splits bool.splits intro!: traces_return outcome_idle)
qed

lemma user_gate:
  assumes "\<And>h. fst (run_state (IsUserAllowed tc ow rp us) h) = Inr True \<Longrightarrow>
             traces k (delivery_outcome tc made resumes ow rp us)"
  shows "traces (do { allowed \<leftarrow> IsUserAllowed tc ow rp us;
                      (case allowed of
                         Inl err \<Rightarrow> ret (http_error m StatusInternalServerError)
                       | Inr False \<Rightarrow> ret (write_header StatusOK)
                       | Inr True \<Rightarrow> k) })
           (delivery_outcome tc made resumes ow rp us)"
proof (rule traces_bind [OF user_answer], goal_cases)
  case (1 r es)
  then show ?case
    using assms
    by (auto simp: outcome_skip split: sum.splits bool.splits intro!: traces_return outcome_idle)
qed

text \<open>The four handlers.\<close>

lemma handleIssueComment_outcome:
  assumes "creator hn = tc"
  shows "traces (handleIssueComment hn body)
           (\<lambda>resp es. case payload_actor ''issue_comment'' body of
              None \<Rightarrow> task_effects es = [] \<and> StatusCode resp \<noteq> StatusCreated
            | Some (ow, rp, us) \<Rightarrow> delivery_outcome tc made resumes ow rp us resp es)"
  unfolding handleIssueComment_def payload_actor_def Let_def assms
  by (auto intro!: traces_return traces_if outcome_idle repo_gate user_gate resume_or_create_step
      split: option.split)

lemma handlePRReview_outcome:
  assumes "creator hn = tc"
  shows "traces (handlePRReview hn body)
           (\<lambda>resp es. case payload_actor ''pull_request_review'' body of
              None \<Rightarrow> task_effects es = [] \<and> StatusCode resp \<noteq> StatusCreated
            | Some (ow, rp, us) \<Rightarrow> delivery_outcome tc made resumes ow rp us resp es)"
  unfolding handlePRReview_def payload_actor_def Let_def assms
  by (auto intro!: traces_return traces_if outcome_idle repo_gate user_gate resume_or_create_step
      split: option.split)

lemma handlePRReviewComment_outcome:
  assumes "creator hn = tc"
  shows "traces (handlePRReviewComment pt hn body)
           (\<lambda>resp es. case payload_actor ''pull_request_review_comment'' body of
              None \<Rightarrow> task_effects es = [] \<and> StatusCode resp \<noteq> StatusCreated
            | Some (ow, rp, us) \<Rightarrow> delivery_outcome tc made resumes ow rp us resp es)"
  unfolding handlePRReviewComment_def payload_actor_def Let_def assms
  by (auto intro!: traces_return traces_if outcome_idle repo_gate user_gate resume_or_create_step
      split: option.split)

lemma handleIssuesEvent_outcome:
  assumes "creator hn = tc"
  shows "traces (handleIssuesEvent hn body)
           (\<lambda>resp es. case payload_actor ''issues'' body of
              None \<Rightarrow> task_effects es = [] \<and> StatusCode resp \<noteq> StatusCreated
            | Some (ow, rp, us) \<Rightarrow> delivery_outcome tc made resumes ow rp us resp es)"
proof -
  have labels: "(\<And>ls. traces (k ls) (delivery_outcome tc made resumes ow rp us)) \<Longrightarrow>
      traces (State_Monad.bind (GetAutoLabels tc ow rp) k) (delivery_outcome tc made resumes ow rp us)"
    for k ow rp us
    by (rule traces_bind [OF label_quiet]) (simp add: outcome_skip)
  show ?thesis
    unfolding handleIssuesEvent_def payload_actor_def Let_def assms
    by (auto intro!: traces_return traces_if outcome_idle repo_gate user_gate create_step labels
        split: option.split)
qed

text \<open>The whole handler.\<close>

lemma ServeHTTP_outcome:
  assumes "creator hn = tc"
  shows "traces (ServeHTTP pt hn r)
           (\<lambda>resp es.
              task_effects es = [] \<and> StatusCode resp \<noteq> StatusCreated \<or>
              (\<exists>body ow rp us. Method r = ''POST'' \<and> Body r = Inr body
                 \<and> validateSignature body (Header r ''X-Hub-Signature-256'') (webhookSecret hn)
                 \<and> payload_actor (Header r ''X-GitHub-Event'') body = Some (ow, rp, us)
                 \<and> delivery_outcome tc made resumes ow rp us resp es))"
proof -
  have route: "traces m (\<lambda>resp es. case pa of
          None \<Rightarrow> task_effects es = [] \<and> StatusCode resp \<noteq> StatusCreated
        | Some (ow, rp, us) \<Rightarrow> delivery_outcome tc made resumes ow rp us resp es) \<Longrightarrow>
      traces m (\<lambda>resp es. task_effects es = [] \<and> StatusCode resp \<noteq> StatusCreated \<or>
        (\<exists>ow rp us. pa = Some (ow, rp, us) \<and> delivery_outcome tc made resumes ow rp us resp es))"
    for m pa
    by (erule traces_weaken) (auto split: option.splits)
  show ?thesis
    unfolding ServeHTTP_def Let_def
    using route [OF handleIssueComment_outcome [OF assms]] route [OF handlePRReview_outcome [OF assms]]
      route [OF handlePRReviewComment_outcome [OF assms]] route [OF handleIssuesEvent_outcome [OF assms]]
    by (auto intro!: traces_return split: sum.split)
qed

end

end
