(* ===== verification/Allowlist_Cache.thy ===== *)
theory Allowlist_Cache
  imports Api_Types
begin

section \<open>The cache of allowed repositories (\<open>internal/controller/allowlist_cache.go\<close>)\<close>

text \<open>
  The cache maps full names to resources, full names to compiled patterns and full names to
  per-repository clients. Its mutex makes every operation atomic, so an operation is a
  function of the cache. Go's \<open>range\<close> visits a map's keys in an order of its own choosing, a
  new one at every loop: the operations that loop over the patterns take that order as an
  argument. Deep copies are the identity on values,
  and theory \<open>Cache_Memory\<close> shows that this is all the cache needs of them. \<open>compile\<close> stands for \<open>regexp.Compile\<close>
  followed by \<open>MatchString\<close>: \<open>None\<close> for a pattern that does not compile, else the predicate
  of the strings it matches; no theorem assumes anything of it.
\<close>

type_synonym regex_compiler = "string \<Rightarrow> (string \<Rightarrow> bool) option"

record pattern_entry =
  re :: "string \<Rightarrow> bool"
  entry_repo :: claude_repository

record 'c allowlist_cache =
  exact :: "string \<rightharpoonup> claude_repository"
  patterns :: "string \<rightharpoonup> pattern_entry"
  clients :: "string \<rightharpoonup> 'c"
  globalAllowedUsers :: "string list"
  globalAllowedRoles :: "string list"

subsection \<open>Operations\<close>

definition NewAllowlistCache :: "'c allowlist_cache" where
  "NewAllowlistCache =
     \<lparr>exact = Map.empty, patterns = Map.empty, clients = Map.empty,
      globalAllowedUsers = [], globalAllowedRoles = []\<rparr>"

definition anchored :: "string \<Rightarrow> string" where
  "anchored p = ''^'' @ p @ ''$''"

definition AllowlistCache_Set ::
  "regex_compiler \<Rightarrow> string \<Rightarrow> claude_repository \<Rightarrow> 'c allowlist_cache \<Rightarrow> 'c allowlist_cache" where
  "AllowlistCache_Set compile fullName repo c =
     (if IsPattern repo then
        (case compile (anchored (RepositoryPattern (RSpec repo))) of
           None \<Rightarrow> c\<lparr>exact := (exact c)(fullName \<mapsto> repo)\<rparr>
         | Some m \<Rightarrow> c\<lparr>patterns := (patterns c)(fullName \<mapsto> \<lparr>re = m, entry_repo = repo\<rparr>)\<rparr>)
      else c\<lparr>exact := (exact c)(fullName \<mapsto> repo)\<rparr>)"

definition AllowlistCache_Delete :: "string \<Rightarrow> 'c allowlist_cache \<Rightarrow> 'c allowlist_cache" where
  "AllowlistCache_Delete fullName c =
     c\<lparr>exact := (exact c)(fullName := None), patterns := (patterns c)(fullName := None)\<rparr>"

text \<open>The entries a loop over the patterns visits, given the order of the keys.\<close>

definition range_patterns :: "string list \<Rightarrow> 'c allowlist_cache \<Rightarrow> pattern_entry list" where
  "range_patterns ord c = List.map_filter (patterns c) ord"

definition AllowlistCache_IsAllowed :: "string list \<Rightarrow> 'c allowlist_cache \<Rightarrow> string \<Rightarrow> bool" where
  "AllowlistCache_IsAllowed ord c fullName =
     (if exact c fullName \<noteq> None then True
      else list_ex (\<lambda>e. re e fullName) (range_patterns ord c))"

definition AllowlistCache_Get ::
  "string list \<Rightarrow> 'c allowlist_cache \<Rightarrow> string \<Rightarrow> claude_repository option" where
  "AllowlistCache_Get ord c fullName =
     (case exact c fullName of
        Some repo \<Rightarrow> Some repo
      | None \<Rightarrow>
          map_option entry_repo (find (\<lambda>e. re e fullName) (range_patterns ord c)))"

definition AllowlistCache_SetGlobalAllowlist ::
  "string list \<Rightarrow> string list \<Rightarrow> 'c allowlist_cache \<Rightarrow> 'c allowlist_cache" where
  "AllowlistCache_SetGlobalAllowlist users roles c =
     c\<lparr>globalAllowedUsers := users, globalAllowedRoles := roles\<rparr>"

definition AllowlistCache_SetClient ::
  "string \<Rightarrow> 'c \<Rightarrow> 'c allowlist_cache \<Rightarrow> 'c allowlist_cache" where
  "AllowlistCache_SetClient fullName cl c = c\<lparr>clients := (clients c)(fullName \<mapsto> cl)\<rparr>"

definition AllowlistCache_GetClient :: "'c allowlist_cache \<Rightarrow> string \<Rightarrow> 'c option" where
  "AllowlistCache_GetClient c fullName = clients c fullName"

definition AllowlistCache_DeleteClient :: "string \<Rightarrow> 'c allowlist_cache \<Rightarrow> 'c allowlist_cache" where
  "AllowlistCache_DeleteClient fullName c = c\<lparr>clients := (clients c)(fullName := None)\<rparr>"

definition AllowlistCache_GetMergedAllowlist ::
  "string list \<Rightarrow> 'c allowlist_cache \<Rightarrow> string \<Rightarrow> string list \<times> string list" where
  "AllowlistCache_GetMergedAllowlist ord c fullName =
     (let users = globalAllowedUsers c; roles = globalAllowedRoles c in
      case exact c fullName of
        Some repo \<Rightarrow> (users @ AllowedUsers (RSpec repo), roles @ AllowedRoles (RSpec repo))
      | None \<Rightarrow>
          (case find (\<lambda>e. re e fullName) (range_patterns ord c) of
             Some e \<Rightarrow> (users @ AllowedUsers (RSpec (entry_repo e)),
                        roles @ AllowedRoles (RSpec (entry_repo e)))
           | None \<Rightarrow> (users, roles)))"

lemmas cache_update_defs =
  AllowlistCache_Set_def AllowlistCache_Delete_def AllowlistCache_SetGlobalAllowlist_def
  AllowlistCache_SetClient_def AllowlistCache_DeleteClient_def

subsection \<open>Iteration orders\<close>

definition iteration_order :: "('k \<rightharpoonup> 'v) \<Rightarrow> 'k list \<Rightarrow> bool" where
  "iteration_order m ord \<longleftrightarrow> distinct ord \<and> set ord = dom m"

lemma set_range_patterns:
  "iteration_order (patterns c) ord \<Longrightarrow> set (range_patterns ord c) = ran (patterns c)"
  by (auto simp: range_patterns_def iteration_order_def set_map_filter ran_def)

lemma iteration_order_exists: "finite (dom m) \<Longrightarrow> \<exists>ord. iteration_order m ord"
  by (metis finite_distinct_list iteration_order_def)

subsection \<open>The abstract registry\<close>

text \<open>
  What the cache stands for: a set of entries, each a key with the resource registered under
  it, in one of two kinds (a resource whose pattern compiles, or any other). An entry of the
  first kind admits the names its pattern matches, one of the second kind its key.
\<close>

definition is_regex :: "regex_compiler \<Rightarrow> claude_repository \<Rightarrow> bool" where
  "is_regex compile r \<longleftrightarrow> IsPattern r \<and> compile (anchored (RepositoryPattern (RSpec r))) \<noteq> None"

definition accepts :: "regex_compiler \<Rightarrow> string \<Rightarrow> claude_repository \<Rightarrow> string \<Rightarrow> bool" where
  "accepts compile k r n \<longleftrightarrow>
     (if is_regex compile r then the (compile (anchored (RepositoryPattern (RSpec r)))) n else n = k)"

definition entries :: "'c allowlist_cache \<Rightarrow> (string \<times> claude_repository) set" where
  "entries c =
     {(k, r). exact c k = Some r} \<union> {(k, entry_repo e) | k e. patterns c k = Some e}"

definition cache_wf :: "regex_compiler \<Rightarrow> 'c allowlist_cache \<Rightarrow> bool" where
  "cache_wf compile c \<longleftrightarrow>
     (\<forall>k r. exact c k = Some r \<longrightarrow> \<not> is_regex compile r) \<and>
     (\<forall>k e. patterns c k = Some e \<longrightarrow>
        IsPattern (entry_repo e) \<and>
        compile (anchored (RepositoryPattern (RSpec (entry_repo e)))) = Some (re e))"

lemma in_entries:
  "(k, r) \<in> entries c \<longleftrightarrow> exact c k = Some r \<or> (\<exists>e. patterns c k = Some e \<and> r = entry_repo e)"
  by (auto simp: entries_def)

lemma cache_wf_New: "cache_wf compile NewAllowlistCache"
  by (simp add: cache_wf_def NewAllowlistCache_def)

lemma cache_wf_Set: "cache_wf compile c \<Longrightarrow> cache_wf compile (AllowlistCache_Set compile n r c)"
  by (auto simp: cache_wf_def AllowlistCache_Set_def is_regex_def split: option.splits)

lemma cache_wf_Delete: "cache_wf compile c \<Longrightarrow> cache_wf compile (AllowlistCache_Delete n c)"
  by (auto simp: cache_wf_def AllowlistCache_Delete_def)

lemma cache_wf_clients [simp]:
  "cache_wf compile (AllowlistCache_SetClient n cl c) = cache_wf compile c"
  "cache_wf compile (AllowlistCache_DeleteClient n c) = cache_wf compile c"
  "cache_wf compile (AllowlistCache_SetGlobalAllowlist us rs c) = cache_wf compile c"
  by (simp_all add: cache_wf_def cache_update_defs)

lemma entries_New [simp]: "entries NewAllowlistCache = {}"
  by (simp add: entries_def NewAllowlistCache_def)

lemma entries_clients [simp]:
  "entries (AllowlistCache_SetClient n cl c) = entries c"
  "entries (AllowlistCache_DeleteClient n c) = entries c"
  "entries (AllowlistCache_SetGlobalAllowlist us rs c) = entries c"
  by (simp_all add: entries_def cache_update_defs)

lemma entries_Delete: "entries (AllowlistCache_Delete n c) = {(k, r) \<in> entries c. k \<noteq> n}"
  by (auto simp: entries_def AllowlistCache_Delete_def split: if_splits)

lemma entries_Set:
  assumes "cache_wf compile c"
  shows "entries (AllowlistCache_Set compile n r c) =
           insert (n, r) {(k, r') \<in> entries c. k \<noteq> n \<or> is_regex compile r' \<noteq> is_regex compile r}"
proof (cases "is_regex compile r")
  case True
  then obtain m where m: "IsPattern r" "compile (anchored (RepositoryPattern (RSpec r))) = Some m"
    by (auto simp: is_regex_def)
  from assms m True show ?thesis
    by (fastforce simp: entries_def AllowlistCache_Set_def cache_wf_def is_regex_def split: if_splits)
next
  case False
  then have "AllowlistCache_Set compile n r c = c\<lparr>exact := (exact c)(n \<mapsto> r)\<rparr>"
    by (auto simp: AllowlistCache_Set_def is_regex_def split: option.splits)
  with assms False show ?thesis
    by (fastforce simp: entries_def cache_wf_def is_regex_def split: if_splits)
qed

lemma accepts_exact: "cache_wf compile c \<Longrightarrow> exact c k = Some r \<Longrightarrow> accepts compile k r n \<longleftrightarrow> n = k"
  by (simp add: cache_wf_def accepts_def)

lemma accepts_pattern:
  "cache_wf compile c \<Longrightarrow> patterns c k = Some e \<Longrightarrow> accepts compile k (entry_repo e) n \<longleftrightarrow> re e n"
  by (simp add: cache_wf_def accepts_def is_regex_def)

lemma IsAllowed_entries:
  assumes "cache_wf compile c" and "iteration_order (patterns c) ord"
  shows "AllowlistCache_IsAllowed ord c n \<longleftrightarrow> (\<exists>(k, r) \<in> entries c. accepts compile k r n)"
proof -
  have "AllowlistCache_IsAllowed ord c n \<longleftrightarrow>
          exact c n \<noteq> None \<or> (\<exists>k e. patterns c k = Some e \<and> re e n)"
    using set_range_patterns [OF assms(2)]
    by (auto simp: AllowlistCache_IsAllowed_def list_ex_iff ran_def)
  also have "\<dots> \<longleftrightarrow> (\<exists>k r. (k, r) \<in> entries c \<and> accepts compile k r n)"
  proof
    assume "exact c n \<noteq> None \<or> (\<exists>k e. patterns c k = Some e \<and> re e n)"
    then consider r where "exact c n = Some r" | k e where "patterns c k = Some e" "re e n"
      by auto
    then show "\<exists>k r. (k, r) \<in> entries c \<and> accepts compile k r n"
    proof cases
      case 1
      then have "(n, r) \<in> entries c \<and> accepts compile n r n"
        using assms(1) by (simp add: in_entries accepts_exact)
      then show ?thesis by blast
    next
      case 2
      then have "(k, entry_repo e) \<in> entries c \<and> accepts compile k (entry_repo e) n"
        using assms(1) by (auto simp: in_entries accepts_pattern)
      then show ?thesis by blast
    qed
  next
    assume "\<exists>k r. (k, r) \<in> entries c \<and> accepts compile k r n"
    then obtain k r where kr: "(k, r) \<in> entries c" "accepts compile k r n" by blast
    from kr(1) consider "exact c k = Some r" | e where "patterns c k = Some e" "r = entry_repo e"
      by (auto simp: in_entries)
    then show "exact c n \<noteq> None \<or> (\<exists>k e. patterns c k = Some e \<and> re e n)"
      using kr(2) accepts_exact [OF assms(1)] accepts_pattern [OF assms(1)] by cases auto
  qed
  also have "\<dots> \<longleftrightarrow> (\<exists>(k, r) \<in> entries c. accepts compile k r n)" by auto
  finally show ?thesis .
qed

subsection \<open>The interface to the reconciler and the webhook\<close>

text \<open>
  The repository reconciler registers and removes resources, the webhook asks which names are
  admitted. The contract between them: every operation keeps the invariant and acts on the set
  of entries as the abstract operation does.
\<close>

datatype registry_action = Register string claude_repository | Unregister string

fun abstract_action ::
  "(claude_repository \<Rightarrow> bool) \<Rightarrow> registry_action \<Rightarrow>
   (string \<times> claude_repository) set \<Rightarrow> (string \<times> claude_repository) set" where
  "abstract_action kind (Register n r) E =
     insert (n, r) {(k, r') \<in> E. k \<noteq> n \<or> kind r' \<noteq> kind r}"
| "abstract_action kind (Unregister n) E = {(k, r) \<in> E. k \<noteq> n}"

fun concrete_action ::
  "(string \<Rightarrow> claude_repository \<Rightarrow> 's \<Rightarrow> 's) \<Rightarrow> (string \<Rightarrow> 's \<Rightarrow> 's) \<Rightarrow> registry_action \<Rightarrow> 's \<Rightarrow> 's" where
  "concrete_action put del (Register n r) s = put n r s"
| "concrete_action put del (Unregister n) s = del n s"

text \<open>The actions that can remove the entry \<open>(k, r)\<close>.\<close>

fun may_remove :: "(claude_repository \<Rightarrow> bool) \<Rightarrow> string \<Rightarrow> claude_repository \<Rightarrow> registry_action \<Rightarrow> bool" where
  "may_remove kind k r (Register n r') = (n = k \<and> kind r' = kind r)"
| "may_remove kind k r (Unregister n) = (n = k)"

locale repo_registry =
  fixes put :: "string \<Rightarrow> claude_repository \<Rightarrow> 's \<Rightarrow> 's"
    and del :: "string \<Rightarrow> 's \<Rightarrow> 's"
    and elems :: "'s \<Rightarrow> (string \<times> claude_repository) set"
    and kind :: "claude_repository \<Rightarrow> bool"
    and ok :: "'s \<Rightarrow> bool"
  assumes ok_put: "ok s \<Longrightarrow> ok (put n r s)"
    and ok_del: "ok s \<Longrightarrow> ok (del n s)"
    and elems_put: "ok s \<Longrightarrow> elems (put n r s) = abstract_action kind (Register n r) (elems s)"
    and elems_del: "ok s \<Longrightarrow> elems (del n s) = abstract_action kind (Unregister n) (elems s)"
begin

lemma action_refines:
  "ok s \<Longrightarrow> ok (concrete_action put del a s) \<and>
     elems (concrete_action put del a s) = abstract_action kind a (elems s)"
  by (cases a) (simp_all add: ok_put ok_del elems_put elems_del del: abstract_action.simps)

lemma actions_refine:
  "ok s \<Longrightarrow> ok (fold (concrete_action put del) as s) \<and>
     elems (fold (concrete_action put del) as s) = fold (abstract_action kind) as (elems s)"
  by (induction as arbitrary: s) (simp_all add: action_refines)

lemma entry_stays:
  "ok s \<Longrightarrow> (k, r) \<in> elems s \<Longrightarrow> list_all (\<lambda>a. \<not> may_remove kind k r a) as \<Longrightarrow>
     (k, r) \<in> elems (fold (concrete_action put del) as s)"
proof (induction as arbitrary: s)
  case Nil
  then show ?case by simp
next
  case (Cons a as)
  from Cons.prems have "(k, r) \<in> abstract_action kind a (elems s)" by (cases a) auto
  with Cons show ?case by (simp add: action_refines)
qed

lemma unregister_last:
  "ok s \<Longrightarrow> (k, r) \<notin> elems (fold (concrete_action put del) (as @ [Unregister k]) s)"
  using actions_refine [of s as] by (simp add: elems_del)

end

interpretation cache: repo_registry
  "AllowlistCache_Set compile" AllowlistCache_Delete entries "is_regex compile" "cache_wf compile"
  for compile
  by unfold_locales
    (simp_all add: cache_wf_Set cache_wf_Delete entries_Set entries_Delete)

end
