(* ===== verification/Github_Interface.thy ===== *)
theory Github_Interface
  imports Effects
begin

section \<open>The interface \<open>GitHubClient\<close> (\<open>internal/github/interface.go\<close>)\<close>

text \<open>
  A client is a record of its ten operations. A Go result \<open>(T, error)\<close> is a sum with the
  error on the left, a result \<open>error\<close> an option. The two operations that page through
  comments until GitHub stops offering a next page may never return: their result is
  \<open>None\<close> then. A nil interface value is \<open>None\<close> of \<open>github_client option\<close>.
\<close>

record github_client =
  GetCloneToken :: "(go_error + string) io"
  CommentOnIssue :: "string \<Rightarrow> string \<Rightarrow> int \<Rightarrow> string \<Rightarrow> go_error option io"
  ReplyToReviewComment :: "string \<Rightarrow> string \<Rightarrow> int \<Rightarrow> int \<Rightarrow> string \<Rightarrow> go_error option io"
  FetchIssueThread :: "string \<Rightarrow> string \<Rightarrow> int \<Rightarrow> (go_error + string) option io"
  FetchPRContext :: "string \<Rightarrow> string \<Rightarrow> int \<Rightarrow> (go_error + string) io"
  FetchReviewCommentThread :: "string \<Rightarrow> string \<Rightarrow> int \<Rightarrow> int \<Rightarrow> (go_error + string) option io"
  CreateRepoWebhook :: "string \<Rightarrow> string \<Rightarrow> string \<Rightarrow> string \<Rightarrow> (go_error + int) io"
  DeleteRepoWebhook :: "string \<Rightarrow> string \<Rightarrow> int \<Rightarrow> go_error option io"
  GetUserRepoPermission :: "string \<Rightarrow> string \<Rightarrow> string \<Rightarrow> (go_error + string) io"
  BotName :: string

text \<open>
  What the rest of the program relies on: an operation of a client talks to GitHub and to
  nothing else. The two implementations are shown to satisfy it where they are defined.
\<close>

locale github_ops =
  fixes c :: github_client
  assumes GetCloneToken_gh: "emits gh_event (GetCloneToken c) (\<lambda>_. True)"
    and CommentOnIssue_gh: "emits gh_event (CommentOnIssue c ow re n b) (\<lambda>_. True)"
    and ReplyToReviewComment_gh: "emits gh_event (ReplyToReviewComment c ow re n i b) (\<lambda>_. True)"
    and FetchIssueThread_gh: "emits gh_event (FetchIssueThread c ow re n) (\<lambda>_. True)"
    and FetchPRContext_gh: "emits gh_event (FetchPRContext c ow re n) (\<lambda>_. True)"
    and FetchReviewCommentThread_gh:
      "emits gh_event (FetchReviewCommentThread c ow re n i) (\<lambda>_. True)"
    and CreateRepoWebhook_gh: "emits gh_event (CreateRepoWebhook c ow re u s) (\<lambda>_. True)"
    and DeleteRepoWebhook_gh: "emits gh_event (DeleteRepoWebhook c ow re i) (\<lambda>_. True)"
    and GetUserRepoPermission_gh: "emits gh_event (GetUserRepoPermission c ow re u) (\<lambda>_. True)"

end
