(* ===== verification/Github_Client.thy ===== *)
theory Github_Client
  imports Github_Interface
begin

section \<open>The two GitHub clients (\<open>internal/github/client.go\<close>, \<open>pat_client.go\<close>)\<close>

text \<open>
  GitHub is a record of oracles, one for each request of the go-github library that is used;
  the accessors of that library turn an absent field into the empty string or 0, so an answer
  holds plain values. The two clients differ in how a request is authenticated and in where
  the clone token comes from. The code of the operations is the same in both files; it is
  written once here, with the authentication and the bot's name as arguments, and each client
  is the record of its ten operations.
\<close>

subsection \<open>GitHub's answers\<close>

text \<open>A comment: its author, the calendar date of its creation, its text.\<close>

record gh_comment =
  CommentLogin :: string
  CommentDate :: "int \<times> nat \<times> nat"
  CommentBody :: string

record gh_review_comment =
  ReviewID :: int
  InReplyTo :: int
  ReviewPath :: string
  DiffHunk :: string
  ReviewLogin :: string
  ReviewDate :: "int \<times> nat \<times> nat"
  ReviewBody :: string

record github_api =
  ask_token :: "hist \<Rightarrow> gh_auth \<Rightarrow> go_error + string"
  ask_hook_config :: "hist \<Rightarrow> gh_auth \<Rightarrow> string \<Rightarrow> string \<Rightarrow> go_error option"
  ask_issue :: "hist \<Rightarrow> gh_auth \<Rightarrow> string \<Rightarrow> string \<Rightarrow> int \<Rightarrow> go_error + (string \<times> string)"
  ask_issue_comments ::
    "hist \<Rightarrow> gh_auth \<Rightarrow> string \<Rightarrow> string \<Rightarrow> int \<Rightarrow> int \<Rightarrow> go_error + (gh_comment list \<times> int)"
  ask_comment :: "hist \<Rightarrow> gh_auth \<Rightarrow> string \<Rightarrow> string \<Rightarrow> int \<Rightarrow> string \<Rightarrow> go_error option"
  ask_pull :: "hist \<Rightarrow> gh_auth \<Rightarrow> string \<Rightarrow> string \<Rightarrow> int \<Rightarrow> go_error + (string \<times> string)"
  ask_review_comment ::
    "hist \<Rightarrow> gh_auth \<Rightarrow> string \<Rightarrow> string \<Rightarrow> int \<Rightarrow> go_error + gh_review_comment"
  ask_review_comments ::
    "hist \<Rightarrow> gh_auth \<Rightarrow> string \<Rightarrow> string \<Rightarrow> int \<Rightarrow> int \<Rightarrow> go_error + (gh_review_comment list \<times> int)"
  ask_reply :: "hist \<Rightarrow> gh_auth \<Rightarrow> string \<Rightarrow> string \<Rightarrow> int \<Rightarrow> int \<Rightarrow> string \<Rightarrow> go_error option"
  ask_hook_create :: "hist \<Rightarrow> gh_auth \<Rightarrow> string \<Rightarrow> string \<Rightarrow> string \<Rightarrow> string \<Rightarrow> go_error + int"
  ask_hook_delete :: "hist \<Rightarrow> gh_auth \<Rightarrow> string \<Rightarrow> string \<Rightarrow> int \<Rightarrow> go_error option"
  ask_permission :: "hist \<Rightarrow> gh_auth \<Rightarrow> string \<Rightarrow> string \<Rightarrow> string \<Rightarrow> go_error + string"
  NewAppsTransport_error :: "int \<Rightarrow> string \<Rightarrow> go_error option"
  NewInstallation_error :: "int \<Rightarrow> int \<Rightarrow> string \<Rightarrow> go_error option"

subsection \<open>Formatting\<close>

definition maxThreadChars :: nat where
  "maxThreadChars = 50000"

definition maxCommentsPerThread :: nat where
  "maxCommentsPerThread = 50"

definition truncateThread :: "string \<Rightarrow> string" where
  "truncateThread s =
     (if length s \<le> maxThreadChars then s
      else take maxThreadChars s @ nl @ nl @ ''... (thread truncated)'')"

definition isBotUser :: "string \<Rightarrow> string \<Rightarrow> bool" where
  "isBotUser bname login = (login = bname \<or> login = bname @ ''[bot]'')"

text \<open>\<open>Format("2006-01-02")\<close>\<close>

definition pad_zeros :: "nat \<Rightarrow> string \<Rightarrow> string" where
  "pad_zeros n s = replicate (n - length s) (CHR ''0'') @ s"

definition format_date :: "int \<times> nat \<times> nat \<Rightarrow> string" where
  "format_date d =
     (case d of (y, m, dd) \<Rightarrow>
        (if y < 0 then ''-'' else []) @ pad_zeros 4 (show_nat (nat \<bar>y\<bar>)) @ ''-''
        @ pad_zeros 2 (show_nat m) @ ''-'' @ pad_zeros 2 (show_nat dd))"

definition comment_entry :: "string \<Rightarrow> int \<times> nat \<times> nat \<Rightarrow> string \<Rightarrow> string" where
  "comment_entry login date body =
     ''**@'' @ login @ ''** ('' @ format_date date @ ''):'' @ nl @ body @ nl @ nl"

definition thread_head :: "string \<Rightarrow> int \<Rightarrow> string \<Rightarrow> string \<Rightarrow> string" where
  "thread_head kind number title body =
     ''## '' @ kind @ '' #'' @ show_int number @ '': '' @ title @ nl @ nl
     @ (if body \<noteq> [] then body @ nl @ nl else [])"

text \<open>The loop that formats the comments; the flag is \<open>hasComments\<close>.\<close>

fun format_comments :: "string \<Rightarrow> bool \<Rightarrow> gh_comment list \<Rightarrow> string" where
  "format_comments bname has [] = []"
| "format_comments bname has (c # cs) =
     (if isBotUser bname (CommentLogin c) then format_comments bname has cs
      else (if has then [] else ''### Comments'' @ nl @ nl)
           @ comment_entry (CommentLogin c) (CommentDate c) (CommentBody c)
           @ format_comments bname True cs)"

definition format_review_thread :: "string \<Rightarrow> gh_review_comment list \<Rightarrow> string" where
  "format_review_thread bname cs =
     ''### Review Thread'' @ nl @ nl
     @ (case cs of
          [] \<Rightarrow> []
        | rootID # _ \<Rightarrow>
            (if ReviewPath rootID \<noteq> [] then ''**File:** '' @ tick @ ReviewPath rootID @ tick @ nl else [])
            @ (if DiffHunk rootID \<noteq> []
               then tick @ tick @ tick @ ''diff'' @ nl @ DiffHunk rootID @ nl @ tick @ tick @ tick @ nl @ nl
               else []))
     @ concat (map (\<lambda>c. if isBotUser bname (ReviewLogin c) then []
                        else comment_entry (ReviewLogin c) (ReviewDate c) (ReviewBody c)) cs)"

definition slug :: "string \<Rightarrow> string \<Rightarrow> int \<Rightarrow> string" where
  "slug ow rp n = ow @ ''/'' @ rp @ ''#'' @ show_int n"

subsection \<open>Paging\<close>

text \<open>
  The loops that collect the pages. The first stops early once enough comments are there; both
  go on as long as GitHub names a next page, so they may not end: the result is then None.
\<close>

partial_function (option) issue_pages ::
  "github_api \<Rightarrow> gh_auth \<Rightarrow> string \<Rightarrow> string \<Rightarrow> int \<Rightarrow> int \<Rightarrow> gh_comment list \<Rightarrow> hist
     \<Rightarrow> ((go_error + gh_comment list) \<times> hist) option" where
  "issue_pages g a ow rp n page got h =
     (let h' = h @ [GhIssueComments a ow rp n page] in
      case ask_issue_comments g h a ow rp n page of
        Inl err \<Rightarrow>
          Some (Inl (wrap_error (''fetching comments for issue #'' @ show_int n) err), h')
      | Inr (comments, next) \<Rightarrow>
          (let got' = got @ comments in
           if next = 0 \<or> maxCommentsPerThread \<le> length got' then Some (Inr got', h')
           else issue_pages g a ow rp n next got' h'))"

partial_function (option) review_pages ::
  "github_api \<Rightarrow> gh_auth \<Rightarrow> string \<Rightarrow> string \<Rightarrow> int \<Rightarrow> int \<Rightarrow> int \<Rightarrow> gh_review_comment list \<Rightarrow> hist
     \<Rightarrow> ((go_error + gh_review_comment list) \<times> hist) option" where
  "review_pages g a ow rp n rootID page got h =
     (let h' = h @ [GhReviewComments a ow rp n page] in
      case ask_review_comments g h a ow rp n page of
        Inl err \<Rightarrow>
          Some (Inl (wrap_error (''fetching review comments for PR #'' @ show_int n) err), h')
      | Inr (comments, next) \<Rightarrow>
          (let got' = got @ filter (\<lambda>c. ReviewID c = rootID \<or> InReplyTo c = rootID) comments in
           if next = 0 then Some (Inr got', h')
           else review_pages g a ow rp n rootID next got' h'))"

text \<open>A computation that may not return: nothing more is known of the history then.\<close>

definition looping :: "(hist \<Rightarrow> ('a \<times> hist) option) \<Rightarrow> 'a option io" where
  "looping f = State (\<lambda>h. case f h of None \<Rightarrow> (None, h) | Some (x, h') \<Rightarrow> (Some x, h'))"

subsection \<open>The operations\<close>

definition comment_on_issue ::
  "github_api \<Rightarrow> gh_auth \<Rightarrow> string \<Rightarrow> string \<Rightarrow> int \<Rightarrow> string \<Rightarrow> go_error option io" where
  "comment_on_issue g a ow rp n body = do {
     err \<leftarrow> ext_call (\<lambda>h. ask_comment g h a ow rp n body) (GhComment a ow rp n body);
     ret (map_option (wrap_error (''creating comment on '' @ slug ow rp n)) err)
   }"

definition reply_to_review_comment ::
  "github_api \<Rightarrow> gh_auth \<Rightarrow> string \<Rightarrow> string \<Rightarrow> int \<Rightarrow> int \<Rightarrow> string \<Rightarrow> go_error option io" where
  "reply_to_review_comment g a ow rp n cid body = do {
     err \<leftarrow> ext_call (\<lambda>h. ask_reply g h a ow rp n cid body) (GhReply a ow rp n cid body);
     ret (map_option (wrap_error (''replying to review comment '' @ show_int cid @ '' on '' @ slug ow rp n)) err)
   }"

definition fetch_issue_thread ::
  "github_api \<Rightarrow> gh_auth \<Rightarrow> string \<Rightarrow> string \<Rightarrow> string \<Rightarrow> int \<Rightarrow> (go_error + string) option io" where
  "fetch_issue_thread g a bname ow rp n = do {
     got \<leftarrow> ext_call (\<lambda>h. ask_issue g h a ow rp n) (\<lambda>_. GhIssueGet a ow rp n);
     (case got of
        Inl err \<Rightarrow> ret (Some (Inl (wrap_error (''fetching issue #'' @ show_int n) err)))
      | Inr (title, body) \<Rightarrow> do {
          pages \<leftarrow> looping (issue_pages g a ow rp n 0 []);
          ret (map_option (map_sum id (\<lambda>cs.
                 truncateThread (thread_head ''Issue'' n title body @ format_comments bname False cs)))
               pages)
        })
   }"

definition fetch_pr_context ::
  "github_api \<Rightarrow> gh_auth \<Rightarrow> string \<Rightarrow> string \<Rightarrow> int \<Rightarrow> (go_error + string) io" where
  "fetch_pr_context g a ow rp n = do {
     got \<leftarrow> ext_call (\<lambda>h. ask_pull g h a ow rp n) (\<lambda>_. GhPullGet a ow rp n);
     ret (case got of
            Inl err \<Rightarrow> Inl (wrap_error (''fetching PR #'' @ show_int n) err)
          | Inr (title, body) \<Rightarrow> Inr (thread_head ''PR'' n title body))
   }"

definition fetch_review_comment_thread ::
  "github_api \<Rightarrow> gh_auth \<Rightarrow> string \<Rightarrow> string \<Rightarrow> string \<Rightarrow> int \<Rightarrow> int \<Rightarrow> (go_error + string) option io" where
  "fetch_review_comment_thread g a bname ow rp n cid = do {
     got \<leftarrow> ext_call (\<lambda>h. ask_review_comment g h a ow rp cid) (\<lambda>_. GhReviewCommentGet a ow rp cid);
     (case got of
        Inl err \<Rightarrow> ret (Some (Inl (wrap_error (''fetching review comment '' @ show_int cid) err)))
      | Inr comment \<Rightarrow>
          (let rootID = (if InReplyTo comment \<noteq> 0 then InReplyTo comment else cid) in do {
             pages \<leftarrow> looping (review_pages g a ow rp n rootID 0 []);
             ret (map_option (map_sum id (\<lambda>cs. truncateThread (format_review_thread bname cs))) pages)
           }))
   }"

definition create_repo_webhook ::
  "github_api \<Rightarrow> gh_auth \<Rightarrow> string \<Rightarrow> string \<Rightarrow> string \<Rightarrow> string \<Rightarrow> (go_error + int) io" where
  "create_repo_webhook g a ow rp url secret = do {
     made \<leftarrow> ext_call (\<lambda>h. ask_hook_create g h a ow rp url secret) (GhHookCreate a ow rp url secret);
     ret (map_sum (wrap_error (''creating webhook on '' @ ow @ ''/'' @ rp)) id made)
   }"

definition delete_repo_webhook ::
  "github_api \<Rightarrow> gh_auth \<Rightarrow> string \<Rightarrow> string \<Rightarrow> int \<Rightarrow> go_error option io" where
  "delete_repo_webhook g a ow rp hook = do {
     err \<leftarrow> ext_call (\<lambda>h. ask_hook_delete g h a ow rp hook) (GhHookDelete a ow rp hook);
     ret (map_option
       (wrap_error (''deleting webhook '' @ show_int hook @ '' on '' @ ow @ ''/'' @ rp)) err)
   }"

definition get_user_repo_permission ::
  "github_api \<Rightarrow> gh_auth \<Rightarrow> string \<Rightarrow> string \<Rightarrow> string \<Rightarrow> (go_error + string) io" where
  "get_user_repo_permission g a ow rp us = do {
     perm \<leftarrow> ext_call (\<lambda>h. ask_permission g h a ow rp us) (\<lambda>_. GhPermission a ow rp us);
     ret (map_sum (wrap_error (''getting permission for '' @ us @ '' on '' @ ow @ ''/'' @ rp)) id perm)
   }"

subsection \<open>The App client\<close>

record app_config =
  AppID :: int
  InstallationID :: int
  PrivateKey :: string
  cfgWebhookSecret :: string
  SelfDNS :: string
  cfgBotName :: string

definition WebhookURL :: "app_config \<Rightarrow> string" where
  "WebhookURL cfg = ''https://'' @ SelfDNS cfg @ ''/webhooks/github''"

definition RegisterWebhook :: "github_api \<Rightarrow> app_config \<Rightarrow> go_error option io" where
  "RegisterWebhook g cfg = do {
     err \<leftarrow> ext_call (\<lambda>h. ask_hook_config g h AppAuth (WebhookURL cfg) (cfgWebhookSecret cfg))
              (GhHookConfig AppAuth (WebhookURL cfg) (cfgWebhookSecret cfg));
     ret (map_option (wrap_error ''updating webhook config'') err)
   }"

definition GetInstallationToken :: "github_api \<Rightarrow> (go_error + string) io" where
  "GetInstallationToken g = do {
     token \<leftarrow> ext_call (\<lambda>h. ask_token g h AppAuth) (\<lambda>_. GhToken AppAuth);
     ret (map_sum (wrap_error ''creating installation token'') id token)
   }"

definition app_client :: "github_api \<Rightarrow> app_config \<Rightarrow> github_client" where
  "app_client g cfg =
     \<lparr>GetCloneToken = GetInstallationToken g,
      CommentOnIssue = comment_on_issue g InstallationAuth,
      ReplyToReviewComment = reply_to_review_comment g InstallationAuth,
      FetchIssueThread = fetch_issue_thread g InstallationAuth (cfgBotName cfg),
      FetchPRContext = fetch_pr_context g InstallationAuth,
      FetchReviewCommentThread = fetch_review_comment_thread g InstallationAuth (cfgBotName cfg),
      CreateRepoWebhook = create_repo_webhook g InstallationAuth,
      DeleteRepoWebhook = delete_repo_webhook g InstallationAuth,
      GetUserRepoPermission = get_user_repo_permission g InstallationAuth,
      BotName = cfgBotName cfg\<rparr>"

subsection \<open>The client of a personal access token\<close>

record pat_config =
  patToken :: string
  patBotName :: string

definition PATClient_GetCloneToken :: "pat_config \<Rightarrow> (go_error + string) io" where
  "PATClient_GetCloneToken p = ret (Inr (patToken p))"

definition PATClient_CommentOnIssue ::
  "github_api \<Rightarrow> pat_config \<Rightarrow> string \<Rightarrow> string \<Rightarrow> int \<Rightarrow> string \<Rightarrow> go_error option io" where
  "PATClient_CommentOnIssue g p = comment_on_issue g (TokenAuth (patToken p))"

definition PATClient_ReplyToReviewComment ::
  "github_api \<Rightarrow> pat_config \<Rightarrow> string \<Rightarrow> string \<Rightarrow> int \<Rightarrow> int \<Rightarrow> string \<Rightarrow> go_error option io" where
  "PATClient_ReplyToReviewComment g p = reply_to_review_comment g (TokenAuth (patToken p))"

definition PATClient_FetchIssueThread ::
  "github_api \<Rightarrow> pat_config \<Rightarrow> string \<Rightarrow> string \<Rightarrow> int \<Rightarrow> (go_error + string) option io" where
  "PATClient_FetchIssueThread g p = fetch_issue_thread g (TokenAuth (patToken p)) (patBotName p)"

definition PATClient_FetchPRContext ::
  "github_api \<Rightarrow> pat_config \<Rightarrow> string \<Rightarrow> string \<Rightarrow> int \<Rightarrow> (go_error + string) io" where
  "PATClient_FetchPRContext g p = fetch_pr_context g (TokenAuth (patToken p))"

definition PATClient_FetchReviewCommentThread ::
  "github_api \<Rightarrow> pat_config \<Rightarrow> string \<Rightarrow> string \<Rightarrow> int \<Rightarrow> int \<Rightarrow> (go_error + string) option io" where
  "PATClient_FetchReviewCommentThread g p = fetch_review_comment_thread g (TokenAuth (patToken p)) (patBotName p)"

definition PATClient_CreateRepoWebhook ::
  "github_api \<Rightarrow> pat_config \<Rightarrow> string \<Rightarrow> string \<Rightarrow> string \<Rightarrow> string \<Rightarrow> (go_error + int) io" where
  "PATClient_CreateRepoWebhook g p = create_repo_webhook g (TokenAuth (patToken p))"

definition PATClient_DeleteRepoWebhook ::
  "github_api \<Rightarrow> pat_config \<Rightarrow> string \<Rightarrow> string \<Rightarrow> int \<Rightarrow> go_error option io" where
  "PATClient_DeleteRepoWebhook g p = delete_repo_webhook g (TokenAuth (patToken p))"

definition PATClient_GetUserRepoPermission ::
  "github_api \<Rightarrow> pat_config \<Rightarrow> string \<Rightarrow> string \<Rightarrow> string \<Rightarrow> (go_error + string) io" where
  "PATClient_GetUserRepoPermission g p = get_user_repo_permission g (TokenAuth (patToken p))"

lemmas pat_operation_defs =
  PATClient_GetCloneToken_def PATClient_CommentOnIssue_def PATClient_ReplyToReviewComment_def PATClient_FetchIssueThread_def
  PATClient_FetchPRContext_def PATClient_FetchReviewCommentThread_def PATClient_CreateRepoWebhook_def
  PATClient_DeleteRepoWebhook_def PATClient_GetUserRepoPermission_def

definition pat_client :: "github_api \<Rightarrow> pat_config \<Rightarrow> github_client" where
  "pat_client g p =
     \<lparr>GetCloneToken = PATClient_GetCloneToken p,
      CommentOnIssue = PATClient_CommentOnIssue g p,
      ReplyToReviewComment = PATClient_ReplyToReviewComment g p,
      FetchIssueThread = PATClient_FetchIssueThread g p,
      FetchPRContext = PATClient_FetchPRContext g p,
      FetchReviewCommentThread = PATClient_FetchReviewCommentThread g p,
      CreateRepoWebhook = PATClient_CreateRepoWebhook g p,
      DeleteRepoWebhook = PATClient_DeleteRepoWebhook g p,
      GetUserRepoPermission = PATClient_GetUserRepoPermission g p,
      BotName = patBotName p\<rparr>"

text \<open>A value of the interface type: one of the two implementations.\<close>

datatype gh_client = AppClient app_config | PATClient pat_config

fun gh_ops :: "github_api \<Rightarrow> gh_client \<Rightarrow> github_client" where
  "gh_ops g (AppClient cfg) = app_client g cfg"
| "gh_ops g (PATClient p) = pat_client g p"

definition NewClient :: "github_api \<Rightarrow> app_config \<Rightarrow> go_error + gh_client" where
  "NewClient g cfg =
     (case NewAppsTransport_error g (AppID cfg) (PrivateKey cfg) of
        Some err \<Rightarrow> Inl (wrap_error ''creating app transport'' err)
      | None \<Rightarrow>
          (case NewInstallation_error g (AppID cfg) (InstallationID cfg) (PrivateKey cfg) of
             Some err \<Rightarrow> Inl (wrap_error ''creating installation transport'' err)
           | None \<Rightarrow> Inr (AppClient cfg)))"

definition NewPATClient :: "string \<Rightarrow> string \<Rightarrow> gh_client" where
  "NewPATClient token bname = PATClient \<lparr>patToken = token, patBotName = bname\<rparr>"

subsection \<open>Both clients satisfy the interface\<close>

lemma issue_pages_gh:
  "issue_pages g a ow rp n page got h = Some y \<Longrightarrow> \<exists>evs. snd y = h @ evs \<and> list_all gh_event evs"
proof (erule issue_pages.raw_induct [rotated], goal_cases)
  case (1 f g a ow rp n page got h y)
  show ?case
    using 1(2) by (auto simp: Let_def split: sum.splits prod.splits if_splits dest!: 1(1))
qed

lemma review_pages_gh:
  "review_pages g a ow rp n rt page got h = Some y \<Longrightarrow> \<exists>evs. snd y = h @ evs \<and> list_all gh_event evs"
proof (erule review_pages.raw_induct [rotated], goal_cases)
  case (1 f g a ow rp n rt page got h y)
  show ?case
    using 1(2) by (auto simp: Let_def split: sum.splits prod.splits if_splits dest!: 1(1))
qed

lemma looping_emits:
  assumes "\<And>h y. f h = Some y \<Longrightarrow> \<exists>evs. snd y = h @ evs \<and> list_all P evs"
  shows "emits P (looping f) (\<lambda>_. True)"
  unfolding emits_def looping_def
  using assms by (fastforce split: option.splits)

lemma gh_call: "(\<And>h. gh_event (ev (ask h))) \<Longrightarrow> emits gh_event (ext_call ask ev) (\<lambda>_. True)"
  by (simp add: emits_ext_call)

lemmas gh_operation_defs =
  comment_on_issue_def reply_to_review_comment_def fetch_issue_thread_def fetch_pr_context_def
  fetch_review_comment_thread_def create_repo_webhook_def delete_repo_webhook_def
  get_user_repo_permission_def

lemma operations_gh:
  "emits gh_event (comment_on_issue g a ow rp n b) (\<lambda>_. True)"
  "emits gh_event (reply_to_review_comment g a ow rp n i b) (\<lambda>_. True)"
  "emits gh_event (fetch_issue_thread g a bn ow rp n) (\<lambda>_. True)"
  "emits gh_event (fetch_pr_context g a ow rp n) (\<lambda>_. True)"
  "emits gh_event (fetch_review_comment_thread g a bn ow rp n i) (\<lambda>_. True)"
  "emits gh_event (create_repo_webhook g a ow rp u s) (\<lambda>_. True)"
  "emits gh_event (delete_repo_webhook g a ow rp i) (\<lambda>_. True)"
  "emits gh_event (get_user_repo_permission g a ow rp us) (\<lambda>_. True)"
  unfolding gh_operation_defs
  by (auto intro!: emits_intros gh_call looping_emits dest: issue_pages_gh review_pages_gh)

interpretation app: github_ops "app_client g cfg" for g cfg
  by unfold_locales
    (auto simp: app_client_def operations_gh GetInstallationToken_def intro!: emits_intros gh_call)

interpretation pat: github_ops "pat_client g p" for g p
  by unfold_locales (auto simp: pat_client_def pat_operation_defs operations_gh intro!: emits_intros)

interpretation ghc: github_ops "gh_ops g c" for g c
  by (cases c) (simp_all add: app.github_ops_axioms pat.github_ops_axioms)

subsection \<open>Properties\<close>

lemma truncateThread_length: "length (truncateThread s) \<le> maxThreadChars + 27"
  by (simp add: truncateThread_def)

lemma emits_strengthen:
  "emits P m (\<lambda>_. True) \<Longrightarrow> (\<And>h. Q (fst (run_state m h))) \<Longrightarrow> emits P m Q"
  unfolding emits_def by blast

definition thread_fits :: "(go_error + string) option \<Rightarrow> bool" where
  "thread_fits r = (case r of Some (Inr s) \<Rightarrow> length s \<le> maxThreadChars + 27 | _ \<Rightarrow> True)"

lemma fetch_issue_thread_fits: "thread_fits (fst (run_state (fetch_issue_thread g a bn ow rp n) h))"
  by (auto simp: fetch_issue_thread_def thread_fits_def truncateThread_length
      split: sum.splits option.splits prod.splits)
    (metis (no_types, lifting) map_sum.simps sum.exhaust sum.sel(2) sum.simps(4) truncateThread_length)+

lemma fetch_review_comment_thread_fits:
  "thread_fits (fst (run_state (fetch_review_comment_thread g a bn ow rp n i) h))"
  by (auto simp: fetch_review_comment_thread_def thread_fits_def truncateThread_length Let_def
      split: sum.splits option.splits prod.splits)
    (metis (no_types, lifting) map_sum.simps sum.exhaust sum.sel(2) sum.simps(4) truncateThread_length)+

text \<open>
  C33: Whatever GitHub answers, the operations of both clients send requests to GitHub and
  touch nothing else, and a returned thread is at most 27 characters longer than the limit
  of 50000.
\<close>

theorem clients_only_talk_to_github:
  "emits gh_event (GetCloneToken (gh_ops g c)) (\<lambda>_. True)
   \<and> emits gh_event (CommentOnIssue (gh_ops g c) ow rp n b) (\<lambda>_. True)
   \<and> emits gh_event (ReplyToReviewComment (gh_ops g c) ow rp n i b) (\<lambda>_. True)
   \<and> emits gh_event (FetchIssueThread (gh_ops g c) ow rp n) thread_fits
   \<and> emits gh_event (FetchPRContext (gh_ops g c) ow rp n) (\<lambda>_. True)
   \<and> emits gh_event (FetchReviewCommentThread (gh_ops g c) ow rp n i) thread_fits
   \<and> emits gh_event (CreateRepoWebhook (gh_ops g c) ow rp u s) (\<lambda>_. True)
   \<and> emits gh_event (DeleteRepoWebhook (gh_ops g c) ow rp i) (\<lambda>_. True)
   \<and> emits gh_event (GetUserRepoPermission (gh_ops g c) ow rp us) (\<lambda>_. True)"
proof -
  have f: "thread_fits (fst (run_state (FetchIssueThread (gh_ops g c) ow rp n) h))"
    and r: "thread_fits (fst (run_state (FetchReviewCommentThread (gh_ops g c) ow rp n i) h))" for h
    by (cases c; simp add: app_client_def pat_client_def pat_operation_defs fetch_issue_thread_fits
        fetch_review_comment_thread_fits)+
  show ?thesis
    by (simp add: emits_strengthen [where Q = thread_fits] f r ghc.FetchIssueThread_gh
        ghc.FetchReviewCommentThread_gh ghc.GetCloneToken_gh ghc.CommentOnIssue_gh ghc.ReplyToReviewComment_gh
        ghc.FetchPRContext_gh ghc.CreateRepoWebhook_gh ghc.DeleteRepoWebhook_gh
        ghc.GetUserRepoPermission_gh)
qed

lemma format_comments_True:
  "format_comments bn True cs =
     concat (map (\<lambda>c. comment_entry (CommentLogin c) (CommentDate c) (CommentBody c))
       (filter (\<lambda>c. \<not> isBotUser bn (CommentLogin c)) cs))"
  by (induction cs) auto

text \<open>
  The comments of a thread are exactly those not written by the bot itself, in order, under
  one heading, and without any such comment there is no heading: what Claude reads never
  contains its own remarks.
\<close>

theorem format_comments_filter:
  "format_comments bn False cs =
     (let users = filter (\<lambda>c. \<not> isBotUser bn (CommentLogin c)) cs in
      if users = [] then []
      else ''### Comments'' @ nl @ nl
           @ concat (map (\<lambda>c. comment_entry (CommentLogin c) (CommentDate c) (CommentBody c)) users))"
  by (induction cs) (auto simp: format_comments_True Let_def)

lemma issue_pages_return:
  assumes "\<forall>h p cs nx. ask_issue_comments g h a ow rp n p = Inr (cs, nx) \<longrightarrow>
             nx = 0 \<or> p < nx \<and> nx \<le> int L"
  shows "issue_pages g a ow rp n p got h \<noteq> None"
proof (induction "nat (int L - p)" arbitrary: p got h rule: less_induct)
  case less
  show ?case
  proof (cases "ask_issue_comments g h a ow rp n p")
    case (Inl e)
    then show ?thesis by (subst issue_pages.simps) (simp add: Let_def)
  next
    case (Inr r)
    obtain cs nx where r: "r = (cs, nx)" by (cases r)
    have "nx = 0 \<or> p < nx \<and> nx \<le> int L" using assms Inr r by blast
    then have "nx = 0 \<or> nat (int L - nx) < nat (int L - p)" by linarith
    with less [of nx] Inr r show ?thesis
      by (subst issue_pages.simps) (auto simp: Let_def)
  qed
qed

fun request_auth :: "gh_client \<Rightarrow> gh_auth" where
  "request_auth (AppClient cfg) = InstallationAuth"
| "request_auth (PATClient p) = TokenAuth (patToken p)"

text \<open>
  C34: Fetching an issue's thread returns when GitHub's page numbers make sense, that is when
  every answer either is the last page or names a later one up to some last number, however
  many comments each page holds.
\<close>

theorem FetchIssueThread_returns:
  assumes "\<forall>h p cs nx. ask_issue_comments g h (request_auth c) ow rp n p = Inr (cs, nx) \<longrightarrow>
             nx = 0 \<or> p < nx \<and> nx \<le> int L"
  shows "fst (run_state (FetchIssueThread (gh_ops g c) ow rp n) h) \<noteq> None"
proof -
  have "fst (run_state (fetch_issue_thread g (request_auth c) bn ow rp n) h) \<noteq> None" for bn
  proof (cases "ask_issue g h (request_auth c) ow rp n")
    case (Inl e)
    then show ?thesis by (simp add: fetch_issue_thread_def)
  next
    case (Inr r)
    obtain y where "issue_pages g (request_auth c) ow rp n 0 []
        (h @ [GhIssueGet (request_auth c) ow rp n]) = Some y"
      using issue_pages_return [OF assms] by blast
    with Inr show ?thesis
      by (cases r; cases y) (simp add: fetch_issue_thread_def looping_def)
  qed
  then show ?thesis by (cases c) (simp_all add: app_client_def pat_client_def pat_operation_defs)
qed

text \<open>A GitHub for the witness: two pages of comments, then no more.\<close>

definition sample_github :: github_api where
  "sample_github =
     \<lparr>ask_token = (\<lambda>h a. Inr ''tok''), ask_hook_config = (\<lambda>h a u s. None),
      ask_issue = (\<lambda>h a ow rp n. Inr (''Title'', [])),
      ask_issue_comments = (\<lambda>h a ow rp n p.
        if p = 0
        then Inr ([\<lparr>CommentLogin = ''bot'', CommentDate = (2026, 1, 2), CommentBody = ''x''\<rparr>], 2)
        else Inr ([\<lparr>CommentLogin = ''ann'', CommentDate = (2026, 1, 2), CommentBody = ''y''\<rparr>], 0)),
      ask_comment = (\<lambda>h a ow rp n b. None),
      ask_pull = (\<lambda>h a ow rp n. Inr (''Pull'', ''body'')),
      ask_review_comment = (\<lambda>h a ow rp i. Inl (new_error ''gone'')),
      ask_review_comments = (\<lambda>h a ow rp n p. Inr ([], 0)),
      ask_reply = (\<lambda>h a ow rp n i b. None),
      ask_hook_create = (\<lambda>h a ow rp u s. Inr 7), ask_hook_delete = (\<lambda>h a ow rp i. None),
      ask_permission = (\<lambda>h a ow rp us. Inr ''write''),
      NewAppsTransport_error = (\<lambda>i k. None), NewInstallation_error = (\<lambda>i j k. None)\<rparr>"

theorem FetchIssueThread_returns_witness:
  "fst (run_state (FetchIssueThread (gh_ops sample_github (NewPATClient ''t'' ''bot'')) ''o'' ''r'' 5) []) \<noteq> None"
  by (rule FetchIssueThread_returns [where L = 2]) (simp add: sample_github_def)

end
