(* ===== verification/Shared_Cache.thy ===== *)
theory Shared_Cache
  imports Allowlist_Cache Github_Client
begin

section \<open>The cache as the other goroutines see it\<close>

text \<open>
  One cache is shared by the webhook's goroutines and the two reconcilers. Its lock makes each
  read atomic, but what a goroutine finds depends on what the others did before: the state of
  the cache and the order of a map iteration at the moment of a read are functions of the
  history.
\<close>

record shared_cache =
  cache_at :: "hist \<Rightarrow> gh_client allowlist_cache"
  order_at :: "hist \<Rightarrow> string list"

definition read_cache :: "shared_cache \<Rightarrow> (string list \<Rightarrow> gh_client allowlist_cache \<Rightarrow> 'a) \<Rightarrow> 'a io" where
  [call_defs]: "read_cache s f = ext_call (\<lambda>h. f (order_at s h) (cache_at s h)) (\<lambda>_. CacheRead)"

text \<open>Orders of iteration are orders of the keys.\<close>

definition orders_ok :: "shared_cache \<Rightarrow> bool" where
  "orders_ok s \<longleftrightarrow> (\<forall>h. iteration_order (patterns (cache_at s h)) (order_at s h))"

text \<open>A cache nobody changes, for the witnesses.\<close>

definition frozen_cache :: "gh_client allowlist_cache \<Rightarrow> string list \<Rightarrow> shared_cache" where
  "frozen_cache c ord = \<lparr>cache_at = (\<lambda>_. c), order_at = (\<lambda>_. ord)\<rparr>"

end
