(* ===== verification/Cluster.thy ===== *)
theory Cluster
  imports Effects
begin

section \<open>The Kubernetes API and the pod, as the program sees them\<close>

text \<open>
  The cluster is a record of oracles, one for each kind of request the program sends: the
  client of controller-runtime (\<open>Get\<close>, \<open>List\<close>, \<open>Create\<close>, \<open>Status().Update\<close>), the dynamic
  client behind the sandbox package, the exec stream into a pod, and the clock. Next to them
  stand the pure functions of other packages the code uses and whose code is not here: the
  accessors of unstructured objects, the constructors of the exec client, and the runtime's
  table of printable runes.

  A watch is what the receiving loop gets from its channel, one item after the other, until
  the loop's context ends with an error: the time limit makes the sequence finite.
\<close>

datatype watch_item =
    WatchClosed
  | WatchError
  | WatchOther
  | WatchObject json

type_synonym watch_run = "watch_item list \<times> go_error"

record cluster =
  ask_now :: "hist \<Rightarrow> time"
  ask_task_get :: "hist \<Rightarrow> string \<Rightarrow> string \<Rightarrow> go_error + claude_task"
  ask_task_list :: "hist \<Rightarrow> string \<Rightarrow> go_error + claude_task list"
  ask_task_create :: "hist \<Rightarrow> claude_task \<Rightarrow> go_error option"
  ask_task_update :: "hist \<Rightarrow> claude_task \<Rightarrow> go_error option"
  ask_repo_get :: "hist \<Rightarrow> string \<Rightarrow> string \<Rightarrow> go_error + claude_repository"
  ask_repo_update :: "hist \<Rightarrow> claude_repository \<Rightarrow> go_error option"
  ask_secret_get :: "hist \<Rightarrow> string \<Rightarrow> string \<Rightarrow> go_error + (string \<rightharpoonup> string)"
  ask_claim_create :: "hist \<Rightarrow> string \<Rightarrow> json \<Rightarrow> go_error option"
  ask_claim_delete :: "hist \<Rightarrow> string \<Rightarrow> string \<Rightarrow> go_error option"
  ask_claim_get :: "hist \<Rightarrow> string \<Rightarrow> string \<Rightarrow> go_error + json"
  ask_claim_watch :: "hist \<Rightarrow> string \<Rightarrow> string \<Rightarrow> time \<Rightarrow> go_error + watch_run"
  ask_sandbox_get :: "hist \<Rightarrow> string \<Rightarrow> string \<Rightarrow> go_error + json"
  ask_sandbox_watch :: "hist \<Rightarrow> string \<Rightarrow> string \<Rightarrow> time \<Rightarrow> go_error + watch_run"
  ask_pod_get :: "hist \<Rightarrow> string \<Rightarrow> string \<Rightarrow> go_error + json"
  ask_exec :: "hist \<Rightarrow> string \<Rightarrow> string \<Rightarrow> string \<Rightarrow> string list \<Rightarrow> time
                 \<Rightarrow> string \<times> string \<times> go_error option"
  NewForConfig_error :: "go_error option"
  NewSPDYExecutor_error :: "string \<Rightarrow> string \<Rightarrow> string \<Rightarrow> string list \<Rightarrow> go_error option"
  NestedString :: "json \<Rightarrow> string list \<Rightarrow> string \<times> bool \<times> go_error option"
  NestedSlice :: "json \<Rightarrow> string list \<Rightarrow> json list \<times> bool \<times> go_error option"
  GetAnnotation :: "json \<Rightarrow> string \<Rightarrow> string"
  IsPrint :: "nat \<Rightarrow> bool"

definition clock :: "cluster \<Rightarrow> time io" where
  [call_defs]: "clock w = ext_call (ask_now w) Clock"

definition task_get :: "cluster \<Rightarrow> string \<Rightarrow> string \<Rightarrow> (go_error + claude_task) io" where
  [call_defs]: "task_get w ns n = ext_call (\<lambda>h. ask_task_get w h ns n) (\<lambda>_. TaskGet ns n)"

definition task_list :: "cluster \<Rightarrow> string \<Rightarrow> (go_error + claude_task list) io" where
  [call_defs]: "task_list w ns = ext_call (\<lambda>h. ask_task_list w h ns) (\<lambda>_. TaskList ns)"

definition task_create :: "cluster \<Rightarrow> claude_task \<Rightarrow> go_error option io" where
  [call_defs]: "task_create w t = ext_call (\<lambda>h. ask_task_create w h t) (TaskCreate t)"

definition status_update :: "cluster \<Rightarrow> claude_task \<Rightarrow> go_error option io" where
  [call_defs]: "status_update w t = ext_call (\<lambda>h. ask_task_update w h t) (TaskUpdate t)"

definition repo_get :: "cluster \<Rightarrow> string \<Rightarrow> string \<Rightarrow> (go_error + claude_repository) io" where
  [call_defs]: "repo_get w ns n = ext_call (\<lambda>h. ask_repo_get w h ns n) (\<lambda>_. RepoGet ns n)"

definition repo_status_update :: "cluster \<Rightarrow> claude_repository \<Rightarrow> go_error option io" where
  [call_defs]: "repo_status_update w r = ext_call (\<lambda>h. ask_repo_update w h r) (RepoUpdate r)"

definition secret_get :: "cluster \<Rightarrow> string \<Rightarrow> string \<Rightarrow> (go_error + (string \<rightharpoonup> string)) io" where
  [call_defs]: "secret_get w ns n = ext_call (\<lambda>h. ask_secret_get w h ns n) (\<lambda>_. SecretGet ns n)"

definition claim_create :: "cluster \<Rightarrow> string \<Rightarrow> json \<Rightarrow> go_error option io" where
  [call_defs]: "claim_create w ns obj = ext_call (\<lambda>h. ask_claim_create w h ns obj) (ClaimCreate ns obj)"

definition claim_delete :: "cluster \<Rightarrow> string \<Rightarrow> string \<Rightarrow> go_error option io" where
  [call_defs]: "claim_delete w ns n = ext_call (\<lambda>h. ask_claim_delete w h ns n) (ClaimDelete ns n)"

definition claim_get :: "cluster \<Rightarrow> string \<Rightarrow> string \<Rightarrow> (go_error + json) io" where
  [call_defs]: "claim_get w ns n = ext_call (\<lambda>h. ask_claim_get w h ns n) (\<lambda>_. ClaimGet ns n)"

definition claim_watch :: "cluster \<Rightarrow> string \<Rightarrow> string \<Rightarrow> time \<Rightarrow> (go_error + watch_run) io" where
  [call_defs]: "claim_watch w ns sel tmo =
     ext_call (\<lambda>h. ask_claim_watch w h ns sel tmo) (\<lambda>_. ClaimWatch ns sel tmo)"

definition sandbox_get :: "cluster \<Rightarrow> string \<Rightarrow> string \<Rightarrow> (go_error + json) io" where
  [call_defs]: "sandbox_get w ns n = ext_call (\<lambda>h. ask_sandbox_get w h ns n) (\<lambda>_. SandboxGet ns n)"

definition sandbox_watch :: "cluster \<Rightarrow> string \<Rightarrow> string \<Rightarrow> time \<Rightarrow> (go_error + watch_run) io" where
  [call_defs]: "sandbox_watch w ns sel tmo =
     ext_call (\<lambda>h. ask_sandbox_watch w h ns sel tmo) (\<lambda>_. SandboxWatch ns sel tmo)"

definition pod_get :: "cluster \<Rightarrow> string \<Rightarrow> string \<Rightarrow> (go_error + json) io" where
  [call_defs]: "pod_get w ns n = ext_call (\<lambda>h. ask_pod_get w h ns n) (\<lambda>_. PodGet ns n)"

definition exec_stream ::
  "cluster \<Rightarrow> string \<Rightarrow> string \<Rightarrow> string \<Rightarrow> string list \<Rightarrow> time
     \<Rightarrow> (string \<times> string \<times> go_error option) io" where
  [call_defs]: "exec_stream w ns pod container argv tmo =
     ext_call (\<lambda>h. ask_exec w h ns pod container argv tmo) (\<lambda>_. PodExec ns pod container argv tmo)"

text \<open>The calls of the sandbox package.\<close>

fun sandbox_event :: "event \<Rightarrow> bool" where
  "sandbox_event (ClaimCreate ns obj r) = True"
| "sandbox_event (ClaimDelete ns n r) = True"
| "sandbox_event (ClaimGet ns n) = True"
| "sandbox_event (ClaimWatch ns sel tmo) = True"
| "sandbox_event (SandboxGet ns n) = True"
| "sandbox_event (SandboxWatch ns sel tmo) = True"
| "sandbox_event (PodGet ns n) = True"
| "sandbox_event _ = False"

end
