(* ===== verification/Samples.thy ===== *)
theory Samples
  imports Cluster
begin

section \<open>Concrete clusters for the witnesses\<close>

text \<open>
  A cluster in which every request fails and the accessors of unstructured objects are
  concrete functions with the documented behaviour of the library (\<open>NestedString\<close> walks down
  the maps, reports a missing field as not found, and fails on a value of another type). The
  witnesses change the oracles they need.
\<close>

fun object_field :: "json \<Rightarrow> string \<Rightarrow> json option" where
  "object_field (JObj fs) k = map_of fs k"
| "object_field _ k = None"

fun is_object :: "json \<Rightarrow> bool" where
  "is_object (JObj fs) = True"
| "is_object _ = False"

text \<open>Walking down a path: an error at a value that is no map, or a value if there is one.\<close>

fun walk :: "json \<Rightarrow> string list \<Rightarrow> go_error + json option" where
  "walk v [] = Inr (Some v)"
| "walk v (k # ks) =
     (if \<not> is_object v then Inl (new_error ''not a map'')
      else (case object_field v k of None \<Rightarrow> Inr None | Some v' \<Rightarrow> walk v' ks))"

definition walk_string :: "json \<Rightarrow> string list \<Rightarrow> string \<times> bool \<times> go_error option" where
  "walk_string v ks =
     (case walk v ks of
        Inl e \<Rightarrow> ([], False, Some e)
      | Inr None \<Rightarrow> ([], False, None)
      | Inr (Some (JStr s)) \<Rightarrow> (s, True, None)
      | Inr (Some x) \<Rightarrow> ([], False, Some (new_error ''not a string'')))"

definition walk_slice :: "json \<Rightarrow> string list \<Rightarrow> json list \<times> bool \<times> go_error option" where
  "walk_slice v ks =
     (case walk v ks of
        Inl e \<Rightarrow> ([], False, Some e)
      | Inr None \<Rightarrow> ([], False, None)
      | Inr (Some (JArr vs)) \<Rightarrow> (vs, True, None)
      | Inr (Some x) \<Rightarrow> ([], False, Some (new_error ''not a slice'')))"

definition offline :: go_error where
  "offline = new_error ''offline''"

definition sample_cluster :: cluster where
  "sample_cluster =
     \<lparr>ask_now = (\<lambda>h. int (length h)),
      ask_task_get = (\<lambda>h ns n. Inl offline),
      ask_task_list = (\<lambda>h ns. Inl offline),
      ask_task_create = (\<lambda>h t. Some offline),
      ask_task_update = (\<lambda>h t. Some offline),
      ask_repo_get = (\<lambda>h ns n. Inl offline),
      ask_repo_update = (\<lambda>h r. Some offline),
      ask_secret_get = (\<lambda>h ns n. Inl offline),
      ask_claim_create = (\<lambda>h ns obj. Some offline),
      ask_claim_delete = (\<lambda>h ns n. Some offline),
      ask_claim_get = (\<lambda>h ns n. Inl offline),
      ask_claim_watch = (\<lambda>h ns sel tmo. Inl offline),
      ask_sandbox_get = (\<lambda>h ns n. Inl offline),
      ask_sandbox_watch = (\<lambda>h ns sel tmo. Inl offline),
      ask_pod_get = (\<lambda>h ns n. Inl offline),
      ask_exec = (\<lambda>h ns pod ct argv tmo. ([], [], Some offline)),
      NewForConfig_error = None,
      NewSPDYExecutor_error = (\<lambda>ns pod ct argv. None),
      NestedString = walk_string,
      NestedSlice = walk_slice,
      GetAnnotation = (\<lambda>obj k. fst (walk_string obj [''metadata'', ''annotations'', k])),
      IsPrint = (\<lambda>r. True)\<rparr>"

text \<open>A bound claim and a ready sandbox.\<close>

definition bound_claim :: "string \<Rightarrow> json" where
  "bound_claim s = JObj [(''status'', JObj [(''sandbox'', JObj [(''Name'', JStr s)])])]"

definition sandbox_object :: "string \<Rightarrow> string \<Rightarrow> json" where
  "sandbox_object status pod =
     JObj [(''metadata'', JObj [(''annotations'', JObj [(''agents.x-k8s.io/pod-name'', JStr pod)])]),
           (''status'', JObj [(''conditions'',
              JArr [JStr ''junk'', JObj [(''type'', JStr ''Ready''), (''status'', JStr status)]])])]"

text \<open>A registered repository.\<close>

definition acme_repo :: claude_repository where
  "acme_repo =
     \<lparr>RepoObjName = ''acme'', RepoNamespace = ''ns'', DeletionTimestamp = None,
      RSpec = \<lparr>Owner = ''acme'', Repo = ''web'', RepositoryPattern = [], Labels = [''claude''],
               MaxConcurrentTasks = 0, PATSecretRef = None, AllowedUsers = [''ann''],
               AllowedRoles = [''write'']\<rparr>,
      RStatus = \<lparr>ActiveTasks = 0, WebhookID = 0\<rparr>\<rparr>"

end
