(* ===== verification/Task_Creator.thy ===== *)
theory Task_Creator
  imports Webhook Shared_Cache Samples
begin

section \<open>The task creator (\<open>taskCreator\<close> of \<open>cmd/main.go\<close>)\<close>

text \<open>
  The implementation of the webhook's interface \<open>TaskCreator\<close>: it creates and resumes
  \<open>ClaudeTask\<close> objects and asks the shared cache who is admitted. The interpretation at the
  end shows that it meets the contract the handler relies on, which gives the properties of
  the webhook as deployed.
\<close>

subsection \<open>Operations\<close>

record creator_env =
  tcClient :: cluster
  tcNamespace :: string
  tcAllowlist :: shared_cache
  tcGhClient :: "gh_client option"
  tcGithub :: github_api

definition full_name :: "string \<Rightarrow> string \<Rightarrow> string" where
  "full_name ow rp = ow @ ''/'' @ rp"

definition requested_task :: "string \<Rightarrow> task_request \<Rightarrow> claude_task" where
  "requested_task ns req =
     \<lparr>TaskName = [],
      TaskGenerateName = ReqOwner req @ ''-'' @ ReqRepo req @ ''-'',
      TaskNamespace = ns,
      Spec = \<lparr>Repository = full_name (ReqOwner req) (ReqRepo req),
              Issue = ReqIssue req,
              PullRequest = ReqPullRequest req,
              TaskType = ClaudeTaskType (ReqTaskType req),
              Branch = ReqBranch req,
              Prompt = ReqPrompt req,
              ReviewCommentID = ReqReviewCommentID req,
              MaxIterations = 0,
              MaxClarifications = 0\<rparr>,
      Status = zero_task_status\<rparr>"

definition taskCreator_CreateTask :: "creator_env \<Rightarrow> task_request \<Rightarrow> go_error option io" where
  "taskCreator_CreateTask tc req = task_create (tcClient tc) (requested_task (tcNamespace tc) req)"

definition taskCreator_IsRepoAllowed :: "creator_env \<Rightarrow> string \<Rightarrow> string \<Rightarrow> (go_error + bool) io" where
  "taskCreator_IsRepoAllowed tc ow rp = do {
     b \<leftarrow> read_cache (tcAllowlist tc) (\<lambda>ord c. AllowlistCache_IsAllowed ord c (full_name ow rp));
     ret (Inr b)
   }"

definition taskCreator_IsUserAllowed ::
  "creator_env \<Rightarrow> string \<Rightarrow> string \<Rightarrow> string \<Rightarrow> (go_error + bool) io" where
  "taskCreator_IsUserAllowed tc ow rp username = do {
     (users, roles) \<leftarrow> read_cache (tcAllowlist tc)
       (\<lambda>ord c. AllowlistCache_GetMergedAllowlist ord c (full_name ow rp));
     (if users = [] \<and> roles = [] then ret (Inr True)
      else if list_ex (\<lambda>u. u = username) users then ret (Inr True)
      else
        (case tcGhClient tc of
           None \<Rightarrow> ret (Inr False)
         | Some glob \<Rightarrow>
             if roles = [] then ret (Inr False)
             else do {
               own \<leftarrow> read_cache (tcAllowlist tc) (\<lambda>ord c. AllowlistCache_GetClient c (full_name ow rp));
               (let ghc = (case own of Some c \<Rightarrow> c | None \<Rightarrow> glob) in do {
                  perm \<leftarrow> GetUserRepoPermission (gh_ops (tcGithub tc) ghc) ow rp username;
                  ret (case perm of
                         Inl err \<Rightarrow> Inl (wrap_error ''checking user permission'' err)
                       | Inr p \<Rightarrow> Inr (list_ex (\<lambda>r. r = p) roles))
                })
             }))
   }"

definition taskCreator_GetAutoLabels :: "creator_env \<Rightarrow> string \<Rightarrow> string \<Rightarrow> string list io" where
  "taskCreator_GetAutoLabels tc ow rp = do {
     r \<leftarrow> read_cache (tcAllowlist tc) (\<lambda>ord c. AllowlistCache_Get ord c (full_name ow rp));
     ret (case r of None \<Rightarrow> [] | Some repo \<Rightarrow> Labels (RSpec repo))
   }"

text \<open>The guards of the loop in \<open>ResumeClarification\<close>, and what it does to the task it picks.\<close>

definition resume_matches :: "task_request \<Rightarrow> claude_task \<Rightarrow> bool" where
  "resume_matches req task =
     (Phase (Status task) = WaitingForClarification
      \<and> Repository (Spec task) = full_name (ReqOwner req) (ReqRepo req)
      \<and> \<not> (0 < ReqIssue req \<and> Issue (Spec task) \<noteq> ReqIssue req)
      \<and> \<not> (0 < ReqPullRequest req \<and> PullRequest (Spec task) \<noteq> ReqPullRequest req))"

definition answered :: "string \<Rightarrow> claude_task \<Rightarrow> claude_task" where
  "answered ans task =
     (let st = Status task; cs = Clarifications st;
          cs' = (if cs \<noteq> []
                 then cs[length cs - 1 := (cs ! (length cs - 1))\<lparr>Answer := ans\<rparr>] else cs)
      in task\<lparr>Status := st\<lparr>Clarifications := cs', Phase := Running\<rparr>\<rparr>)"

definition taskCreator_ResumeClarification :: "creator_env \<Rightarrow> task_request \<Rightarrow> (go_error + bool) io" where
  "taskCreator_ResumeClarification tc req = do {
     got \<leftarrow> task_list (tcClient tc) (tcNamespace tc);
     (case got of
        Inl err \<Rightarrow> ret (Inl (wrap_error ''listing ClaudeTasks'' err))
      | Inr items \<Rightarrow>
          (case find (resume_matches req) items of
             None \<Rightarrow> ret (Inr False)
           | Some task \<Rightarrow> do {
               err \<leftarrow> status_update (tcClient tc) (answered (ClarificationAnswer req) task);
               ret (case err of
                      Some e \<Rightarrow> Inl (wrap_error ''updating task status'' e)
                    | None \<Rightarrow> Inr True)
             }))
   }"

definition taskCreator_ops :: "creator_env \<Rightarrow> task_creator" where
  "taskCreator_ops tc =
     \<lparr>CreateTask = taskCreator_CreateTask tc,
      IsRepoAllowed = taskCreator_IsRepoAllowed tc,
      IsUserAllowed = taskCreator_IsUserAllowed tc,
      ResumeClarification = taskCreator_ResumeClarification tc,
      GetAutoLabels = taskCreator_GetAutoLabels tc\<rparr>"

subsection \<open>The contract\<close>

text \<open>The status a resumption writes: some waiting task of the request, with its answer filled in.\<close>

definition resumed_task :: "task_request \<Rightarrow> claude_task \<Rightarrow> bool" where
  "resumed_task req t \<longleftrightarrow> (\<exists>w. resume_matches req w \<and> t = answered (ClarificationAnswer req) w)"

lemma gh_no_task_effect: "gh_event e \<Longrightarrow> \<not> task_effect e"
  by (cases e) auto

lemma quiet_call:
  "(\<And>h. \<not> task_effect (ev (ask h))) \<Longrightarrow> emits (\<lambda>e. \<not> task_effect e) (ext_call ask ev) (\<lambda>_. True)"
  by (simp add: emits_ext_call)

lemma quiet_gh: "emits gh_event m (\<lambda>_. True) \<Longrightarrow> emits (\<lambda>e. \<not> task_effect e) m (\<lambda>_. True)"
  by (erule emits_weaken) (auto simp: gh_no_task_effect)

lemma taskCreator_reads:
  "emits (\<lambda>e. \<not> task_effect e) (taskCreator_IsRepoAllowed tc ow rp) (\<lambda>_. True)"
  "emits (\<lambda>e. \<not> task_effect e) (taskCreator_IsUserAllowed tc ow rp us) (\<lambda>_. True)"
  "emits (\<lambda>e. \<not> task_effect e) (taskCreator_GetAutoLabels tc ow rp) (\<lambda>_. True)"
  unfolding taskCreator_IsRepoAllowed_def taskCreator_IsUserAllowed_def taskCreator_GetAutoLabels_def
    read_cache_def Let_def
  by (auto intro!: emits_intros quiet_call quiet_gh [OF ghc.GetUserRepoPermission_gh])

lemma taskCreator_create:
  "traces (taskCreator_CreateTask tc req)
     (\<lambda>r es. task_effects es = (if r = None then [TaskCreate (requested_task (tcNamespace tc) req) None] else []))"
  by (auto simp: task_effect_iff taskCreator_CreateTask_def task_create_def intro!: traces_ext_call)

lemma taskCreator_resume:
  "traces (taskCreator_ResumeClarification tc req)
     (\<lambda>r es. if r = Inr True then \<exists>t. resumed_task req t \<and> task_effects es = [TaskUpdate t None]
             else task_effects es = [])"
proof -
  have found: "find (resume_matches req) items = Some w \<Longrightarrow> resume_matches req w" for items w
    by (auto simp: find_Some_iff)
  show ?thesis
    unfolding taskCreator_ResumeClarification_def task_list_def status_update_def
    by (auto simp: task_effect_iff resumed_task_def intro!: traces_bind_call traces_intros)
      (use found in \<open>auto split: option.splits\<close>)
qed

interpretation creator: creator_contract
  "taskCreator_ops tc" "requested_task (tcNamespace tc)" resumed_task for tc
  by unfold_locales
    (simp_all add: taskCreator_ops_def taskCreator_reads taskCreator_create taskCreator_resume)

subsection \<open>Properties\<close>


lemma IsRepoAllowed_run:
  "fst (run_state (IsRepoAllowed (taskCreator_ops tc) ow rp) h) =
     Inr (AllowlistCache_IsAllowed (order_at (tcAllowlist tc) h) (cache_at (tcAllowlist tc) h) (full_name ow rp))"
  by (simp add: taskCreator_ops_def taskCreator_IsRepoAllowed_def read_cache_def)

text \<open>
  The repository check is the registry's: a repository is admitted exactly when some
  registered resource accepts its full name, whatever order the patterns are visited in.
\<close>

theorem IsRepoAllowed_iff_registered:
  assumes "cache_wf compile (cache_at (tcAllowlist tc) h)"
    and "iteration_order (patterns (cache_at (tcAllowlist tc) h)) (order_at (tcAllowlist tc) h)"
  shows "fst (run_state (taskCreator_IsRepoAllowed tc ow rp) h) = Inr True \<longleftrightarrow>
           (\<exists>(k, r) \<in> entries (cache_at (tcAllowlist tc) h). accepts compile k r (full_name ow rp))"
  using IsAllowed_entries [OF assms]
  by (simp add: taskCreator_IsRepoAllowed_def read_cache_def)

text \<open>A task creator for the witnesses: one registered repository, no GitHub client of its own.\<close>

definition acme_cache :: "gh_client allowlist_cache" where
  "acme_cache = AllowlistCache_SetClient ''acme/web'' (NewPATClient ''t'' ''bot'')
     (AllowlistCache_Set (\<lambda>_. None) ''acme/web'' acme_repo NewAllowlistCache)"

definition acme_creator :: creator_env where
  "acme_creator =
     \<lparr>tcClient = sample_cluster, tcNamespace = ''ns'', tcAllowlist = frozen_cache acme_cache [],
      tcGhClient = None, tcGithub = sample_github\<rparr>"

lemma acme_cache_facts:
  "cache_wf (\<lambda>_. None) (cache_at (tcAllowlist acme_creator) h)"
  "iteration_order (patterns (cache_at (tcAllowlist acme_creator) h)) (order_at (tcAllowlist acme_creator) h)"
  "entries (cache_at (tcAllowlist acme_creator) h) = {(''acme/web'', acme_repo)}"
  "orders_ok (tcAllowlist acme_creator)"
proof -
  have wf: "cache_wf (\<lambda>_. None) (AllowlistCache_Set (\<lambda>_. None) ''acme/web'' acme_repo NewAllowlistCache)"
    by (intro cache_wf_Set cache_wf_New)
  show "cache_wf (\<lambda>_. None) (cache_at (tcAllowlist acme_creator) h)"
    using wf by (simp add: acme_creator_def frozen_cache_def acme_cache_def)
  have pats: "patterns acme_cache = Map.empty"
    by (simp add: acme_cache_def cache_update_defs NewAllowlistCache_def acme_repo_def IsPattern_def)
  then show "iteration_order (patterns (cache_at (tcAllowlist acme_creator) h))
      (order_at (tcAllowlist acme_creator) h)" "orders_ok (tcAllowlist acme_creator)"
    by (simp_all add: acme_creator_def frozen_cache_def iteration_order_def orders_ok_def)
  show "entries (cache_at (tcAllowlist acme_creator) h) = {(''acme/web'', acme_repo)}"
    by (simp add: acme_creator_def frozen_cache_def acme_cache_def entries_Set [OF cache_wf_New])
qed

theorem IsRepoAllowed_iff_registered_witness:
  "fst (run_state (taskCreator_IsRepoAllowed acme_creator ''acme'' ''web'') []) = Inr True
   \<and> fst (run_state (taskCreator_IsRepoAllowed acme_creator ''acme'' ''app'') []) \<noteq> Inr True"
  using IsRepoAllowed_iff_registered [OF acme_cache_facts(1,2)]
  by (simp add: acme_cache_facts accepts_def is_regex_def full_name_def)

text \<open>
  A delivery about a repository that no registered resource accepts has no effect on any
  task, whoever sent it.
\<close>

theorem unregistered_repository_is_inert:
  assumes "payload_actor (Header r ''X-GitHub-Event'') body = Some (ow, rp, us)"
    and "Body r = Inr body"
    and "orders_ok (tcAllowlist tc)"
    and "\<And>h. cache_wf compile (cache_at (tcAllowlist tc) h)"
    and "\<And>h k q. (k, q) \<in> entries (cache_at (tcAllowlist tc) h) \<Longrightarrow> \<not> accepts compile k q (full_name ow rp)"
  shows "traces (ServeHTTP pt (NewHandler secret bn (taskCreator_ops tc)) r)
           (\<lambda>resp es. task_effects es = [] \<and> StatusCode resp \<noteq> StatusCreated)"
proof -
  have "fst (run_state (IsRepoAllowed (taskCreator_ops tc) ow rp) h) \<noteq> Inr True" for h
    using IsAllowed_entries [OF assms(4), of h "order_at (tcAllowlist tc) h"] assms(3,5)
    by (auto simp: IsRepoAllowed_run orders_ok_def)
  then have "delivery_outcome (taskCreator_ops tc) made resumes ow rp us resp es \<Longrightarrow>
      task_effects es = [] \<and> StatusCode resp \<noteq> StatusCreated" for made resumes resp es
    by (auto simp: delivery_outcome_def split: if_splits)
  then show ?thesis
    using assms(1,2) creator.ServeHTTP_outcome [of "NewHandler secret bn (taskCreator_ops tc)" tc pt r]
    by (fastforce simp: NewHandler_def intro: traces_weaken)
qed

definition labeled_body :: string where
  "labeled_body =
     ''{'' @ dq @ ''action'' @ dq @ '':'' @ dq @ ''labeled'' @ dq @ '',''
     @ dq @ ''label'' @ dq @ '':{'' @ dq @ ''name'' @ dq @ '':'' @ dq @ ''claude'' @ dq @ ''},''
     @ dq @ ''issue'' @ dq @ '':{'' @ dq @ ''number'' @ dq @ '':5},''
     @ dq @ ''sender'' @ dq @ '':{'' @ dq @ ''login'' @ dq @ '':'' @ dq @ ''ann'' @ dq @ ''},''
     @ dq @ ''repository'' @ dq @ '':{'' @ dq @ ''name'' @ dq @ '':'' @ dq @ ''app'' @ dq @ '',''
     @ dq @ ''owner'' @ dq @ '':{'' @ dq @ ''login'' @ dq @ '':'' @ dq @ ''acme'' @ dq @ ''}}}''"

definition labeled_request :: http_request where
  "labeled_request =
     \<lparr>Method = ''POST'', Body = Inr labeled_body,
      Header = (\<lambda>k. if k = ''X-GitHub-Event'' then ''issues'' else [])\<rparr>"

theorem unregistered_repository_is_inert_witness:
  "traces (ServeHTTP (\<lambda>_. True) (NewHandler [] ''bot'' (taskCreator_ops acme_creator)) labeled_request)
     (\<lambda>resp es. task_effects es = [] \<and> StatusCode resp \<noteq> StatusCreated)"
proof (rule unregistered_repository_is_inert [where compile = "\<lambda>_. None" and body = labeled_body
      and ow = "''acme''" and rp = "''app''" and us = "''ann''"], goal_cases)
  case 1
  have "payload_actor ''issues'' labeled_body = Some (''acme'', ''app'', ''ann'')" by code_simp
  then show ?case by (simp add: labeled_request_def)
next
  case 5
  then show ?case by (auto simp: acme_cache_facts accepts_def is_regex_def full_name_def)
qed (simp_all add: labeled_request_def acme_cache_facts)


text \<open>
  C25: A user is admitted only for a reason: no list restricts the repository, the user is
  listed, or GitHub, asked through some client, named one of the listed roles.
\<close>

theorem IsUserAllowed_sound:
  assumes "fst (run_state (taskCreator_IsUserAllowed tc ow rp us) h) = Inr True"
    and "AllowlistCache_GetMergedAllowlist (order_at (tcAllowlist tc) h) (cache_at (tcAllowlist tc) h)
           (full_name ow rp) = (users, roles)"
  shows "users = [] \<and> roles = [] \<or> us \<in> set users
         \<or> (\<exists>c h' p. ask_permission (tcGithub tc) h' (request_auth c) ow rp us = Inr p \<and> p \<in> set roles)"
proof -
  have perm: "run_state (GetUserRepoPermission (gh_ops g c) ow rp us) h' = (Inr p, h2) \<Longrightarrow>
      ask_permission g h' (request_auth c) ow rp us = Inr p" for g c h' h2 p
    by (cases c; cases "ask_permission g h' (request_auth c) ow rp us")
      (auto simp: app_client_def pat_client_def pat_operation_defs get_user_repo_permission_def)
  show ?thesis
    using assms
    by (auto simp: taskCreator_IsUserAllowed_def read_cache_def list_ex_iff Let_def
        split: if_splits option.splits prod.splits sum.splits dest!: perm)
qed

theorem IsUserAllowed_sound_witness:
  "fst (run_state (taskCreator_IsUserAllowed acme_creator ''acme'' ''web'' ''ann'') []) = Inr True
   \<and> ([''ann''] = [] \<and> [''write''] = [] \<or> ''ann'' \<in> set [''ann'']
      \<or> (\<exists>c h' p. ask_permission sample_github h' (request_auth c) ''acme'' ''web'' ''ann'' = Inr p
            \<and> p \<in> set [''write'']))"
proof -
  have m: "AllowlistCache_GetMergedAllowlist (order_at (tcAllowlist acme_creator) [])
      (cache_at (tcAllowlist acme_creator) []) (full_name ''acme'' ''web'') = ([''ann''], [''write''])"
    by code_simp
  have r: "fst (run_state (taskCreator_IsUserAllowed acme_creator ''acme'' ''web'' ''ann'') []) = Inr True"
    by code_simp
  show ?thesis using r IsUserAllowed_sound [OF r m] by (simp add: acme_creator_def)
qed

text \<open>
  Role lists are dead letters without a global client: a user who is not listed by name is
  rejected after one look at the cache, GitHub is not asked, even when the repository has a
  client of its own.
\<close>

theorem roles_need_global_client:
  assumes "tcGhClient tc = None"
    and "AllowlistCache_GetMergedAllowlist (order_at (tcAllowlist tc) h) (cache_at (tcAllowlist tc) h)
           (full_name ow rp) = (users, roles)"
    and "roles \<noteq> []" and "us \<notin> set users"
  shows "run_state (taskCreator_IsUserAllowed tc ow rp us) h = (Inr False, h @ [CacheRead])"
  using assms by (auto simp: taskCreator_IsUserAllowed_def read_cache_def list_ex_iff)

theorem roles_need_global_client_witness:
  "run_state (taskCreator_IsUserAllowed acme_creator ''acme'' ''web'' ''bob'') [] = (Inr False, [CacheRead])
   \<and> AllowlistCache_GetClient acme_cache ''acme/web'' = Some (NewPATClient ''t'' ''bot'')
   \<and> ask_permission sample_github [] (TokenAuth ''t'') ''acme'' ''web'' ''bob'' = Inr ''write''
   \<and> AllowedRoles (RSpec acme_repo) = [''write'']"
proof -
  have m: "AllowlistCache_GetMergedAllowlist (order_at (tcAllowlist acme_creator) [])
      (cache_at (tcAllowlist acme_creator) []) (full_name ''acme'' ''web'') = ([''ann''], [''write''])"
    by code_simp
  have "run_state (taskCreator_IsUserAllowed acme_creator ''acme'' ''web'' ''bob'') [] = (Inr False, [] @ [CacheRead])"
    by (rule roles_need_global_client [OF _ m]) (simp_all add: acme_creator_def)
  then show ?thesis
    by (simp add: AllowlistCache_GetClient_def acme_cache_def AllowlistCache_SetClient_def
        sample_github_def acme_repo_def)
qed










text \<open>
  The bot never answers itself: a comment by the bot's own account is acknowledged without
  asking the task creator anything, whatever it mentions.
\<close>

theorem own_comments_ignored:
  assumes "json_unmarshal dec_issue_comment zero_issue_comment body = Some event"
    and "icCommentLogin event = botName hn \<or> icCommentLogin event = botName hn @ ''[bot]''"
  shows "run_state (handleIssueComment hn body) h = (write_header StatusOK, h)"
  using assms by (auto simp: handleIssueComment_def isBotComment_def)

definition own_comment :: string where
  "own_comment =
     ''{'' @ dq @ ''action'' @ dq @ '':'' @ dq @ ''created'' @ dq @ '',''
     @ dq @ ''comment'' @ dq @ '':{'' @ dq @ ''body'' @ dq @ '':'' @ dq @ ''hi @bot'' @ dq @ '',''
     @ dq @ ''user'' @ dq @ '':{'' @ dq @ ''login'' @ dq @ '':'' @ dq @ ''bot[bot]'' @ dq @ ''}}}''"

theorem own_comments_ignored_witness:
  "run_state (handleIssueComment (NewHandler [] ''bot'' (taskCreator_ops acme_creator)) own_comment) []
     = (write_header StatusOK, [])"
proof -
  have "json_unmarshal dec_issue_comment zero_issue_comment own_comment
      = Some (zero_issue_comment\<lparr>icAction := ''created'', icCommentBody := ''hi @bot'',
                                  icCommentLogin := ''bot[bot]''\<rparr>)"
    by code_simp
  then show ?thesis
    by (rule own_comments_ignored) (simp add: NewHandler_def)
qed

end
