(* ===== verification/Controller_Runtime.thy ===== *)
theory Controller_Runtime
  imports Shared_Cache Cluster
begin

section \<open>What a reconciler returns\<close>

text \<open>
  The results of controller-runtime's \<open>Reconcile\<close>, shared by the two reconcilers. A
  reconciliation ends in an \<open>outcome\<close>: the pair of result and error it returns, a panic (a call
  on a nil interface), or no return at all (the paging loops of the GitHub clients).
\<close>

record ctrl_result =
  Requeue :: bool
  RequeueAfter :: time

definition no_requeue :: ctrl_result where
  "no_requeue = \<lparr>Requeue = False, RequeueAfter = 0\<rparr>"

datatype outcome = Finished ctrl_result | Errored go_error | Panicked | Hangs

end
