(* ===== verification/Sandbox.thy ===== *)
theory Sandbox
  imports Go_Quote Samples
begin

section \<open>Sandboxes (\<open>internal/sandbox/client.go\<close>)\<close>

text \<open>
  Naming, creating, awaiting and deleting \<open>SandboxClaim\<close> objects. The lemmas show that a
  claim's name is a valid DNS label text for every owner, repository and number, that it
  determines the number, and what \<open>WaitForReady\<close> reports.
\<close>

subsection \<open>Names\<close>

text \<open>The characters \<open>sanitizeRe\<close> does not match.\<close>

definition name_char :: "char \<Rightarrow> bool" where
  "name_char c = ((97 \<le> byte c \<and> byte c \<le> 122) \<or> is_digit c \<or> c = CHR ''-'')"

text \<open>
  \<open>sanitizeRe.ReplaceAllString(name, "-")\<close>: every maximal run of other characters becomes one
  dash. The flag tells whether the previous character belongs to such a run. The expression is
  matched rune by rune; all bytes of a non-ASCII rune, and invalid bytes, are in the run.
\<close>

fun sanitize :: "bool \<Rightarrow> string \<Rightarrow> string" where
  "sanitize run [] = []"
| "sanitize run (c # s) =
     (if name_char c then c # sanitize False s
      else if run then sanitize True s
      else CHR ''-'' # sanitize True s)"

text \<open>\<open>strings.Trim(name, "-")\<close>\<close>

definition trim_dashes :: "string \<Rightarrow> string" where
  "trim_dashes s = rev (dropWhile (\<lambda>c. c = CHR ''-'') (rev (dropWhile (\<lambda>c. c = CHR ''-'') s)))"

definition ClaimName :: "string \<Rightarrow> string \<Rightarrow> int \<Rightarrow> string" where
  "ClaimName owner repo issue =
     (let raw = owner @ ''-'' @ repo @ ''-issue-'' @ show_int issue;
          name = to_lower raw;
          name = sanitize False name
      in trim_dashes name)"

subsection \<open>Claims\<close>

definition SandboxClaimGVR_Group :: string where
  "SandboxClaimGVR_Group = ''extensions.agents.x-k8s.io''"

definition SandboxClaimGVR_Version :: string where
  "SandboxClaimGVR_Version = ''v1alpha1''"

definition PodNameAnnotation :: string where
  "PodNameAnnotation = ''agents.x-k8s.io/pod-name''"

definition BuildClaim :: "string \<Rightarrow> string \<Rightarrow> string \<Rightarrow> json" where
  "BuildClaim name templateName ns =
     JObj [(''apiVersion'', JStr (SandboxClaimGVR_Group @ ''/'' @ SandboxClaimGVR_Version)),
           (''kind'', JStr ''SandboxClaim''),
           (''metadata'', JObj [(''name'', JStr name), (''namespace'', JStr ns)]),
           (''spec'', JObj [(''sandboxTemplateRef'', JObj [(''name'', JStr templateName)])])]"

record ready_result =
  SandboxName :: string
  ReadyPodName :: string

record sandbox_client =
  dynClient :: cluster
  client_namespace :: string

definition NewSandboxClient :: "cluster \<Rightarrow> string \<Rightarrow> sandbox_client" where
  "NewSandboxClient w ns = \<lparr>dynClient = w, client_namespace = ns\<rparr>"

definition CreateClaim :: "sandbox_client \<Rightarrow> string \<Rightarrow> string \<Rightarrow> go_error option io" where
  "CreateClaim c name templateName =
     claim_create (dynClient c) (client_namespace c)
       (BuildClaim name templateName (client_namespace c))"

definition DeleteClaim :: "sandbox_client \<Rightarrow> string \<Rightarrow> go_error option io" where
  "DeleteClaim c name = do {
     err \<leftarrow> claim_delete (dynClient c) (client_namespace c) name;
     ret (if is_not_found err then None else err)
   }"

subsection \<open>Readiness\<close>

definition ready_condition :: "cluster \<Rightarrow> json \<Rightarrow> bool" where
  "ready_condition w c =
     (case c of
        JObj fs \<Rightarrow>
          fst (NestedString w c [''type'']) = ''Ready'' \<and>
          fst (NestedString w c [''status'']) = ''True''
      | _ \<Rightarrow> False)"

definition isSandboxReady :: "cluster \<Rightarrow> json \<Rightarrow> bool" where
  "isSandboxReady w obj =
     (case NestedSlice w obj [''status'', ''conditions''] of
        (conditions, found, err) \<Rightarrow>
          if err \<noteq> None \<or> \<not> found then False
          else list_ex (ready_condition w) conditions)"

text \<open>The sandbox a claim is bound to, when its status names one.\<close>

definition bound_sandbox :: "cluster \<Rightarrow> json \<Rightarrow> string option" where
  "bound_sandbox w obj =
     (case NestedString w obj [''status'', ''sandbox'', ''Name''] of
        (name, found, err) \<Rightarrow> if err = None \<and> found \<and> name \<noteq> [] then Some name else None)"

text \<open>
  The loop over the channel of a watch, in \<open>WaitForReady\<close> and in \<open>waitForSandboxName\<close>: what
  is looked for, and the three errors (the context's end, the channel closed, a watch error).
\<close>

fun watch_loop ::
  "(json \<Rightarrow> 'a option) \<Rightarrow> go_error \<Rightarrow> go_error \<Rightarrow> go_error \<Rightarrow> watch_item list \<Rightarrow> go_error + 'a" where
  "watch_loop found timed_out chan_closed failed [] = Inl timed_out"
| "watch_loop found timed_out chan_closed failed (it # its) =
     (case it of
        WatchClosed \<Rightarrow> Inl chan_closed
      | WatchError \<Rightarrow> Inl failed
      | WatchOther \<Rightarrow> watch_loop found timed_out chan_closed failed its
      | WatchObject obj \<Rightarrow>
          (case found obj of
             Some x \<Rightarrow> Inr x
           | None \<Rightarrow> watch_loop found timed_out chan_closed failed its))"

definition waitForSandboxName :: "sandbox_client \<Rightarrow> time \<Rightarrow> string \<Rightarrow> (go_error + string) io" where
  "waitForSandboxName c timeout claimName =
     (let w = dynClient c; ns = client_namespace c; q = go_quote (IsPrint w) claimName in do {
        got \<leftarrow> claim_get w ns claimName;
        (case (case got of Inl e \<Rightarrow> None | Inr claim \<Rightarrow> bound_sandbox w claim) of
           Some name \<Rightarrow> ret (Inr name)
         | None \<Rightarrow> do {
             watcher \<leftarrow> claim_watch w ns (''metadata.name='' @ claimName) timeout;
             (case watcher of
                Inl err \<Rightarrow> ret (Inl (wrap_error (''failed to watch SandboxClaim '' @ q) err))
              | Inr (items, ctx_err) \<Rightarrow>
                  ret (watch_loop (bound_sandbox w)
                    (wrap_error (''timed out waiting for sandboxName on SandboxClaim '' @ q) ctx_err)
                    (new_error (''watch channel closed for SandboxClaim '' @ q))
                    (new_error (''watch error for SandboxClaim '' @ q))
                    items))
           })
      })"

definition ready_sandbox :: "cluster \<Rightarrow> string \<Rightarrow> json \<Rightarrow> ready_result option" where
  "ready_sandbox w sandboxName obj =
     (if isSandboxReady w obj
      then Some \<lparr>SandboxName = sandboxName, ReadyPodName = GetAnnotation w obj PodNameAnnotation\<rparr>
      else None)"

definition WaitForReady :: "sandbox_client \<Rightarrow> string \<Rightarrow> time \<Rightarrow> (go_error + ready_result) io" where
  "WaitForReady c claimName timeout =
     (let w = dynClient c; ns = client_namespace c in do {
        got \<leftarrow> claim_get w ns claimName;
        (case got of
           Inl err \<Rightarrow>
             ret (Inl (wrap_error (''failed to get SandboxClaim '' @ go_quote (IsPrint w) claimName) err))
         | Inr claim \<Rightarrow> do {
             named \<leftarrow> (case bound_sandbox w claim of
                         Some name \<Rightarrow> ret (Inr name)
                       | None \<Rightarrow> waitForSandboxName c timeout claimName);
             (case named of
                Inl err \<Rightarrow> ret (Inl err)
              | Inr sandboxName \<Rightarrow> do {
                  existing \<leftarrow> sandbox_get w ns sandboxName;
                  (case (case existing of Inl e \<Rightarrow> None | Inr obj \<Rightarrow> ready_sandbox w sandboxName obj) of
                     Some res \<Rightarrow> ret (Inr res)
                   | None \<Rightarrow> do {
                       watcher \<leftarrow> sandbox_watch w ns (''metadata.name='' @ sandboxName) timeout;
                       (let q = go_quote (IsPrint w) sandboxName in
                        case watcher of
                          Inl err \<Rightarrow> ret (Inl (wrap_error (''failed to watch Sandbox '' @ q) err))
                        | Inr (items, ctx_err) \<Rightarrow>
                            ret (watch_loop (ready_sandbox w sandboxName)
                              (wrap_error (''timed out waiting for Sandbox '' @ q
                                 @ '' to become ready'') ctx_err)
                              (new_error (''watch channel closed for Sandbox '' @ q))
                              (new_error (''watch error for Sandbox '' @ q))
                              items))
                     })
                })
           })
      })"

definition GetPodIP :: "sandbox_client \<Rightarrow> string \<Rightarrow> (go_error + string) io" where
  "GetPodIP c podName =
     (let w = dynClient c; q = go_quote (IsPrint w) podName in do {
        got \<leftarrow> pod_get w (client_namespace c) podName;
        ret (case got of
               Inl err \<Rightarrow> Inl (wrap_error (''failed to get Pod '' @ q) err)
             | Inr pod \<Rightarrow>
                 (case NestedString w pod [''status'', ''podIP''] of
                    (podIP, found, err) \<Rightarrow>
                      (case err of
                         Some e \<Rightarrow> Inl (wrap_error (''failed to read podIP from Pod '' @ q) e)
                       | None \<Rightarrow>
                           if \<not> found \<or> podIP = []
                           then Inl (new_error (''pod '' @ q @ '' does not have an IP address yet''))
                           else Inr podIP)))
      })"

subsection \<open>What the operations touch\<close>

lemma emits_call:
  "(\<And>h. P (ev (ask h))) \<Longrightarrow> emits P (ext_call ask ev) (\<lambda>_. True)"
  by (simp add: emits_ext_call)

lemma CreateClaim_sandbox [emits_intros]: "emits sandbox_event (CreateClaim c n t) (\<lambda>_. True)"
  by (simp add: CreateClaim_def call_defs emits_call)

lemma DeleteClaim_sandbox [emits_intros]: "emits sandbox_event (DeleteClaim c n) (\<lambda>_. True)"
  by (auto simp: DeleteClaim_def call_defs intro!: emits_intros emits_call)

text \<open>Waiting only reads.\<close>

fun sandbox_read :: "event \<Rightarrow> bool" where
  "sandbox_read (ClaimGet ns n) = True"
| "sandbox_read (ClaimWatch ns sel tmo) = True"
| "sandbox_read (SandboxGet ns n) = True"
| "sandbox_read (SandboxWatch ns sel tmo) = True"
| "sandbox_read _ = False"

lemma waitForSandboxName_reads [emits_intros]:
  "emits sandbox_read (waitForSandboxName c tmo n) (\<lambda>_. True)"
  unfolding waitForSandboxName_def call_defs
  by (rule emits_intros emits_call TrueI | simp)+

lemma WaitForReady_reads: "emits sandbox_read (WaitForReady c n tmo) (\<lambda>_. True)"
  unfolding WaitForReady_def call_defs
  by (rule emits_intros emits_call TrueI | simp)+

subsection \<open>The interface to the reconciler\<close>

text \<open>
  What the reconciler relies on: claiming is one creation of the claim built for the name,
  releasing one deletion, both in the client's namespace, and waiting only reads.
\<close>

locale sandbox_ops =
  fixes create :: "string \<Rightarrow> string \<Rightarrow> go_error option io"
    and delete :: "string \<Rightarrow> go_error option io"
    and wait :: "string \<Rightarrow> time \<Rightarrow> (go_error + ready_result) io"
    and ns :: string
  assumes create_calls: "traces (create n tmpl) (\<lambda>res es. es = [ClaimCreate ns (BuildClaim n tmpl ns) res])"
    and delete_calls: "traces (delete n) (\<lambda>res es. \<exists>x. es = [ClaimDelete ns n x])"
    and wait_reads: "emits sandbox_read (wait n tmo) (\<lambda>_. True)"

interpretation claims: sandbox_ops "CreateClaim c" "DeleteClaim c" "WaitForReady c" "client_namespace c" for c
  by unfold_locales
    (auto simp: CreateClaim_def claim_create_def DeleteClaim_def claim_delete_def WaitForReady_reads
      intro!: traces_ext_call traces_bind_call traces_return)

subsection \<open>The watch loop\<close>

text \<open>The loop finds \<open>x\<close> exactly when some object yields it and all items before are passed over.\<close>

fun passed_over :: "(json \<Rightarrow> 'a option) \<Rightarrow> watch_item \<Rightarrow> bool" where
  "passed_over found WatchOther = True"
| "passed_over found (WatchObject obj) = (found obj = None)"
| "passed_over found _ = False"

lemma watch_loop_Inr:
  "watch_loop found t c f its = Inr x \<longleftrightarrow>
     (\<exists>pre obj post. its = pre @ WatchObject obj # post \<and> list_all (passed_over found) pre
        \<and> found obj = Some x)"
proof (induction its)
  case Nil
  then show ?case by simp
next
  case (Cons it its)
  show ?case
  proof
    assume "watch_loop found t c f (it # its) = Inr x"
    then consider obj where "it = WatchObject obj" "found obj = Some x"
      | "passed_over found it" "watch_loop found t c f its = Inr x"
      by (cases it) (auto split: option.splits)
    then show "\<exists>pre obj post. it # its = pre @ WatchObject obj # post
        \<and> list_all (passed_over found) pre \<and> found obj = Some x"
    proof cases
      case 1
      then show ?thesis by (intro exI [of _ "[]"]) auto
    next
      case 2
      with Cons.IH obtain pre obj post where
        "its = pre @ WatchObject obj # post" "list_all (passed_over found) pre" "found obj = Some x"
        by blast
      with 2 show ?thesis by (intro exI [of _ "it # pre"]) auto
    qed
  next
    assume "\<exists>pre obj post. it # its = pre @ WatchObject obj # post
        \<and> list_all (passed_over found) pre \<and> found obj = Some x"
    then obtain pre obj post where
      p: "it # its = pre @ WatchObject obj # post" "list_all (passed_over found) pre"
        "found obj = Some x" by blast
    then show "watch_loop found t c f (it # its) = Inr x"
    proof (cases pre)
      case Nil
      with p show ?thesis by simp
    next
      case (Cons a as)
      with p have "passed_over found it" "watch_loop found t c f its = Inr x"
        using Cons.IH by auto
      then show ?thesis by (cases it) auto
    qed
  qed
qed

subsection \<open>Claim names\<close>

lemma to_lower_append:
  assumes "t = [] \<or> byte (hd t) < 128"
  shows "to_lower (s @ t) = to_lower s @ to_lower t"
proof (induction s rule: length_induct)
  case (1 s)
  show ?case
  proof (cases s)
    case Nil
    then show ?thesis by simp
  next
    case (Cons c s')
    have bytes: "byte (CHR 0x84) = 132" "byte (CHR 0xAA) = 170" "byte (CHR 0xB0) = 176"
      by (simp_all add: byte_def)
    have k: "prefix [CHR 0xE2, CHR 0x84, CHR 0xAA] (c # s' @ t) =
             prefix [CHR 0xE2, CHR 0x84, CHR 0xAA] (c # s')"
      using assms bytes by (cases s' rule: remdups_adj.cases; cases t) auto
    have i: "prefix [CHR 0xC4, CHR 0xB0] (c # s' @ t) = prefix [CHR 0xC4, CHR 0xB0] (c # s')"
      using assms bytes by (cases s'; cases t) auto
    consider "prefix [CHR 0xE2, CHR 0x84, CHR 0xAA] (c # s')"
      | "\<not> prefix [CHR 0xE2, CHR 0x84, CHR 0xAA] (c # s')" "prefix [CHR 0xC4, CHR 0xB0] (c # s')"
      | "\<not> prefix [CHR 0xE2, CHR 0x84, CHR 0xAA] (c # s')" "\<not> prefix [CHR 0xC4, CHR 0xB0] (c # s')"
      by blast
    then show ?thesis
    proof cases
      case 1
      then obtain s2 where "c # s' = [CHR 0xE2, CHR 0x84, CHR 0xAA] @ s2" by (auto elim: prefixE)
      with "1.IH" Cons show ?thesis by simp
    next
      case 2
      then obtain s2 where "c # s' = [CHR 0xC4, CHR 0xB0] @ s2" by (auto elim: prefixE)
      with "1.IH" Cons show ?thesis by simp
    next
      case 3
      then have "to_lower (c # s' @ t) = lower_byte c # to_lower (s' @ t)"
        and "to_lower (c # s') = lower_byte c # to_lower s'"
        using k i by (simp_all only: to_lower.simps if_False)
      with "1.IH" Cons show ?thesis by (simp del: to_lower.simps)
    qed
  qed
qed

lemma sanitize_clean: "list_all name_char t \<Longrightarrow> sanitize run t = t"
  by (induction t arbitrary: run) auto

lemma sanitize_append:
  "list_all name_char t \<Longrightarrow> sanitize run (s @ t) = sanitize run s @ t"
  by (induction s arbitrary: run) (auto simp: sanitize_clean)

lemma sanitize_chars: "list_all name_char (sanitize run s)"
  by (induction s arbitrary: run) (auto simp: name_char_def)

lemma sanitize_length: "length (sanitize run s) \<le> length s"
  by (induction s arbitrary: run) (auto simp: le_SucI)

lemma to_lower_length: "length (to_lower s) \<le> length s"
  by (induction s rule: to_lower.induct) auto

lemma to_lower_digits: "list_all is_digit s \<Longrightarrow> to_lower s = s"
proof (induction s)
  case Nil
  then show ?case by simp
next
  case (Cons c s)
  then have "is_digit c" by simp
  then have "c \<noteq> CHR 0xE2" "c \<noteq> CHR 0xC4" "lower_byte c = c"
    by (auto simp: is_digit_def byte_def lower_byte_def)
  with Cons show ?case by simp
qed

text \<open>The fixed end of a claim's name.\<close>

lemma issue_tail:
  "to_lower (''-issue-'' @ show_int n) = ''-issue-'' @ show_int n"
  "list_all name_char (''-issue-'' @ show_int n)"
proof -
  have "to_lower (show_int n) = show_int n"
    using to_lower_digits [OF show_nat_digits]
    by (auto simp: show_int_def lower_byte_def byte_def)
  then show "to_lower (''-issue-'' @ show_int n) = ''-issue-'' @ show_int n"
    by (simp add: lower_byte_def byte_def)
  have "list_all name_char (show_nat k)" for k
    using show_nat_digits [of k] by (auto simp: list_all_iff name_char_def)
  then show "list_all name_char (''-issue-'' @ show_int n)"
    by (simp add: show_int_def name_char_def byte_def)
qed

lemma dash_char: "name_char (CHR ''-'')"
  by (simp add: name_char_def)

lemma last_show_int: "is_digit (last (show_int n))" "show_int n \<noteq> []"
proof -
  have "is_digit (last (show_nat k))" for k
    using show_nat_digits [of k] last_in_set [OF show_nat_nonempty] by (auto simp: list_all_iff)
  then show "is_digit (last (show_int n))" "show_int n \<noteq> []"
    by (simp_all add: show_int_def)
qed

text \<open>The part of a name before its fixed end.\<close>

definition claim_prefix :: "string \<Rightarrow> string \<Rightarrow> string" where
  "claim_prefix owner repo =
     dropWhile (\<lambda>c. c = CHR ''-'') (sanitize False (to_lower (owner @ ''-'' @ repo)))"

lemma ClaimName_eq:
  "ClaimName owner repo n =
     (if claim_prefix owner repo = [] then [] else claim_prefix owner repo @ ''-'')
       @ ''issue-'' @ show_int n"
proof -
  let ?t = "''-issue-'' @ show_int n"
  let ?p = "sanitize False (to_lower (owner @ ''-'' @ repo))"
  have "to_lower ((owner @ ''-'' @ repo) @ ?t) = to_lower (owner @ ''-'' @ repo) @ ?t"
    by (subst to_lower_append) (simp_all add: byte_def issue_tail(1) [simplified])
  then have raw: "sanitize False (to_lower (owner @ ''-'' @ repo @ ''-issue-'' @ show_int n)) = ?p @ ?t"
    using sanitize_append [OF issue_tail(2)] by simp
  have last: "dropWhile (\<lambda>c. c = CHR ''-'') (rev (x @ show_int n)) = rev (x @ show_int n)" for x
    using last_show_int [of n] digit_not_minus
    by (cases "show_int n" rule: rev_cases) auto
  have drop: "dropWhile (\<lambda>c. c = CHR ''-'') (?p @ ?t) =
      (if claim_prefix owner repo = [] then [] else claim_prefix owner repo @ ''-'')
        @ ''issue-'' @ show_int n"
    by (auto simp: claim_prefix_def dropWhile_append)
  have "ClaimName owner repo n = rev (dropWhile (\<lambda>c. c = CHR ''-'') (rev
      (((if claim_prefix owner repo = [] then [] else claim_prefix owner repo @ ''-'') @ ''issue-'')
        @ show_int n)))"
    unfolding ClaimName_def Let_def trim_dashes_def raw drop by simp
  then show ?thesis unfolding last by simp
qed

lemma claim_prefix_chars:
  "list_all name_char (claim_prefix owner repo)"
  "claim_prefix owner repo \<noteq> [] \<Longrightarrow> hd (claim_prefix owner repo) \<noteq> CHR ''-''"
proof -
  show "list_all name_char (claim_prefix owner repo)"
    using sanitize_chars [of False "to_lower (owner @ ''-'' @ repo)"]
    by (auto simp: claim_prefix_def list_all_iff simp del: to_lower.simps dest: set_dropWhileD)
  show "claim_prefix owner repo \<noteq> [] \<Longrightarrow> hd (claim_prefix owner repo) \<noteq> CHR ''-''"
    using hd_dropWhile [of "\<lambda>c. c = CHR ''-''"] by (simp add: claim_prefix_def del: to_lower.simps)
qed

lemma claim_prefix_length: "length (claim_prefix owner repo) \<le> length owner + length repo + 1"
  unfolding claim_prefix_def
  by (rule order_trans [OF dropWhile_length_le], rule order_trans [OF sanitize_length],
      rule order_trans [OF to_lower_length]) simp

subsection \<open>Properties\<close>

text \<open>A cluster for the witnesses: the claim is bound, the sandbox becomes ready on the watch.\<close>

definition warming_cluster :: cluster where
  "warming_cluster = sample_cluster
     \<lparr>ask_claim_get := (\<lambda>h ns n. Inr (bound_claim ''sb'')),
      ask_sandbox_get := (\<lambda>h ns n. Inr (sandbox_object ''False'' ''pod'')),
      ask_sandbox_watch := (\<lambda>h ns sel tmo. Inr
        ([WatchOther, WatchObject (sandbox_object ''False'' ''pod''),
          WatchObject (sandbox_object ''True'' ''pod''), WatchClosed], offline))\<rparr>"

definition warming_client :: sandbox_client where
  "warming_client = NewSandboxClient warming_cluster ''ns''"

lemmas warming_defs =
  warming_client_def warming_cluster_def NewSandboxClient_def sample_cluster_def bound_claim_def
  sandbox_object_def bound_sandbox_def isSandboxReady_def ready_condition_def ready_sandbox_def
  walk_string_def walk_slice_def PodNameAnnotation_def

text \<open>
  C24: The name of a claim is usable as a Kubernetes object name whatever the owner, the
  repository and the number are: it is not empty, consists of lower-case letters, digits and
  dashes, neither starts nor ends with a dash, ends with the issue number, and is at most a
  few characters longer than owner and repository.
\<close>

theorem ClaimName_dns_safe:
  "list_all name_char (ClaimName owner repo n)
   \<and> ClaimName owner repo n \<noteq> []
   \<and> hd (ClaimName owner repo n) \<noteq> CHR ''-''
   \<and> last (ClaimName owner repo n) \<noteq> CHR ''-''
   \<and> suffix (''issue-'' @ show_int n) (ClaimName owner repo n)
   \<and> length (ClaimName owner repo n) \<le> length owner + length repo + 8 + length (show_int n)"
proof -
  have tail: "list_all name_char (''issue-'' @ show_int n)" using issue_tail(2) [of n] by simp
  have "last (show_int n) \<noteq> CHR ''-''" using last_show_int(1) digit_not_minus by blast
  then show ?thesis
    using tail claim_prefix_chars [of owner repo] claim_prefix_length [of owner repo] dash_char
      last_show_int(2) [of n]
    by (auto simp: ClaimName_eq suffix_def)
qed

text \<open>
  For a given repository the name determines the number: two issues never share a claim,
  and reconciling the same issue again asks for the same claim.
\<close>

theorem ClaimName_injective: "ClaimName owner repo m = ClaimName owner repo n \<longleftrightarrow> m = n"
  by (simp add: ClaimName_eq)

text \<open>
  Different repositories can share a claim: a dash at the end of the owner and one at the
  start of the repository name are the same text once joined.
\<close>

theorem ClaimName_collides: "ClaimName (a @ ''-'' @ b) c n = ClaimName a (b @ ''-'' @ c) n"
  by (simp add: ClaimName_def Let_def)

text \<open>
  C23: What \<open>WaitForReady\<close> reports is true: when it returns a result, some sandbox object of the
  reported name had been read or received from the watch, this object had a condition of type
  Ready with status True, and the reported pod is the one in its annotation.
\<close>

theorem WaitForReady_sound:
  assumes "fst (run_state (WaitForReady c claim tmo) h) = Inr res"
  shows "\<exists>h' obj. isSandboxReady (dynClient c) obj
           \<and> ReadyPodName res = GetAnnotation (dynClient c) obj PodNameAnnotation
           \<and> (ask_sandbox_get (dynClient c) h' (client_namespace c) (SandboxName res) = Inr obj
              \<or> (\<exists>items e. ask_sandbox_watch (dynClient c) h' (client_namespace c)
                    (''metadata.name='' @ SandboxName res) tmo = Inr (items, e)
                  \<and> WatchObject obj \<in> set items))"
proof -
  have ready: "ready_sandbox (dynClient c) n obj = Some res \<Longrightarrow>
      isSandboxReady (dynClient c) obj \<and> SandboxName res = n
      \<and> ReadyPodName res = GetAnnotation (dynClient c) obj PodNameAnnotation" for n obj
    by (auto simp: ready_sandbox_def split: if_splits)
  have loop: "watch_loop (ready_sandbox (dynClient c) n) t cl f items = Inr res \<Longrightarrow>
      \<exists>obj. WatchObject obj \<in> set items \<and> ready_sandbox (dynClient c) n obj = Some res" for n t cl f items
    by (auto simp: watch_loop_Inr)
  show ?thesis
    using assms
    by (auto simp: WaitForReady_def call_defs Let_def split: sum.splits option.splits prod.splits
        dest!: loop ready)
qed

theorem WaitForReady_sound_witness:
  "fst (run_state (WaitForReady warming_client ''c'' 300) []) = Inr \<lparr>SandboxName = ''sb'', ReadyPodName = ''pod''\<rparr>
   \<and> (\<exists>h' obj. isSandboxReady warming_cluster obj
         \<and> ''pod'' = GetAnnotation warming_cluster obj PodNameAnnotation
         \<and> (ask_sandbox_get warming_cluster h' ''ns'' ''sb'' = Inr obj
            \<or> (\<exists>items e. ask_sandbox_watch warming_cluster h' ''ns'' (''metadata.name='' @ ''sb'') 300
                  = Inr (items, e) \<and> WatchObject obj \<in> set items)))"
proof -
  have run: "fst (run_state (WaitForReady warming_client ''c'' 300) [])
      = Inr \<lparr>SandboxName = ''sb'', ReadyPodName = ''pod''\<rparr>"
    by code_simp
  have "dynClient warming_client = warming_cluster" "client_namespace warming_client = ''ns''"
    by (simp_all add: warming_client_def NewSandboxClient_def)
  with WaitForReady_sound [OF run] run show ?thesis by simp
qed

text \<open>
  C22: Once the claim names its sandbox and the sandbox is not ready yet, the result is decided
  by the first ready object the watch delivers, with every earlier object passed over and no
  error or end of the channel before it.
\<close>

theorem WaitForReady_first_ready:
  assumes "ask_claim_get (dynClient c) h (client_namespace c) claim = Inr obj"
    and "bound_sandbox (dynClient c) obj = Some s"
    and "ask_sandbox_get (dynClient c) (h @ [ClaimGet (client_namespace c) claim]) (client_namespace c) s
           = Inr sb"
    and "\<not> isSandboxReady (dynClient c) sb"
    and "ask_sandbox_watch (dynClient c)
           (h @ [ClaimGet (client_namespace c) claim, SandboxGet (client_namespace c) s])
           (client_namespace c) (''metadata.name='' @ s) tmo = Inr (items, e)"
  shows "fst (run_state (WaitForReady c claim tmo) h) = Inr res \<longleftrightarrow>
           (\<exists>pre x post. items = pre @ WatchObject x # post
              \<and> list_all (passed_over (ready_sandbox (dynClient c) s)) pre
              \<and> ready_sandbox (dynClient c) s x = Some res)"
proof -
  have "ready_sandbox (dynClient c) s sb = None" using assms(4) by (simp add: ready_sandbox_def)
  then show ?thesis
    using assms(1-3,5) by (simp add: WaitForReady_def call_defs Let_def watch_loop_Inr)
qed

theorem WaitForReady_first_ready_witness:
  "fst (run_state (WaitForReady warming_client ''c'' 300) [])
     = Inr \<lparr>SandboxName = ''sb'', ReadyPodName = ''pod''\<rparr>"
proof (rule iffD2 [OF WaitForReady_first_ready
      [where obj = "bound_claim ''sb''" and s = "''sb''" and sb = "sandbox_object ''False'' ''pod''"
        and items = "[WatchOther, WatchObject (sandbox_object ''False'' ''pod'')]
               @ WatchObject (sandbox_object ''True'' ''pod'') # [WatchClosed]" and e = offline]],
    goal_cases)
  case 1
  show "ask_claim_get (dynClient warming_client) [] (client_namespace warming_client) ''c''
          = Inr (bound_claim ''sb'')" by code_simp
next
  case 2
  show "bound_sandbox (dynClient warming_client) (bound_claim ''sb'') = Some ''sb''" by code_simp
next
  case 3
  show "ask_sandbox_get (dynClient warming_client)
          ([] @ [ClaimGet (client_namespace warming_client) ''c'']) (client_namespace warming_client) ''sb''
        = Inr (sandbox_object ''False'' ''pod'')" by code_simp
next
  case 4
  show "\<not> isSandboxReady (dynClient warming_client) (sandbox_object ''False'' ''pod'')" by code_simp
next
  case 5
  show "ask_sandbox_watch (dynClient warming_client)
          ([] @ [ClaimGet (client_namespace warming_client) ''c'', SandboxGet (client_namespace warming_client) ''sb''])
          (client_namespace warming_client) (''metadata.name='' @ ''sb'') 300
        = Inr ([WatchOther, WatchObject (sandbox_object ''False'' ''pod'')]
               @ WatchObject (sandbox_object ''True'' ''pod'') # [WatchClosed], offline)" by code_simp
next
  case 6
  have "list_all (passed_over (ready_sandbox (dynClient warming_client) ''sb''))
      [WatchOther, WatchObject (sandbox_object ''False'' ''pod'')]" by code_simp
  moreover have "ready_sandbox (dynClient warming_client) ''sb'' (sandbox_object ''True'' ''pod'')
      = Some \<lparr>SandboxName = ''sb'', ReadyPodName = ''pod''\<rparr>" by code_simp
  ultimately show ?case by blast
qed

end
