(* ===== verification/Task_Reconciler.thy ===== *)
theory Task_Reconciler
  imports Controller_Runtime Sandbox Claude_Output
begin

section \<open>The task reconciler (\<open>internal/controller/claudetask_controller.go\<close>)\<close>

text \<open>
  \<open>Reconcile\<close> and the handlers of the phases. The task is a value that the handlers change before they
  write it back; a failed write leaves the object in the cluster as it was.
\<close>

subsection \<open>State\<close>

record task_reconciler =
  trClient :: cluster
  trSandboxClient :: sandbox_client
  trGitHubClient :: "gh_client option"
  trGithub :: github_api
  trAllowlist :: "shared_cache option"
  trSandboxTemplateName :: string
  trSandboxNamespace :: string
  trAnthropicAPIKey :: string

definition nanos_per_second :: time where
  "nanos_per_second = 1000000000"

definition sandboxReadyTimeout :: time where
  "sandboxReadyTimeout = 5 * 60 * nanos_per_second"

definition taskExecutionTimeout :: time where
  "taskExecutionTimeout = 30 * 60 * nanos_per_second"

definition sandboxContainerName :: string where
  "sandboxContainerName = ''claude''"

definition defaultMaxClarifications :: int where
  "defaultMaxClarifications = 3"

definition clarificationWaitTimeout :: time where
  "clarificationWaitTimeout = 24 * 60 * 60 * nanos_per_second"

text \<open>Changing the status of a task.\<close>

definition on_status :: "(claude_task_status \<Rightarrow> claude_task_status) \<Rightarrow> claude_task \<Rightarrow> claude_task" where
  "on_status f t = t\<lparr>Status := f (Status t)\<rparr>"

subsection \<open>Helpers\<close>

definition resolveGitHubClient :: "task_reconciler \<Rightarrow> string \<Rightarrow> gh_client option io" where
  "resolveGitHubClient r repository =
     (case trAllowlist r of
        None \<Rightarrow> ret (trGitHubClient r)
      | Some s \<Rightarrow> do {
          own \<leftarrow> read_cache s (\<lambda>_ c. AllowlistCache_GetClient c repository);
          ret (case own of Some c \<Rightarrow> Some c | None \<Rightarrow> trGitHubClient r)
        })"

definition commentOnTask ::
  "task_reconciler \<Rightarrow> gh_client option \<Rightarrow> claude_task \<Rightarrow> string \<Rightarrow> string \<Rightarrow> string \<Rightarrow> go_error option io" where
  "commentOnTask r ghClient task ow rp body =
     (case ghClient of
        None \<Rightarrow> ret None
      | Some c \<Rightarrow>
          (let sp = Spec task; ops = gh_ops (trGithub r) c in
           if 0 < ReviewCommentID sp \<and> 0 < PullRequest sp
           then ReplyToReviewComment ops ow rp (PullRequest sp) (ReviewCommentID sp) body
           else
             (let issueNum = (if 0 < PullRequest sp then PullRequest sp else Issue sp)
              in CommentOnIssue ops ow rp issueNum body)))"

definition failTask :: "task_reconciler \<Rightarrow> claude_task \<Rightarrow> string \<Rightarrow> outcome io" where
  "failTask r task reason = do {
     now \<leftarrow> clock (trClient r);
     (let task = on_status (\<lambda>s. s\<lparr>Phase := Failed, CompletionTime := Some now\<rparr>) task in do {
        err \<leftarrow> status_update (trClient r) task;
        (case err of
           Some e \<Rightarrow> ret (Errored (wrap_error ''updating task status to Failed'' e))
         | None \<Rightarrow> do {
             ghClient \<leftarrow> resolveGitHubClient r (Repository (Spec task));
             _ \<leftarrow> (case split2 (CHR ''/'') (Repository (Spec task)) of
                    [ow, rp] \<Rightarrow>
                      commentOnTask r ghClient task ow rp
                        (''Claude failed to complete the task.'' @ nl @ nl @ ''Reason: '' @ reason
                         @ formatCostReport (CostReport (Status task)))
                  | _ \<Rightarrow> ret None);
             _ \<leftarrow> (if SandboxClaimName (Status task) \<noteq> []
                  then DeleteClaim (trSandboxClient r) (SandboxClaimName (Status task))
                  else ret None);
             ret (Finished no_requeue)
           })
      })
   }"

definition handleClarification ::
  "task_reconciler \<Rightarrow> gh_client option \<Rightarrow> claude_task \<Rightarrow> string \<Rightarrow> string \<Rightarrow> string \<Rightarrow> outcome io" where
  "handleClarification r ghClient task ow rp question =
     (let maxRounds = (if MaxClarifications (Spec task) = 0 then defaultMaxClarifications
                       else MaxClarifications (Spec task))
      in
      if maxRounds \<le> int (length (Clarifications (Status task)))
      then failTask r task (''exceeded max clarification rounds ('' @ show_int maxRounds @ '')'')
      else
        (let task = on_status (\<lambda>s. s\<lparr>Clarifications := Clarifications s @ [\<lparr>Question = question, Answer = []\<rparr>],
                                     Phase := WaitingForClarification\<rparr>) task in do {
           err \<leftarrow> status_update (trClient r) task;
           (case err of
              Some e \<Rightarrow> ret (Errored (wrap_error ''updating task status to WaitingForClarification'' e))
            | None \<Rightarrow>
                (let bname = (case ghClient of None \<Rightarrow> [] | Some c \<Rightarrow> BotName (gh_ops (trGithub r) c));
                     comment = ''**Claude needs clarification to continue:**'' @ nl @ nl @ ''> '' @ question
                       @ nl @ nl @ ''Please reply mentioning @'' @ bname @ '' with your answer.''
                       @ formatCostReport (CostReport (Status task))
                 in do {
                   _ \<leftarrow> commentOnTask r ghClient task ow rp comment;
                   ret (Finished no_requeue)
                 }))
         }))"

text \<open>What a fetched part adds to the context: nothing on an error or an empty text.\<close>

definition context_part :: "go_error + string \<Rightarrow> string list" where
  "context_part got = (case got of Inl err \<Rightarrow> [] | Inr s \<Rightarrow> if s \<noteq> [] then [s] else [])"

definition fetchThreadContext ::
  "task_reconciler \<Rightarrow> gh_client option \<Rightarrow> claude_task \<Rightarrow> string \<Rightarrow> string \<Rightarrow> string option io" where
  "fetchThreadContext r ghClient task ow rp =
     (case ghClient of
        None \<Rightarrow> ret (Some [])
      | Some c \<Rightarrow>
          (let sp = Spec task; ops = gh_ops (trGithub r) c in
           if TaskType sp = PRReviewFix then do {
             prCtx \<leftarrow> (if 0 < PullRequest sp then FetchPRContext ops ow rp (PullRequest sp)
                       else ret (Inr []));
             threadCtx \<leftarrow> (if 0 < ReviewCommentID sp \<and> 0 < PullRequest sp
                           then FetchReviewCommentThread ops ow rp (PullRequest sp) (ReviewCommentID sp)
                           else ret (Some (Inr [])));
             ret (map_option (\<lambda>t. str_join nl (context_part prCtx @ context_part t)) threadCtx)
           }
           else if 0 < Issue sp then do {
             issueCtx \<leftarrow> FetchIssueThread ops ow rp (Issue sp);
             ret (map_option (\<lambda>t. str_join nl (context_part t)) issueCtx)
           }
           else ret (Some [])))"

definition execInPod :: "task_reconciler \<Rightarrow> time \<Rightarrow> string \<Rightarrow> string \<Rightarrow> (string \<times> go_error option) io" where
  "execInPod r timeout podName command =
     (let w = trClient r; ns = trSandboxNamespace r; argv = [''/bin/bash'', ''-c'', command] in
      case NewForConfig_error w of
        Some e \<Rightarrow> ret ([], Some (wrap_error ''creating clientset'' e))
      | None \<Rightarrow>
          (case NewSPDYExecutor_error w ns podName sandboxContainerName argv of
             Some e \<Rightarrow> ret ([], Some (wrap_error ''creating SPDY executor'' e))
           | None \<Rightarrow> do {
               (output, stderr, err) \<leftarrow> exec_stream w ns podName sandboxContainerName argv timeout;
               ret (output, map_option (wrap_error (''exec failed (stderr: '' @ stderr @ '')'')) err)
             }))"

subsection \<open>The phases\<close>

definition reconcilePending :: "task_reconciler \<Rightarrow> claude_task \<Rightarrow> outcome io" where
  "reconcilePending r task =
     (case split2 (CHR ''/'') (Repository (Spec task)) of
        [ow, rp] \<Rightarrow>
          (let claimName = ClaimName ow rp (Issue (Spec task)) in do {
             err \<leftarrow> CreateClaim (trSandboxClient r) claimName (trSandboxTemplateName r);
             (case (case err of None \<Rightarrow> None | Some e \<Rightarrow> if is_already_exists e then None else Some e) of
                Some e \<Rightarrow> ret (Errored (wrap_error ''creating SandboxClaim'' e))
              | None \<Rightarrow> do {
                  now \<leftarrow> clock (trClient r);
                  (let task = on_status (\<lambda>s. s\<lparr>Phase := Running, SandboxClaimName := claimName,
                                               StartTime := Some now\<rparr>) task in do {
                     err \<leftarrow> status_update (trClient r) task;
                     (case err of
                        Some e \<Rightarrow> ret (Errored (wrap_error ''updating task status to Running'' e))
                      | None \<Rightarrow> do {
                          ghClient \<leftarrow> resolveGitHubClient r (Repository (Spec task));
                          _ \<leftarrow> commentOnTask r ghClient task ow rp
                            (''Claude is starting to work on this. A sandbox has been allocated.''
                             @ nl @ nl @ ''Task: '' @ tick @ TaskName task @ tick);
                          ret (Finished \<lparr>Requeue = True, RequeueAfter = 0\<rparr>)
                        })
                   })
                })
           })
      | _ \<Rightarrow> failTask r task (''invalid repository format: '' @ Repository (Spec task)))"

definition reconcileWaitingForClarification :: "task_reconciler \<Rightarrow> claude_task \<Rightarrow> outcome io" where
  "reconcileWaitingForClarification r task =
     (let requeue = ret (Finished \<lparr>Requeue = False, RequeueAfter = 5 * 60 * nanos_per_second\<rparr>) in
      case StartTime (Status task) of
        None \<Rightarrow> requeue
      | Some start \<Rightarrow> do {
          now \<leftarrow> clock (trClient r);
          (if clarificationWaitTimeout < now - start
           then failTask r task ''clarification wait timed out after 24h''
           else requeue)
        })"

text \<open>The end of \<open>reconcileRunning\<close>: from parsing the pull request's URL on.\<close>

definition complete_task ::
  "task_reconciler \<Rightarrow> gh_client option \<Rightarrow> claude_task \<Rightarrow> string \<Rightarrow> string \<Rightarrow> string \<Rightarrow> string \<Rightarrow> outcome io" where
  "complete_task r ghClient task ow rp claimName resultText =
     (let prURL = parsePRURL resultText in do {
        now \<leftarrow> clock (trClient r);
        (let task = on_status (\<lambda>s. s\<lparr>Phase := Completed, CompletionTime := Some now,
                 PullRequestURL := (if prURL \<noteq> [] then prURL else PullRequestURL s)\<rparr>) task in do {
           err \<leftarrow> status_update (trClient r) task;
           (case err of
              Some e \<Rightarrow> ret (Errored (wrap_error ''updating task status to Completed'' e))
            | None \<Rightarrow> do {
                _ \<leftarrow> commentOnTask r ghClient task ow rp
                  (''Claude has completed the task.''
                   @ (if prURL \<noteq> [] then nl @ nl @ ''Pull Request: '' @ prURL else [])
                   @ formatCostReport (CostReport (Status task)));
                _ \<leftarrow> DeleteClaim (trSandboxClient r) claimName;
                ret (Finished no_requeue)
              })
         })
      })"

text \<open>The middle: what is done with the output of the run.\<close>

definition after_exec ::
  "task_reconciler \<Rightarrow> gh_client option \<Rightarrow> claude_task \<Rightarrow> string \<Rightarrow> string \<Rightarrow> string
     \<Rightarrow> string \<Rightarrow> go_error option \<Rightarrow> outcome io" where
  "after_exec r ghClient task ow rp claimName output err =
     (let (cr, resultText) = parseClaudeOutput output;
          task = on_status (\<lambda>s. s\<lparr>CostReport := Some (accumulateCost (CostReport s) cr)\<rparr>) task;
          question = parseClarification resultText
      in
      if question \<noteq> [] then do {
        _ \<leftarrow> status_update (trClient r) task;
        handleClarification r ghClient task ow rp question
      }
      else
        (case err of
           Some e \<Rightarrow>
             if str_contains resultText markerFailed then failTask r task ''Claude reported task failure''
             else failTask r task (''task execution error: '' @ err_text e)
         | None \<Rightarrow>
             if str_contains resultText markerFailed \<and> \<not> str_contains resultText markerComplete
             then failTask r task ''Claude reported task failure''
             else complete_task r ghClient task ow rp claimName resultText))"

definition is_resume :: "claude_task \<Rightarrow> bool" where
  "is_resume task =
     (let cs = Clarifications (Status task) in cs \<noteq> [] \<and> Answer (cs ! (length cs - 1)) \<noteq> [])"

text \<open>From the resolution of the client to the run in the pod.\<close>

definition run_claude ::
  "task_reconciler \<Rightarrow> claude_task \<Rightarrow> string \<Rightarrow> string \<Rightarrow> string \<Rightarrow> outcome io" where
  "run_claude r task ow rp claimName = do {
     ghClient \<leftarrow> resolveGitHubClient r (Repository (Spec task));
     (case ghClient of
        None \<Rightarrow> ret Panicked
      | Some c \<Rightarrow> do {
          token \<leftarrow> GetCloneToken (gh_ops (trGithub r) c);
          (case token of
             Inl err \<Rightarrow> failTask r task (''failed to get clone token: '' @ err_text err)
           | Inr tok \<Rightarrow> do {
               threadContext \<leftarrow> fetchThreadContext r ghClient task ow rp;
               (case threadContext of
                  None \<Rightarrow> ret Hangs
                | Some ctx \<Rightarrow>
                    (let prompt = buildPrompt task ctx;
                         command = buildCommand (trAnthropicAPIKey r) ow rp tok task prompt (is_resume task)
                     in do {
                       (output, err) \<leftarrow> execInPod r taskExecutionTimeout (PodName (Status task)) command;
                       after_exec r ghClient task ow rp claimName output err
                     }))
             })
        })
   }"

definition reconcileRunning :: "task_reconciler \<Rightarrow> claude_task \<Rightarrow> outcome io" where
  "reconcileRunning r task =
     (let claimName = SandboxClaimName (Status task) in
      if claimName = [] then failTask r task ''no SandboxClaim name in status''
      else
        (case split2 (CHR ''/'') (Repository (Spec task)) of
           [ow, rp] \<Rightarrow>
             (if PodName (Status task) = [] then do {
                ready \<leftarrow> WaitForReady (trSandboxClient r) claimName sandboxReadyTimeout;
                (case ready of
                   Inl err \<Rightarrow> failTask r task (''sandbox failed to become ready: '' @ err_text err)
                 | Inr res \<Rightarrow>
                     (let task = on_status (\<lambda>s. s\<lparr>PodName := ReadyPodName res\<rparr>) task in do {
                        err \<leftarrow> status_update (trClient r) task;
                        (case err of
                           Some e \<Rightarrow> ret (Errored (wrap_error ''updating task status with pod info'' e))
                         | None \<Rightarrow> run_claude r task ow rp claimName)
                      }))
              }
              else run_claude r task ow rp claimName)
         | _ \<Rightarrow> failTask r task (''invalid repository format: '' @ Repository (Spec task))))"

definition reconcile_task :: "task_reconciler \<Rightarrow> claude_task \<Rightarrow> outcome io" where
  "reconcile_task r task =
     (case Phase (Status task) of
        PhaseUnset \<Rightarrow> reconcilePending r task
      | Pending \<Rightarrow> reconcilePending r task
      | Running \<Rightarrow> reconcileRunning r task
      | WaitingForClarification \<Rightarrow> reconcileWaitingForClarification r task
      | Completed \<Rightarrow> ret (Finished no_requeue)
      | Failed \<Rightarrow> ret (Finished no_requeue)
      | UnknownPhase s \<Rightarrow> ret (Finished no_requeue))"

definition Reconcile :: "task_reconciler \<Rightarrow> string \<Rightarrow> string \<Rightarrow> outcome io" where
  "Reconcile r ns name = do {
     got \<leftarrow> task_get (trClient r) ns name;
     (case got of
        Inl err \<Rightarrow>
          if err_reason err = NotFound then ret (Finished no_requeue) else ret (Errored err)
      | Inr task \<Rightarrow> reconcile_task r task)
   }"

end
