(* ===== verification/Repo_Reconciler.thy ===== *)
theory Repo_Reconciler
  imports Controller_Runtime Go_Quote Samples
begin

section \<open>The repository reconciler (\<open>internal/controller/clauderepository_controller.go\<close>)\<close>

text \<open>
  This reconciler is the only one that changes the cache once the program runs, and
  controller-runtime runs one reconciliation of it at a time: the cache is passed to a
  reconciliation and returned changed. The other goroutines read it in between. As everywhere,
  a failed status write leaves the object in the cluster as it was, and a successful one
  returns the object written.
\<close>

subsection \<open>State\<close>

record repo_reconciler =
  rrClient :: cluster
  rrGithub :: github_api
  rrCompile :: regex_compiler
  rrGlobalGHClient :: "gh_client option"
  rrWebhookURL :: string
  rrWebhookSecret :: string

type_synonym client_cache = "gh_client allowlist_cache"

subsection \<open>Clients\<close>

definition repo_resolveClient :: "repo_reconciler \<Rightarrow> client_cache \<Rightarrow> string \<Rightarrow> gh_client option" where
  "repo_resolveClient r c fullName =
     (case AllowlistCache_GetClient c fullName of
        Some cl \<Rightarrow> Some cl
      | None \<Rightarrow> rrGlobalGHClient r)"

text \<open>\<open>Reconcile\<close> calls this one with the reference present; it is passed along.\<close>

definition buildPATClient ::
  "repo_reconciler \<Rightarrow> claude_repository \<Rightarrow> secret_ref \<Rightarrow> (go_error + gh_client) io" where
  "buildPATClient r repo ref = do {
     secret \<leftarrow> secret_get (rrClient r) (RepoNamespace repo) (SecretName ref);
     (case secret of
        Inl err \<Rightarrow> ret (Inl (wrap_error (''reading secret '' @ SecretName ref) err))
      | Inr Data \<Rightarrow>
          (let key = (if SecretKey ref = [] then ''token'' else SecretKey ref) in
           case Data key of
             None \<Rightarrow> ret (Inl (new_error (''key '' @ go_quote (IsPrint (rrClient r)) key
                      @ '' not found in secret '' @ SecretName ref)))
           | Some token \<Rightarrow>
               (let bname = (case rrGlobalGHClient r of
                      None \<Rightarrow> [] | Some c \<Rightarrow> BotName (gh_ops (rrGithub r) c))
                in ret (Inr (NewPATClient token bname)))))
   }"

subsection \<open>Reconciliation\<close>

definition cleanupRepo ::
  "repo_reconciler \<Rightarrow> claude_repository \<Rightarrow> string \<Rightarrow> client_cache \<Rightarrow> client_cache io" where
  "cleanupRepo r repo fullName c = do {
     _ \<leftarrow> (if WebhookID (RStatus repo) \<noteq> 0 \<and> \<not> IsPattern repo
          then (case repo_resolveClient r c fullName of
                  None \<Rightarrow> ret None
                | Some g \<Rightarrow> DeleteRepoWebhook (gh_ops (rrGithub r) g) (Owner (RSpec repo)) (Repo (RSpec repo))
                              (WebhookID (RStatus repo)))
          else ret None);
     ret (AllowlistCache_DeleteClient fullName (AllowlistCache_Delete fullName c))
   }"

text \<open>The two optional steps of a live repository: its own client, and its webhook.\<close>

definition own_client ::
  "repo_reconciler \<Rightarrow> claude_repository \<Rightarrow> string \<Rightarrow> client_cache \<Rightarrow> client_cache io" where
  "own_client r repo fullName c =
     (case PATSecretRef (RSpec repo) of
        None \<Rightarrow> ret c
      | Some ref \<Rightarrow> do {
          patClient \<leftarrow> buildPATClient r repo ref;
          ret (case patClient of
                 Inl err \<Rightarrow> c
               | Inr cl \<Rightarrow> AllowlistCache_SetClient fullName cl c)
        })"

definition with_hook :: "int \<Rightarrow> claude_repository \<Rightarrow> claude_repository" where
  "with_hook hookID repo = repo\<lparr>RStatus := (RStatus repo)\<lparr>WebhookID := hookID\<rparr>\<rparr>"

definition ensure_webhook ::
  "repo_reconciler \<Rightarrow> claude_repository \<Rightarrow> string \<Rightarrow> client_cache \<Rightarrow> claude_repository io" where
  "ensure_webhook r repo fullName c =
     (if WebhookID (RStatus repo) = 0 \<and> rrWebhookURL r \<noteq> [] \<and> \<not> IsPattern repo
      then
        (case repo_resolveClient r c fullName of
           None \<Rightarrow> ret repo
         | Some g \<Rightarrow> do {
             made \<leftarrow> CreateRepoWebhook (gh_ops (rrGithub r) g) (Owner (RSpec repo)) (Repo (RSpec repo))
               (rrWebhookURL r) (rrWebhookSecret r);
             (case made of
                Inl err \<Rightarrow> ret repo
              | Inr hookID \<Rightarrow> do {
                  _ \<leftarrow> repo_status_update (rrClient r) (with_hook hookID repo);
                  ret (with_hook hookID repo)
                })
           })
      else ret repo)"

definition reconcile_repo ::
  "repo_reconciler \<Rightarrow> claude_repository \<Rightarrow> client_cache \<Rightarrow> (outcome \<times> client_cache) io" where
  "reconcile_repo r repo c =
     (let fullName = FullName repo in
      if DeletionTimestamp repo \<noteq> None then do {
        c \<leftarrow> cleanupRepo r repo fullName c;
        ret (Finished no_requeue, c)
      }
      else do {
        c \<leftarrow> own_client r repo fullName c;
        repo \<leftarrow> ensure_webhook r repo fullName c;
        ret (Finished no_requeue, AllowlistCache_Set (rrCompile r) fullName repo c)
      })"

definition ClaudeRepository_Reconcile ::
  "repo_reconciler \<Rightarrow> string \<Rightarrow> string \<Rightarrow> client_cache \<Rightarrow> (outcome \<times> client_cache) io" where
  "ClaudeRepository_Reconcile r ns name c = do {
     got \<leftarrow> repo_get (rrClient r) ns name;
     (case got of
        Inl err \<Rightarrow>
          if err_reason err = NotFound then ret (Finished no_requeue, c) else ret (Errored err, c)
      | Inr repo \<Rightarrow> reconcile_repo r repo c)
   }"

end
