(* ===== verification/Startup.thy ===== *)
theory Startup
  imports Server_Setup Task_Creator Task_Reconciler Repo_Reconciler
begin

section \<open>Start-up (\<open>main\<close> of \<open>cmd/main.go\<close>)\<close>

text \<open>
  What \<open>main\<close> builds before it hands over to the manager: the servers' options, the configuration
  read from the environment, the GitHub client, the cache, the two reconcilers, the webhook
  handler and its HTTP routes. The environment is a function from names to values, empty where
  unset. Whether a call on the manager or a constructor of the libraries fails is an answer of
  \<open>platform\<close>.
\<close>

subsection \<open>Configuration\<close>

type_synonym environment = "string \<Rightarrow> string"

definition envOrDefault :: "environment \<Rightarrow> string \<Rightarrow> string \<Rightarrow> string" where
  "envOrDefault getenv key defaultValue =
     (let v = getenv key in if v \<noteq> [] then v else defaultValue)"

definition splitComma :: "string \<Rightarrow> string list" where
  "splitComma s =
     (if s = [] then []
      else filter (\<lambda>p. p \<noteq> []) (map trim_space (split_all (CHR '','') s)))"

text \<open>
  \<open>strconv.ParseInt(s, 10, 64)\<close> without its error: 0 for what is no number, the nearest bound for
  a number out of range. The digits are read from the left, and a value over 64 bits ends the
  reading before the rest is looked at.
\<close>

fun parse_digits :: "nat \<Rightarrow> string \<Rightarrow> nat option" where
  "parse_digits n [] = Some n"
| "parse_digits n (c # s) =
     (if \<not> is_digit c then None
      else
        (let n' = 10 * n + (byte c - 48) in
         if 2 ^ 64 \<le> n' then Some (2 ^ 64 - 1) else parse_digits n' s))"

definition ParseInt64 :: "string \<Rightarrow> int" where
  "ParseInt64 s =
     (let neg = prefix ''-'' s;
          digits = (if prefix ''-'' s \<or> prefix ''+'' s then tl s else s) in
      case (if digits = [] then None else parse_digits 0 digits) of
        None \<Rightarrow> 0
      | Some un \<Rightarrow>
          if \<not> neg \<and> 2 ^ 63 \<le> un then 2 ^ 63 - 1
          else if neg \<and> 2 ^ 63 < un then - (2 ^ 63)
          else if neg then - int un else int un)"

record config =
  ghAppID :: int
  ghInstallID :: int
  ghPrivateKey :: string
  ghWebhookSecret :: string
  ghBotName :: string
  ghPAT :: string
  ghAllowedUsers :: "string list"
  ghAllowedRoles :: "string list"
  anthropicKey :: string
  selfDNS :: string
  sandboxNamespace :: string
  sandboxTemplateName :: string
  webhookPort :: string

definition read_config :: "environment \<Rightarrow> config" where
  "read_config getenv =
     \<lparr>ghAppID = ParseInt64 (getenv ''GITHUB_APP_ID''),
      ghInstallID = ParseInt64 (getenv ''GITHUB_INSTALLATION_ID''),
      ghPrivateKey = getenv ''GITHUB_PRIVATE_KEY'',
      ghWebhookSecret = getenv ''GITHUB_WEBHOOK_SECRET'',
      ghBotName = envOrDefault getenv ''GITHUB_BOT_NAME'' ''claude-town'',
      ghPAT = getenv ''GITHUB_PAT'',
      ghAllowedUsers = splitComma (getenv ''GITHUB_ALLOWED_USERS''),
      ghAllowedRoles = splitComma (getenv ''GITHUB_ALLOWED_ROLES''),
      anthropicKey = getenv ''ANTHROPIC_API_KEY'',
      selfDNS = getenv ''SELF_DNS'',
      sandboxNamespace = envOrDefault getenv ''SANDBOX_NAMESPACE'' ''claude-town-system'',
      sandboxTemplateName = envOrDefault getenv ''SANDBOX_TEMPLATE_NAME'' ''claude-sandbox'',
      webhookPort = envOrDefault getenv ''WEBHOOK_PORT'' ''8082''\<rparr>"

subsection \<open>The GitHub client\<close>

definition client_config :: "config \<Rightarrow> app_config" where
  "client_config cfg =
     \<lparr>AppID = ghAppID cfg, InstallationID = ghInstallID cfg, PrivateKey = ghPrivateKey cfg,
      cfgWebhookSecret = ghWebhookSecret cfg, SelfDNS = selfDNS cfg, cfgBotName = ghBotName cfg\<rparr>"

text \<open>The error on the left ends the program.\<close>

definition setup_github :: "github_api \<Rightarrow> config \<Rightarrow> (go_error + gh_client option) io" where
  "setup_github g cfg =
     (if 0 < ghAppID cfg \<and> 0 < ghInstallID cfg \<and> ghPrivateKey cfg \<noteq> [] then
        (case NewClient g (client_config cfg) of
           Inl err \<Rightarrow> ret (Inl err)
         | Inr appClient \<Rightarrow> do {
             _ \<leftarrow> (if selfDNS cfg \<noteq> [] then RegisterWebhook g (client_config cfg) else ret None);
             ret (Inr (Some appClient))
           })
      else if ghPAT cfg \<noteq> [] then ret (Inr (Some (NewPATClient (ghPAT cfg) (ghBotName cfg))))
      else ret (Inr None))"

subsection \<open>Wiring\<close>

definition initial_cache :: "config \<Rightarrow> client_cache" where
  "initial_cache cfg =
     AllowlistCache_SetGlobalAllowlist (ghAllowedUsers cfg) (ghAllowedRoles cfg) NewAllowlistCache"

definition hook_url :: "config \<Rightarrow> string" where
  "hook_url cfg = (if selfDNS cfg \<noteq> [] then ''https://'' @ selfDNS cfg @ ''/webhooks/github'' else [])"

definition wire_task_reconciler ::
  "cluster \<Rightarrow> github_api \<Rightarrow> config \<Rightarrow> gh_client option \<Rightarrow> shared_cache \<Rightarrow> task_reconciler" where
  "wire_task_reconciler w g cfg githubClient allowlist =
     \<lparr>trClient = w,
      trSandboxClient = NewSandboxClient w (sandboxNamespace cfg),
      trGitHubClient = githubClient,
      trGithub = g,
      trAllowlist = Some allowlist,
      trSandboxTemplateName = sandboxTemplateName cfg,
      trSandboxNamespace = sandboxNamespace cfg,
      trAnthropicAPIKey = anthropicKey cfg\<rparr>"

definition wire_repo_reconciler ::
  "cluster \<Rightarrow> github_api \<Rightarrow> regex_compiler \<Rightarrow> config \<Rightarrow> gh_client option \<Rightarrow> repo_reconciler" where
  "wire_repo_reconciler w g compile cfg githubClient =
     \<lparr>rrClient = w, rrGithub = g, rrCompile = compile, rrGlobalGHClient = githubClient,
      rrWebhookURL = hook_url cfg, rrWebhookSecret = ghWebhookSecret cfg\<rparr>"

definition wire_handler ::
  "cluster \<Rightarrow> github_api \<Rightarrow> config \<Rightarrow> gh_client option \<Rightarrow> shared_cache \<Rightarrow> handler" where
  "wire_handler w g cfg githubClient allowlist =
     NewHandler (ghWebhookSecret cfg) (ghBotName cfg)
       (taskCreator_ops
          \<lparr>tcClient = w, tcNamespace = sandboxNamespace cfg, tcAllowlist = allowlist,
           tcGhClient = githubClient, tcGithub = g\<rparr>)"

text \<open>
  The routes. A \<open>ServeMux\<close> redirects a request whose path is not in its cleaned form (the body
  of that response is left out), and its two patterns match their paths exactly.
\<close>

definition clean_path :: "string \<Rightarrow> string" where
  "clean_path p =
     (let np = ''/'' @ str_join ''/'' (clean_elements True [] (split_all (CHR ''/'') p)) in
      if p \<noteq> [] \<and> last p = CHR ''/'' \<and> np \<noteq> ''/'' then np @ ''/'' else np)"

definition serve_mux :: "(nat \<Rightarrow> bool) \<Rightarrow> handler \<Rightarrow> string \<Rightarrow> http_request \<Rightarrow> http_response io" where
  "serve_mux printable webhookHandler path r =
     (if Method r \<noteq> ''CONNECT'' \<and> clean_path path \<noteq> path then ret (write_header 301)
      else if path = ''/webhooks/github'' then ServeHTTP printable webhookHandler r
      else if path = ''/healthz'' then ret (write_header StatusOK)
      else ret (http_error ''404 page not found'' 404))"

subsection \<open>The whole\<close>

record platform =
  NewCertWatcher_error :: "cert_files \<Rightarrow> go_error option"
  NewManager_error :: "manager_options \<Rightarrow> go_error option"
  NewDynamicClient_error :: "go_error option"
  SetupTask_error :: "go_error option"
  SetupRepo_error :: "go_error option"
  AddWatcher_error :: "cert_files \<Rightarrow> go_error option"
  AddHealthzCheck_error :: "go_error option"
  AddReadyzCheck_error :: "go_error option"

definition add_watcher :: "platform \<Rightarrow> cert_files option \<Rightarrow> go_error option" where
  "add_watcher pl watcher = (case watcher of None \<Rightarrow> None | Some files \<Rightarrow> AddWatcher_error pl files)"

text \<open>What is added to the manager after the controllers; the first failure ends the program.\<close>

definition add_runnables :: "platform \<Rightarrow> server_options \<Rightarrow> bool" where
  "add_runnables pl servers =
     (add_watcher pl (metricsCertWatcher servers) = None
      \<and> add_watcher pl (webhookCertWatcher servers) = None
      \<and> AddHealthzCheck_error pl = None \<and> AddReadyzCheck_error pl = None)"

text \<open>
  The program that runs, with its parts as functions of the cache that all of them share.
\<close>

record program =
  pManager :: manager_options
  pCache :: client_cache
  pTaskReconciler :: "shared_cache \<Rightarrow> task_reconciler"
  pRepoReconciler :: repo_reconciler
  pHandler :: "shared_cache \<Rightarrow> handler"
  pAddr :: string

datatype start = Exit nat | Started program

definition main_setup ::
  "platform \<Rightarrow> cluster \<Rightarrow> github_api \<Rightarrow> regex_compiler \<Rightarrow> flags \<Rightarrow> environment \<Rightarrow> start io" where
  "main_setup pl w g compile f getenv =
     (let cfg = read_config getenv in
      case setup_servers (NewCertWatcher_error pl) f of
        Inl err \<Rightarrow> ret (Exit 1)
      | Inr servers \<Rightarrow>
          if NewManager_error pl (manager_setup f servers) \<noteq> None then ret (Exit 1)
          else do {
            github \<leftarrow> setup_github g cfg;
            ret (case github of
                   Inl err \<Rightarrow> Exit 1
                 | Inr githubClient \<Rightarrow>
                     if NewDynamicClient_error pl \<noteq> None then Exit 1
                     else if SetupTask_error pl \<noteq> None \<or> SetupRepo_error pl \<noteq> None then Exit 1
                     else if \<not> add_runnables pl servers then Exit 1
                     else Started
                       \<lparr>pManager = manager_setup f servers,
                        pCache = initial_cache cfg,
                        pTaskReconciler = wire_task_reconciler w g cfg githubClient,
                        pRepoReconciler = wire_repo_reconciler w g compile cfg githubClient,
                        pHandler = wire_handler w g cfg githubClient,
                        pAddr = '':'' @ webhookPort cfg\<rparr>)
          })"

subsection \<open>Properties of the configuration\<close>






lemma ParseInt64_bounds: "- (2 ^ 63) \<le> ParseInt64 s \<and> ParseInt64 s < 2 ^ 63"
  by (auto simp: ParseInt64_def Let_def split: option.splits)

lemma parse_digits_foldl:
  "list_all is_digit s \<Longrightarrow> foldl (\<lambda>n c. 10 * n + (byte c - 48)) n s < 2 ^ 64 \<Longrightarrow>
     parse_digits n s = Some (foldl (\<lambda>n c. 10 * n + (byte c - 48)) n s)"
proof (induction n s rule: parse_digits.induct)
  case (2 n c s)
  have grow: "m \<le> foldl (\<lambda>n c. 10 * n + (byte c - 48)) m s" for m s
  proof (induction s arbitrary: m)
    case (Cons a s)
    have "m \<le> 10 * m + (byte a - 48)" by simp
    also have "\<dots> \<le> foldl (\<lambda>n c. 10 * n + (byte c - 48)) (10 * m + (byte a - 48)) s" by (rule Cons)
    finally show ?case by simp
  qed simp
  have "10 * n + (byte c - 48) < 2 ^ 64"
    using 2(3) grow [of "10 * n + (byte c - 48)" s] by simp
  with 2 show ?case by (simp add: Let_def)
qed simp

text \<open>
  Every 64-bit number is read back from the text it is printed as.
\<close>

theorem ParseInt64_roundtrip:
  assumes "- (2 ^ 63) \<le> n" and "n < 2 ^ 63"
  shows "ParseInt64 (show_int n) = n"
proof -
  have digits: "parse_digits 0 (show_nat m) = Some m" if "m \<le> 2 ^ 63" for m
    using parse_digits_foldl [OF show_nat_digits, of 0 m] nat_of_digits_show [of m] that
    by (simp add: nat_of_digits_def)
  have first: "\<not> prefix ''-'' (show_nat m)" "\<not> prefix ''+'' (show_nat m)" for m
    using show_nat_digits [of m] by (cases "show_nat m"; auto simp: is_digit_def byte_def)+
  show ?thesis
  proof (cases "n < 0")
    case True
    then have "nat (- n) \<le> 2 ^ 63" using assms by simp
    with True digits [of "nat (- n)"] show ?thesis by (simp add: ParseInt64_def show_int_def Let_def)
  next
    case False
    then have "nat n < 2 ^ 63" using assms by simp
    with False digits [of "nat n"] first show ?thesis by (simp add: ParseInt64_def show_int_def Let_def)
  qed
qed

theorem ParseInt64_roundtrip_witness:
  "ParseInt64 (show_int (- 9223372036854775808)) = - 9223372036854775808"
  by (rule ParseInt64_roundtrip) simp_all

end
