(* ===== verification/Task_Behaviour.thy ===== *)
theory Task_Behaviour
  imports Task_Reconciler
begin

section \<open>What a reconciliation of a task does\<close>

text \<open>
  An abstract specification of \<open>Reconcile\<close>: for the task it finds, the sequences of key calls
  (writes of the task, creation and deletion of claims, runs in the pod) it can make and the
  outcome each ends in, without the reads, the requests to GitHub and the texts. The first
  theorem shows that the detailed definitions refine it; the others are drawn from it.
\<close>

subsection \<open>Key events\<close>

fun key_event :: "event \<Rightarrow> bool" where
  "key_event (TaskCreate t r) = True"
| "key_event (TaskUpdate t r) = True"
| "key_event (RepoUpdate q r) = True"
| "key_event (ClaimCreate ns obj r) = True"
| "key_event (ClaimDelete ns n r) = True"
| "key_event (PodExec ns p c argv tmo) = True"
| "key_event _ = False"

definition ktraces :: "'a io \<Rightarrow> ('a \<Rightarrow> event list \<Rightarrow> bool) \<Rightarrow> bool" where
  "ktraces m R \<longleftrightarrow> traces m (\<lambda>x es. R x (filter key_event es))"

abbreviation silent :: "'a io \<Rightarrow> bool" where
  "silent m \<equiv> emits (\<lambda>e. \<not> key_event e) m (\<lambda>_. True)"

lemma kt_return [traces_intros]: "R x [] \<Longrightarrow> ktraces (ret x) R"
  by (simp add: ktraces_def traces_return)

lemma kt_bind:
  assumes "ktraces m S" and "\<And>x k1. S x k1 \<Longrightarrow> ktraces (f x) (\<lambda>y k2. R y (k1 @ k2))"
  shows "ktraces (State_Monad.bind m f) R"
  unfolding ktraces_def
  by (rule traces_bind [OF assms(1) [unfolded ktraces_def]])
    (use assms(2) in \<open>simp add: ktraces_def\<close>)

lemma kt_silent:
  assumes "silent m" and "\<And>x. ktraces (f x) R"
  shows "ktraces (State_Monad.bind m f) R"
proof (rule kt_bind [where S = "\<lambda>x k. k = []"])
  show "ktraces m (\<lambda>x k. k = [])"
    using assms(1) unfolding ktraces_def emits_traces
    by (rule traces_weaken) (simp add: filter_empty_conv list_all_iff)
qed (simp add: assms(2))

lemma kt_clock [traces_intros]: "(\<And>x. ktraces (f x) R) \<Longrightarrow> ktraces (State_Monad.bind (clock w) f) R"
  by (rule kt_silent) (simp_all add: clock_def emits_ext_call)

text \<open>The two forms of a write: with the oracle's answer, and with any answer.\<close>

lemma kt_update_ask:
  "(\<And>h. ktraces (f (ask_task_update w h t)) (\<lambda>y k. R y (TaskUpdate t (ask_task_update w h t) # k))) \<Longrightarrow>
     ktraces (State_Monad.bind (status_update w t) f) R"
  unfolding ktraces_def status_update_def by (rule traces_bind_call) simp

lemma kt_create_ask:
  "(\<And>h. ktraces (f (ask_claim_create (dynClient c) h (client_namespace c) (BuildClaim n tmpl (client_namespace c))))
       (\<lambda>y k. R y (ClaimCreate (client_namespace c) (BuildClaim n tmpl (client_namespace c))
          (ask_claim_create (dynClient c) h (client_namespace c) (BuildClaim n tmpl (client_namespace c))) # k))) \<Longrightarrow>
     ktraces (State_Monad.bind (CreateClaim c n tmpl) f) R"
  unfolding ktraces_def CreateClaim_def claim_create_def by (rule traces_bind_call) simp

lemma kt_update [traces_intros]:
  "(\<And>x. ktraces (f x) (\<lambda>y k. R y (TaskUpdate t x # k))) \<Longrightarrow>
     ktraces (State_Monad.bind (status_update w t) f) R"
  by (rule kt_update_ask)

lemma kt_exec [traces_intros]:
  "(\<And>x. ktraces (f x) (\<lambda>y k. R y (PodExec ns p ct argv tmo # k))) \<Longrightarrow>
     ktraces (State_Monad.bind (exec_stream w ns p ct argv tmo) f) R"
  unfolding ktraces_def exec_stream_def by (rule traces_bind_call) simp

lemma kt_if [traces_intros]:
  "(b \<Longrightarrow> ktraces m R) \<Longrightarrow> (\<not> b \<Longrightarrow> ktraces n R) \<Longrightarrow> ktraces (if b then m else n) R"
  by simp

lemma kt_case_option [traces_intros]:
  "(x = None \<Longrightarrow> ktraces m R) \<Longrightarrow> (\<And>y. x = Some y \<Longrightarrow> ktraces (n y) R) \<Longrightarrow>
   ktraces (case x of None \<Rightarrow> m | Some y \<Rightarrow> n y) R"
  by (cases x) auto

lemma kt_case_sum [traces_intros]:
  "(\<And>y. x = Inl y \<Longrightarrow> ktraces (m y) R) \<Longrightarrow> (\<And>y. x = Inr y \<Longrightarrow> ktraces (n y) R) \<Longrightarrow>
   ktraces (case x of Inl y \<Rightarrow> m y | Inr y \<Rightarrow> n y) R"
  by (cases x) auto

lemma kt_case_prod [traces_intros]:
  "(\<And>a b. x = (a, b) \<Longrightarrow> ktraces (m a b) R) \<Longrightarrow> ktraces (case x of (a, b) \<Rightarrow> m a b) R"
  by (cases x) auto

lemma kt_weaken: "ktraces m R \<Longrightarrow> (\<And>x k. R x k \<Longrightarrow> R' x k) \<Longrightarrow> ktraces m R'"
  unfolding ktraces_def by (erule traces_weaken) simp

subsection \<open>The silent helpers\<close>

lemma gh_not_key: "gh_event e \<Longrightarrow> \<not> key_event e"
  by (cases e) auto

lemma silent_gh: "emits gh_event m (\<lambda>_. True) \<Longrightarrow> silent m"
  by (erule emits_weaken) (auto simp: gh_not_key)

lemmas silent_github =
  ghc.GetCloneToken_gh [THEN silent_gh] ghc.CommentOnIssue_gh [THEN silent_gh]
  ghc.ReplyToReviewComment_gh [THEN silent_gh] ghc.FetchIssueThread_gh [THEN silent_gh]
  ghc.FetchPRContext_gh [THEN silent_gh] ghc.FetchReviewCommentThread_gh [THEN silent_gh]

lemma silent_resolve: "silent (resolveGitHubClient r n)"
  unfolding resolveGitHubClient_def read_cache_def
  by (auto intro!: emits_intros emits_ext_call)

lemma silent_comment: "silent (commentOnTask r g t ow rp b)"
  unfolding commentOnTask_def Let_def by (auto intro!: emits_intros silent_github)

lemma silent_fetch: "silent (fetchThreadContext r g t ow rp)"
  unfolding fetchThreadContext_def Let_def by (auto intro!: emits_intros silent_github)

text \<open>The operations of the sandbox client, from its contract.\<close>

context sandbox_ops begin

lemma kt_create:
  "(\<And>x. ktraces (f x) (\<lambda>y k. R y (ClaimCreate ns (BuildClaim n tmpl ns) x # k))) \<Longrightarrow>
     ktraces (State_Monad.bind (create n tmpl) f) R"
  by (rule kt_bind [where S = "\<lambda>x k. k = [ClaimCreate ns (BuildClaim n tmpl ns) x]"])
    (auto simp: ktraces_def intro: traces_weaken [OF create_calls])

lemma kt_delete:
  "(\<And>x y. ktraces (f x) (\<lambda>z k. R z (ClaimDelete ns n y # k))) \<Longrightarrow>
     ktraces (State_Monad.bind (delete n) f) R"
  by (rule kt_bind [where S = "\<lambda>x k. \<exists>y. k = [ClaimDelete ns n y]"])
    (auto simp: ktraces_def intro: traces_weaken [OF delete_calls])

lemma silent_wait: "silent (wait n tmo)"
proof -
  have "sandbox_read e \<Longrightarrow> \<not> key_event e" for e by (cases e) auto
  then show ?thesis by (rule emits_weaken [OF wait_reads]) simp_all
qed

end

lemmas [traces_intros] = claims.kt_create claims.kt_delete

lemmas silent_helpers =
  silent_resolve silent_comment silent_fetch claims.silent_wait ghc.GetCloneToken_gh [THEN silent_gh]

subsection \<open>The abstract specification\<close>

text \<open>The tasks that are written.\<close>

definition failed_task :: "time \<Rightarrow> claude_task \<Rightarrow> claude_task" where
  "failed_task now t = on_status (\<lambda>s. s\<lparr>Phase := Failed, CompletionTime := Some now\<rparr>) t"

definition started_task :: "time \<Rightarrow> string \<Rightarrow> claude_task \<Rightarrow> claude_task" where
  "started_task now claim t =
     on_status (\<lambda>s. s\<lparr>Phase := Running, SandboxClaimName := claim, StartTime := Some now\<rparr>) t"

definition placed_task :: "string \<Rightarrow> claude_task \<Rightarrow> claude_task" where
  "placed_task pod t = on_status (\<lambda>s. s\<lparr>PodName := pod\<rparr>) t"

definition charged_task :: "claude_result \<Rightarrow> claude_task \<Rightarrow> claude_task" where
  "charged_task cr t = on_status (\<lambda>s. s\<lparr>CostReport := Some (accumulateCost (CostReport s) cr)\<rparr>) t"

definition asking_task :: "string \<Rightarrow> claude_task \<Rightarrow> claude_task" where
  "asking_task q t =
     on_status (\<lambda>s. s\<lparr>Clarifications := Clarifications s @ [\<lparr>Question = q, Answer = []\<rparr>],
                      Phase := WaitingForClarification\<rparr>) t"

definition completed_task :: "time \<Rightarrow> string \<Rightarrow> claude_task \<Rightarrow> claude_task" where
  "completed_task now url t =
     on_status (\<lambda>s. s\<lparr>Phase := Completed, CompletionTime := Some now,
                      PullRequestURL := (if url \<noteq> [] then url else PullRequestURL s)\<rparr>) t"

definition max_rounds :: "claude_task \<Rightarrow> int" where
  "max_rounds t =
     (if MaxClarifications (Spec t) = 0 then defaultMaxClarifications else MaxClarifications (Spec t))"

text \<open>The verdict on a run: the question, the failure, or the pull request's URL.\<close>

datatype verdict = Asks string | Fails | Completes string

definition verdict_of :: "string \<Rightarrow> go_error option \<Rightarrow> verdict" where
  "verdict_of text err =
     (if parseClarification text \<noteq> [] then Asks (parseClarification text)
      else if err \<noteq> None \<or> str_contains text markerFailed \<and> \<not> str_contains text markerComplete
      then Fails else Completes (parsePRURL text))"

inductive fail_spec :: "task_reconciler \<Rightarrow> claude_task \<Rightarrow> outcome \<Rightarrow> event list \<Rightarrow> bool" for r t where
  fail_refused: "fail_spec r t (Errored e') [TaskUpdate (failed_task now t) (Some e)]"
| fail_no_claim: "SandboxClaimName (Status t) = [] \<Longrightarrow>
    fail_spec r t (Finished no_requeue) [TaskUpdate (failed_task now t) None]"
| fail_claim: "SandboxClaimName (Status t) \<noteq> [] \<Longrightarrow>
    fail_spec r t (Finished no_requeue)
      [TaskUpdate (failed_task now t) None,
       ClaimDelete (client_namespace (trSandboxClient r)) (SandboxClaimName (Status t)) d]"

inductive ask_spec :: "task_reconciler \<Rightarrow> claude_task \<Rightarrow> string \<Rightarrow> outcome \<Rightarrow> event list \<Rightarrow> bool"
  for r t q where
  ask_limit: "max_rounds t \<le> int (length (Clarifications (Status t))) \<Longrightarrow> fail_spec r t o' ks \<Longrightarrow>
    ask_spec r t q o' ks"
| ask_refused: "int (length (Clarifications (Status t))) < max_rounds t \<Longrightarrow>
    ask_spec r t q (Errored e') [TaskUpdate (asking_task q t) (Some e)]"
| ask_done: "int (length (Clarifications (Status t))) < max_rounds t \<Longrightarrow>
    ask_spec r t q (Finished no_requeue) [TaskUpdate (asking_task q t) None]"

inductive complete_spec ::
  "task_reconciler \<Rightarrow> claude_task \<Rightarrow> string \<Rightarrow> string \<Rightarrow> outcome \<Rightarrow> event list \<Rightarrow> bool" for r t claim url where
  complete_refused: "complete_spec r t claim url (Errored e') [TaskUpdate (completed_task now url t) (Some e)]"
| complete_done: "complete_spec r t claim url (Finished no_requeue)
    [TaskUpdate (completed_task now url t) None, ClaimDelete (client_namespace (trSandboxClient r)) claim d]"

inductive judge_spec ::
  "task_reconciler \<Rightarrow> claude_task \<Rightarrow> string \<Rightarrow> string \<Rightarrow> go_error option \<Rightarrow> outcome \<Rightarrow> event list \<Rightarrow> bool"
  for r t claim out err where
  judge_ask: "parseClaudeOutput out = (cr, text) \<Longrightarrow> verdict_of text err = Asks q \<Longrightarrow>
    ask_spec r (charged_task cr t) q o' ks \<Longrightarrow>
    judge_spec r t claim out err o' (TaskUpdate (charged_task cr t) saved # ks)"
| judge_fail: "parseClaudeOutput out = (cr, text) \<Longrightarrow> verdict_of text err = Fails \<Longrightarrow>
    fail_spec r (charged_task cr t) o' ks \<Longrightarrow> judge_spec r t claim out err o' ks"
| judge_complete: "parseClaudeOutput out = (cr, text) \<Longrightarrow> verdict_of text err = Completes url \<Longrightarrow>
    complete_spec r (charged_task cr t) claim url o' ks \<Longrightarrow> judge_spec r t claim out err o' ks"

definition pod_run :: "task_reconciler \<Rightarrow> claude_task \<Rightarrow> string \<Rightarrow> string \<Rightarrow> string \<Rightarrow> string \<Rightarrow> event" where
  "pod_run r t ow rp tok ctx =
     PodExec (trSandboxNamespace r) (PodName (Status t)) sandboxContainerName
       [''/bin/bash'', ''-c'',
        buildCommand (trAnthropicAPIKey r) ow rp tok t (buildPrompt t ctx) (is_resume t)]
       taskExecutionTimeout"

inductive run_spec ::
  "task_reconciler \<Rightarrow> claude_task \<Rightarrow> string \<Rightarrow> string \<Rightarrow> string \<Rightarrow> outcome \<Rightarrow> event list \<Rightarrow> bool"
  for r t ow rp claim where
  run_no_client: "run_spec r t ow rp claim Panicked []"
| run_hangs: "run_spec r t ow rp claim Hangs []"
| run_no_token: "fail_spec r t o' ks \<Longrightarrow> run_spec r t ow rp claim o' ks"
| run_no_exec: "judge_spec r t claim [] (Some e) o' ks \<Longrightarrow> run_spec r t ow rp claim o' ks"
| run_exec: "judge_spec r t claim out err o' ks \<Longrightarrow>
    run_spec r t ow rp claim o' (pod_run r t ow rp tok ctx # ks)"

inductive running_spec :: "task_reconciler \<Rightarrow> claude_task \<Rightarrow> outcome \<Rightarrow> event list \<Rightarrow> bool" for r t where
  running_fails: "fail_spec r t o' ks \<Longrightarrow> running_spec r t o' ks"
| running_unplaced: "PodName (Status t) = [] \<Longrightarrow>
    running_spec r t (Errored e') [TaskUpdate (placed_task pod t) (Some e)]"
| running_placed: "PodName (Status t) = [] \<Longrightarrow> SandboxClaimName (Status t) \<noteq> [] \<Longrightarrow>
    split2 (CHR ''/'') (Repository (Spec t)) = [ow, rp] \<Longrightarrow>
    run_spec r (placed_task pod t) ow rp (SandboxClaimName (Status t)) o' ks \<Longrightarrow>
    running_spec r t o' (TaskUpdate (placed_task pod t) None # ks)"
| running_on: "PodName (Status t) \<noteq> [] \<Longrightarrow> SandboxClaimName (Status t) \<noteq> [] \<Longrightarrow>
    split2 (CHR ''/'') (Repository (Spec t)) = [ow, rp] \<Longrightarrow>
    run_spec r t ow rp (SandboxClaimName (Status t)) o' ks \<Longrightarrow> running_spec r t o' ks"

inductive pending_spec :: "task_reconciler \<Rightarrow> claude_task \<Rightarrow> outcome \<Rightarrow> event list \<Rightarrow> bool" for r t where
  pending_fails: "fail_spec r t o' ks \<Longrightarrow> pending_spec r t o' ks"
| pending_no_claim: "split2 (CHR ''/'') (Repository (Spec t)) = [ow, rp] \<Longrightarrow> claim = ClaimName ow rp (Issue (Spec t)) \<Longrightarrow>
    ns = client_namespace (trSandboxClient r) \<Longrightarrow>
    pending_spec r t (Errored e') [ClaimCreate ns (BuildClaim claim (trSandboxTemplateName r) ns) (Some e)]"
| pending_refused: "split2 (CHR ''/'') (Repository (Spec t)) = [ow, rp] \<Longrightarrow> claim = ClaimName ow rp (Issue (Spec t)) \<Longrightarrow>
    ns = client_namespace (trSandboxClient r) \<Longrightarrow>
    pending_spec r t (Errored e')
      [ClaimCreate ns (BuildClaim claim (trSandboxTemplateName r) ns) made,
       TaskUpdate (started_task now claim t) (Some e)]"
| pending_done: "split2 (CHR ''/'') (Repository (Spec t)) = [ow, rp] \<Longrightarrow> claim = ClaimName ow rp (Issue (Spec t)) \<Longrightarrow>
    ns = client_namespace (trSandboxClient r) \<Longrightarrow>
    made = None \<or> (\<exists>e. made = Some e \<and> is_already_exists e) \<Longrightarrow>
    pending_spec r t (Finished \<lparr>Requeue = True, RequeueAfter = 0\<rparr>)
      [ClaimCreate ns (BuildClaim claim (trSandboxTemplateName r) ns) made,
       TaskUpdate (started_task now claim t) None]"

inductive waiting_spec :: "task_reconciler \<Rightarrow> claude_task \<Rightarrow> outcome \<Rightarrow> event list \<Rightarrow> bool" for r t where
  waiting_on: "waiting_spec r t (Finished \<lparr>Requeue = False, RequeueAfter = 5 * 60 * nanos_per_second\<rparr>) []"
| waiting_over: "StartTime (Status t) \<noteq> None \<Longrightarrow> fail_spec r t o' ks \<Longrightarrow> waiting_spec r t o' ks"

definition reconcile_spec :: "task_reconciler \<Rightarrow> claude_task \<Rightarrow> outcome \<Rightarrow> event list \<Rightarrow> bool" where
  "reconcile_spec r t o' ks =
     (case Phase (Status t) of
        PhaseUnset \<Rightarrow> pending_spec r t o' ks
      | Pending \<Rightarrow> pending_spec r t o' ks
      | Running \<Rightarrow> running_spec r t o' ks
      | WaitingForClarification \<Rightarrow> waiting_spec r t o' ks
      | _ \<Rightarrow> o' = Finished no_requeue \<and> ks = [])"

subsection \<open>Refinement\<close>

lemmas written_tasks =
  failed_task_def started_task_def placed_task_def charged_task_def asking_task_def completed_task_def

lemma silent_split_comment:
  "silent (case split2 (CHR ''/'') x of [ow, rp] \<Rightarrow> commentOnTask r g u ow rp (c ow rp) | _ \<Rightarrow> ret None)"
  by (auto split: list.split intro!: silent_comment emits_return)

lemma failTask_refines: "ktraces (failTask r t reason) (fail_spec r t)"
  unfolding failTask_def Let_def failed_task_def [symmetric]
proof (intro traces_intros, goal_cases)
  case (1 now res)
  have same: "SandboxClaimName (Status (failed_task now t)) = SandboxClaimName (Status t)"
    by (simp add: failed_task_def on_status_def)
  have del: "ktraces (State_Monad.bind (DeleteClaim (trSandboxClient r) (SandboxClaimName (Status t)))
      (\<lambda>_. ret (Finished no_requeue))) (\<lambda>y k. fail_spec r t y (TaskUpdate (failed_task now t) None # k))"
    if "SandboxClaimName (Status t) \<noteq> []"
    using that by (intro traces_intros) (simp add: fail_claim)
  show ?case
    unfolding same 1
    by (rule kt_silent [OF silent_resolve], rule kt_silent [OF silent_split_comment])
      (auto simp: bind_left_identity fail_no_claim intro!: traces_intros del)
next
  case (2 now res e)
  then show ?case by (simp add: fail_refused)
qed

text \<open>When the write succeeds the failure is stored and the reconciliation ends normally.\<close>

lemma failTask_stores:
  assumes "\<And>h u. ask_task_update (trClient r) h u = None"
  shows "ktraces (failTask r t reason)
           (\<lambda>o' ks. o' = Finished no_requeue \<and> (\<exists>now. stored_after t ks = failed_task now t))"
proof -
  have rest: "ktraces (State_Monad.bind (if n \<noteq> [] then DeleteClaim c n else ret None) (\<lambda>_. ret (Finished no_requeue)))
      (\<lambda>o' ks. o' = Finished no_requeue
         \<and> (\<exists>now. stored_after t (TaskUpdate (failed_task x t) None # ks) = failed_task now t))" for n c x
    by (cases "n = []")
      (auto simp: bind_left_identity stored_after_def List.map_filter_def intro!: traces_intros)
  show ?thesis
    unfolding failTask_def Let_def failed_task_def [symmetric]
    by (rule kt_clock, rule kt_update_ask, unfold assms option.case, rule kt_silent [OF silent_resolve],
        rule kt_silent [OF silent_split_comment], rule rest)
qed

lemma handleClarification_refines: "ktraces (handleClarification r g t ow rp q) (ask_spec r t q)"
  unfolding handleClarification_def Let_def max_rounds_def [symmetric] asking_task_def [symmetric]
proof (intro traces_intros, goal_cases)
  case 1
  then show ?case by (auto intro: kt_weaken [OF failTask_refines] ask_limit)
next
  case (2 res)
  then show ?case
    by (auto intro!: kt_silent [OF silent_comment] traces_intros ask_done)
next
  case (3 res e)
  then show ?case by (simp add: ask_refused)
qed

lemma complete_task_refines:
  "ktraces (complete_task r g t ow rp claim text) (complete_spec r t claim (parsePRURL text))"
  unfolding complete_task_def Let_def completed_task_def [symmetric]
  by (intro traces_intros)
    (auto intro!: kt_silent [OF silent_comment] traces_intros complete_done complete_refused)

lemma after_exec_refines: "ktraces (after_exec r g t ow rp claim out err) (judge_spec r t claim out err)"
proof -
  obtain cr rt where p: "parseClaudeOutput out = (cr, rt)" by (cases "parseClaudeOutput out")
  let ?t = "charged_task cr t"
  have ask: "ktraces (handleClarification r g ?t ow rp (parseClarification rt))
      (\<lambda>o' ks. judge_spec r t claim out err o' (TaskUpdate ?t res # ks))"
    if "parseClarification rt \<noteq> []" for res
    using that p by (intro kt_weaken [OF handleClarification_refines] judge_ask) (auto simp: verdict_of_def)
  have fail: "ktraces (failTask r ?t m) (judge_spec r t claim out err)"
    if "verdict_of rt err = Fails" for m
    using that p by (intro kt_weaken [OF failTask_refines] judge_fail)
  have fin: "ktraces (complete_task r g ?t ow rp claim rt) (judge_spec r t claim out err)"
    if "verdict_of rt err = Completes (parsePRURL rt)"
    using that p by (intro kt_weaken [OF complete_task_refines] judge_complete)
  show ?thesis
    unfolding after_exec_def Let_def p prod.case charged_task_def [symmetric]
    by (intro traces_intros ask fail fin) (simp_all add: verdict_of_def)
qed

lemma run_claude_refines: "ktraces (run_claude r t ow rp claim) (run_spec r t ow rp claim)"
proof -
  have exec: "ktraces (State_Monad.bind
        (execInPod r taskExecutionTimeout (PodName (Status t))
          (buildCommand (trAnthropicAPIKey r) ow rp tok t (buildPrompt t ctx) (is_resume t)))
        (\<lambda>(output, err). after_exec r g t ow rp claim output err)) (run_spec r t ow rp claim)" for g tok ctx
  proof -
    have quick: "ktraces (after_exec r g t ow rp claim [] (Some e)) (run_spec r t ow rp claim)" for e
      by (rule kt_weaken [OF after_exec_refines]) (rule run_no_exec)
    have slow: "ktraces (after_exec r g t ow rp claim out err)
        (\<lambda>o' ks. run_spec r t ow rp claim o' (pod_run r t ow rp tok ctx # ks))" for out err
      by (rule kt_weaken [OF after_exec_refines]) (rule run_exec)
    show ?thesis
      unfolding execInPod_def Let_def
      by (cases "NewForConfig_error (trClient r)"; cases "NewSPDYExecutor_error (trClient r)
          (trSandboxNamespace r) (PodName (Status t)) sandboxContainerName
          [''/bin/bash'', ''-c'', buildCommand (trAnthropicAPIKey r) ow rp tok t (buildPrompt t ctx) (is_resume t)]")
        (auto simp: bind_left_identity bind_assoc split_def quick
          intro!: traces_intros slow [unfolded pod_run_def])
  qed
  show ?thesis
    unfolding run_claude_def Let_def
    by (rule kt_silent [OF silent_resolve])
      (auto intro!: traces_intros run_no_client run_hangs kt_weaken [OF failTask_refines] run_no_token
        exec kt_silent [OF ghc.GetCloneToken_gh [THEN silent_gh]] kt_silent [OF silent_fetch])
qed

lemma reconcileRunning_refines: "ktraces (reconcileRunning r t) (running_spec r t)"
proof -
  have fail: "ktraces (failTask r t m) (running_spec r t)" for m
    by (rule kt_weaken [OF failTask_refines]) (rule running_fails)
  have place: "ktraces (run_claude r (placed_task pod t) ow rp (SandboxClaimName (Status t)))
        (\<lambda>o' ks. running_spec r t o' (TaskUpdate (placed_task pod t) None # ks))"
    if "PodName (Status t) = []" "SandboxClaimName (Status t) \<noteq> []"
      "split2 (CHR ''/'') (Repository (Spec t)) = [ow, rp]" for pod ow rp
    using that by (intro kt_weaken [OF run_claude_refines] running_placed)
  have on: "ktraces (run_claude r t ow rp (SandboxClaimName (Status t))) (running_spec r t)"
    if "PodName (Status t) \<noteq> []" "SandboxClaimName (Status t) \<noteq> []"
      "split2 (CHR ''/'') (Repository (Spec t)) = [ow, rp]" for ow rp
    using that by (intro kt_weaken [OF run_claude_refines] running_on)
  show ?thesis
    unfolding reconcileRunning_def Let_def placed_task_def [symmetric]
    by (auto split: list.split intro!: traces_intros fail place on running_unplaced kt_silent [OF claims.silent_wait])
qed

lemma reconcilePending_refines: "ktraces (reconcilePending r t) (pending_spec r t)"
proof -
  have fail: "ktraces (failTask r t m) (pending_spec r t)" for m
    by (rule kt_weaken [OF failTask_refines]) (rule pending_fails)
  have made: "(case x of None \<Rightarrow> None | Some e \<Rightarrow> if is_already_exists e then None else Some e) = None \<Longrightarrow>
      x = None \<or> (\<exists>e. x = Some e \<and> is_already_exists e)"
    "(case x of None \<Rightarrow> None | Some e \<Rightarrow> if is_already_exists e then None else Some e) = Some e \<Longrightarrow>
      x = Some e" for x e
    by (auto split: option.splits if_splits)
  show ?thesis
    unfolding reconcilePending_def Let_def started_task_def [symmetric]
    by (auto split: list.split
        intro!: traces_intros kt_silent [OF silent_resolve] kt_silent [OF silent_comment]
          fail pending_no_claim pending_refused pending_done dest!: made)
qed

lemma reconcileWaiting_refines: "ktraces (reconcileWaitingForClarification r t) (waiting_spec r t)"
proof (cases "StartTime (Status t)")
  case None
  show ?thesis
    unfolding reconcileWaitingForClarification_def Let_def None option.case
    by (rule kt_return, rule waiting_on)
next
  case (Some start)
  have "ktraces (failTask r t m) (waiting_spec r t)" for m
    using Some by (intro kt_weaken [OF failTask_refines] waiting_over) simp
  then show ?thesis
    unfolding reconcileWaitingForClarification_def Let_def Some option.case
    by (intro traces_intros waiting_on)
qed

lemma reconcile_task_refines: "ktraces (reconcile_task r t) (reconcile_spec r t)"
proof -
  have spec: "Phase (Status t) = PhaseUnset \<Longrightarrow> reconcile_spec r t = pending_spec r t"
    "Phase (Status t) = Pending \<Longrightarrow> reconcile_spec r t = pending_spec r t"
    "Phase (Status t) = Running \<Longrightarrow> reconcile_spec r t = running_spec r t"
    "Phase (Status t) = WaitingForClarification \<Longrightarrow> reconcile_spec r t = waiting_spec r t"
    by (simp_all add: reconcile_spec_def fun_eq_iff)
  have idle: "terminal_phase (Phase (Status t)) \<or> (\<exists>s. Phase (Status t) = UnknownPhase s) \<Longrightarrow>
      reconcile_spec r t (Finished no_requeue) []"
    by (auto simp: reconcile_spec_def terminal_phase_def)
  show ?thesis
    using reconcilePending_refines reconcileRunning_refines reconcileWaiting_refines
    by (cases "Phase (Status t)") (auto simp: reconcile_task_def spec intro!: kt_return idle)
qed

text \<open>
  C1: \<open>Reconcile\<close> refines the specification: whatever the cluster and GitHub answer, the writes,
  claim operations and pod runs it makes for the task it found, and the outcome, are among
  those the specification of the task's phase allows.
\<close>

theorem reconcile_refines:
  "traces (reconcile_task r t) (\<lambda>o' es. reconcile_spec r t o' (filter key_event es))"
  using reconcile_task_refines by (simp add: ktraces_def)

subsection \<open>From key events to all events\<close>

lemma from_key_events:
  assumes "\<And>x ks. reconcile_spec r t x ks \<Longrightarrow> R x ks" and "\<And>x es. R x (filter key_event es) \<Longrightarrow> R' x es"
  shows "traces (reconcile_task r t) R'"
proof -
  have "traces (reconcile_task r t) (\<lambda>o' es. reconcile_spec r t o' (filter key_event es))"
    using reconcile_task_refines by (simp add: ktraces_def)
  then show ?thesis by (rule traces_weaken) (intro assms)
qed

end
