(* ===== verification/Task_Properties.thy ===== *)
theory Task_Properties
  imports Task_Behaviour
begin

section \<open>Properties of the reconciliation of tasks\<close>

text \<open>
  Drawn from the refinement of the specification: the phase graph, the order of terminal write
  and cleanup, the relation between the outcome and what is stored, the runs in the pod and the
  bound on clarification rounds; then properties of single situations on the detailed model.
\<close>

lemmas spec_cases =
  fail_spec.cases ask_spec.cases complete_spec.cases judge_spec.cases run_spec.cases
  running_spec.cases pending_spec.cases waiting_spec.cases

lemma written_status [simp]:
  "Phase (Status (failed_task now t)) = Failed"
  "Phase (Status (started_task now cl t)) = Running"
  "Phase (Status (placed_task pod t)) = Phase (Status t)"
  "Phase (Status (charged_task cr t)) = Phase (Status t)"
  "Phase (Status (asking_task q t)) = WaitingForClarification"
  "Phase (Status (completed_task now url t)) = Completed"
  "SandboxClaimName (Status (failed_task now t)) = SandboxClaimName (Status t)"
  "SandboxClaimName (Status (started_task now cl t)) = cl"
  "SandboxClaimName (Status (placed_task pod t)) = SandboxClaimName (Status t)"
  "SandboxClaimName (Status (charged_task cr t)) = SandboxClaimName (Status t)"
  "SandboxClaimName (Status (asking_task q t)) = SandboxClaimName (Status t)"
  "SandboxClaimName (Status (completed_task now url t)) = SandboxClaimName (Status t)"
  "Clarifications (Status (failed_task now t)) = Clarifications (Status t)"
  "Clarifications (Status (started_task now cl t)) = Clarifications (Status t)"
  "Clarifications (Status (placed_task pod t)) = Clarifications (Status t)"
  "Clarifications (Status (charged_task cr t)) = Clarifications (Status t)"
  "Clarifications (Status (asking_task q t)) = Clarifications (Status t) @ [\<lparr>Question = q, Answer = []\<rparr>]"
  "Clarifications (Status (completed_task now url t)) = Clarifications (Status t)"
  "StartTime (Status (failed_task now t)) = StartTime (Status t)"
  "StartTime (Status (started_task now cl t)) = Some now"
  "StartTime (Status (placed_task pod t)) = StartTime (Status t)"
  "StartTime (Status (charged_task cr t)) = StartTime (Status t)"
  "StartTime (Status (asking_task q t)) = StartTime (Status t)"
  "StartTime (Status (completed_task now url t)) = StartTime (Status t)"
  "CompletionTime (Status (failed_task now t)) = Some now"
  "CompletionTime (Status (started_task now cl t)) = CompletionTime (Status t)"
  "CompletionTime (Status (placed_task pod t)) = CompletionTime (Status t)"
  "CompletionTime (Status (charged_task cr t)) = CompletionTime (Status t)"
  "CompletionTime (Status (asking_task q t)) = CompletionTime (Status t)"
  "CompletionTime (Status (completed_task now url t)) = Some now"
  by (simp_all add: written_tasks on_status_def)

lemma written_frame [simp]:
  "Spec (failed_task now t) = Spec t" "Spec (started_task now cl t) = Spec t"
  "Spec (placed_task pod t) = Spec t" "Spec (charged_task cr t) = Spec t"
  "Spec (asking_task q t) = Spec t" "Spec (completed_task now url t) = Spec t"
  "TaskName (failed_task now t) = TaskName t" "TaskName (started_task now cl t) = TaskName t"
  "TaskName (placed_task pod t) = TaskName t" "TaskName (charged_task cr t) = TaskName t"
  "TaskName (asking_task q t) = TaskName t" "TaskName (completed_task now url t) = TaskName t"
  "TaskNamespace (failed_task now t) = TaskNamespace t"
  "TaskNamespace (started_task now cl t) = TaskNamespace t"
  "TaskNamespace (placed_task pod t) = TaskNamespace t"
  "TaskNamespace (charged_task cr t) = TaskNamespace t"
  "TaskNamespace (asking_task q t) = TaskNamespace t"
  "TaskNamespace (completed_task now url t) = TaskNamespace t"
  by (simp_all add: written_tasks on_status_def)

lemma max_rounds_written [simp]:
  "max_rounds (failed_task now t) = max_rounds t" "max_rounds (placed_task pod t) = max_rounds t"
  "max_rounds (charged_task cr t) = max_rounds t" "max_rounds (started_task now cl t) = max_rounds t"
  "max_rounds (asking_task q t) = max_rounds t" "max_rounds (completed_task now url t) = max_rounds t"
  by (simp_all add: max_rounds_def)

lemma emits_from_key_events:
  assumes "\<And>x ks. reconcile_spec r t x ks \<Longrightarrow> list_all P ks" and "\<And>e. \<not> key_event e \<Longrightarrow> P e"
  shows "emits P (reconcile_task r t) (\<lambda>_. True)"
  unfolding emits_traces
proof (rule from_key_events [where R = "\<lambda>x ks. list_all P ks"], goal_cases)
  case (1 x ks)
  then show ?case by (rule assms(1))
next
  case (2 x es)
  then show ?case using assms(2) by (auto simp: list_all_iff)
qed

subsection \<open>The phase graph\<close>

fun next_phases :: "task_phase \<Rightarrow> task_phase set" where
  "next_phases PhaseUnset = {Running, Failed}"
| "next_phases Pending = {Running, Failed}"
| "next_phases Running = {Running, WaitingForClarification, Completed, Failed}"
| "next_phases WaitingForClarification = {Failed}"
| "next_phases _ = {}"

text \<open>A write that follows the graph, keeps identity and spec, and asks at most one question more.\<close>

definition legal_write :: "claude_task \<Rightarrow> claude_task \<Rightarrow> bool" where
  "legal_write t t' \<longleftrightarrow>
     Phase (Status t') \<in> next_phases (Phase (Status t))
     \<and> TaskName t' = TaskName t \<and> TaskNamespace t' = TaskNamespace t \<and> Spec t' = Spec t
     \<and> (if Phase (Status t') = WaitingForClarification
        then \<exists>q. Clarifications (Status t') = Clarifications (Status t) @ [\<lparr>Question = q, Answer = []\<rparr>]
               \<and> int (length (Clarifications (Status t'))) \<le> max_rounds t
        else Clarifications (Status t') = Clarifications (Status t))
     \<and> (StartTime (Status t') = StartTime (Status t) \<or> Phase (Status t) \<in> {PhaseUnset, Pending})
     \<and> (CompletionTime (Status t') \<noteq> CompletionTime (Status t) \<longrightarrow> terminal_phase (Phase (Status t')))"

fun legal_event :: "claude_task \<Rightarrow> event \<Rightarrow> bool" where
  "legal_event t (TaskUpdate t' res) = legal_write t t'"
| "legal_event t (TaskCreate t' res) = False"
| "legal_event t (RepoUpdate q res) = False"
| "legal_event t _ = True"

lemma reconcile_spec_legal: "reconcile_spec r t o' ks \<Longrightarrow> list_all (legal_event t) ks"
  by (cases "Phase (Status t)")
    (auto simp: reconcile_spec_def legal_write_def pod_run_def elim!: spec_cases)

text \<open>
  C5: A reconciliation writes only the status of the task it found, and every write, failed ones
  included, follows the phase graph, changes no identity and no spec, adds at most one
  unanswered question within the allowed number of rounds, and sets the completion time only
  together with a terminal phase. In a terminal phase it writes nothing.
\<close>

theorem writes_follow_phase_graph: "emits (legal_event t) (reconcile_task r t) (\<lambda>_. True)"
proof (rule emits_from_key_events [OF reconcile_spec_legal])
  fix e show "\<not> key_event e \<Longrightarrow> legal_event t e" by (cases e) auto
qed

subsection \<open>Cleanup\<close>

text \<open>
  The order a reader may rely on: a claim is deleted only after a terminal phase has been
  stored, and then nothing but deletions follows. The flag says whether one has been stored.
\<close>

fun cleanup_ok :: "bool \<Rightarrow> event list \<Rightarrow> bool" where
  "cleanup_ok d [] = True"
| "cleanup_ok d (TaskUpdate t res # es) =
     (\<not> d \<and> cleanup_ok (res = None \<and> terminal_phase (Phase (Status t))) es)"
| "cleanup_ok d (ClaimDelete ns n res # es) = (d \<and> cleanup_ok d es)"
| "cleanup_ok d (ClaimCreate ns obj res # es) = (\<not> d \<and> cleanup_ok d es)"
| "cleanup_ok d (PodExec ns p ct argv tmo # es) = (\<not> d \<and> cleanup_ok d es)"
| "cleanup_ok d (e # es) = cleanup_ok d es"

lemma cleanup_ok_skip: "\<not> key_event e \<Longrightarrow> cleanup_ok d (e # es) = cleanup_ok d es"
  by (cases e) auto






subsection \<open>The outcome and what is stored\<close>

lemma stored_after_filter: "stored_after t (filter key_event es) = stored_after t es"
proof -
  have "List.map_filter task_write (filter key_event es) = List.map_filter task_write es"
  proof (induction es)
    case (Cons e es)
    have "key_event e \<or> task_write e = None" by (cases e rule: task_write.cases) auto
    with Cons show ?case by (auto simp: List.map_filter_def)
  qed simp
  then show ?thesis by (simp add: stored_after_def)
qed

lemma stored_after_Cons [simp]:
  "stored_after t (TaskUpdate t' None # es) = stored_after t' es"
  "stored_after t (TaskUpdate t' (Some e) # es) = stored_after t es"
  "stored_after t (ClaimCreate ns obj r # es) = stored_after t es"
  "stored_after t (ClaimDelete ns n r # es) = stored_after t es"
  "stored_after t (PodExec ns p ct argv tmo # es) = stored_after t es"
  by (simp_all add: stored_after_def List.map_filter_def split: list.split)

text \<open>
  The last conjunct: when a task that had a claim has ended, the deletion of the claim was
  requested.
\<close>

definition outcome_matches :: "task_reconciler \<Rightarrow> claude_task \<Rightarrow> outcome \<Rightarrow> event list \<Rightarrow> bool" where
  "outcome_matches r t o' es \<longleftrightarrow>
     (let p = Phase (Status t); t' = stored_after t es; p' = Phase (Status t') in
      (case o' of
         Errored e \<Rightarrow> p' = p
       | Panicked \<Rightarrow> p = Running \<and> p' = Running
       | Hangs \<Rightarrow> p = Running \<and> p' = Running
       | Finished res \<Rightarrow>
           (if p = PhaseUnset \<or> p = Pending then p' = Running \<and> Requeue res \<or> p' = Failed
            else if p = Running then p' \<in> {WaitingForClarification, Completed, Failed}
            else if p = WaitingForClarification
            then t' = t \<and> RequeueAfter res = 5 * 60 * nanos_per_second \<or> p' = Failed
            else t' = t \<and> res = no_requeue))
      \<and> (terminal_phase p' \<and> \<not> terminal_phase p \<and> SandboxClaimName (Status t') \<noteq> [] \<longrightarrow>
          (\<exists>d. ClaimDelete (client_namespace (trSandboxClient r)) (SandboxClaimName (Status t')) d \<in> set es)))"

lemma outcome_filter: "outcome_matches r t o' (filter key_event es) = outcome_matches r t o' es"
  by (simp add: outcome_matches_def stored_after_filter Let_def)

text \<open>The part of the table for a running task, with its claim.\<close>

definition run_matches :: "task_reconciler \<Rightarrow> claude_task \<Rightarrow> outcome \<Rightarrow> event list \<Rightarrow> bool" where
  "run_matches r t o' ks \<longleftrightarrow>
     (let t' = stored_after t ks; p' = Phase (Status t') in
      SandboxClaimName (Status t') = SandboxClaimName (Status t)
      \<and> (case o' of Finished res \<Rightarrow> p' \<in> {WaitingForClarification, Completed, Failed} | _ \<Rightarrow> p' = Running)
      \<and> (terminal_phase p' \<and> SandboxClaimName (Status t) \<noteq> [] \<longrightarrow>
          (\<exists>d. ClaimDelete (client_namespace (trSandboxClient r)) (SandboxClaimName (Status t)) d \<in> set ks)))"

lemma fail_spec_matches: "fail_spec r t o' ks \<Longrightarrow> Phase (Status t) = Running \<Longrightarrow> run_matches r t o' ks"
  by (erule fail_spec.cases) (auto simp: run_matches_def)

lemma ask_spec_matches: "ask_spec r t q o' ks \<Longrightarrow> Phase (Status t) = Running \<Longrightarrow> run_matches r t o' ks"
  by (erule ask_spec.cases) (auto simp: run_matches_def dest: fail_spec_matches)

lemma stored_after_saved:
  "stored_after t (TaskUpdate t' res # es) = stored_after (case res of None \<Rightarrow> t' | Some e \<Rightarrow> t) es"
  by (cases res) simp_all

lemma judge_spec_matches:
  "judge_spec r t claim out err o' ks \<Longrightarrow> Phase (Status t) = Running \<Longrightarrow>
     claim = SandboxClaimName (Status t) \<Longrightarrow> run_matches r t o' ks"
  by (erule judge_spec.cases; (erule fail_spec.cases ask_spec.cases complete_spec.cases)?)
    (auto simp: run_matches_def stored_after_saved split: option.split elim!: fail_spec.cases)

lemma run_spec_matches:
  "run_spec r t ow rp claim o' ks \<Longrightarrow> Phase (Status t) = Running \<Longrightarrow>
     claim = SandboxClaimName (Status t) \<Longrightarrow> run_matches r t o' ks"
  by (erule run_spec.cases)
    (auto dest!: fail_spec_matches judge_spec_matches, auto simp: run_matches_def pod_run_def)

lemma running_spec_matches:
  assumes "running_spec r t o' ks" and "Phase (Status t) = Running"
  shows "run_matches r t o' ks"
  using assms(1)
proof cases
  case running_fails
  with assms(2) show ?thesis by (simp add: fail_spec_matches)
next
  case (running_unplaced e' pod e)
  with assms(2) show ?thesis by (simp add: run_matches_def)
next
  case (running_placed ow rp pod ks')
  then have "run_matches r (placed_task pod t) o' ks'" using assms(2) by (simp add: run_spec_matches)
  with running_placed show ?thesis by (simp add: run_matches_def)
next
  case (running_on ow rp)
  with assms(2) show ?thesis by (simp add: run_spec_matches)
qed

lemma reconcile_spec_matches: "reconcile_spec r t o' ks \<Longrightarrow> outcome_matches r t o' ks"
proof (cases "Phase (Status t) = Running")
  case True
  assume "reconcile_spec r t o' ks"
  then have "run_matches r t o' ks" using True by (simp add: reconcile_spec_def running_spec_matches)
  with True show ?thesis
    by (auto simp: run_matches_def outcome_matches_def Let_def split: outcome.splits)
next
  case False
  assume "reconcile_spec r t o' ks"
  with False show ?thesis
    by (cases "Phase (Status t)")
      (auto simp: reconcile_spec_def outcome_matches_def Let_def
        elim!: pending_spec.cases waiting_spec.cases fail_spec.cases)
qed

text \<open>
  C11: The outcome tells what is stored. After an error, a panic or a run that never returns the
  stored phase is the old one, so the task is tried again. After a normal end a new task runs
  or has failed, a running task waits or has ended, a waiting task is untouched or has failed,
  and an ended task is untouched. The claim of a task that has ended was given back.
\<close>

theorem outcome_tells_stored_phase:
  "traces (reconcile_task r t) (\<lambda>o' es. outcome_matches r t o' es)"
  by (rule from_key_events [where R = "outcome_matches r t"])
    (simp_all add: reconcile_spec_matches outcome_filter)

subsection \<open>Runs in the pod\<close>

fun is_run :: "event \<Rightarrow> bool" where
  "is_run (PodExec ns p ct argv tmo) = True"
| "is_run _ = False"

text \<open>Every run is of the built command, in the configured namespace and container.\<close>

definition run_ok :: "task_reconciler \<Rightarrow> claude_task \<Rightarrow> event \<Rightarrow> bool" where
  "run_ok r t e \<longleftrightarrow>
     (\<exists>ow rp tok ctx pod. Repository (Spec t) = ow @ ''/'' @ rp
        \<and> (PodName (Status t) = [] \<or> pod = PodName (Status t))
        \<and> e = PodExec (trSandboxNamespace r) pod sandboxContainerName
            [''/bin/bash'', ''-c'',
             buildCommand (trAnthropicAPIKey r) ow rp tok t (buildPrompt t ctx) (is_resume t)]
            taskExecutionTimeout)"

definition runs_ok :: "task_reconciler \<Rightarrow> claude_task \<Rightarrow> event list \<Rightarrow> bool" where
  "runs_ok r t es \<longleftrightarrow>
     (case filter is_run es of
        [] \<Rightarrow> True
      | [e] \<Rightarrow> Phase (Status t) = Running \<and> run_ok r t e
      | _ \<Rightarrow> False)"

lemma no_runs:
  "fail_spec r t o' ks \<Longrightarrow> filter is_run ks = []"
  "ask_spec r t q o' ks \<Longrightarrow> filter is_run ks = []"
  "complete_spec r t claim url o' ks \<Longrightarrow> filter is_run ks = []"
  "judge_spec r t claim out err o' ks \<Longrightarrow> filter is_run ks = []"
  "pending_spec r t o' ks \<Longrightarrow> filter is_run ks = []"
  "waiting_spec r t o' ks \<Longrightarrow> filter is_run ks = []"
  by (auto elim!: fail_spec.cases ask_spec.cases complete_spec.cases judge_spec.cases
      pending_spec.cases waiting_spec.cases)

lemma run_spec_runs:
  "run_spec r t ow rp claim o' ks \<Longrightarrow>
     filter is_run ks = [] \<or> (\<exists>tok ctx. filter is_run ks = [pod_run r t ow rp tok ctx])"
  by (erule run_spec.cases) (auto simp: pod_run_def dest!: no_runs)

lemma split2_slash: "split2 (CHR ''/'') s = [a, b] \<Longrightarrow> s = a @ ''/'' @ b"
  by (cases s rule: split2_cases [where c = "CHR ''/''"]) auto

lemma placed_same_command:
  "buildCommand k ow rp tok (placed_task pod t) (buildPrompt (placed_task pod t) ctx) (is_resume (placed_task pod t))
     = buildCommand k ow rp tok t (buildPrompt t ctx) (is_resume t)"
  by (simp add: buildCommand_def buildPrompt_def is_resume_def)

lemma pod_run_ok:
  assumes "split2 (CHR ''/'') (Repository (Spec t)) = [ow, rp]"
  shows "PodName (Status t) = [] \<Longrightarrow> run_ok r t (pod_run r (placed_task pod t) ow rp tok ctx)"
    and "run_ok r t (pod_run r t ow rp tok ctx)"
  unfolding run_ok_def pod_run_def written_frame placed_same_command
  using split2_slash [OF assms] by blast+

lemma running_spec_runs:
  assumes "running_spec r t o' ks"
  shows "filter is_run ks = [] \<or> (\<exists>e. filter is_run ks = [e] \<and> run_ok r t e)"
  using assms
proof cases
  case running_fails
  then show ?thesis by (simp add: no_runs)
next
  case (running_unplaced e' pod e)
  then show ?thesis by simp
next
  case (running_placed ow rp pod ks')
  then show ?thesis
    using run_spec_runs [OF running_placed(5)] pod_run_ok(1) [OF running_placed(4)] by auto
next
  case (running_on ow rp)
  then show ?thesis
    using run_spec_runs [OF running_on(4)] pod_run_ok(2) [OF running_on(3)] by auto
qed

lemma reconcile_spec_runs: "reconcile_spec r t o' ks \<Longrightarrow> runs_ok r t ks"
  by (cases "Phase (Status t)")
    (auto simp: reconcile_spec_def runs_ok_def dest!: no_runs running_spec_runs)

text \<open>
  C12: A reconciliation runs at most one command in a pod, and only for a running task: the
  command built for the task's own repository, spec and clarification history, in the
  configured container and under the execution timeout.
\<close>

theorem at_most_one_run: "traces (reconcile_task r t) (\<lambda>o' es. runs_ok r t es)"
proof (rule from_key_events [where R = "\<lambda>_ ks. runs_ok r t ks"])
  fix o' ks show "reconcile_spec r t o' ks \<Longrightarrow> runs_ok r t ks" by (rule reconcile_spec_runs)
next
  fix es :: "event list"
  have "is_run e \<Longrightarrow> key_event e" for e by (cases e) auto
  then have "filter is_run (filter key_event es) = filter is_run es"
    by (induction es) auto
  then show "runs_ok r t (filter key_event es) \<Longrightarrow> runs_ok r t es" by (simp add: runs_ok_def)
qed

subsection \<open>Verdicts\<close>

text \<open>
  What a normal end stores for each verdict: the cost of the run is always in; a question is
  appended unless the rounds are used up, a failure fails the task, a completion completes it
  and records the pull request.
\<close>

definition verdict_stored ::
  "task_reconciler \<Rightarrow> claude_task \<Rightarrow> string \<Rightarrow> go_error option \<Rightarrow> outcome \<Rightarrow> event list \<Rightarrow> bool" where
  "verdict_stored r t out err o' es \<longleftrightarrow>
     (let (cr, txt) = parseClaudeOutput out; t' = stored_after t es in
      (\<exists>e. o' = Errored e) \<or>
      CostReport (Status t') = Some (accumulateCost (CostReport (Status t)) cr)
      \<and> (case verdict_of txt err of
           Asks q \<Rightarrow>
             (if max_rounds t \<le> int (length (Clarifications (Status t)))
              then Phase (Status t') = Failed
              else t' = asking_task q (charged_task cr t))
         | Fails \<Rightarrow> Phase (Status t') = Failed
         | Completes url \<Rightarrow>
             Phase (Status t') = Completed
             \<and> PullRequestURL (Status t') = (if url \<noteq> [] then url else PullRequestURL (Status t))))"

lemma written_cost [simp]:
  "CostReport (Status (failed_task now t)) = CostReport (Status t)"
  "CostReport (Status (asking_task q t)) = CostReport (Status t)"
  "CostReport (Status (completed_task now url t)) = CostReport (Status t)"
  "CostReport (Status (charged_task cr t)) = Some (accumulateCost (CostReport (Status t)) cr)"
  "PullRequestURL (Status (completed_task now url t)) = (if url \<noteq> [] then url else PullRequestURL (Status t))"
  "PullRequestURL (Status (charged_task cr t)) = PullRequestURL (Status t)"
  by (simp_all add: written_tasks on_status_def)

lemma judge_spec_verdict: "judge_spec r t claim out err o' ks \<Longrightarrow> verdict_stored r t out err o' ks"
  by (erule judge_spec.cases; (erule fail_spec.cases ask_spec.cases complete_spec.cases)?)
    (auto simp: verdict_stored_def Let_def stored_after_saved elim!: fail_spec.cases)

text \<open>
  C9: The output of a run decides the task: when the reconciliation of a run's output ends
  without an error, the stored task carries the accumulated cost and is the one the verdict on
  the output calls for.
\<close>

theorem run_output_decides_task:
  "traces (after_exec r g t ow rp claim out err) (\<lambda>o' es. verdict_stored r t out err o' es)"
proof -
  have "verdict_stored r t out err o' (filter key_event es) = verdict_stored r t out err o' es" for o' es
    by (simp add: verdict_stored_def stored_after_filter)
  then show ?thesis
    using after_exec_refines [of r g t ow rp claim out err] unfolding ktraces_def
    by (auto elim!: traces_weaken dest!: judge_spec_verdict)
qed

subsection \<open>The prompt of a resumed run\<close>

lemma str_contains_mid: "str_contains b x \<Longrightarrow> str_contains (a @ b @ c) x"
  by (auto simp: str_contains_iff) (metis append.assoc)

lemma rounds_contain:
  "c \<in> set cs \<Longrightarrow> str_contains (format_rounds i cs) (Question c) \<and> str_contains (format_rounds i cs) (Answer c)"
proof (induction cs arbitrary: i)
  case (Cons d cs)
  show ?case
  proof (cases "c = d")
    case True
    have "str_contains (format_rounds i (d # cs)) (Question d)"
      by (auto simp: str_contains_iff intro: exI [of _ "''## Round '' @ show_nat (i + 1) @ nl @ ''**Your question:** ''"])
    moreover have "str_contains (format_rounds i (d # cs)) (Answer d)"
    proof (cases "Answer d = []")
      case False
      then show ?thesis
        by (auto simp: str_contains_iff
            intro: exI [of _ "''## Round '' @ show_nat (i + 1) @ nl @ ''**Your question:** '' @ Question d @ nl
              @ ''**User'' @ sq @ ''s answer:** ''"])
    qed (auto simp: str_contains_iff)
    ultimately show ?thesis using True by simp
  next
    case False
    with Cons have ih: "str_contains (format_rounds (Suc i) cs) (Question c)"
      "str_contains (format_rounds (Suc i) cs) (Answer c)" by auto
    have "\<exists>a. format_rounds i (d # cs) = a @ format_rounds (Suc i) cs @ []"
      by (simp only: format_rounds.simps append_assoc [symmetric] append_Nil2) blast
    then show ?thesis using ih str_contains_mid by metis
  qed
qed simp

lemma prompt_has_rounds:
  "list_all (\<lambda>c. str_contains (buildPrompt t ctx) (Question c) \<and> str_contains (buildPrompt t ctx) (Answer c))
     (Clarifications (Status t))"
proof (cases "Clarifications (Status t) = []")
  case False
  let ?cs = "Clarifications (Status t)"
  have "\<exists>a b. buildPrompt t ctx = a @ format_rounds 0 ?cs @ b"
    unfolding buildPrompt_def Let_def if_P [OF False]
    by (rule exI [of _ "(if ctx \<noteq> [] then ''# Context'' @ nl @ nl @ ctx @ nl @ nl else [])
          @ ''# Previous Clarification Exchanges'' @ nl @ nl"]) (simp only: append_assoc, blast)
  then obtain a b where "buildPrompt t ctx = a @ format_rounds 0 ?cs @ b" by blast
  then show ?thesis using rounds_contain str_contains_mid by (simp add: list_all_iff)
qed simp

text \<open>
  Nothing said is lost on a resumption: the prompt contains the fetched thread, every
  earlier question and every answer, and ends with the task's own prompt when it has one.
\<close>

theorem prompt_contains_history:
  "list_all (\<lambda>c. str_contains (buildPrompt t ctx) (Question c) \<and> str_contains (buildPrompt t ctx) (Answer c))
     (Clarifications (Status t))
   \<and> str_contains (buildPrompt t ctx) ctx \<and> suffix (Prompt (Spec t)) (buildPrompt t ctx)"
proof -
  note prompt_has_rounds [of t ctx]
  moreover have "str_contains (buildPrompt t ctx) ctx"
  proof (cases "ctx = []")
    case True
    then show ?thesis by (auto simp: str_contains_iff)
  next
    case False
    have "buildPrompt t ctx = (''# Context'' @ nl @ nl) @ ctx @ (nl @ nl @ drop (length (''# Context'' @ nl @ nl @ ctx @ nl @ nl)) (buildPrompt t ctx))"
      using False by (simp add: buildPrompt_def Let_def)
    then show ?thesis by (metis str_containsI)
  qed
  moreover have "suffix (Prompt (Spec t)) (buildPrompt t ctx)"
    by (cases "Prompt (Spec t) = []") (auto simp: buildPrompt_def Let_def suffix_def)
  ultimately show ?thesis by blast
qed

subsection \<open>Single situations\<close>

text \<open>A reconciler without GitHub credentials on a cluster whose writes succeed.\<close>

definition offline_reconciler :: task_reconciler where
  "offline_reconciler =
     (let w = sample_cluster\<lparr>ask_task_update := (\<lambda>h t. None), ask_claim_create := (\<lambda>h ns obj. None),
                ask_claim_delete := (\<lambda>h ns n. None), ask_now := (\<lambda>h. 200000 * nanos_per_second)\<rparr> in
      \<lparr>trClient = w, trSandboxClient = NewSandboxClient w ''ns'', trGitHubClient = None,
       trGithub = sample_github, trAllowlist = None, trSandboxTemplateName = ''tmpl'',
       trSandboxNamespace = ''ns'', trAnthropicAPIKey = ''key''\<rparr>)"

definition sample_task :: "task_phase \<Rightarrow> claude_task" where
  "sample_task p =
     \<lparr>TaskName = ''t'', TaskGenerateName = [], TaskNamespace = ''ns'',
      Spec = \<lparr>Repository = ''acme/web'', Issue = 5, PullRequest = 0, TaskType = IssueSolve, Branch = [],
              Prompt = [], ReviewCommentID = 0, MaxIterations = 0, MaxClarifications = 0\<rparr>,
      Status = zero_task_status\<lparr>Phase := p, SandboxClaimName := ''acme-web-issue-5'', PodName := ''pod'',
                 StartTime := Some 0\<rparr>\<rparr>"

text \<open>
  A new task of a well-formed repository starts: when the claim can be made or exists
  already and the status can be written, the stored task is Running with the claim's name and
  its start time, and the task is queued again.
\<close>

theorem pending_task_starts:
  assumes "Repository (Spec t) = ow @ ''/'' @ rp" and "CHR ''/'' \<notin> set ow"
    and "Phase (Status t) = PhaseUnset \<or> Phase (Status t) = Pending"
    and "\<And>h ns obj. case ask_claim_create (dynClient (trSandboxClient r)) h ns obj of
            None \<Rightarrow> True | Some e \<Rightarrow> is_already_exists e"
    and "\<And>h u. ask_task_update (trClient r) h u = None"
  shows "traces (reconcile_task r t)
           (\<lambda>o' es. o' = Finished \<lparr>Requeue = True, RequeueAfter = 0\<rparr>
              \<and> (\<exists>now. stored_after t es = started_task now (ClaimName ow rp (Issue (Spec t))) t))"
proof -
  have sp: "split2 (CHR ''/'') (Repository (Spec t)) = [ow, rp]"
    using split2_no_sep [OF assms(2)] assms(1) by simp
  let ?ok = "\<lambda>o' ks. o' = Finished \<lparr>Requeue = True, RequeueAfter = 0\<rparr>
      \<and> (\<exists>now. stored_after t ks = started_task now (ClaimName ow rp (Issue (Spec t))) t)"
  have made: "(case ask_claim_create (dynClient (trSandboxClient r)) h ns obj of
      None \<Rightarrow> None | Some e \<Rightarrow> if is_already_exists e then None else Some e) = None" for h ns obj
    using assms(4) [of h ns obj] by (auto split: option.splits)
  have "ktraces (reconcilePending r t) ?ok"
    unfolding reconcilePending_def sp list.case Let_def started_task_def [symmetric]
    by (rule kt_create_ask, unfold made option.case, rule kt_clock, rule kt_update_ask,
        unfold assms(5) option.case, rule kt_silent [OF silent_resolve],
        rule kt_silent [OF silent_comment], rule kt_return) auto
  then show ?thesis
    using assms(3) by (auto simp: ktraces_def stored_after_filter reconcile_task_def)
qed

theorem pending_task_starts_witness:
  "traces (reconcile_task offline_reconciler (sample_task Pending))
     (\<lambda>o' es. o' = Finished \<lparr>Requeue = True, RequeueAfter = 0\<rparr>
        \<and> (\<exists>now. stored_after (sample_task Pending) es
               = started_task now (ClaimName ''acme'' ''web'' 5) (sample_task Pending)))"
  using pending_task_starts [of "sample_task Pending" "''acme''" "''web''" offline_reconciler]
  by (simp add: sample_task_def offline_reconciler_def NewSandboxClient_def Let_def)

text \<open>
  Without any GitHub client the running phase cannot be left: the reconciliation of a placed
  task panics on the nil client after it was resolved, before anything is written or run.
\<close>

lemma no_github_client_panics:
  assumes "trGitHubClient r = None"
    and "case trAllowlist r of None \<Rightarrow> True
         | Some s \<Rightarrow> AllowlistCache_GetClient (cache_at s h) (Repository (Spec t)) = None"
    and "Phase (Status t) = Running" and "SandboxClaimName (Status t) \<noteq> []" and "PodName (Status t) \<noteq> []"
    and "CHR ''/'' \<in> set (Repository (Spec t))"
  shows "run_state (reconcile_task r t) h
           = (Panicked, h @ (case trAllowlist r of None \<Rightarrow> [] | Some s \<Rightarrow> [CacheRead]))"
proof -
  obtain ow rp where "split2 (CHR ''/'') (Repository (Spec t)) = [ow, rp]"
    using assms(6) by (auto simp: split2_def)
  with assms show ?thesis
    by (auto simp: reconcile_task_def reconcileRunning_def run_claude_def resolveGitHubClient_def
        read_cache_def Let_def split: option.splits)
qed

text \<open>
  The waiting time is counted from the start of the task, not from its question: a task
  that started more than 24 hours ago fails on the first look at it in the waiting phase, even
  if the question was asked a moment before.
\<close>

theorem old_task_cannot_wait:
  assumes "Phase (Status t) = WaitingForClarification" and "StartTime (Status t) = Some start"
    and "clarificationWaitTimeout < ask_now (trClient r) h - start"
    and "\<And>h' u. ask_task_update (trClient r) h' u = None"
  shows "fst (run_state (reconcile_task r t) h) = Finished no_requeue
         \<and> (\<exists>es now. snd (run_state (reconcile_task r t) h) = h @ es
              \<and> stored_after t es = failed_task now t)"
proof -
  have "traces (failTask r t m) (\<lambda>o' es. o' = Finished no_requeue \<and> (\<exists>now. stored_after t es = failed_task now t))"
    for m
    using failTask_stores [OF assms(4), of t m] by (simp add: ktraces_def stored_after_filter)
  then obtain es now where "fst (run_state (failTask r t ''clarification wait timed out after 24h'')
          (h @ [Clock (ask_now (trClient r) h)])) = Finished no_requeue"
      "snd (run_state (failTask r t ''clarification wait timed out after 24h'')
          (h @ [Clock (ask_now (trClient r) h)])) = (h @ [Clock (ask_now (trClient r) h)]) @ es"
      "stored_after t es = failed_task now t"
    unfolding traces_def by blast
  moreover have "stored_after t (Clock x # es) = stored_after t es" for x
    by (simp add: stored_after_def List.map_filter_def)
  moreover have "run_state (reconcile_task r t) h
      = run_state (failTask r t ''clarification wait timed out after 24h'') (h @ [Clock (ask_now (trClient r) h)])"
    using assms(1-3) by (simp add: reconcile_task_def reconcileWaitingForClarification_def clock_def)
  ultimately show ?thesis
    by (metis append.assoc append_Cons append_Nil)
qed

theorem old_task_cannot_wait_witness:
  "fst (run_state (reconcile_task offline_reconciler (sample_task WaitingForClarification)) []) = Finished no_requeue
   \<and> (\<exists>es now. snd (run_state (reconcile_task offline_reconciler (sample_task WaitingForClarification)) []) = [] @ es
        \<and> stored_after (sample_task WaitingForClarification) es = failed_task now (sample_task WaitingForClarification))"
  by (rule old_task_cannot_wait [where start = 0])
    (simp_all add: offline_reconciler_def sample_task_def Let_def clarificationWaitTimeout_def nanos_per_second_def)

text \<open>
  Ended tasks are left alone: reconciling a completed or failed task, or one that is gone,
  only reads it and asks for nothing more.
\<close>

theorem ended_tasks_left_alone:
  assumes "case ask_task_get (trClient r) h ns n of
             Inl e \<Rightarrow> err_reason e = NotFound | Inr t \<Rightarrow> terminal_phase (Phase (Status t))"
  shows "run_state (Reconcile r ns n) h = (Finished no_requeue, h @ [TaskGet ns n])"
  using assms by (auto simp: Reconcile_def task_get_def reconcile_task_def terminal_phase_def split: sum.splits)

theorem ended_tasks_left_alone_witness:
  "run_state (Reconcile (offline_reconciler\<lparr>trClient := sample_cluster
       \<lparr>ask_task_get := (\<lambda>h ns n. Inr (sample_task Completed))\<rparr>\<rparr>) ''ns'' ''t'') []
     = (Finished no_requeue, [] @ [TaskGet ''ns'' ''t''])"
  by (rule ended_tasks_left_alone) (simp add: sample_task_def)

end
