(* ===== verification/Task_Life.thy ===== *)
theory Task_Life
  imports Task_Creator Task_Properties
begin

section \<open>The life of a task\<close>

text \<open>
  A task object is created by the webhook and then changed by reconciliations and by
  resumptions, each of which may be cut short: the process can stop after any of its calls. The
  API server refuses a write that was computed from an old version of an object, so a write that
  is accepted was computed from the object it replaces, and the life of a task is a sequence of
  these steps, one after the other.
\<close>

subsection \<open>Steps\<close>

inductive life_step :: "claude_task \<Rightarrow> claude_task \<Rightarrow> bool" where
  reconciled: "run_state (reconcile_task r t) h = (o', h @ es) \<Longrightarrow> life_step t (stored_after t (take n es))"
| resumed: "resume_matches req t \<Longrightarrow> life_step t (answered (ClarificationAnswer req) t)"

inductive reachable_task :: "claude_task \<Rightarrow> bool" where
  created: "reachable_task (requested_task ns req)"
| step: "reachable_task t \<Longrightarrow> life_step t t' \<Longrightarrow> reachable_task t'"

inductive_cases life_stepE: "life_step t t'"

subsection \<open>What a step can do\<close>

text \<open>
  An accepted write: besides being legal, it records the end of an ended task, the start of a
  started one, and the claim of the task's own repository and issue.
\<close>

definition own_claim :: "claude_task \<Rightarrow> string \<Rightarrow> bool" where
  "own_claim t claim \<longleftrightarrow>
     (\<exists>ow rp. split2 (CHR ''/'') (Repository (Spec t)) = [ow, rp] \<and> claim = ClaimName ow rp (Issue (Spec t)))"

definition good_write :: "claude_task \<Rightarrow> claude_task \<Rightarrow> bool" where
  "good_write t t' \<longleftrightarrow>
     legal_write t t'
     \<and> (terminal_phase (Phase (Status t')) \<longrightarrow> CompletionTime (Status t') \<noteq> None)
     \<and> (Phase (Status t') \<noteq> Failed \<longrightarrow>
          (if Phase (Status t) = Running then SandboxClaimName (Status t') = SandboxClaimName (Status t)
           else own_claim t (SandboxClaimName (Status t')) \<and> StartTime (Status t') \<noteq> None))
     \<and> (PullRequestURL (Status t') = PullRequestURL (Status t) \<or> Phase (Status t') = Completed)"

lemma written_url [simp]:
  "PullRequestURL (Status (failed_task now t)) = PullRequestURL (Status t)"
  "PullRequestURL (Status (started_task now cl t)) = PullRequestURL (Status t)"
  "PullRequestURL (Status (placed_task pod t)) = PullRequestURL (Status t)"
  "PullRequestURL (Status (asking_task q t)) = PullRequestURL (Status t)"
  by (simp_all add: written_tasks on_status_def)

text \<open>The tasks the handlers can store, for a task with its cost charged or not.\<close>

inductive stored_by_run :: "claude_task \<Rightarrow> claude_task \<Rightarrow> bool" for u where
  by_charge: "stored_by_run u u"
| by_failure: "stored_by_run u (failed_task now u)"
| by_question: "int (length (Clarifications (Status u))) < max_rounds u \<Longrightarrow> stored_by_run u (asking_task q u)"
| by_completion: "stored_by_run u (completed_task now url u)"

lemma fail_spec_stores: "fail_spec r u o' ks \<Longrightarrow> TaskUpdate t' None \<in> set ks \<Longrightarrow> \<exists>now. t' = failed_task now u"
  by (auto elim!: fail_spec.cases)

lemma ask_spec_stores: "ask_spec r u q o' ks \<Longrightarrow> TaskUpdate t' None \<in> set ks \<Longrightarrow> stored_by_run u t'"
  by (auto elim!: ask_spec.cases dest!: fail_spec_stores intro: stored_by_run.intros)

lemma judge_spec_stores:
  assumes "judge_spec r u claim out err o' ks" and t': "TaskUpdate t' None \<in> set ks"
  shows "\<exists>cr. stored_by_run (charged_task cr u) t'"
  using assms(1)
proof (cases rule: judge_spec.cases)
  case (judge_ask cr result q ks' saved)
  with t' show ?thesis by (auto dest!: ask_spec_stores intro: by_charge exI [of _ cr])
next
  case (judge_fail cr result)
  with t' show ?thesis by (auto dest!: fail_spec_stores intro: by_failure exI [of _ cr])
next
  case (judge_complete cr result url)
  from judge_complete(3) show ?thesis
    using t' by (cases rule: complete_spec.cases) (auto intro: by_completion exI [of _ cr])
qed

lemma run_spec_stores:
  "run_spec r u ow rp claim o' ks \<Longrightarrow> TaskUpdate t' None \<in> set ks \<Longrightarrow>
     \<exists>v. (v = u \<or> (\<exists>cr. v = charged_task cr u)) \<and> stored_by_run v t'"
  by (erule run_spec.cases) (auto simp: pod_run_def dest!: fail_spec_stores judge_spec_stores intro: stored_by_run.intros)

text \<open>Everything a good write looks at but the placement and the cost.\<close>

definition same_core :: "claude_task \<Rightarrow> claude_task \<Rightarrow> bool" where
  "same_core t u \<longleftrightarrow>
     Phase (Status u) = Phase (Status t) \<and> SandboxClaimName (Status u) = SandboxClaimName (Status t)
     \<and> Clarifications (Status u) = Clarifications (Status t) \<and> StartTime (Status u) = StartTime (Status t)
     \<and> CompletionTime (Status u) = CompletionTime (Status t)
     \<and> PullRequestURL (Status u) = PullRequestURL (Status t)
     \<and> Spec u = Spec t \<and> TaskName u = TaskName t \<and> TaskNamespace u = TaskNamespace t"

lemma same_core_simps [simp]:
  "same_core t t" "same_core t (placed_task pod t)" "same_core t (charged_task cr t)"
  "same_core t (charged_task cr (placed_task pod t))"
  by (simp_all add: same_core_def)

lemma stored_by_run_good:
  assumes "stored_by_run u t'" and "same_core t u" and "Phase (Status t) = Running"
  shows "good_write t t'"
proof -
  have "max_rounds u = max_rounds t" using assms(2) by (simp add: same_core_def max_rounds_def)
  with assms show ?thesis
    by (cases rule: stored_by_run.cases) (simp_all add: good_write_def legal_write_def same_core_def)
qed

lemma failed_good:
  "Phase (Status t) \<in> {PhaseUnset, Pending, Running, WaitingForClarification} \<Longrightarrow> good_write t (failed_task now t)"
  by (auto simp: good_write_def legal_write_def)

lemma reconcile_spec_good:
  assumes "reconcile_spec r t o' ks" and "TaskUpdate t' None \<in> set ks"
  shows "good_write t t'"
proof -
  have start: "good_write t (started_task now (ClaimName ow rp (Issue (Spec t))) t)"
    if "Phase (Status t) \<in> {PhaseUnset, Pending}" "split2 (CHR ''/'') (Repository (Spec t)) = [ow, rp]" for now ow rp
    using that by (auto simp: good_write_def legal_write_def own_claim_def)
  have pending: "pending_spec r t o' ks \<Longrightarrow> ?thesis" if "Phase (Status t) \<in> {PhaseUnset, Pending}"
    using that assms(2) by (erule_tac pending_spec.cases) (auto intro: start failed_good dest: fail_spec_stores)
  have place: "good_write t (placed_task pod t)" if "Phase (Status t) = Running" for pod
    using that by (simp add: good_write_def legal_write_def)
  have running: "running_spec r t o' ks \<Longrightarrow> ?thesis" if "Phase (Status t) = Running"
    using that assms(2)
    by (erule_tac running_spec.cases)
      (auto intro: place failed_good stored_by_run_good dest!: fail_spec_stores run_spec_stores)
  have waiting: "waiting_spec r t o' ks \<Longrightarrow> ?thesis" if "Phase (Status t) = WaitingForClarification"
    using that assms(2) by (erule_tac waiting_spec.cases) (auto intro: failed_good dest!: fail_spec_stores)
  show ?thesis
    using assms pending running waiting by (cases "Phase (Status t)") (simp_all add: reconcile_spec_def)
qed

text \<open>A reconciliation cut short anywhere leaves the task as it was or a good write of it.\<close>

lemma stored_after_last:
  "stored_after t es = t \<or> TaskUpdate (stored_after t es) None \<in> set es"
proof (cases "List.map_filter task_write es = []")
  case True
  then show ?thesis by (simp add: stored_after_def)
next
  case False
  then have "stored_after t es = last (List.map_filter task_write es)"
    by (simp add: stored_after_def split: list.split)
  with False have "stored_after t es \<in> set (List.map_filter task_write es)" by simp
  then obtain e where "e \<in> set es" "task_write e = Some (stored_after t es)"
    by (auto simp: set_map_filter)
  then show ?thesis by (cases e rule: task_write.cases) auto
qed

lemma reconciled_good:
  assumes "run_state (reconcile_task r t) h = (o', h @ es)"
  shows "stored_after t (take n es) = t \<or> good_write t (stored_after t (take n es))"
proof -
  have "reconcile_spec r t o' (filter key_event es)"
  proof -
    have "traces (reconcile_task r t) (\<lambda>x es. reconcile_spec r t x (filter key_event es))"
      using reconcile_task_refines [of r t] unfolding ktraces_def .
    then show ?thesis using assms by (auto simp: traces_def dest: spec [of _ h])
  qed
  then have "TaskUpdate u None \<in> set es \<Longrightarrow> good_write t u" for u
    by (rule reconcile_spec_good) simp
  then show ?thesis using stored_after_last [of t "take n es"] in_set_takeD by metis
qed

lemma life_step_cases:
  assumes "life_step t t'"
  obtains "t' = t" | "good_write t t'"
    | req where "resume_matches req t" "t' = answered (ClarificationAnswer req) t"
  using assms reconciled_good by (cases rule: life_step.cases) metis+

subsection \<open>The invariant\<close>

definition task_wf :: "claude_task \<Rightarrow> bool" where
  "task_wf t \<longleftrightarrow>
     (let s = Status t; p = Phase s; cs = Clarifications s in
      p \<in> {PhaseUnset, Running, WaitingForClarification, Completed, Failed}
      \<and> (p = PhaseUnset \<longrightarrow> s = zero_task_status)
      \<and> (p \<in> {Running, WaitingForClarification, Completed} \<longrightarrow>
           own_claim t (SandboxClaimName s) \<and> StartTime s \<noteq> None)
      \<and> (terminal_phase p \<longleftrightarrow> CompletionTime s \<noteq> None)
      \<and> (PullRequestURL s \<noteq> [] \<longrightarrow> p = Completed)
      \<and> (p = WaitingForClarification \<longrightarrow> cs \<noteq> [] \<and> Answer (last cs) = [])
      \<and> length cs \<le> 3 \<and> max_rounds t = 3)"

lemma answered_status [simp]:
  "Phase (Status (answered a t)) = Running"
  "SandboxClaimName (Status (answered a t)) = SandboxClaimName (Status t)"
  "StartTime (Status (answered a t)) = StartTime (Status t)"
  "CompletionTime (Status (answered a t)) = CompletionTime (Status t)"
  "PullRequestURL (Status (answered a t)) = PullRequestURL (Status t)"
  "length (Clarifications (Status (answered a t))) = length (Clarifications (Status t))"
  "Spec (answered a t) = Spec t"
  by (simp_all add: answered_def Let_def)

lemma task_wf_created: "task_wf (requested_task ns req)"
  by (simp add: task_wf_def requested_task_def zero_task_status_def max_rounds_def
      defaultMaxClarifications_def Let_def)

lemma task_wf_answered: "task_wf t \<Longrightarrow> resume_matches req t \<Longrightarrow> task_wf (answered a t)"
  by (auto simp: task_wf_def resume_matches_def own_claim_def max_rounds_def Let_def)

lemma task_wf_write:
  assumes "task_wf t" and "good_write t t'"
  shows "task_wf t'"
proof -
  have frame: "Spec t' = Spec t" using assms(2) by (simp add: good_write_def legal_write_def)
  then have claim: "own_claim t' c = own_claim t c" and rounds: "max_rounds t' = max_rounds t" for c
    by (simp_all add: own_claim_def max_rounds_def)
  show ?thesis
    using assms
    by (cases "Phase (Status t)"; cases "Phase (Status t')")
      (auto simp: task_wf_def good_write_def legal_write_def claim rounds zero_task_status_def Let_def)
qed

lemma reachable_wf: "reachable_task t \<Longrightarrow> task_wf t"
proof (induction rule: reachable_task.induct)
  case (created ns req)
  then show ?case by (rule task_wf_created)
next
  case (step t t')
  from step.hyps(2) step.IH show ?case
    by (elim life_step_cases) (auto intro: task_wf_write task_wf_answered)
qed


lemma life_spec: "life_step t t' \<Longrightarrow> Spec t' = Spec t"
  by (auto elim!: life_step_cases simp: good_write_def legal_write_def)

lemma lives_reachable:
  "life_step\<^sup>*\<^sup>* (requested_task ns req) t \<Longrightarrow>
     reachable_task t \<and> Spec t = Spec (requested_task ns req)"
  by (induction rule: rtranclp_induct) (auto intro: reachable_task.intros dest: life_spec)



text \<open>
  C16: An ended task stays as it ended: no sequence of reconciliations and resumptions changes
  anything of it.
\<close>

theorem ended_task_is_final:
  assumes "life_step\<^sup>*\<^sup>* t t'" and "terminal_phase (Phase (Status t))"
  shows "t' = t"
  using assms
proof (induction rule: rtranclp_induct)
  case (step u v)
  then have "u = t" by simp
  with step show ?case
    by (auto elim!: life_step_cases simp: good_write_def legal_write_def resume_matches_def terminal_phase_def)
qed simp

theorem ended_task_is_final_witness:
  "stored_after (sample_task Completed)
     (take 7 (snd (run_state (reconcile_task offline_reconciler (sample_task Completed)) []))) = sample_task Completed"
proof (rule ended_task_is_final)
  show "life_step\<^sup>*\<^sup>* (sample_task Completed) (stored_after (sample_task Completed)
      (take 7 (snd (run_state (reconcile_task offline_reconciler (sample_task Completed)) []))))"
    by (rule r_into_rtranclp, rule life_step.reconciled [of offline_reconciler _ "[]"]) (simp add: prod_eq_iff)
qed (simp add: sample_task_def)

text \<open>
  C14: An answer reaches Claude: after a resumption with an answer the next run of the task is a
  resumption of the session, its command enters the repository cloned before instead of cloning
  it, and its prompt contains the question and the answer.
\<close>

theorem answer_reaches_claude:
  assumes "reachable_task t" and "resume_matches req t" and "ClarificationAnswer req \<noteq> []"
    and "u = answered (ClarificationAnswer req) t" and "q = last (Clarifications (Status t))"
  shows "is_resume u
         \<and> str_contains (buildPrompt u ctx) (Question q)
         \<and> str_contains (buildPrompt u ctx) (ClarificationAnswer req)
         \<and> (\<exists>post. buildCommand key ow rp tok u prompt (is_resume u)
              = ''export GITHUB_TOKEN='' @ sq @ tok @ sq @ nl @ ''export ANTHROPIC_API_KEY='' @ sq @ key @ sq @ nl
                @ ''cd repo'' @ nl @ ''git pull'' @ nl @ post)"
proof -
  let ?cs = "Clarifications (Status t)"
  have ne: "?cs \<noteq> []"
    using reachable_wf [OF assms(1)] assms(2) by (simp add: task_wf_def resume_matches_def Let_def)
  then have cs: "Clarifications (Status u) = butlast ?cs @ [q\<lparr>Answer := ClarificationAnswer req\<rparr>]"
    by (simp add: assms(4,5) answered_def Let_def butlast_last_update last_conv_nth del: One_nat_def)
  then have res: "is_resume u" using assms(3) by (simp add: is_resume_def Let_def nth_append)
  moreover have "q\<lparr>Answer := ClarificationAnswer req\<rparr> \<in> set (Clarifications (Status u))" using cs by simp
  then have "str_contains (buildPrompt u ctx) (Question q)"
      "str_contains (buildPrompt u ctx) (ClarificationAnswer req)"
    using prompt_has_rounds [of u ctx] by (auto simp: list_all_iff)
  ultimately show ?thesis by (simp add: buildCommand_def)
qed

text \<open>A task for a review of a pull request.\<close>

definition review_task :: "int \<Rightarrow> claude_task" where
  "review_task n = requested_task ''ns''
     (zero_request\<lparr>ReqOwner := ''acme'', ReqRepo := ''web'', ReqPullRequest := n, ReqTaskType := ''PRReviewFix''\<rparr>)"

text \<open>
  A reconciler whose sandbox is ready and whose run asks a question, and the task of the witness
  after its first two reconciliations by it.
\<close>

definition asking_reconciler :: task_reconciler where
  "asking_reconciler =
     (let w = sample_cluster\<lparr>ask_task_update := (\<lambda>h t. None), ask_claim_create := (\<lambda>h ns obj. None),
                ask_claim_get := (\<lambda>h ns n. Inr (bound_claim ''sb'')),
                ask_sandbox_get := (\<lambda>h ns n. Inr (sandbox_object ''True'' ''pod'')),
                ask_exec := (\<lambda>h ns pod ct argv tmo. ('':::CLARIFICATION::: which?'', [], None))\<rparr> in
      \<lparr>trClient = w, trSandboxClient = NewSandboxClient w ''ns'',
       trGitHubClient = Some (NewPATClient ''t'' ''bot''),
       trGithub = sample_github, trAllowlist = None, trSandboxTemplateName = ''tmpl'',
       trSandboxNamespace = ''ns'', trAnthropicAPIKey = ''key''\<rparr>)"

definition after_reconcile :: "task_reconciler \<Rightarrow> claude_task \<Rightarrow> claude_task" where
  "after_reconcile r t = stored_after t (snd (run_state (reconcile_task r t) []))"

definition waiting_task :: claude_task where
  "waiting_task = after_reconcile asking_reconciler (after_reconcile asking_reconciler (review_task 7))"

lemma after_reconcile_life: "life_step t (after_reconcile r t)"
proof -
  let ?run = "run_state (reconcile_task r t) []"
  have "life_step t (stored_after t (take (length (snd ?run)) (snd ?run)))"
    by (rule life_step.reconciled [of r _ "[]" "fst ?run"]) simp
  then show ?thesis by (simp add: after_reconcile_def)
qed

lemma waiting_task_life: "life_step\<^sup>*\<^sup>* (review_task 7) waiting_task"
  unfolding waiting_task_def
  by (rule rtranclp.rtrancl_into_rtrancl [OF r_into_rtranclp]) (rule after_reconcile_life)+

lemma waiting_task_waits:
  "resume_matches (zero_request\<lparr>ReqOwner := ''acme'', ReqRepo := ''web'', ClarificationAnswer := ''yes''\<rparr>) waiting_task"
  by code_simp

theorem answer_reaches_claude_witness:
  "is_resume (answered ''yes'' waiting_task)
   \<and> str_contains (buildPrompt (answered ''yes'' waiting_task) []) ''yes''"
  using answer_reaches_claude [OF conjunct1 [OF lives_reachable [OF waiting_task_life [unfolded review_task_def]]], of "zero_request\<lparr>ReqOwner := ''acme'', ReqRepo := ''web'',
      ClarificationAnswer := ''yes''\<rparr>" _ _ "[]"]
  by (simp add: waiting_task_waits)

text \<open>
  C37: Two tasks that were requested for the same repository and issue number share one sandbox
  as long as both are at work, whatever else was requested. A request made for a review carries
  no issue number, so all tasks for the pull requests of a repository share one.
\<close>

theorem requests_share_claim:
  assumes "life_step\<^sup>*\<^sup>* (requested_task ns req1) t1" and "life_step\<^sup>*\<^sup>* (requested_task ns req2) t2"
    and "full_name (ReqOwner req1) (ReqRepo req1) = full_name (ReqOwner req2) (ReqRepo req2)"
    and "ReqIssue req1 = ReqIssue req2"
    and "Phase (Status t1) \<in> {Running, WaitingForClarification}"
    and "Phase (Status t2) \<in> {Running, WaitingForClarification}"
  shows "SandboxClaimName (Status t1) = SandboxClaimName (Status t2)"
proof -
  have "own_claim t (SandboxClaimName (Status t))"
    if "reachable_task t" "Phase (Status t) \<in> {Running, WaitingForClarification}" for t
    using reachable_wf [OF that(1)] that(2) by (auto simp: task_wf_def Let_def)
  then have "own_claim t1 (SandboxClaimName (Status t1))" "own_claim t2 (SandboxClaimName (Status t2))"
    using assms lives_reachable by blast+
  moreover have "Repository (Spec t1) = Repository (Spec t2)" "Issue (Spec t1) = Issue (Spec t2)"
    using lives_reachable [OF assms(1)] lives_reachable [OF assms(2)] assms(3,4)
    by (simp_all add: requested_task_def)
  ultimately show ?thesis by (auto simp: own_claim_def)
qed

text \<open>Two review tasks for different pull requests, each after its first reconciliation.\<close>

definition started_review :: "int \<Rightarrow> claude_task" where
  "started_review n = after_reconcile offline_reconciler (review_task n)"

lemma started_review_life: "life_step\<^sup>*\<^sup>* (review_task n) (started_review n)"
  by (simp add: started_review_def r_into_rtranclp after_reconcile_life)

lemma started_review_runs: "Phase (Status (started_review n)) = Running"
proof -
  let ?run = "run_state (reconcile_task offline_reconciler (review_task n)) []"
  have "\<exists>now c. stored_after (review_task n) (snd ?run) = started_task now c (review_task n)"
    by (simp add: review_task_def requested_task_def zero_task_status_def reconcile_task_def reconcilePending_def
        full_name_def split2_def CreateClaim_def claim_create_def clock_def status_update_def
        offline_reconciler_def NewSandboxClient_def resolveGitHubClient_def commentOnTask_def Let_def
        stored_after_def List.map_filter_def zero_request_def) (auto simp: started_task_def on_status_def)
  then show ?thesis by (auto simp: started_review_def after_reconcile_def)
qed

theorem requests_share_claim_witness:
  "SandboxClaimName (Status (started_review 7)) = SandboxClaimName (Status (started_review 8))"
  using requests_share_claim [OF started_review_life [unfolded review_task_def] started_review_life [unfolded review_task_def],
      of 7 8]
  by (simp add: started_review_runs)

end
