(* ===== verification/Task_Liveness.thy ===== *)
theory Task_Liveness
  imports Task_Properties
begin

section \<open>What a healthy platform makes of a task\<close>

text \<open>
  When the API server accepts the writes of the task, the reconciliation of a running task comes
  to an end that is stored, whatever else fails: the sandbox, the token, the run in the pod.
  \<open>settles\<close> is that end; each handler is shown to reach it.
\<close>

lemma stored_after_eq_last: "stored_after t h = last (t # List.map_filter task_write h)"
  by (simp add: stored_after_def split: list.splits)

lemma stored_after_append: "stored_after t (xs @ ys) = stored_after (stored_after t xs) ys"
  unfolding stored_after_eq_last map_filter_append by (simp add: last_append)

definition settles :: "outcome \<Rightarrow> event list \<Rightarrow> bool" where
  "settles o' ks \<longleftrightarrow>
     o' = Finished no_requeue \<and>
     (\<forall>t. Phase (Status (stored_after t ks)) \<in> {Completed, Failed, WaitingForClarification})"

lemma settles_later: "settles o' ks \<Longrightarrow> settles o' (e # ks)"
  using stored_after_append [of _ "[e]" ks] by (simp add: settles_def)

lemma settles_quiet:
  assumes "Phase (Status u) \<in> {Completed, Failed, WaitingForClarification}"
    and "list_all (\<lambda>e. task_write e = None) ks"
  shows "settles (Finished no_requeue) (TaskUpdate u None # ks)"
proof -
  have "stored_after t (TaskUpdate u None # ks) = u" for t
    using stored_after_append [of t "[TaskUpdate u None]" ks] stored_after_no_write [OF assms(2)]
    by (simp add: stored_after_def List.map_filter_def)
  with assms(1) show ?thesis by (simp add: settles_def)
qed

lemma kt_settles_later: "ktraces m settles \<Longrightarrow> ktraces m (\<lambda>o' ks. settles o' (e # ks))"
  by (erule kt_weaken) (rule settles_later)

text \<open>A silent call whose result is known to satisfy something.\<close>

lemma kt_silent_result:
  assumes "silent m" and "\<And>h. P (fst (run_state m h))" and "\<And>x. P x \<Longrightarrow> ktraces (f x) R"
  shows "ktraces (State_Monad.bind m f) R"
proof (rule kt_bind [where S = "\<lambda>x k. k = [] \<and> P x"])
  show "ktraces m (\<lambda>x k. k = [] \<and> P x)"
    using assms(1,2) unfolding ktraces_def emits_traces traces_def
    by (fastforce simp: filter_empty_conv list_all_iff)
qed (auto simp: assms(3))

subsection \<open>The handlers\<close>

lemma failTask_settles:
  assumes "\<And>h u. ask_task_update (trClient r) h u = None"
  shows "ktraces (failTask r t reason) settles"
proof -
  have "Phase (Status (failed_task now t)) = Failed" for now
    by (simp add: failed_task_def on_status_def)
  then have rest: "ktraces (State_Monad.bind (if n \<noteq> [] then DeleteClaim c n else ret None)
      (\<lambda>_. ret (Finished no_requeue))) (\<lambda>o' ks. settles o' (TaskUpdate (failed_task now t) None # ks))"
    for n c now
    by (cases "n = []") (auto simp: bind_left_identity intro!: traces_intros settles_quiet)
  show ?thesis
    unfolding failTask_def Let_def failed_task_def [symmetric]
    by (rule kt_clock, rule kt_update_ask, unfold assms option.case, rule kt_silent [OF silent_resolve],
        rule kt_silent [OF silent_split_comment], rule rest)
qed

lemma handleClarification_settles:
  assumes "\<And>h u. ask_task_update (trClient r) h u = None"
  shows "ktraces (handleClarification r g t ow rp q) settles"
  unfolding handleClarification_def Let_def asking_task_def [symmetric]
  by (rule kt_if, rule failTask_settles [OF assms], rule kt_update_ask, unfold assms option.case,
      rule kt_silent [OF silent_comment], rule kt_return, rule settles_quiet)
    (simp_all add: asking_task_def on_status_def)

lemma complete_task_settles:
  assumes "\<And>h u. ask_task_update (trClient r) h u = None"
  shows "ktraces (complete_task r g t ow rp claim text) settles"
  unfolding complete_task_def Let_def completed_task_def [symmetric]
  by (rule kt_clock, rule kt_update_ask, unfold assms option.case, rule kt_silent [OF silent_comment],
      rule claims.kt_delete, rule kt_return, rule settles_quiet)
    (simp_all add: completed_task_def on_status_def)

lemma after_exec_settles:
  assumes "\<And>h u. ask_task_update (trClient r) h u = None"
  shows "ktraces (after_exec r g t ow rp claim out err) settles"
proof -
  obtain cr rt where p: "parseClaudeOutput out = (cr, rt)" by (cases "parseClaudeOutput out")
  show ?thesis
    unfolding after_exec_def Let_def p prod.case
    by (intro traces_intros kt_settles_later failTask_settles complete_task_settles
        handleClarification_settles assms)
qed

lemma run_claude_settles:
  assumes "\<And>h u. ask_task_update (trClient r) h u = None" and "trGitHubClient r \<noteq> None"
    and "\<And>c h. fst (run_state (fetchThreadContext r (Some c) t ow rp) h) \<noteq> None"
  shows "ktraces (run_claude r t ow rp claim) settles"
proof -
  have client: "fst (run_state (resolveGitHubClient r n) h) \<noteq> None" for n h
    using assms(2)
    by (auto simp: resolveGitHubClient_def read_cache_def split: option.splits)
  have exec: "ktraces (State_Monad.bind (execInPod r tmo pod command)
      (\<lambda>(output, err). after_exec r g t ow rp claim output err)) settles" for g tmo pod command
    unfolding execInPod_def Let_def
    by (cases "NewForConfig_error (trClient r)"; cases "NewSPDYExecutor_error (trClient r)
        (trSandboxNamespace r) pod sandboxContainerName [''/bin/bash'', ''-c'', command]")
      (auto simp: bind_left_identity bind_assoc split_def
        intro!: traces_intros kt_settles_later after_exec_settles assms(1))
  show ?thesis
    unfolding run_claude_def Let_def
  proof (rule kt_silent_result [OF silent_resolve, where P = "\<lambda>x. x \<noteq> None"], goal_cases)
    case (1 h)
    show ?case by (rule client)
  next
    case (2 x)
    then obtain c where c: "x = Some c" by blast
    show ?case
      unfolding c option.case
    proof (rule kt_silent [OF ghc.GetCloneToken_gh [THEN silent_gh]], rule kt_case_sum, goal_cases)
      case (1 y)
      show ?case by (rule failTask_settles [OF assms(1)])
    next
      case (2 tok y)
      show ?case
        by (rule kt_silent_result [OF silent_fetch, where P = "\<lambda>x. x \<noteq> None"])
          (use assms(3) exec in auto)
    qed
  qed
qed

lemma fetchThreadContext_spec:
  "Spec u = Spec t \<Longrightarrow> fetchThreadContext r g u ow rp = fetchThreadContext r g t ow rp"
  unfolding fetchThreadContext_def by (simp only:)

lemma reconcileRunning_settles:
  assumes "\<And>h u. ask_task_update (trClient r) h u = None" and "trGitHubClient r \<noteq> None"
    and "\<And>c ow rp h. fst (run_state (fetchThreadContext r (Some c) t ow rp) h) \<noteq> None"
  shows "ktraces (reconcileRunning r t) settles"
proof -
  have run: "ktraces (run_claude r u ow rp claim) settles" if "Spec u = Spec t" for u ow rp claim
    using assms(3) fetchThreadContext_spec [OF that] by (intro run_claude_settles assms(1,2)) simp
  show ?thesis
    unfolding reconcileRunning_def Let_def placed_task_def [symmetric]
    by (auto split: list.split simp: assms(1) placed_task_def on_status_def
        intro!: traces_intros failTask_settles assms(1) kt_silent [OF claims.silent_wait] run
          kt_update_ask kt_settles_later)
qed

text \<open>
  C19: A healthy platform decides a running task in one reconciliation: when the writes of the
  task are accepted, there is a GitHub client and the fetching of the thread returns, the
  reconciliation ends, is not to be repeated, and the stored task is Completed, Failed or
  waiting for an answer. Nothing is assumed of the sandbox, the token, the comments and the
  run: whatever they do, the task does not stay running.
\<close>

theorem running_task_is_decided:
  assumes "Phase (Status t) = Running"
    and "\<And>h u. ask_task_update (trClient r) h u = None" and "trGitHubClient r \<noteq> None"
    and "\<And>c ow rp h. fst (run_state (fetchThreadContext r (Some c) t ow rp) h) \<noteq> None"
  shows "traces (reconcile_task r t)
    (\<lambda>o' es. o' = Finished no_requeue \<and>
       Phase (Status (stored_after t es)) \<in> {Completed, Failed, WaitingForClarification})"
  using reconcileRunning_settles [OF assms(2-4)] assms(1)
  by (auto simp: ktraces_def settles_def stored_after_filter reconcile_task_def elim!: traces_weaken)

text \<open>A review of a pull request, in a cluster where writing is all that works.\<close>

definition review_reconciler :: task_reconciler where
  "review_reconciler = offline_reconciler\<lparr>trGitHubClient := Some (NewPATClient ''t'' ''bot'')\<rparr>"

definition running_review :: claude_task where
  "running_review =
     (let t = sample_task Running
      in t\<lparr>Spec := (Spec t)\<lparr>Issue := 0, PullRequest := 3, TaskType := PRReviewFix\<rparr>\<rparr>)"

theorem running_task_is_decided_witness:
  "traces (reconcile_task review_reconciler running_review)
    (\<lambda>o' es. o' = Finished no_requeue \<and>
       Phase (Status (stored_after running_review es)) \<in> {Completed, Failed, WaitingForClarification})"
proof (rule running_task_is_decided)
  show "Phase (Status running_review) = Running"
    by (simp add: running_review_def sample_task_def Let_def)
  show "ask_task_update (trClient review_reconciler) h u = None" for h u
    by (simp add: review_reconciler_def offline_reconciler_def Let_def)
  show "trGitHubClient review_reconciler \<noteq> None" by (simp add: review_reconciler_def)
  show "fst (run_state (fetchThreadContext review_reconciler (Some c) running_review ow rp) h) \<noteq> None"
    for c ow rp h
  proof -
    have "Spec running_review = (Spec (sample_task Running))
        \<lparr>Issue := 0, PullRequest := 3, TaskType := PRReviewFix\<rparr>"
      by (simp add: running_review_def Let_def)
    then show ?thesis
      by (simp add: fetchThreadContext_def sample_task_def split_def)
  qed
qed

subsection \<open>An error that nobody sees\<close>

text \<open>
  The \<open>is_error\<close> field of Claude's result is never looked at, and the command is a pipe into
  \<open>tee\<close>, whose exit status is that of \<open>tee\<close>: a run that ended in an error but printed no marker
  completes the task.
\<close>

theorem error_result_completes:
  assumes "parseClaudeOutput out = (cr, said)"
    and "\<not> str_contains said markerClarification" and "\<not> str_contains said markerFailed"
  shows "after_exec r g t ow rp claim out None =
    complete_task r g (on_status (\<lambda>s. s\<lparr>CostReport := Some (accumulateCost (CostReport s) cr)\<rparr>) t)
      ow rp claim said"
proof -
  have "parseClarification said = []"
    using assms(2) str_index_None [of said markerClarification] by (auto simp: parseClarification_def)
  with assms(1,3) show ?thesis by (simp add: after_exec_def Let_def)
qed

definition error_output :: string where
  "error_output = ''Cloning'' @ nl @ ''{'' @ dq @ ''is_error'' @ dq @ '':true,'' @ dq @ ''result'' @ dq @ '':''
     @ dq @ ''API Error'' @ dq @ ''}''"

theorem error_result_completes_witness:
  "IsError (fst (parseClaudeOutput error_output)) \<and>
   after_exec r g t ow rp claim error_output None =
     complete_task r g
       (on_status (\<lambda>s. s\<lparr>CostReport := Some (accumulateCost (CostReport s) (fst (parseClaudeOutput error_output)))\<rparr>) t)
       ow rp claim ''API Error''"
proof -
  have p: "parseClaudeOutput error_output = (zero_result\<lparr>Result := ''API Error'', IsError := True\<rparr>, ''API Error'')"
    by code_simp
  have "\<not> str_contains ''API Error'' markerClarification" "\<not> str_contains ''API Error'' markerFailed"
    by code_simp+
  from error_result_completes [OF p this] show ?thesis by (simp add: p)
qed

end
