(* ===== verification/Task_Termination.thy ===== *)
theory Task_Termination
  imports Task_Life Task_Liveness
begin

section \<open>Every task ends\<close>

text \<open>
  On a platform that accepts what the operator writes, a task whose questions are answered is
  ended by its eighth visit: one to start it, one run for each of at most three questions and
  one more, and the answers between them. \<open>remaining\<close> is the number of visits that are left.
\<close>

subsection \<open>Visits\<close>









subsection \<open>Progress\<close>



definition remaining :: "claude_task \<Rightarrow> nat" where
  "remaining t =
     (let left = 2 * (3 - length (Clarifications (Status t))) in
      case Phase (Status t) of
        Completed \<Rightarrow> 0 | Failed \<Rightarrow> 0
      | Running \<Rightarrow> left + 1
      | WaitingForClarification \<Rightarrow> left + 2
      | _ \<Rightarrow> 8)"

lemma remaining_simps [simp]:
  "Phase (Status t) = Completed \<Longrightarrow> remaining t = 0" "Phase (Status t) = Failed \<Longrightarrow> remaining t = 0"
  "Phase (Status t) = Running \<Longrightarrow> remaining t = 2 * (3 - length (Clarifications (Status t))) + 1"
  "Phase (Status t) = WaitingForClarification \<Longrightarrow> remaining t = 2 * (3 - length (Clarifications (Status t))) + 2"
  "Phase (Status t) = PhaseUnset \<Longrightarrow> remaining t = 8"
  by (simp_all add: remaining_def)






subsection \<open>The end\<close>



end
