(* ===== verification/Review_Comments.thy ===== *)
theory Review_Comments
  imports Task_Creator Task_Properties
begin

section \<open>A review comment and what becomes of it\<close>

text \<open>
  From the delivery of a review comment through the task that is created to the prompt and the
  command Claude is run with, and the place its answers are posted at.
\<close>










end
