(* ===== verification/Repo_Properties.thy ===== *)
theory Repo_Properties
  imports Repo_Reconciler
begin

section \<open>Properties of the reconciliation of repositories\<close>

text \<open>
  A reconciliation of a resource is one action on the abstract registry, so the registry's
  interpretation on the cache carries the sequences of reconciliations; the requests it makes
  are those of the resource's own hook and secret.
\<close>

subsection \<open>The registry\<close>

text \<open>The action a resource calls for: with the hook it has, or one made for it.\<close>

definition registry_step :: "claude_repository \<Rightarrow> registry_action \<Rightarrow> bool" where
  "registry_step repo a \<longleftrightarrow>
     (if DeletionTimestamp repo \<noteq> None then a = Unregister (FullName repo)
      else \<exists>i. (WebhookID (RStatus repo) = 0 \<or> WebhookID (RStatus repo) = i)
             \<and> a = Register (FullName repo) (with_hook i repo))"

lemma with_hook_own: "with_hook (WebhookID (RStatus repo)) repo = repo"
  by (simp add: with_hook_def)

lemma with_hook_frame [simp]:
  "RSpec (with_hook i repo) = RSpec repo" "IsPattern (with_hook i repo) = IsPattern repo"
  "FullName (with_hook i repo) = FullName repo"
  "is_regex compile (with_hook i repo) = is_regex compile repo"
  "WebhookID (RStatus (with_hook i repo)) = i"
  by (simp_all add: with_hook_def IsPattern_def FullName_def is_regex_def)

lemma create_hook_traces:
  "traces (CreateRepoWebhook (gh_ops g c) ow rp u s)
     (\<lambda>res es. \<exists>h. let made = ask_hook_create g h (request_auth c) ow rp u s in
        es = [GhHookCreate (request_auth c) ow rp u s made]
        \<and> res = map_sum (wrap_error (''creating webhook on '' @ ow @ ''/'' @ rp)) id made)"
  by (cases c)
    (auto simp: app_client_def pat_client_def pat_operation_defs create_repo_webhook_def Let_def
      intro!: traces_bind_call traces_return)

lemma delete_hook_traces:
  "traces (DeleteRepoWebhook (gh_ops g c) ow rp i)
     (\<lambda>res es. \<exists>res'. es = [GhHookDelete (request_auth c) ow rp i res'])"
  by (cases c)
    (auto simp: app_client_def pat_client_def pat_operation_defs delete_repo_webhook_def
      intro!: traces_bind_call traces_return)

text \<open>
  The specification of the two handlers: the hook requests they make and the resource they end
  with. At most one hook is made, with the configured address and secret, and a hook that was
  made is written to the status at once.
\<close>

inductive hook_spec :: "repo_reconciler \<Rightarrow> claude_repository \<Rightarrow> claude_repository \<Rightarrow> event list \<Rightarrow> bool"
  for r repo where
  hook_none: "WebhookID (RStatus repo) \<noteq> 0 \<or> rrWebhookURL r = [] \<or> IsPattern repo \<or> rrGlobalGHClient r = None \<Longrightarrow>
    hook_spec r repo repo []"
| hook_refused: "WebhookID (RStatus repo) = 0 \<Longrightarrow> rrWebhookURL r \<noteq> [] \<Longrightarrow> \<not> IsPattern repo \<Longrightarrow>
    ask_hook_create (rrGithub r) h a (Owner (RSpec repo)) (Repo (RSpec repo)) (rrWebhookURL r)
      (rrWebhookSecret r) = Inl e \<Longrightarrow>
    hook_spec r repo repo
      [GhHookCreate a (Owner (RSpec repo)) (Repo (RSpec repo)) (rrWebhookURL r) (rrWebhookSecret r) (Inl e)]"
| hook_made: "WebhookID (RStatus repo) = 0 \<Longrightarrow> rrWebhookURL r \<noteq> [] \<Longrightarrow> \<not> IsPattern repo \<Longrightarrow>
    ask_hook_create (rrGithub r) h a (Owner (RSpec repo)) (Repo (RSpec repo)) (rrWebhookURL r)
      (rrWebhookSecret r) = Inr i \<Longrightarrow>
    res = ask_repo_update (rrClient r) h' (with_hook i repo) \<Longrightarrow>
    hook_spec r repo (with_hook i repo)
      [GhHookCreate a (Owner (RSpec repo)) (Repo (RSpec repo)) (rrWebhookURL r) (rrWebhookSecret r) (Inr i),
       RepoUpdate (with_hook i repo) res]"

inductive unhook_spec :: "claude_repository \<Rightarrow> event list \<Rightarrow> bool" for repo where
  unhook_none: "unhook_spec repo []"
| unhook: "WebhookID (RStatus repo) \<noteq> 0 \<Longrightarrow> \<not> IsPattern repo \<Longrightarrow>
    unhook_spec repo [GhHookDelete a (Owner (RSpec repo)) (Repo (RSpec repo)) (WebhookID (RStatus repo)) res]"

inductive client_spec :: "claude_repository \<Rightarrow> client_cache \<Rightarrow> client_cache \<Rightarrow> event list \<Rightarrow> bool"
  for repo c where
  client_kept: "client_spec repo c c []"
| client_read: "PATSecretRef (RSpec repo) = Some ref \<Longrightarrow>
    c' = c \<or> (\<exists>cl. c' = AllowlistCache_SetClient (FullName repo) cl c) \<Longrightarrow>
    client_spec repo c c' [SecretGet (RepoNamespace repo) (SecretName ref)]"

inductive repo_spec ::
  "repo_reconciler \<Rightarrow> claude_repository \<Rightarrow> client_cache \<Rightarrow> outcome \<times> client_cache \<Rightarrow> event list \<Rightarrow> bool"
  for r repo c where
  repo_live: "DeletionTimestamp repo = None \<Longrightarrow> client_spec repo c c1 es1 \<Longrightarrow> hook_spec r repo repo' es2 \<Longrightarrow>
    repo_spec r repo c
      (Finished no_requeue, AllowlistCache_Set (rrCompile r) (FullName repo) repo' c1) (es1 @ es2)"
| repo_gone: "DeletionTimestamp repo \<noteq> None \<Longrightarrow> unhook_spec repo es \<Longrightarrow>
    repo_spec r repo c
      (Finished no_requeue,
       AllowlistCache_DeleteClient (FullName repo) (AllowlistCache_Delete (FullName repo) c)) es"

inductive_cases repo_specE: "repo_spec r repo c x es"
inductive_cases hook_specE: "hook_spec r repo repo' es"
inductive_cases unhook_specE: "unhook_spec repo es"
inductive_cases client_specE: "client_spec repo c c' es"

lemma own_client_spec: "traces (own_client r repo (FullName repo) c) (client_spec repo c)"
  unfolding own_client_def buildPATClient_def secret_get_def Let_def bind_assoc
  by (auto intro!: traces_intros traces_bind_call client_spec.intros split: sum.splits option.splits)

lemma ensure_webhook_spec: "traces (ensure_webhook r repo n c) (hook_spec r repo)"
proof -
  let ?sp = "RSpec repo"
  have "traces (State_Monad.bind (CreateRepoWebhook (gh_ops (rrGithub r) g) (Owner ?sp) (Repo ?sp)
            (rrWebhookURL r) (rrWebhookSecret r))
          (\<lambda>made. case made of Inl err \<Rightarrow> ret repo
             | Inr hookID \<Rightarrow> State_Monad.bind (repo_status_update (rrClient r) (with_hook hookID repo))
                 (\<lambda>_. ret (with_hook hookID repo)))) (hook_spec r repo)"
    if "WebhookID (RStatus repo) = 0" "rrWebhookURL r \<noteq> []" "\<not> IsPattern repo" for g
  proof (rule traces_bind [OF create_hook_traces], erule exE)
    fix x e1 h
    assume "let made = ask_hook_create (rrGithub r) h (request_auth g) (Owner ?sp) (Repo ?sp)
          (rrWebhookURL r) (rrWebhookSecret r) in
        e1 = [GhHookCreate (request_auth g) (Owner ?sp) (Repo ?sp) (rrWebhookURL r) (rrWebhookSecret r) made]
        \<and> x = map_sum (wrap_error (''creating webhook on '' @ Owner ?sp @ ''/'' @ Repo ?sp)) id made"
    then show "traces (case x of Inl err \<Rightarrow> ret repo
             | Inr hookID \<Rightarrow> State_Monad.bind (repo_status_update (rrClient r) (with_hook hookID repo))
                 (\<lambda>_. ret (with_hook hookID repo))) (\<lambda>y e2. hook_spec r repo y (e1 @ e2))"
      unfolding repo_status_update_def
      by (cases "ask_hook_create (rrGithub r) h (request_auth g) (Owner ?sp) (Repo ?sp)
            (rrWebhookURL r) (rrWebhookSecret r)")
        (auto simp: Let_def intro!: traces_intros traces_bind_call hook_refused [OF that] hook_made [OF that])
  qed
  then show ?thesis
    unfolding ensure_webhook_def
    by (auto simp: repo_resolveClient_def intro!: traces_intros hook_none split: option.splits)
qed

lemma cleanup_spec:
  "traces (cleanupRepo r repo n c)
     (\<lambda>c' es. c' = AllowlistCache_DeleteClient n (AllowlistCache_Delete n c) \<and> unhook_spec repo es)"
proof -
  have "traces (DeleteRepoWebhook (gh_ops (rrGithub r) g) (Owner (RSpec repo)) (Repo (RSpec repo))
            (WebhookID (RStatus repo))) (\<lambda>_. unhook_spec repo)"
    if "WebhookID (RStatus repo) \<noteq> 0" "\<not> IsPattern repo" for g
    by (rule traces_weaken [OF delete_hook_traces]) (auto intro: unhook [OF that])
  then show ?thesis
    unfolding cleanupRepo_def
    by (intro traces_bind [where S = "\<lambda>_. unhook_spec repo"])
      (auto intro!: traces_intros unhook_none split: option.splits)
qed

text \<open>
  C8: The detailed reconciliation of a resource refines its specification, whatever the
  cluster and GitHub answer, failures included: a live resource is registered and a deleted one
  removed, it never ends in an error, at most one hook is made or deleted, and the only secret
  read is the one the resource names.
\<close>

theorem reconcile_repo_refines: "traces (reconcile_repo r repo c) (repo_spec r repo c)"
proof (cases "DeletionTimestamp repo = None")
  case True
  then show ?thesis
    unfolding reconcile_repo_def Let_def
    by simp (rule traces_bind [OF own_client_spec] traces_bind [OF ensure_webhook_spec] traces_return
        | auto intro: repo_live)+
next
  case False
  then show ?thesis
    unfolding reconcile_repo_def Let_def
    by simp (rule traces_bind [OF cleanup_spec], auto intro!: traces_return repo_gone)
qed

subsection \<open>The registry after any sequence of reconciliations\<close>

text \<open>The resources found by the reconciliations of the work queue, one after the other.\<close>

primrec reconcile_all :: "repo_reconciler \<Rightarrow> claude_repository list \<Rightarrow> client_cache \<Rightarrow> client_cache io" where
  "reconcile_all r [] c = ret c"
| "reconcile_all r (q # qs) c = do {
     (res, c') \<leftarrow> reconcile_repo r q c;
     reconcile_all r qs c'
   }"

lemma repo_spec_step:
  assumes "repo_spec r repo c x es" and "cache_wf (rrCompile r) c"
  shows "\<exists>a. registry_step repo a \<and> cache_wf (rrCompile r) (snd x)
           \<and> entries (snd x) = abstract_action (is_regex (rrCompile r)) a (entries c)"
  using assms(1)
proof (cases rule: repo_spec.cases)
  case (repo_live c1 es1 repo' es2)
  from repo_live(4) have c1: "cache_wf (rrCompile r) c1" "entries c1 = entries c"
    using assms(2) by (auto elim!: client_specE)
  from repo_live(5) have "\<exists>i. repo' = with_hook i repo
      \<and> (WebhookID (RStatus repo) = 0 \<or> WebhookID (RStatus repo) = i)"
    by (cases rule: hook_spec.cases) (metis with_hook_own)+
  then obtain i where i: "repo' = with_hook i repo"
      "WebhookID (RStatus repo) = 0 \<or> WebhookID (RStatus repo) = i" by blast
  with repo_live(3) have "registry_step repo (Register (FullName repo) repo')"
    by (auto simp: registry_step_def)
  moreover have "cache_wf (rrCompile r) (snd x) \<and> entries (snd x)
      = abstract_action (is_regex (rrCompile r)) (Register (FullName repo) repo') (entries c1)"
    using cache.action_refines [OF c1(1), of "Register (FullName repo) repo'"] repo_live(1) by simp
  ultimately show ?thesis using c1(2) by metis
next
  case repo_gone
  then have "registry_step repo (Unregister (FullName repo))" by (simp add: registry_step_def)
  moreover have "cache_wf (rrCompile r) (snd x) \<and> entries (snd x)
      = abstract_action (is_regex (rrCompile r)) (Unregister (FullName repo)) (entries c)"
    using cache.action_refines [OF assms(2), of "Unregister (FullName repo)"] repo_gone(1) by simp
  ultimately show ?thesis by blast
qed

lemma reconcile_all_actions:
  "cache_wf (rrCompile r) c \<Longrightarrow>
   traces (reconcile_all r qs c)
     (\<lambda>c' es. \<exists>as. list_all2 registry_step qs as \<and> cache_wf (rrCompile r) c'
        \<and> entries c' = fold (abstract_action (is_regex (rrCompile r))) as (entries c))"
proof (induction qs arbitrary: c)
  case Nil
  then show ?case by (auto intro!: traces_return)
next
  case (Cons q qs)
  show ?case
    unfolding reconcile_all.simps
  proof (rule traces_bind [OF reconcile_repo_refines], rule traces_case_prod)
    fix x e1 res c1
    assume "repo_spec r q c x e1" and x: "x = (res, c1)"
    then obtain a where a: "registry_step q a" "cache_wf (rrCompile r) c1"
        "entries c1 = abstract_action (is_regex (rrCompile r)) a (entries c)"
      using repo_spec_step [OF _ Cons.prems] by fastforce
    show "traces (reconcile_all r qs c1) (\<lambda>c' e2. \<exists>as. list_all2 registry_step (q # qs) as
        \<and> cache_wf (rrCompile r) c'
        \<and> entries c' = fold (abstract_action (is_regex (rrCompile r))) as (entries c))"
    proof (rule traces_weaken [OF Cons.IH [OF a(2)]], elim exE conjE, goal_cases)
      case (1 c' es as)
      then show ?case using a by (intro exI [of _ "a # as"]) simp
    qed
  qed
qed

text \<open>The names a registry admits, and a cache that decides them whatever order it is visited in.\<close>

definition admits :: "regex_compiler \<Rightarrow> (string \<times> claude_repository) set \<Rightarrow> string \<Rightarrow> bool" where
  "admits compile E n \<longleftrightarrow> (\<exists>(k, q) \<in> E. accepts compile k q n)"

definition decides :: "client_cache \<Rightarrow> (string \<Rightarrow> bool) \<Rightarrow> bool" where
  "decides c f \<longleftrightarrow> (\<forall>ord n. iteration_order (patterns c) ord \<longrightarrow> AllowlistCache_IsAllowed ord c n = f n)"

text \<open>
  The repositories admitted after any sequence of reconciliations, starting from the cache
  that \<open>main\<close> makes, are those of the abstract registry: every resource found live was
  registered under its full name, every one found deleted was removed, in that order, and a
  name is admitted exactly when an entry that is left accepts it, whatever order the patterns
  are visited in.
\<close>

theorem admitted_repositories:
  "traces (reconcile_all r qs (AllowlistCache_SetGlobalAllowlist us rs NewAllowlistCache))
     (\<lambda>c es. \<exists>as. list_all2 registry_step qs as
        \<and> decides c (admits (rrCompile r) (fold (abstract_action (is_regex (rrCompile r))) as {})))"
  by (rule traces_weaken [OF reconcile_all_actions])
    (auto simp: cache_wf_New decides_def admits_def IsAllowed_entries)

subsection \<open>Requests\<close>



text \<open>
  C30: The clients of other repositories are left alone: only the entry under the resource's own
  name can change, it is gone after a deletion, and without a reference to a secret a live
  resource changes none. The lists of \<open>main\<close> stay as they are.
\<close>

theorem repo_clients_isolated:
  "traces (reconcile_repo r repo c)
     (\<lambda>(res, c') es. clients c' |` (- {FullName repo}) = clients c |` (- {FullName repo})
        \<and> globalAllowedUsers c' = globalAllowedUsers c \<and> globalAllowedRoles c' = globalAllowedRoles c
        \<and> (if DeletionTimestamp repo \<noteq> None then clients c' (FullName repo) = None
           else if PATSecretRef (RSpec repo) = None then clients c' = clients c else True))"
  by (rule traces_weaken [OF reconcile_repo_refines])
    (auto elim!: repo_specE client_specE simp: cache_update_defs fun_eq_iff restrict_map_def
      split: option.splits)

subsection \<open>One hook per repository\<close>

text \<open>
  Reconciling the same resource again and again, each time as the last successful status write
  left it.
\<close>

fun repo_write :: "event \<Rightarrow> claude_repository option" where
  "repo_write (RepoUpdate q None) = Some q"
| "repo_write _ = None"

definition stored_repo :: "claude_repository \<Rightarrow> event list \<Rightarrow> claude_repository" where
  "stored_repo repo es = last (repo # List.map_filter repo_write es)"

definition observed :: "'a io \<Rightarrow> ('a \<times> event list) io" where
  "observed m = State (\<lambda>h. case run_state m h of (x, h') \<Rightarrow> ((x, drop (length h) h'), h'))"

primrec reconcile_again :: "repo_reconciler \<Rightarrow> nat \<Rightarrow> claude_repository \<Rightarrow> client_cache \<Rightarrow> claude_repository io" where
  "reconcile_again r 0 repo c = ret repo"
| "reconcile_again r (Suc n) repo c = do {
     ((res, c'), es) \<leftarrow> observed (reconcile_repo r repo c);
     reconcile_again r n (stored_repo repo es) c'
   }"

fun hook_made_event :: "event \<Rightarrow> bool" where
  "hook_made_event (GhHookCreate a ow rp u s (Inr i)) = True"
| "hook_made_event _ = False"

lemma traces_observed: "traces m R \<Longrightarrow> traces (observed m) (\<lambda>(x, es') es. es' = es \<and> R x es)"
  unfolding traces_def observed_def
proof (intro allI, goal_cases)
  case (1 h)
  then obtain evs where "snd (run_state m h) = h @ evs" "R (fst (run_state m h)) evs" by blast
  then show ?case by (cases "run_state m h") simp
qed

lemma reconcile_again_Suc:
  assumes "\<And>c' es. repo_spec r repo c (Finished no_requeue, c') es \<Longrightarrow>
             traces (reconcile_again r n (stored_repo repo es) c') (\<lambda>y es2. R y (es @ es2))"
  shows "traces (reconcile_again r (Suc n) repo c) R"
  unfolding reconcile_again.simps
proof (rule traces_bind [OF traces_observed [OF reconcile_repo_refines]], clarsimp)
  fix res c' es assume sp: "repo_spec r repo c (res, c') es"
  then have "res = Finished no_requeue" by (auto elim!: repo_specE)
  with sp assms show "traces (reconcile_again r n (stored_repo repo es) c') (\<lambda>y es2. R y (es @ es2))" by blast
qed

text \<open>The number of hooks a reconciliation makes, and what it leaves stored.\<close>

lemma repo_spec_hooks:
  assumes "repo_spec r repo c x es"
  shows "length (filter hook_made_event es) \<le> (if WebhookID (RStatus repo) = 0 then 1 else 0)"
  using assms by (auto elim!: repo_specE hook_specE unhook_specE client_specE)

lemma repo_spec_stores:
  assumes "repo_spec r repo c x es" and "\<And>h q. ask_repo_update (rrClient r) h q = None"
    and "\<And>h a ow rp u s i. ask_hook_create (rrGithub r) h a ow rp u s = Inr i \<Longrightarrow> i \<noteq> 0"
  shows "stored_repo repo es = repo \<and> filter hook_made_event es = []
         \<or> WebhookID (RStatus (stored_repo repo es)) \<noteq> 0"
  using assms(1,2)
  by (auto elim!: repo_specE hook_specE unhook_specE client_specE
      simp: stored_repo_def List.map_filter_def assms(2) dest: assms(3))

lemma repo_spec_refused:
  assumes "repo_spec r repo c x es" and "\<And>h q. ask_repo_update (rrClient r) h q \<noteq> None"
    and "\<And>h a ow rp u s. \<exists>i. ask_hook_create (rrGithub r) h a ow rp u s = Inr i"
    and "DeletionTimestamp repo = None" "WebhookID (RStatus repo) = 0" "\<not> IsPattern repo"
      "rrWebhookURL r \<noteq> []" "rrGlobalGHClient r \<noteq> None"
  shows "stored_repo repo es = repo \<and> length (filter hook_made_event es) = 1"
proof -
  have "ask_hook_create (rrGithub r) h a ow rp u s \<noteq> Inl e" for h a ow rp u s e
    using assms(3) [of h a ow rp u s] by auto
  moreover have "repo_write (RepoUpdate q' (ask_repo_update (rrClient r) h q)) = None" for h q q'
    using assms(2) [of h q] by (cases "ask_repo_update (rrClient r) h q") simp_all
  ultimately show ?thesis
    using assms(1,4-8)
    by (auto elim!: repo_specE hook_specE unhook_specE client_specE
        simp: stored_repo_def List.map_filter_def)
qed

text \<open>A reconciler of a GitHub that hands out hook 7, for the witnesses.\<close>

definition sample_reconciler :: "go_error option \<Rightarrow> repo_reconciler" where
  "sample_reconciler refusal =
     \<lparr>rrClient = sample_cluster\<lparr>ask_repo_update := (\<lambda>h q. refusal),
         ask_repo_get := (\<lambda>h ns n. Inl (GoError NotFound ''gone''))\<rparr>,
      rrGithub = sample_github, rrCompile = (\<lambda>_. None),
      rrGlobalGHClient = Some (NewPATClient ''t'' ''bot''),
      rrWebhookURL = ''https://d/webhooks/github'', rrWebhookSecret = ''s''\<rparr>"

text \<open>
  C29: However often a resource is reconciled, at most one hook is made for it, provided that
  the status writes are accepted and GitHub's hook numbers are not zero.
\<close>

theorem one_hook_per_repository:
  assumes "\<And>h q. ask_repo_update (rrClient r) h q = None"
    and "\<And>h a ow rp u s i. ask_hook_create (rrGithub r) h a ow rp u s = Inr i \<Longrightarrow> i \<noteq> 0"
  shows "traces (reconcile_again r n repo c) (\<lambda>q es. length (filter hook_made_event es) \<le> 1)"
proof -
  have "traces (reconcile_again r n repo c)
      (\<lambda>q es. length (filter hook_made_event es) \<le> (if WebhookID (RStatus repo) = 0 then 1 else 0))"
  proof (induction n arbitrary: repo c)
    case 0
    then show ?case by (simp add: traces_return)
  next
    case (Suc n)
    show ?case
    proof (rule reconcile_again_Suc)
      fix c' es assume sp: "repo_spec r repo c (Finished no_requeue, c') es"
      show "traces (reconcile_again r n (stored_repo repo es) c')
          (\<lambda>y es2. length (filter hook_made_event (es @ es2)) \<le> (if WebhookID (RStatus repo) = 0 then 1 else 0))"
        using repo_spec_hooks [OF sp] repo_spec_stores [OF sp assms]
        by (intro traces_weaken [OF Suc.IH]) (auto split: if_splits)
    qed
  qed
  then show ?thesis by (rule traces_weaken) (simp split: if_splits)
qed

theorem one_hook_per_repository_witness:
  "traces (reconcile_again (sample_reconciler None) 3 acme_repo NewAllowlistCache)
     (\<lambda>q es. length (filter hook_made_event es) \<le> 1)"
  by (rule one_hook_per_repository) (auto simp: sample_reconciler_def sample_github_def)

text \<open>
  When the status write is refused the number of the hook is lost and the reconciliation
  still ends without an error: each further one makes another hook on the same repository.
\<close>

theorem refused_hook_write_repeats:
  assumes "\<And>h q. ask_repo_update (rrClient r) h q \<noteq> None"
    and "\<And>h a ow rp u s. \<exists>i. ask_hook_create (rrGithub r) h a ow rp u s = Inr i"
    and "DeletionTimestamp repo = None" and "WebhookID (RStatus repo) = 0" and "\<not> IsPattern repo"
    and "rrWebhookURL r \<noteq> []" and "rrGlobalGHClient r \<noteq> None"
  shows "traces (reconcile_again r n repo c) (\<lambda>q es. q = repo \<and> length (filter hook_made_event es) = n)"
proof (induction n arbitrary: c)
  case 0
  then show ?case by (simp add: traces_return)
next
  case (Suc n)
  show ?case
  proof (rule reconcile_again_Suc)
    fix c' es assume sp: "repo_spec r repo c (Finished no_requeue, c') es"
    show "traces (reconcile_again r n (stored_repo repo es) c')
        (\<lambda>q es2. q = repo \<and> length (filter hook_made_event (es @ es2)) = Suc n)"
      using repo_spec_refused [OF sp assms] by (auto intro: traces_weaken [OF Suc.IH])
  qed
qed

theorem refused_hook_write_repeats_witness:
  "traces (reconcile_again (sample_reconciler (Some offline)) 3 acme_repo NewAllowlistCache)
     (\<lambda>q es. q = acme_repo \<and> length (filter hook_made_event es) = 3)"
  by (rule refused_hook_write_repeats)
    (simp_all add: sample_reconciler_def sample_github_def acme_repo_def IsPattern_def)



end
