(* ===== verification/Go_Memory.thy ===== *)
theory Go_Memory
  imports Prelude "HOL-Library.Monad_Syntax"
begin

section \<open>Memory, pointers and slices\<close>

text \<open>
  Memory as the generated deep copies see it. It is a list of cells that only grows, an
  address is an index, and a cell is an array whose elements have one Go type; what one
  allocation makes is one cell. A pointer names a cell and an element of it, so \<open>new(T)\<close> is an
  array of length one and \<open>&xs[i]\<close> is a pointer too; \<open>nil\<close> is \<open>None\<close>. A slice is a window of
  an array. Cells are never freed: the garbage collector frees only what nobody can reach.
  A \<open>kind\<close> says how the arrays of one Go type are stored in cells and what the zero value of
  the type is. An operation returns \<open>None\<close> where an access is not one of a well-typed Go
  program or where it panics.

  A view reads an abstract value off memory and says which cells the value depends on. A
  copier returns, for every value it can read, a value that reads the same and depends on new
  cells only.
\<close>

type_synonym 'c memory = "'c list"
type_synonym ptr = "nat \<times> nat"
type_synonym ('c, 'a) into = "'a \<Rightarrow> 'c memory \<Rightarrow> ('a \<times> 'c memory) option"

record slice =
  s_array :: nat
  s_off :: nat
  s_len :: nat
  s_cap :: nat

record ('c, 'a) kind =
  wrap :: "'a list \<Rightarrow> 'c"
  unwrap :: "'c \<Rightarrow> 'a list option"
  zero_value :: 'a

subsection \<open>Access and allocation\<close>

definition array_at :: "('c, 'a) kind \<Rightarrow> nat \<Rightarrow> 'c memory \<Rightarrow> 'a list option" where
  "array_at K a m = (if a < length m then unwrap K (m ! a) else None)"

definition load :: "('c, 'a) kind \<Rightarrow> ptr \<Rightarrow> 'c memory \<Rightarrow> 'a option" where
  "load K p m =
     (case array_at K (fst p) m of
        None \<Rightarrow> None
      | Some xs \<Rightarrow> if snd p < length xs then Some (xs ! snd p) else None)"

definition store :: "('c, 'a) kind \<Rightarrow> ptr \<Rightarrow> 'a \<Rightarrow> 'c memory \<Rightarrow> 'c memory option" where
  "store K p x m =
     (case array_at K (fst p) m of
        None \<Rightarrow> None
      | Some xs \<Rightarrow>
          if snd p < length xs then Some (m[fst p := wrap K (xs[snd p := x])]) else None)"

definition window :: "('c, 'a) kind \<Rightarrow> slice \<Rightarrow> 'c memory \<Rightarrow> 'a list option" where
  "window K s m =
     (case array_at K (s_array s) m of
        None \<Rightarrow> None
      | Some xs \<Rightarrow>
          if s_len s \<le> s_cap s \<and> s_off s + s_cap s \<le> length xs
          then Some (take (s_len s) (drop (s_off s) xs)) else None)"

definition new_object :: "('c, 'a) kind \<Rightarrow> 'c memory \<Rightarrow> ptr \<times> 'c memory" where
  "new_object K m = ((length m, 0), m @ [wrap K [zero_value K]])"

definition make_slice :: "('c, 'a) kind \<Rightarrow> nat \<Rightarrow> 'c memory \<Rightarrow> slice \<times> 'c memory" where
  "make_slice K n m =
     (\<lparr>s_array = length m, s_off = 0, s_len = n, s_cap = n\<rparr>,
      m @ [wrap K (replicate n (zero_value K))])"

subsection \<open>The generated statements\<close>

text \<open>
  The deep copies are generated from four patterns. A value without references is assigned.
  A pointer that is not nil gets a new object that is copied into; this is also what the
  generated \<open>DeepCopy\<close> methods do. A slice that is not nil gets a new array of its length,
  and its elements are copied one by one, which is also what the built-in \<open>copy\<close> does with
  elements that are assigned. \<open>DeepCopyInto\<close> is a function from the value at \<open>in\<close> to the
  value it leaves at \<open>out\<close>: the statement \<open>*out = *in\<close> comes first and \<open>out\<close> is always a new
  object or an element of a new array, so nothing else can refer to it.
\<close>

definition assign :: "('c, 'a) into" where
  "assign x m = Some (x, m)"

definition copy_pointer :: "('c, 'a) kind \<Rightarrow> ('c, 'a) into \<Rightarrow> ('c, ptr option) into" where
  "copy_pointer K into p m =
     (case p of
        None \<Rightarrow> Some (None, m)
      | Some q \<Rightarrow> do {
          x \<leftarrow> load K q m;
          let (out, m1) = new_object K m;
          (y, m2) \<leftarrow> into x m1;
          m3 \<leftarrow> store K out y m2;
          Some (Some out, m3)
        })"

fun fill_array ::
  "('c, 'a) kind \<Rightarrow> ('c, 'a) into \<Rightarrow> nat \<Rightarrow> nat \<Rightarrow> 'a list \<Rightarrow> 'c memory \<Rightarrow> 'c memory option"
where
  "fill_array K into a i [] m = Some m"
| "fill_array K into a i (x # xs) m = do {
     (y, m1) \<leftarrow> into x m;
     m2 \<leftarrow> store K (a, i) y m1;
     fill_array K into a (Suc i) xs m2
   }"

definition copy_slice :: "('c, 'a) kind \<Rightarrow> ('c, 'a) into \<Rightarrow> ('c, slice option) into" where
  "copy_slice K into s m =
     (case s of
        None \<Rightarrow> Some (None, m)
      | Some sl \<Rightarrow> do {
          xs \<leftarrow> window K sl m;
          let (out, m1) = make_slice K (s_len sl) m;
          m2 \<leftarrow> fill_array K into (s_array out) 0 xs m1;
          Some (Some out, m2)
        })"

subsection \<open>Views\<close>

definition keeps :: "nat set \<Rightarrow> 'c memory \<Rightarrow> 'c memory \<Rightarrow> bool" where
  "keeps A m m' \<longleftrightarrow> (\<forall>a \<in> A. a < length m \<longrightarrow> a < length m' \<and> m' ! a = m ! a)"

lemma prefix_append_self [simp]: "prefix xs (xs @ ys)"
  by (simp add: prefix_def)

lemma keeps_prefix [intro]: "prefix m m' \<Longrightarrow> keeps A m m'"
  by (auto simp: keeps_def prefix_def nth_append)

lemma keeps_mono: "keeps A m m' \<Longrightarrow> B \<subseteq> A \<Longrightarrow> keeps B m m'"
  by (auto simp: keeps_def)

lemma keeps_update [intro]: "a \<notin> A \<Longrightarrow> keeps A m (m[a := c])"
  by (auto simp: keeps_def) (metis nth_list_update_neq)

lemma keeps_trans: "keeps A m1 m2 \<Longrightarrow> keeps A m2 m3 \<Longrightarrow> keeps A m1 m3"
  by (simp add: keeps_def)

definition ptr_view ::
  "('c, 'a) kind \<Rightarrow> ('c memory \<Rightarrow> 'a \<Rightarrow> 'v option) \<Rightarrow> 'c memory \<Rightarrow> ptr option \<Rightarrow> 'v option option" where
  "ptr_view K val m p =
     (case p of
        None \<Rightarrow> Some None
      | Some q \<Rightarrow> do { x \<leftarrow> load K q m; v \<leftarrow> val m x; Some (Some v) })"

definition ptr_cells ::
  "('c, 'a) kind \<Rightarrow> ('c memory \<Rightarrow> 'a \<Rightarrow> nat set) \<Rightarrow> 'c memory \<Rightarrow> ptr option \<Rightarrow> nat set" where
  "ptr_cells K cells m p =
     (case p of
        None \<Rightarrow> {}
      | Some q \<Rightarrow> insert (fst q) (case load K q m of None \<Rightarrow> {} | Some x \<Rightarrow> cells m x))"

definition slice_view ::
  "('c, 'a) kind \<Rightarrow> ('c memory \<Rightarrow> 'a \<Rightarrow> 'v option) \<Rightarrow> 'c memory \<Rightarrow> slice option \<Rightarrow> 'v list option option"
where
  "slice_view K val m s =
     (case s of
        None \<Rightarrow> Some None
      | Some sl \<Rightarrow> do { xs \<leftarrow> window K sl m; vs \<leftarrow> those (map (val m) xs); Some (Some vs) })"

definition slice_cells ::
  "('c, 'a) kind \<Rightarrow> ('c memory \<Rightarrow> 'a \<Rightarrow> nat set) \<Rightarrow> 'c memory \<Rightarrow> slice option \<Rightarrow> nat set" where
  "slice_cells K cells m s =
     (case s of
        None \<Rightarrow> {}
      | Some sl \<Rightarrow>
          insert (s_array sl)
            (case window K sl m of None \<Rightarrow> {} | Some xs \<Rightarrow> \<Union> (cells m ` set xs)))"

definition plain_view :: "'c memory \<Rightarrow> 'a \<Rightarrow> 'a option" where
  "plain_view m x = Some x"

definition no_cells :: "'c memory \<Rightarrow> 'a \<Rightarrow> nat set" where
  "no_cells m x = {}"


lemma those_map_Some:
  "those (map f xs) = Some vs \<longleftrightarrow> list_all2 (\<lambda>x v. f x = Some v) xs vs"
  by (induction xs arbitrary: vs) (auto simp: list_all2_Cons1 split: option.splits)

lemma list_all2_Some_member:
  "list_all2 (\<lambda>x v. f x = Some v) xs vs \<Longrightarrow> x \<in> set xs \<Longrightarrow> \<exists>v. f x = Some v"
  by (induction rule: list_all2_induct) auto

lemma ptr_view_simps [simp]:
  "ptr_view K val m None = Some None"
  "ptr_view K val m (Some q) = Some v \<longleftrightarrow>
     (\<exists>x w. load K q m = Some x \<and> val m x = Some w \<and> v = Some w)"
  by (auto simp: ptr_view_def bind_eq_Some_conv)

lemma ptr_cells_simps [simp]:
  "ptr_cells K cells m None = {}"
  "load K q m = Some x \<Longrightarrow> ptr_cells K cells m (Some q) = insert (fst q) (cells m x)"
  by (auto simp: ptr_cells_def)

lemma slice_view_simps [simp]:
  "slice_view K val m None = Some None"
  "slice_view K val m (Some s) = Some v \<longleftrightarrow>
     (\<exists>xs vs. window K s m = Some xs \<and> list_all2 (\<lambda>x v. val m x = Some v) xs vs \<and> v = Some vs)"
  by (auto simp: slice_view_def bind_eq_Some_conv those_map_Some)

lemma slice_cells_simps [simp]:
  "slice_cells K cells m None = {}"
  "window K s m = Some xs \<Longrightarrow>
     slice_cells K cells m (Some s) = insert (s_array s) (\<Union> (cells m ` set xs))"
  by (auto simp: slice_cells_def)

subsection \<open>The laws of views and copiers\<close>

locale go_kind =
  fixes K :: "('c, 'a) kind"
  assumes unwrap_wrap [simp]: "unwrap K (wrap K xs) = Some xs"

locale mem_view =
  fixes val :: "'c memory \<Rightarrow> 'a \<Rightarrow> 'v option"
    and cells :: "'c memory \<Rightarrow> 'a \<Rightarrow> nat set"
  assumes frame:
      "val m x = Some v \<Longrightarrow> keeps (cells m x) m m' \<Longrightarrow> val m' x = Some v \<and> cells m' x = cells m x"
    and bounded: "val m x = Some v \<Longrightarrow> cells m x \<subseteq> {..<length m}"
begin

lemma frame_prefix:
  "val m x = Some v \<Longrightarrow> prefix m m' \<Longrightarrow> val m' x = Some v \<and> cells m' x = cells m x"
  using frame keeps_prefix by blast

lemma frame_store:
  "val m x = Some v \<Longrightarrow> a \<notin> cells m x \<Longrightarrow> val (m[a := c]) x = Some v \<and> cells (m[a := c]) x = cells m x"
  using frame keeps_update by blast

lemma frame_list:
  assumes "list_all2 (\<lambda>x v. val m x = Some v) xs vs"
    and "\<And>x. x \<in> set xs \<Longrightarrow> keeps (cells m x) m m'"
  shows "list_all2 (\<lambda>x v. val m' x = Some v) xs vs \<and> (\<forall>x \<in> set xs. cells m' x = cells m x)"
  using assms by (induction xs vs rule: list_all2_induct) (auto dest: frame)

end

locale deep_copier = mem_view val cells
  for val :: "'c memory \<Rightarrow> 'a \<Rightarrow> 'v option"
    and cells :: "'c memory \<Rightarrow> 'a \<Rightarrow> nat set" +
  fixes into :: "('c, 'a) into"
  assumes copies:
    "val m x = Some v \<Longrightarrow>
       \<exists>y m'. into x m = Some (y, m') \<and> prefix m m' \<and> val m' y = Some v \<and>
         cells m' y \<inter> {..<length m} = {}"
begin

text \<open>A copy in the middle of a copy: the value was readable in an earlier memory.\<close>

lemma copies_later:
  assumes "val m0 x = Some v" and "prefix m0 m"
  obtains y m' where "into x m = Some (y, m')" and "prefix m m'" and "prefix m0 m'"
    and "val m' y = Some v" and "cells m' y \<inter> {..<length m} = {}"
    and "cells m' y \<inter> {..<length m0} = {}"
    and "\<And>m''. prefix m' m'' \<Longrightarrow> val m'' y = Some v \<and> cells m'' y = cells m' y"
proof -
  from assms have "val m x = Some v" by (auto dest: frame_prefix)
  then obtain y m' where y: "into x m = Some (y, m')" "prefix m m'" "val m' y = Some v"
      "cells m' y \<inter> {..<length m} = {}"
    using copies by blast
  have "length m0 \<le> length m" using assms(2) by (rule prefix_length_le)
  with y(4) have "cells m' y \<inter> {..<length m0} = {}" by fastforce
  with y assms(2) show thesis
    by (intro that [of y m']) (auto dest: frame_prefix intro: prefix_order.trans)
qed

end

locale cell_copier = deep_copier val cells into + go_kind K
  for val :: "'c memory \<Rightarrow> 'a \<Rightarrow> 'v option"
    and cells :: "'c memory \<Rightarrow> 'a \<Rightarrow> nat set"
    and into :: "('c, 'a) into"
    and K :: "('c, 'a) kind"
begin

lemma load_keeps: "load K q m = Some x \<Longrightarrow> keeps {fst q} m m' \<Longrightarrow> load K q m' = Some x"
  by (auto simp: load_def array_at_def keeps_def split: if_splits option.splits)

lemma window_keeps: "window K s m = Some xs \<Longrightarrow> keeps {s_array s} m m' \<Longrightarrow> window K s m' = Some xs"
  by (auto simp: window_def array_at_def keeps_def split: if_splits option.splits)

lemma load_bounded: "load K q m = Some x \<Longrightarrow> fst q < length m"
  by (auto simp: load_def array_at_def split: if_splits option.splits)

lemma window_bounded: "window K s m = Some xs \<Longrightarrow> s_array s < length m \<and> length xs = s_len s"
  by (auto simp: window_def array_at_def split: if_splits option.splits)

lemma ptr_frame:
  assumes "ptr_view K val m p = Some v" and "keeps (ptr_cells K cells m p) m m'"
  shows "ptr_view K val m' p = Some v \<and> ptr_cells K cells m' p = ptr_cells K cells m p"
proof (cases p)
  case None
  with assms show ?thesis by simp
next
  case (Some q)
  with assms(1) obtain x w where x: "load K q m = Some x" "val m x = Some w" "v = Some w"
    by auto
  then have k: "keeps {fst q} m m'" "keeps (cells m x) m m'"
    using assms(2) Some by (auto elim: keeps_mono)
  then show ?thesis
    using x Some load_keeps [OF x(1) k(1)] frame [OF x(2) k(2)] by simp
qed

lemma ptr_bounded:
  assumes "ptr_view K val m p = Some v"
  shows "ptr_cells K cells m p \<subseteq> {..<length m}"
proof (cases p)
  case (Some q)
  with assms obtain x w where x: "load K q m = Some x" "val m x = Some w" by auto
  then show ?thesis using Some load_bounded [OF x(1)] bounded [OF x(2)] by simp
qed simp

lemma slice_frame:
  assumes "slice_view K val m s = Some v" and "keeps (slice_cells K cells m s) m m'"
  shows "slice_view K val m' s = Some v \<and> slice_cells K cells m' s = slice_cells K cells m s"
proof (cases s)
  case None
  with assms show ?thesis by simp
next
  case (Some sl)
  with assms(1) obtain xs vs where x: "window K sl m = Some xs"
      "list_all2 (\<lambda>x v. val m x = Some v) xs vs" "v = Some vs"
    by auto
  then have k: "keeps {s_array sl} m m'" "\<And>x. x \<in> set xs \<Longrightarrow> keeps (cells m x) m m'"
    using assms(2) Some by (auto elim: keeps_mono)
  have w: "window K sl m' = Some xs" using x(1) k(1) by (rule window_keeps)
  from frame_list [OF x(2) k(2)] x Some w show ?thesis by simp
qed

lemma slice_bounded:
  assumes "slice_view K val m s = Some v"
  shows "slice_cells K cells m s \<subseteq> {..<length m}"
proof (cases s)
  case (Some sl)
  with assms obtain xs vs where x: "window K sl m = Some xs"
      "list_all2 (\<lambda>x v. val m x = Some v) xs vs"
    by auto
  then have "cells m y \<subseteq> {..<length m}" if "y \<in> set xs" for y
    using list_all2_Some_member [OF x(2) that] bounded by blast
  then have "\<Union> (cells m ` set xs) \<subseteq> {..<length m}" by blast
  then show ?thesis using x(1) Some window_bounded [OF x(1)] by simp
qed simp

text \<open>What the new objects hold.\<close>

lemma array_at_append [simp]: "array_at K (length m) (m @ [wrap K xs]) = Some xs"
  by (simp add: array_at_def)

lemma array_at_update [simp]: "a < length m \<Longrightarrow> array_at K a (m[a := wrap K xs]) = Some xs"
  by (simp add: array_at_def)

lemma array_at_prefix: "array_at K a m = Some xs \<Longrightarrow> prefix m m' \<Longrightarrow> array_at K a m' = Some xs"
  by (auto simp: array_at_def prefix_def nth_append split: if_splits)

lemma array_at_length: "array_at K a m = Some xs \<Longrightarrow> a < length m"
  by (simp add: array_at_def split: if_splits)

lemma prefix_update: "prefix m m' \<Longrightarrow> length m \<le> a \<Longrightarrow> prefix m (m'[a := c])"
  by (auto simp: prefix_def list_update_append)

text \<open>A new object is copied into.\<close>

lemma copy_pointer_copies:
  assumes "ptr_view K val m p = Some v"
  shows "\<exists>y m'. copy_pointer K into p m = Some (y, m') \<and> prefix m m' \<and>
           ptr_view K val m' y = Some v \<and> ptr_cells K cells m' y \<inter> {..<length m} = {}"
proof (cases p)
  case None
  with assms show ?thesis by (simp add: copy_pointer_def)
next
  case (Some q)
  with assms obtain x w where x: "load K q m = Some x" "val m x = Some w" "v = Some w"
    by auto
  let ?a = "length m" and ?m1 = "m @ [wrap K [zero_value K]]"
  obtain y m2 where y: "into x ?m1 = Some (y, m2)" "prefix ?m1 m2" "val m2 y = Some w"
      "cells m2 y \<inter> {..<length ?m1} = {}" "prefix m m2"
    using copies_later [OF x(2) prefix_append_self [of m "[wrap K [zero_value K]]"]] by metis
  let ?m3 = "m2[?a := wrap K [y]]"
  have at: "array_at K ?a m2 = Some [zero_value K]"
    by (rule array_at_prefix [OF array_at_append y(2)])
  then have st: "store K (?a, 0) y m2 = Some ?m3" by (simp add: store_def)
  have l: "load K (?a, 0) ?m3 = Some y"
    using array_at_length [OF at] by (simp add: load_def)
  have "?a \<notin> cells m2 y" using y(4) by auto
  from frame_store [OF y(3) this] have f: "val ?m3 y = Some w" "cells ?m3 y = cells m2 y"
    by blast+
  have "prefix m ?m3" using y(5) by (simp add: prefix_update)
  moreover have "copy_pointer K into p m = Some (Some (?a, 0), ?m3)"
    using Some x(1) y(1) st by (simp add: copy_pointer_def new_object_def)
  moreover have "cells m2 y \<inter> {..<length m} = {}" using y(4) by fastforce
  ultimately show ?thesis using x(3) l f by simp
qed

text \<open>A new array is filled from its index \<open>i\<close> on.\<close>

lemma fill_array_copies:
  assumes "list_all2 (\<lambda>x v. val m0 x = Some v) xs vs" and "prefix m0 m"
    and "array_at K a m = Some zs" and "length m0 \<le> a" and "length zs = i + length xs"
  shows "\<exists>ys m'. fill_array K into a i xs m = Some m' \<and> prefix m0 m' \<and> length m \<le> length m' \<and>
           keeps (- {a}) m m' \<and> array_at K a m' = Some (take i zs @ ys) \<and>
           list_all2 (\<lambda>y v. val m' y = Some v) ys vs \<and>
           (\<Union> (cells m' ` set ys)) \<inter> {..<length m} = {}"
  using assms
proof (induction xs vs arbitrary: i m zs rule: list_all2_induct)
  case Nil
  then show ?case by (auto simp: keeps_def)
next
  case (Cons x xs v vs)
  obtain y m1 where y: "into x m = Some (y, m1)" "prefix m m1" "prefix m0 m1" "val m1 y = Some v"
      "cells m1 y \<inter> {..<length m} = {}"
    using copies_later [OF Cons.hyps(1) Cons.prems(1)] by metis
  let ?zs = "zs[i := y]" and ?m2 = "m1[a := wrap K (zs[i := y])]"
  have am: "a < length m" using Cons.prems(2) by (rule array_at_length)
  have am1: "array_at K a m1 = Some zs" using Cons.prems(2) y(2) by (rule array_at_prefix)
  have st: "store K (a, i) y m1 = Some ?m2" using am1 Cons.prems(4) by (simp add: store_def)
  have len: "length m \<le> length m1" using y(2) by (rule prefix_length_le)
  have y2: "val ?m2 y = Some v" "cells ?m2 y = cells m1 y"
    using frame_store [OF y(4), of a] y(5) am by auto
  obtain ys m' where m': "fill_array K into a (Suc i) xs ?m2 = Some m'" "prefix m0 m'"
      "length ?m2 \<le> length m'" "keeps (- {a}) ?m2 m'" "array_at K a m' = Some (take (Suc i) ?zs @ ys)"
      "list_all2 (\<lambda>y v. val m' y = Some v) ys vs" "(\<Union> (cells m' ` set ys)) \<inter> {..<length ?m2} = {}"
    using Cons.IH [of ?m2 ?zs "Suc i"] Cons.prems y(3) am len by (auto simp: prefix_update)
  have "keeps (cells ?m2 y) ?m2 m'"
    by (rule keeps_mono [OF m'(4)]) (use y2(2) y(5) am in auto)
  from frame [OF y2(1) this] have y3: "val m' y = Some v" "cells m' y = cells m1 y"
    using y2(2) by simp_all
  have "keeps (- {a}) m m'"
    using keeps_trans [OF keeps_prefix [OF y(2)] keeps_trans [OF _ m'(4)]] by auto
  moreover have "take (Suc i) ?zs = take i zs @ [y]"
    using Cons.prems(4) by (simp add: take_Suc_conv_app_nth)
  moreover have "(\<Union> (cells m' ` set (y # ys))) \<inter> {..<length m} = {}"
    using m'(7) y3(2) y(5) len by fastforce
  ultimately show ?case
    using y(1) st m' y3(1) len by (intro exI [of _ "y # ys"] exI [of _ m']) simp
qed

lemma copy_slice_copies:
  assumes "slice_view K val m s = Some v"
  shows "\<exists>y m'. copy_slice K into s m = Some (y, m') \<and> prefix m m' \<and>
           slice_view K val m' y = Some v \<and> slice_cells K cells m' y \<inter> {..<length m} = {}"
proof (cases s)
  case None
  with assms show ?thesis by (simp add: copy_slice_def)
next
  case (Some sl)
  with assms obtain xs vs where x: "window K sl m = Some xs"
      "list_all2 (\<lambda>x v. val m x = Some v) xs vs" "v = Some vs"
    by auto
  let ?n = "s_len sl" and ?a = "length m"
  let ?m1 = "m @ [wrap K (replicate ?n (zero_value K))]"
  have n: "length xs = ?n" using window_bounded [OF x(1)] by simp
  obtain ys m' where m': "fill_array K into ?a 0 xs ?m1 = Some m'" "prefix m m'"
      "array_at K ?a m' = Some ys" "list_all2 (\<lambda>y v. val m' y = Some v) ys vs"
      "(\<Union> (cells m' ` set ys)) \<inter> {..<length ?m1} = {}"
    using fill_array_copies [OF x(2), of ?m1 ?a "replicate ?n (zero_value K)" 0] n by auto
  let ?out = "\<lparr>s_array = ?a, s_off = 0, s_len = ?n, s_cap = ?n\<rparr>"
  have "length ys = ?n" using m'(4) x(2) n by (simp add: list_all2_lengthD)
  then have w: "window K ?out m' = Some ys" using m'(3) by (simp add: window_def)
  have "copy_slice K into s m = Some (Some ?out, m')"
    using Some x(1) m'(1) by (simp add: copy_slice_def make_slice_def)
  moreover have "(\<Union> (cells m' ` set ys)) \<inter> {..<length m} = {}" using m'(5) by fastforce
  ultimately show ?thesis using m'(2,4) x(3) w by simp
qed

end

sublocale cell_copier \<subseteq> ptr: deep_copier "ptr_view K val" "ptr_cells K cells" "copy_pointer K into"
  by unfold_locales (use ptr_frame ptr_bounded copy_pointer_copies in blast)+

sublocale cell_copier \<subseteq> slice: deep_copier "slice_view K val" "slice_cells K cells" "copy_slice K into"
  by unfold_locales (use slice_frame slice_bounded copy_slice_copies in blast)+

context cell_copier
begin

lemma pointers_copied: "deep_copier (ptr_view K val) (ptr_cells K cells) (copy_pointer K into)"
  by (rule ptr.deep_copier_axioms)

lemma slices_copied: "deep_copier (slice_view K val) (slice_cells K cells) (copy_slice K into)"
  by (rule slice.deep_copier_axioms)

end

lemmas array_copiers =
  cell_copier.pointers_copied [OF cell_copier.intro]
  cell_copier.slices_copied [OF cell_copier.intro]

interpretation plain: deep_copier plain_view no_cells assign
  by unfold_locales (auto simp: plain_view_def no_cells_def assign_def)

subsection \<open>Structs\<close>

text \<open>
  A struct is copied field by field: two copiers make a copier of pairs, and a copier of the
  fields that hold references makes one of the struct.
\<close>

definition pair_view ::
  "('c memory \<Rightarrow> 'a \<Rightarrow> 'v option) \<Rightarrow> ('c memory \<Rightarrow> 'b \<Rightarrow> 'w option) \<Rightarrow>
   'c memory \<Rightarrow> 'a \<times> 'b \<Rightarrow> ('v \<times> 'w) option" where
  "pair_view val1 val2 m p = do { v \<leftarrow> val1 m (fst p); w \<leftarrow> val2 m (snd p); Some (v, w) }"

definition pair_cells ::
  "('c memory \<Rightarrow> 'a \<Rightarrow> nat set) \<Rightarrow> ('c memory \<Rightarrow> 'b \<Rightarrow> nat set) \<Rightarrow> 'c memory \<Rightarrow> 'a \<times> 'b \<Rightarrow> nat set"
where
  "pair_cells cells1 cells2 m p = cells1 m (fst p) \<union> cells2 m (snd p)"

definition pair_into :: "('c, 'a) into \<Rightarrow> ('c, 'b) into \<Rightarrow> ('c, 'a \<times> 'b) into" where
  "pair_into into1 into2 p m = do {
     (x, m1) \<leftarrow> into1 (fst p) m;
     (y, m2) \<leftarrow> into2 (snd p) m1;
     Some ((x, y), m2)
   }"

lemma pair_view_Some [simp]:
  "pair_view val1 val2 m (x, y) = Some u \<longleftrightarrow>
     (\<exists>v w. val1 m x = Some v \<and> val2 m y = Some w \<and> u = (v, w))"
  by (auto simp: pair_view_def bind_eq_Some_conv)

lemma keeps_Un [simp]: "keeps (A \<union> B) m m' \<longleftrightarrow> keeps A m m' \<and> keeps B m m'"
  by (auto simp: keeps_def)

lemma pair_copier:
  assumes "deep_copier val1 cells1 into1" and "deep_copier val2 cells2 into2"
  shows "deep_copier (pair_view val1 val2) (pair_cells cells1 cells2) (pair_into into1 into2)"
proof unfold_locales
  note views = deep_copier.axioms(1) [OF assms(1)] deep_copier.axioms(1) [OF assms(2)]
  fix m x v
  assume v: "pair_view val1 val2 m x = Some v"
  obtain x1 x2 where [simp]: "x = (x1, x2)" by (cases x)
  from v obtain v1 v2 where v12: "val1 m x1 = Some v1" "val2 m x2 = Some v2" "v = (v1, v2)" by auto
  show "pair_cells cells1 cells2 m x \<subseteq> {..<length m}"
    using mem_view.bounded [OF views(1) v12(1)] mem_view.bounded [OF views(2) v12(2)]
    by (simp add: pair_cells_def)
  show "pair_view val1 val2 m' x = Some v \<and> pair_cells cells1 cells2 m' x = pair_cells cells1 cells2 m x"
    if "keeps (pair_cells cells1 cells2 m x) m m'" for m'
    using that mem_view.frame [OF views(1) v12(1), of m'] mem_view.frame [OF views(2) v12(2), of m']
      v12(3) by (simp add: pair_cells_def)
  obtain y1 m1 where y1: "into1 x1 m = Some (y1, m1)" "prefix m m1"
      "cells1 m1 y1 \<inter> {..<length m} = {}"
      "\<And>m''. prefix m1 m'' \<Longrightarrow> val1 m'' y1 = Some v1 \<and> cells1 m'' y1 = cells1 m1 y1"
    using deep_copier.copies_later [OF assms(1) v12(1) prefix_order.refl] by metis
  obtain y2 m2 where y2: "into2 x2 m1 = Some (y2, m2)" "prefix m1 m2" "prefix m m2"
      "val2 m2 y2 = Some v2" "cells2 m2 y2 \<inter> {..<length m} = {}"
    using deep_copier.copies_later [OF assms(2) v12(2) y1(2)] by metis
  then show "\<exists>y m'. pair_into into1 into2 x m = Some (y, m') \<and> prefix m m' \<and>
      pair_view val1 val2 m' y = Some v \<and> pair_cells cells1 cells2 m' y \<inter> {..<length m} = {}"
    using y1(1,3) y1(4) [OF y2(2)] v12(3)
    by (intro exI [of _ "(y1, y2)"] exI [of _ m2]) (auto simp: pair_into_def pair_cells_def)
qed

lemma struct_copier:
  assumes "deep_copier pval pcells pinto"
    and val: "\<And>m x. val m x = map_option (mk x) (pval m (parts x))"
    and cells: "\<And>m x. cells m x = pcells m (parts x)"
    and into: "\<And>x m. into x m = map_option (\<lambda>(p, m'). (put p x, m')) (pinto (parts x) m)"
    and put: "\<And>p x. parts (put p x) = p" "\<And>p x. mk (put p x) = mk x"
  shows "deep_copier val cells into"
proof unfold_locales
  note view = deep_copier.axioms(1) [OF assms(1)]
  fix m x v
  assume "val m x = Some v"
  then obtain u where u: "pval m (parts x) = Some u" "v = mk x u" by (auto simp: val)
  show "cells m x \<subseteq> {..<length m}" using mem_view.bounded [OF view u(1)] by (simp add: cells)
  show "val m' x = Some v \<and> cells m' x = cells m x" if "keeps (cells m x) m m'" for m'
    using mem_view.frame [OF view u(1), of m'] that u(2) by (simp add: cells val)
  from deep_copier.copies [OF assms(1) u(1)] show "\<exists>y m'. into x m = Some (y, m') \<and>
      prefix m m' \<and> val m' y = Some v \<and> cells m' y \<inter> {..<length m} = {}"
    using u(2) by (auto simp: into val cells put)
qed

end
