(* ===== verification/Deep_Copies.thy ===== *)
theory Deep_Copies
  imports Go_Memory Api_Types
begin

section \<open>The deep copies of the resources (\<open>api/v1alpha1/zz_generated.deepcopy.go\<close>)\<close>

text \<open>
  The resources as they lie in memory, with their pointers and slices, and the generated
  methods that copy them. \<open>TypeMeta\<close>, \<open>ObjectMeta\<close>, \<open>ListMeta\<close> and \<open>Condition\<close> are structs of
  the API machinery: \<open>'l\<close> is the type of their values, and their copying methods, like the one
  of \<open>Time\<close>, are the parameter \<open>lib\<close>. A \<open>TypeMeta\<close> is assigned and holds no references; of the
  other methods \<open>machinery_copies\<close> says what they promise, for a view \<open>lv\<close> and \<open>lc\<close> of what
  such values mean and which cells they depend on.
\<close>

subsection \<open>The resources in memory\<close>

record task_status_mem =
  mem_Phase :: task_phase
  mem_SandboxClaimName :: string
  mem_PodName :: string
  mem_PodIP :: string
  mem_StartTime :: "ptr option"
  mem_CompletionTime :: "ptr option"
  mem_PullRequestURL :: string
  mem_CostReport :: "ptr option"
  mem_Clarifications :: "slice option"
  mem_TaskConditions :: "slice option"

record 'l task_mem =
  mem_TaskTypeMeta :: 'l
  mem_TaskMeta :: 'l
  mem_Spec :: claude_task_spec
  mem_Status :: task_status_mem

record 'l list_mem =
  mem_ListTypeMeta :: 'l
  mem_ListMeta :: 'l
  mem_Items :: "slice option"

record repo_spec_mem =
  mem_Owner :: string
  mem_Repo :: string
  mem_RepositoryPattern :: string
  mem_Labels :: "slice option"
  mem_MaxConcurrentTasks :: int
  mem_PATSecretRef :: "ptr option"
  mem_AllowedUsers :: "slice option"
  mem_AllowedRoles :: "slice option"

record repo_status_mem =
  mem_ActiveTasks :: int
  mem_WebhookID :: int
  mem_RepoConditions :: "slice option"

record 'l repo_mem =
  mem_RepoTypeMeta :: 'l
  mem_RepoMeta :: 'l
  mem_RSpec :: repo_spec_mem
  mem_RStatus :: repo_status_mem

datatype 'l cell =
    StringArray "string list"
  | TimeArray "time list"
  | MachineryArray "'l list"
  | SecretRefArray "secret_ref list"
  | CostReportArray "cost_report list"
  | ExchangeArray "clarification_exchange list"
  | TaskSpecArray "claude_task_spec list"
  | TaskStatusArray "task_status_mem list"
  | TaskArray "'l task_mem list"
  | TaskListArray "'l list_mem list"
  | RepoSpecArray "repo_spec_mem list"
  | RepoStatusArray "repo_status_mem list"
  | RepoArray "'l repo_mem list"
  | RepoListArray "'l list_mem list"

record 'l machinery =
  ObjectMeta_DeepCopyInto :: "('l cell, 'l) into"
  ListMeta_DeepCopyInto :: "('l cell, 'l) into"
  Condition_DeepCopyInto :: "('l cell, 'l) into"
  Time_DeepCopy :: "('l cell, ptr option) into"
  zero_struct :: 'l

subsection \<open>The kinds of arrays\<close>

definition strings :: "('l cell, string) kind" where
  "strings = \<lparr>wrap = StringArray, unwrap = (\<lambda>c. case c of StringArray xs \<Rightarrow> Some xs | _ \<Rightarrow> None),
     zero_value = []\<rparr>"

definition times :: "('l cell, time) kind" where
  "times = \<lparr>wrap = TimeArray, unwrap = (\<lambda>c. case c of TimeArray xs \<Rightarrow> Some xs | _ \<Rightarrow> None),
     zero_value = 0\<rparr>"

definition conditions :: "'l machinery \<Rightarrow> ('l cell, 'l) kind" where
  "conditions lib = \<lparr>wrap = MachineryArray,
     unwrap = (\<lambda>c. case c of MachineryArray xs \<Rightarrow> Some xs | _ \<Rightarrow> None), zero_value = zero_struct lib\<rparr>"

definition secret_refs :: "('l cell, secret_ref) kind" where
  "secret_refs = \<lparr>wrap = SecretRefArray,
     unwrap = (\<lambda>c. case c of SecretRefArray xs \<Rightarrow> Some xs | _ \<Rightarrow> None),
     zero_value = \<lparr>SecretName = [], SecretKey = []\<rparr>\<rparr>"

definition cost_reports :: "('l cell, cost_report) kind" where
  "cost_reports = \<lparr>wrap = CostReportArray,
     unwrap = (\<lambda>c. case c of CostReportArray xs \<Rightarrow> Some xs | _ \<Rightarrow> None),
     zero_value = zero_cost_report\<rparr>"

definition exchanges :: "('l cell, clarification_exchange) kind" where
  "exchanges = \<lparr>wrap = ExchangeArray,
     unwrap = (\<lambda>c. case c of ExchangeArray xs \<Rightarrow> Some xs | _ \<Rightarrow> None),
     zero_value = \<lparr>Question = [], Answer = []\<rparr>\<rparr>"

definition zero_task_spec :: claude_task_spec where
  "zero_task_spec = \<lparr>Repository = [], Issue = 0, PullRequest = 0, TaskType = OtherTaskType [],
     Branch = [], Prompt = [], ReviewCommentID = 0, MaxIterations = 0, MaxClarifications = 0\<rparr>"

definition zero_status_mem :: task_status_mem where
  "zero_status_mem = \<lparr>mem_Phase = PhaseUnset, mem_SandboxClaimName = [], mem_PodName = [],
     mem_PodIP = [], mem_StartTime = None, mem_CompletionTime = None, mem_PullRequestURL = [],
     mem_CostReport = None, mem_Clarifications = None, mem_TaskConditions = None\<rparr>"

definition zero_repo_spec_mem :: repo_spec_mem where
  "zero_repo_spec_mem = \<lparr>mem_Owner = [], mem_Repo = [], mem_RepositoryPattern = [],
     mem_Labels = None, mem_MaxConcurrentTasks = 0, mem_PATSecretRef = None,
     mem_AllowedUsers = None, mem_AllowedRoles = None\<rparr>"

definition zero_repo_status_mem :: repo_status_mem where
  "zero_repo_status_mem = \<lparr>mem_ActiveTasks = 0, mem_WebhookID = 0, mem_RepoConditions = None\<rparr>"

definition zero_list_mem :: "'l machinery \<Rightarrow> 'l list_mem" where
  "zero_list_mem lib =
     \<lparr>mem_ListTypeMeta = zero_struct lib, mem_ListMeta = zero_struct lib, mem_Items = None\<rparr>"

definition task_specs :: "('l cell, claude_task_spec) kind" where
  "task_specs = \<lparr>wrap = TaskSpecArray,
     unwrap = (\<lambda>c. case c of TaskSpecArray xs \<Rightarrow> Some xs | _ \<Rightarrow> None), zero_value = zero_task_spec\<rparr>"

definition task_statuses :: "('l cell, task_status_mem) kind" where
  "task_statuses = \<lparr>wrap = TaskStatusArray,
     unwrap = (\<lambda>c. case c of TaskStatusArray xs \<Rightarrow> Some xs | _ \<Rightarrow> None),
     zero_value = zero_status_mem\<rparr>"

definition tasks :: "'l machinery \<Rightarrow> ('l cell, 'l task_mem) kind" where
  "tasks lib = \<lparr>wrap = TaskArray,
     unwrap = (\<lambda>c. case c of TaskArray xs \<Rightarrow> Some xs | _ \<Rightarrow> None),
     zero_value = \<lparr>mem_TaskTypeMeta = zero_struct lib, mem_TaskMeta = zero_struct lib,
       mem_Spec = zero_task_spec, mem_Status = zero_status_mem\<rparr>\<rparr>"

definition task_lists :: "'l machinery \<Rightarrow> ('l cell, 'l list_mem) kind" where
  "task_lists lib = \<lparr>wrap = TaskListArray,
     unwrap = (\<lambda>c. case c of TaskListArray xs \<Rightarrow> Some xs | _ \<Rightarrow> None),
     zero_value = zero_list_mem lib\<rparr>"

definition repo_specs :: "('l cell, repo_spec_mem) kind" where
  "repo_specs = \<lparr>wrap = RepoSpecArray,
     unwrap = (\<lambda>c. case c of RepoSpecArray xs \<Rightarrow> Some xs | _ \<Rightarrow> None),
     zero_value = zero_repo_spec_mem\<rparr>"

definition repo_statuses :: "('l cell, repo_status_mem) kind" where
  "repo_statuses = \<lparr>wrap = RepoStatusArray,
     unwrap = (\<lambda>c. case c of RepoStatusArray xs \<Rightarrow> Some xs | _ \<Rightarrow> None),
     zero_value = zero_repo_status_mem\<rparr>"

definition repos :: "'l machinery \<Rightarrow> ('l cell, 'l repo_mem) kind" where
  "repos lib = \<lparr>wrap = RepoArray,
     unwrap = (\<lambda>c. case c of RepoArray xs \<Rightarrow> Some xs | _ \<Rightarrow> None),
     zero_value = \<lparr>mem_RepoTypeMeta = zero_struct lib, mem_RepoMeta = zero_struct lib,
       mem_RSpec = zero_repo_spec_mem, mem_RStatus = zero_repo_status_mem\<rparr>\<rparr>"

definition repo_lists :: "'l machinery \<Rightarrow> ('l cell, 'l list_mem) kind" where
  "repo_lists lib = \<lparr>wrap = RepoListArray,
     unwrap = (\<lambda>c. case c of RepoListArray xs \<Rightarrow> Some xs | _ \<Rightarrow> None),
     zero_value = zero_list_mem lib\<rparr>"

lemmas kind_defs =
  strings_def times_def conditions_def secret_refs_def cost_reports_def exchanges_def
  task_specs_def task_statuses_def tasks_def task_lists_def repo_specs_def repo_statuses_def
  repos_def repo_lists_def

subsection \<open>ClaudeTask\<close>

definition ClarificationExchange_DeepCopyInto :: "('l cell, clarification_exchange) into" where
  "ClarificationExchange_DeepCopyInto = assign"

definition CostReport_DeepCopyInto :: "('l cell, cost_report) into" where
  "CostReport_DeepCopyInto = assign"

definition ClaudeTaskSpec_DeepCopyInto :: "('l cell, claude_task_spec) into" where
  "ClaudeTaskSpec_DeepCopyInto = assign"

definition ClaudeTaskStatus_DeepCopyInto :: "'l machinery \<Rightarrow> ('l cell, task_status_mem) into" where
  "ClaudeTaskStatus_DeepCopyInto lib s m = do {
     (start, m1) \<leftarrow> (if mem_StartTime s \<noteq> None then Time_DeepCopy lib (mem_StartTime s) m
                    else Some (None, m));
     (compl, m2) \<leftarrow> (if mem_CompletionTime s \<noteq> None then Time_DeepCopy lib (mem_CompletionTime s) m1
                    else Some (None, m1));
     (cost, m3) \<leftarrow> copy_pointer cost_reports assign (mem_CostReport s) m2;
     (clar, m4) \<leftarrow> copy_slice exchanges assign (mem_Clarifications s) m3;
     (cond, m5) \<leftarrow> copy_slice (conditions lib) (Condition_DeepCopyInto lib) (mem_TaskConditions s) m4;
     Some (s\<lparr>mem_StartTime := start, mem_CompletionTime := compl, mem_CostReport := cost,
             mem_Clarifications := clar, mem_TaskConditions := cond\<rparr>, m5)
   }"

definition ClaudeTask_DeepCopyInto :: "'l machinery \<Rightarrow> ('l cell, 'l task_mem) into" where
  "ClaudeTask_DeepCopyInto lib t m = do {
     (meta, m1) \<leftarrow> ObjectMeta_DeepCopyInto lib (mem_TaskMeta t) m;
     (status, m2) \<leftarrow> ClaudeTaskStatus_DeepCopyInto lib (mem_Status t) m1;
     Some (t\<lparr>mem_TaskMeta := meta, mem_Status := status\<rparr>, m2)
   }"

definition ClaudeTaskList_DeepCopyInto :: "'l machinery \<Rightarrow> ('l cell, 'l list_mem) into" where
  "ClaudeTaskList_DeepCopyInto lib l m = do {
     (meta, m1) \<leftarrow> ListMeta_DeepCopyInto lib (mem_ListMeta l) m;
     (items, m2) \<leftarrow> copy_slice (tasks lib) (ClaudeTask_DeepCopyInto lib) (mem_Items l) m1;
     Some (l\<lparr>mem_ListMeta := meta, mem_Items := items\<rparr>, m2)
   }"

definition ClarificationExchange_DeepCopy :: "('l cell, ptr option) into" where
  "ClarificationExchange_DeepCopy = copy_pointer exchanges ClarificationExchange_DeepCopyInto"

definition CostReport_DeepCopy :: "('l cell, ptr option) into" where
  "CostReport_DeepCopy = copy_pointer cost_reports CostReport_DeepCopyInto"

definition ClaudeTaskSpec_DeepCopy :: "('l cell, ptr option) into" where
  "ClaudeTaskSpec_DeepCopy = copy_pointer task_specs ClaudeTaskSpec_DeepCopyInto"

definition ClaudeTaskStatus_DeepCopy :: "'l machinery \<Rightarrow> ('l cell, ptr option) into" where
  "ClaudeTaskStatus_DeepCopy lib = copy_pointer task_statuses (ClaudeTaskStatus_DeepCopyInto lib)"

definition ClaudeTask_DeepCopy :: "'l machinery \<Rightarrow> ('l cell, ptr option) into" where
  "ClaudeTask_DeepCopy lib = copy_pointer (tasks lib) (ClaudeTask_DeepCopyInto lib)"

definition ClaudeTaskList_DeepCopy :: "'l machinery \<Rightarrow> ('l cell, ptr option) into" where
  "ClaudeTaskList_DeepCopy lib = copy_pointer (task_lists lib) (ClaudeTaskList_DeepCopyInto lib)"

subsection \<open>ClaudeRepository\<close>

definition SecretRef_DeepCopyInto :: "('l cell, secret_ref) into" where
  "SecretRef_DeepCopyInto = assign"

definition ClaudeRepositorySpec_DeepCopyInto :: "('l cell, repo_spec_mem) into" where
  "ClaudeRepositorySpec_DeepCopyInto s m = do {
     (labels, m1) \<leftarrow> copy_slice strings assign (mem_Labels s) m;
     (pat, m2) \<leftarrow> copy_pointer secret_refs assign (mem_PATSecretRef s) m1;
     (users, m3) \<leftarrow> copy_slice strings assign (mem_AllowedUsers s) m2;
     (roles, m4) \<leftarrow> copy_slice strings assign (mem_AllowedRoles s) m3;
     Some (s\<lparr>mem_Labels := labels, mem_PATSecretRef := pat, mem_AllowedUsers := users,
             mem_AllowedRoles := roles\<rparr>, m4)
   }"

definition ClaudeRepositoryStatus_DeepCopyInto ::
  "'l machinery \<Rightarrow> ('l cell, repo_status_mem) into" where
  "ClaudeRepositoryStatus_DeepCopyInto lib s m = do {
     (cond, m1) \<leftarrow> copy_slice (conditions lib) (Condition_DeepCopyInto lib) (mem_RepoConditions s) m;
     Some (s\<lparr>mem_RepoConditions := cond\<rparr>, m1)
   }"

definition ClaudeRepository_DeepCopyInto :: "'l machinery \<Rightarrow> ('l cell, 'l repo_mem) into" where
  "ClaudeRepository_DeepCopyInto lib r m = do {
     (meta, m1) \<leftarrow> ObjectMeta_DeepCopyInto lib (mem_RepoMeta r) m;
     (spec, m2) \<leftarrow> ClaudeRepositorySpec_DeepCopyInto (mem_RSpec r) m1;
     (status, m3) \<leftarrow> ClaudeRepositoryStatus_DeepCopyInto lib (mem_RStatus r) m2;
     Some (r\<lparr>mem_RepoMeta := meta, mem_RSpec := spec, mem_RStatus := status\<rparr>, m3)
   }"

definition ClaudeRepositoryList_DeepCopyInto :: "'l machinery \<Rightarrow> ('l cell, 'l list_mem) into" where
  "ClaudeRepositoryList_DeepCopyInto lib l m = do {
     (meta, m1) \<leftarrow> ListMeta_DeepCopyInto lib (mem_ListMeta l) m;
     (items, m2) \<leftarrow> copy_slice (repos lib) (ClaudeRepository_DeepCopyInto lib) (mem_Items l) m1;
     Some (l\<lparr>mem_ListMeta := meta, mem_Items := items\<rparr>, m2)
   }"

definition SecretRef_DeepCopy :: "('l cell, ptr option) into" where
  "SecretRef_DeepCopy = copy_pointer secret_refs SecretRef_DeepCopyInto"

definition ClaudeRepositorySpec_DeepCopy :: "('l cell, ptr option) into" where
  "ClaudeRepositorySpec_DeepCopy = copy_pointer repo_specs ClaudeRepositorySpec_DeepCopyInto"

definition ClaudeRepositoryStatus_DeepCopy :: "'l machinery \<Rightarrow> ('l cell, ptr option) into" where
  "ClaudeRepositoryStatus_DeepCopy lib =
     copy_pointer repo_statuses (ClaudeRepositoryStatus_DeepCopyInto lib)"

definition ClaudeRepository_DeepCopy :: "'l machinery \<Rightarrow> ('l cell, ptr option) into" where
  "ClaudeRepository_DeepCopy lib = copy_pointer (repos lib) (ClaudeRepository_DeepCopyInto lib)"

definition ClaudeRepositoryList_DeepCopy :: "'l machinery \<Rightarrow> ('l cell, ptr option) into" where
  "ClaudeRepositoryList_DeepCopy lib =
     copy_pointer (repo_lists lib) (ClaudeRepositoryList_DeepCopyInto lib)"

text \<open>
  A \<open>runtime.Object\<close> is an interface: \<open>nil\<close>, or one of the four types with a pointer. The
  method turns a nil pointer into a nil interface.
\<close>

datatype runtime_object =
    ClaudeTaskObject ptr | ClaudeTaskListObject ptr
  | ClaudeRepositoryObject ptr | ClaudeRepositoryListObject ptr

definition copy_object ::
  "(ptr \<Rightarrow> runtime_object) \<Rightarrow> ('l cell, ptr option) into \<Rightarrow>
   ptr option \<Rightarrow> 'l cell memory \<Rightarrow> (runtime_object option \<times> 'l cell memory) option" where
  "copy_object obj copy p m = do {
     (c, m1) \<leftarrow> copy p m;
     Some (if c \<noteq> None then map_option obj c else None, m1)
   }"

definition ClaudeTask_DeepCopyObject where
  "ClaudeTask_DeepCopyObject lib = copy_object ClaudeTaskObject (ClaudeTask_DeepCopy lib)"

definition ClaudeTaskList_DeepCopyObject where
  "ClaudeTaskList_DeepCopyObject lib = copy_object ClaudeTaskListObject (ClaudeTaskList_DeepCopy lib)"

definition ClaudeRepository_DeepCopyObject where
  "ClaudeRepository_DeepCopyObject lib =
     copy_object ClaudeRepositoryObject (ClaudeRepository_DeepCopy lib)"

definition ClaudeRepositoryList_DeepCopyObject where
  "ClaudeRepositoryList_DeepCopyObject lib =
     copy_object ClaudeRepositoryListObject (ClaudeRepositoryList_DeepCopy lib)"

subsection \<open>What the resources in memory mean\<close>

text \<open>
  The values that the other theories work with, with what they leave out: the machinery's
  structs as the view \<open>lv\<close> gives them, and the conditions. A nil slice and an empty one both
  stand for the empty list.
\<close>

record 'v meta_value =
  v_meta :: 'v
  v_conditions :: "'v list"

definition slice_list :: "'a list option \<Rightarrow> 'a list" where
  "slice_list xs = (case xs of None \<Rightarrow> [] | Some ys \<Rightarrow> ys)"

type_synonym ('l, 'v) struct_view = "'l cell memory \<Rightarrow> 'l \<Rightarrow> 'v option"
type_synonym 'l struct_cells = "'l cell memory \<Rightarrow> 'l \<Rightarrow> nat set"

definition status_refs where
  "status_refs s = (mem_StartTime s, mem_CompletionTime s, mem_CostReport s, mem_Clarifications s,
     mem_TaskConditions s)"

definition status_refs_view where
  "status_refs_view lib lv =
     pair_view (ptr_view times plain_view) (pair_view (ptr_view times plain_view)
       (pair_view (ptr_view cost_reports plain_view) (pair_view (slice_view exchanges plain_view)
         (slice_view (conditions lib) lv))))"

definition status_refs_cells where
  "status_refs_cells lib lc =
     pair_cells (ptr_cells times no_cells) (pair_cells (ptr_cells times no_cells)
       (pair_cells (ptr_cells cost_reports no_cells) (pair_cells (slice_cells exchanges no_cells)
         (slice_cells (conditions lib) lc))))"

fun status_value where
  "status_value s (start, compl, cost, clar, cond) =
     (\<lparr>Phase = mem_Phase s, SandboxClaimName = mem_SandboxClaimName s, PodName = mem_PodName s,
       PodIP = mem_PodIP s, StartTime = start, CompletionTime = compl,
       PullRequestURL = mem_PullRequestURL s, CostReport = cost, Clarifications = slice_list clar\<rparr>,
      slice_list cond)"

definition status_view ::
  "'l machinery \<Rightarrow> ('l, 'v) struct_view \<Rightarrow> 'l cell memory \<Rightarrow> task_status_mem \<Rightarrow>
   (claude_task_status \<times> 'v list) option" where
  "status_view lib lv m s = map_option (status_value s) (status_refs_view lib lv m (status_refs s))"

definition status_cells :: "'l machinery \<Rightarrow> 'l struct_cells \<Rightarrow> 'l cell memory \<Rightarrow> task_status_mem \<Rightarrow> nat set"
where
  "status_cells lib lc m s = status_refs_cells lib lc m (status_refs s)"

definition task_view ::
  "'l machinery \<Rightarrow> ('l, 'v) struct_view \<Rightarrow> 'l cell memory \<Rightarrow> 'l task_mem \<Rightarrow>
   ('v meta_value \<times> claude_task_spec \<times> claude_task_status) option" where
  "task_view lib lv m t =
     map_option (\<lambda>(meta, st, cs). (\<lparr>v_meta = meta, v_conditions = cs\<rparr>, mem_Spec t, st))
       (pair_view lv (status_view lib lv) m (mem_TaskMeta t, mem_Status t))"

definition task_cells :: "'l machinery \<Rightarrow> 'l struct_cells \<Rightarrow> 'l cell memory \<Rightarrow> 'l task_mem \<Rightarrow> nat set" where
  "task_cells lib lc m t = pair_cells lc (status_cells lib lc) m (mem_TaskMeta t, mem_Status t)"

definition spec_refs where
  "spec_refs s = (mem_Labels s, mem_PATSecretRef s, mem_AllowedUsers s, mem_AllowedRoles s)"

definition spec_refs_view where
  "spec_refs_view =
     pair_view (slice_view strings plain_view) (pair_view (ptr_view secret_refs plain_view)
       (pair_view (slice_view strings plain_view) (slice_view strings plain_view)))"

definition spec_refs_cells where
  "spec_refs_cells =
     pair_cells (slice_cells strings no_cells) (pair_cells (ptr_cells secret_refs no_cells)
       (pair_cells (slice_cells strings no_cells) (slice_cells strings no_cells)))"

fun spec_value where
  "spec_value s (labels, pat, users, roles) =
     \<lparr>Owner = mem_Owner s, Repo = mem_Repo s, RepositoryPattern = mem_RepositoryPattern s,
      Labels = slice_list labels, MaxConcurrentTasks = mem_MaxConcurrentTasks s, PATSecretRef = pat,
      AllowedUsers = slice_list users, AllowedRoles = slice_list roles\<rparr>"

definition spec_view :: "'l cell memory \<Rightarrow> repo_spec_mem \<Rightarrow> claude_repository_spec option" where
  "spec_view m s = map_option (spec_value s) (spec_refs_view m (spec_refs s))"

definition spec_cells :: "'l cell memory \<Rightarrow> repo_spec_mem \<Rightarrow> nat set" where
  "spec_cells m s = spec_refs_cells m (spec_refs s)"

definition repo_status_view ::
  "'l machinery \<Rightarrow> ('l, 'v) struct_view \<Rightarrow> 'l cell memory \<Rightarrow> repo_status_mem \<Rightarrow>
   (claude_repository_status \<times> 'v list) option" where
  "repo_status_view lib lv m s =
     map_option (\<lambda>cs. (\<lparr>ActiveTasks = mem_ActiveTasks s, WebhookID = mem_WebhookID s\<rparr>, slice_list cs))
       (slice_view (conditions lib) lv m (mem_RepoConditions s))"

definition repo_status_cells ::
  "'l machinery \<Rightarrow> 'l struct_cells \<Rightarrow> 'l cell memory \<Rightarrow> repo_status_mem \<Rightarrow> nat set" where
  "repo_status_cells lib lc m s = slice_cells (conditions lib) lc m (mem_RepoConditions s)"

definition repo_view ::
  "'l machinery \<Rightarrow> ('l, 'v) struct_view \<Rightarrow> 'l cell memory \<Rightarrow> 'l repo_mem \<Rightarrow>
   ('v meta_value \<times> claude_repository_spec \<times> claude_repository_status) option" where
  "repo_view lib lv m r =
     map_option (\<lambda>(meta, sp, st, cs). (\<lparr>v_meta = meta, v_conditions = cs\<rparr>, sp, st))
       (pair_view lv (pair_view spec_view (repo_status_view lib lv)) m
         (mem_RepoMeta r, mem_RSpec r, mem_RStatus r))"

definition repo_cells :: "'l machinery \<Rightarrow> 'l struct_cells \<Rightarrow> 'l cell memory \<Rightarrow> 'l repo_mem \<Rightarrow> nat set" where
  "repo_cells lib lc m r =
     pair_cells lc (pair_cells spec_cells (repo_status_cells lib lc)) m
       (mem_RepoMeta r, mem_RSpec r, mem_RStatus r)"

definition list_view where
  "list_view K val lv m l = pair_view lv (slice_view K val) m (mem_ListMeta l, mem_Items l)"

definition list_cells where
  "list_cells K cells lc m l = pair_cells lc (slice_cells K cells) m (mem_ListMeta l, mem_Items l)"

subsection \<open>Every method copies\<close>

definition machinery_copies :: "('l, 'v) struct_view \<Rightarrow> 'l struct_cells \<Rightarrow> 'l machinery \<Rightarrow> bool" where
  "machinery_copies lv lc lib \<longleftrightarrow>
     deep_copier lv lc (ObjectMeta_DeepCopyInto lib) \<and>
     deep_copier lv lc (ListMeta_DeepCopyInto lib) \<and>
     deep_copier lv lc (Condition_DeepCopyInto lib) \<and>
     deep_copier (ptr_view times plain_view) (ptr_cells times no_cells) (Time_DeepCopy lib)"

interpretation string_arrays: cell_copier plain_view no_cells assign strings
  by unfold_locales (simp add: kind_defs)

interpretation secret_ref_arrays: cell_copier plain_view no_cells assign secret_refs
  by unfold_locales (simp add: kind_defs)

interpretation cost_report_arrays: cell_copier plain_view no_cells assign cost_reports
  by unfold_locales (simp add: kind_defs)

interpretation exchange_arrays: cell_copier plain_view no_cells assign exchanges
  by unfold_locales (simp add: kind_defs)

lemma go_kinds [simp]:
  "go_kind times" "go_kind (conditions lib)" "go_kind task_specs" "go_kind task_statuses"
  "go_kind (tasks lib)" "go_kind (task_lists lib)" "go_kind repo_specs" "go_kind repo_statuses"
  "go_kind (repos lib)" "go_kind (repo_lists lib)"
  by (unfold_locales; simp add: kind_defs)+

definition unless_nil :: "('c, 'p option) into \<Rightarrow> ('c, 'p option) into" where
  "unless_nil copy p m = (if p \<noteq> None then copy p m else Some (None, m))"

lemma unless_nil_copied:
  assumes "deep_copier (ptr_view K val) (ptr_cells K cells) copy"
  shows "deep_copier (ptr_view K val) (ptr_cells K cells) (unless_nil copy)"
proof (intro deep_copier.intro deep_copier_axioms.intro deep_copier.axioms(1) [OF assms])
  fix m p v
  assume "ptr_view K val m p = Some v"
  then show "\<exists>y m'. unless_nil copy p m = Some (y, m') \<and> prefix m m' \<and>
      ptr_view K val m' y = Some v \<and> ptr_cells K cells m' y \<inter> {..<length m} = {}"
    using deep_copier.copies [OF assms] by (cases p) (auto simp: unless_nil_def)
qed

definition status_refs_into where
  "status_refs_into lib =
     pair_into (unless_nil (Time_DeepCopy lib)) (pair_into (unless_nil (Time_DeepCopy lib))
       (pair_into (copy_pointer cost_reports assign) (pair_into (copy_slice exchanges assign)
         (copy_slice (conditions lib) (Condition_DeepCopyInto lib)))))"

lemma status_refs_copied:
  assumes "machinery_copies lv lc lib"
  shows "deep_copier (status_refs_view lib lv) (status_refs_cells lib lc) (status_refs_into lib)"
  unfolding status_refs_view_def status_refs_cells_def status_refs_into_def
  using assms unfolding machinery_copies_def
  by (auto intro!: pair_copier unless_nil_copied array_copiers cost_report_arrays.pointers_copied
      exchange_arrays.slices_copied)

lemma status_copied:
  assumes "machinery_copies lv lc lib"
  shows "deep_copier (status_view lib lv) (status_cells lib lc) (ClaudeTaskStatus_DeepCopyInto lib)"
  by (rule struct_copier [OF status_refs_copied [OF assms], where parts = status_refs and
        mk = status_value and put = "\<lambda>(s, c, r, x, n) t. t\<lparr>mem_StartTime := s,
          mem_CompletionTime := c, mem_CostReport := r, mem_Clarifications := x,
          mem_TaskConditions := n\<rparr>"])
    (auto simp: status_view_def status_cells_def status_refs_def status_refs_into_def pair_into_def
      ClaudeTaskStatus_DeepCopyInto_def unless_nil_def map_conv_bind_option split_def
      fun_eq_iff)

lemma task_copied:
  assumes "machinery_copies lv lc lib"
  shows "deep_copier (task_view lib lv) (task_cells lib lc) (ClaudeTask_DeepCopyInto lib)"
proof -
  have "deep_copier lv lc (ObjectMeta_DeepCopyInto lib)"
    using assms by (simp add: machinery_copies_def)
  from pair_copier [OF this status_copied [OF assms]] show ?thesis
    by (rule struct_copier [where parts = "\<lambda>t. (mem_TaskMeta t, mem_Status t)" and
          mk = "\<lambda>t (meta, st, cs). (\<lparr>v_meta = meta, v_conditions = cs\<rparr>, mem_Spec t, st)" and
          put = "\<lambda>(meta, st) t. t\<lparr>mem_TaskMeta := meta, mem_Status := st\<rparr>"])
      (auto simp: task_view_def task_cells_def ClaudeTask_DeepCopyInto_def pair_into_def fun_eq_iff
        split: bind_splits)
qed

lemma spec_copied: "deep_copier spec_view spec_cells ClaudeRepositorySpec_DeepCopyInto"
proof (rule struct_copier [where parts = spec_refs and mk = spec_value and pval = spec_refs_view
      and pcells = spec_refs_cells and pinto = "pair_into (copy_slice strings assign)
        (pair_into (copy_pointer secret_refs assign)
          (pair_into (copy_slice strings assign) (copy_slice strings assign)))"
      and put = "\<lambda>(l, p, u, r) s. s\<lparr>mem_Labels := l, mem_PATSecretRef := p, mem_AllowedUsers := u,
        mem_AllowedRoles := r\<rparr>"])
  show "deep_copier spec_refs_view spec_refs_cells (pair_into (copy_slice strings assign)
        (pair_into (copy_pointer secret_refs assign)
          (pair_into (copy_slice strings assign) (copy_slice strings assign))))"
    unfolding spec_refs_view_def spec_refs_cells_def
    by (intro pair_copier string_arrays.slices_copied secret_ref_arrays.pointers_copied)
qed (auto simp: spec_view_def spec_cells_def spec_refs_def ClaudeRepositorySpec_DeepCopyInto_def
      pair_into_def fun_eq_iff split: bind_splits)

lemma repo_status_copied:
  assumes "machinery_copies lv lc lib"
  shows "deep_copier (repo_status_view lib lv) (repo_status_cells lib lc)
           (ClaudeRepositoryStatus_DeepCopyInto lib)"
proof -
  have "deep_copier lv lc (Condition_DeepCopyInto lib)"
    using assms by (simp add: machinery_copies_def)
  from array_copiers(2) [OF this, of "conditions lib"] show ?thesis
    by (rule struct_copier [where parts = mem_RepoConditions and
          mk = "\<lambda>s cs. (\<lparr>ActiveTasks = mem_ActiveTasks s, WebhookID = mem_WebhookID s\<rparr>, slice_list cs)"
          and put = "\<lambda>c s. s\<lparr>mem_RepoConditions := c\<rparr>", OF _])
      (auto simp: repo_status_view_def repo_status_cells_def ClaudeRepositoryStatus_DeepCopyInto_def
        split: bind_splits)
qed

lemma repo_copied:
  assumes "machinery_copies lv lc lib"
  shows "deep_copier (repo_view lib lv) (repo_cells lib lc) (ClaudeRepository_DeepCopyInto lib)"
proof -
  have "deep_copier lv lc (ObjectMeta_DeepCopyInto lib)"
    using assms by (simp add: machinery_copies_def)
  from pair_copier [OF this pair_copier [OF spec_copied repo_status_copied [OF assms]]]
  show ?thesis
    by (rule struct_copier [where parts = "\<lambda>r. (mem_RepoMeta r, mem_RSpec r, mem_RStatus r)" and
          mk = "\<lambda>r (meta, sp, st, cs). (\<lparr>v_meta = meta, v_conditions = cs\<rparr>, sp, st)" and
          put = "\<lambda>(meta, sp, st) r. r\<lparr>mem_RepoMeta := meta, mem_RSpec := sp, mem_RStatus := st\<rparr>"])
      (auto simp: repo_view_def repo_cells_def ClaudeRepository_DeepCopyInto_def pair_into_def
        fun_eq_iff split: bind_splits)
qed

lemma lists_copied:
  assumes "machinery_copies lv lc lib"
  shows "deep_copier (list_view (tasks lib) (task_view lib lv) lv)
           (list_cells (tasks lib) (task_cells lib lc) lc) (ClaudeTaskList_DeepCopyInto lib)"
    and "deep_copier (list_view (repos lib) (repo_view lib lv) lv)
           (list_cells (repos lib) (repo_cells lib lc) lc) (ClaudeRepositoryList_DeepCopyInto lib)"
proof -
  have l: "deep_copier lv lc (ListMeta_DeepCopyInto lib)"
    using assms by (simp add: machinery_copies_def)
  show "deep_copier (list_view (tasks lib) (task_view lib lv) lv)
          (list_cells (tasks lib) (task_cells lib lc) lc) (ClaudeTaskList_DeepCopyInto lib)"
    by (rule struct_copier [OF pair_copier [OF l array_copiers(2) [OF task_copied [OF assms], of "tasks lib"]],
          where parts = "\<lambda>l. (mem_ListMeta l, mem_Items l)" and mk = "\<lambda>l v. v" and
          put = "\<lambda>(meta, items) l. l\<lparr>mem_ListMeta := meta, mem_Items := items\<rparr>"])
      (auto simp: list_view_def list_cells_def ClaudeTaskList_DeepCopyInto_def pair_into_def
        option.map_ident split: bind_splits)
  show "deep_copier (list_view (repos lib) (repo_view lib lv) lv)
          (list_cells (repos lib) (repo_cells lib lc) lc) (ClaudeRepositoryList_DeepCopyInto lib)"
    by (rule struct_copier [OF pair_copier [OF l array_copiers(2) [OF repo_copied [OF assms], of "repos lib"]],
          where parts = "\<lambda>l. (mem_ListMeta l, mem_Items l)" and mk = "\<lambda>l v. v" and
          put = "\<lambda>(meta, items) l. l\<lparr>mem_ListMeta := meta, mem_Items := items\<rparr>"])
      (auto simp: list_view_def list_cells_def ClaudeRepositoryList_DeepCopyInto_def pair_into_def
        option.map_ident split: bind_splits)
qed

subsection \<open>Copies are independent\<close>

text \<open>Stores into cells, whoever makes them.\<close>

definition stores :: "(nat \<times> 'c) list \<Rightarrow> 'c memory \<Rightarrow> 'c memory" where
  "stores ws m = fold (\<lambda>(a, c) m. m[a := c]) ws m"

lemma keeps_stores: "A \<inter> fst ` set ws = {} \<Longrightarrow> keeps A m (stores ws m)"
proof (induction ws arbitrary: m)
  case Nil
  then show ?case by (simp add: stores_def keeps_def)
next
  case (Cons w ws)
  then have "keeps A m (m[fst w := snd w])" by auto
  from keeps_trans [OF this Cons.IH [of "m[fst w := snd w]"]] Cons.prems show ?case
    by (auto simp: stores_def split_def)
qed

definition independent_copies ::
  "('c memory \<Rightarrow> 'a \<Rightarrow> 'v option) \<Rightarrow> ('c, 'a) into \<Rightarrow> bool" where
  "independent_copies val copy \<longleftrightarrow>
     (\<forall>m x v. val m x = Some v \<longrightarrow>
        (\<exists>y m'. copy x m = Some (y, m') \<and> val m' x = Some v \<and> val m' y = Some v \<and>
           (\<forall>ws. fst ` set ws \<subseteq> {..<length m} \<longrightarrow> val (stores ws m') y = Some v) \<and>
           (\<forall>ws. fst ` set ws \<inter> {..<length m} = {} \<longrightarrow> val (stores ws m') x = Some v)))"

lemma independent_copiesD:
  "independent_copies val copy \<Longrightarrow> val m x = Some v \<Longrightarrow>
     \<exists>y m'. copy x m = Some (y, m') \<and>
       (\<forall>ws. fst ` set ws \<subseteq> {..<length m} \<longrightarrow> val (stores ws m') y = Some v)"
  unfolding independent_copies_def by meson

lemma copier_independent:
  assumes "deep_copier val cells copy"
  shows "independent_copies val copy"
  unfolding independent_copies_def
proof (intro allI impI)
  note view = deep_copier.axioms(1) [OF assms]
  fix m x v
  assume v: "val m x = Some v"
  from deep_copier.copies [OF assms v] obtain y m' where y: "copy x m = Some (y, m')" "prefix m m'"
      "val m' y = Some v" "cells m' y \<inter> {..<length m} = {}"
    by blast
  have x: "val m' x = Some v" "cells m' x = cells m x"
    using mem_view.frame [OF view v keeps_prefix [OF y(2)]] by auto
  have "val (stores ws m') y = Some v" if "fst ` set ws \<subseteq> {..<length m}" for ws
    using mem_view.frame [OF view y(3) keeps_stores] that y(4) by blast
  moreover have "val (stores ws m') x = Some v" if "fst ` set ws \<inter> {..<length m} = {}" for ws
    using mem_view.frame [OF view x(1) keeps_stores] that mem_view.bounded [OF view v] x(2) by blast
  ultimately show "\<exists>y m'. copy x m = Some (y, m') \<and> val m' x = Some v \<and> val m' y = Some v \<and>
      (\<forall>ws. fst ` set ws \<subseteq> {..<length m} \<longrightarrow> val (stores ws m') y = Some v) \<and>
      (\<forall>ws. fst ` set ws \<inter> {..<length m} = {} \<longrightarrow> val (stores ws m') x = Some v)"
    using y(1,3) x(1) by blast
qed

lemma pointers_independent:
  "deep_copier val cells into \<Longrightarrow> go_kind K \<Longrightarrow> independent_copies (ptr_view K val) (copy_pointer K into)"
  by (rule copier_independent [OF array_copiers(1)])

text \<open>
  C26: Deep copies are deep. Whenever a pointer to a resource, a list of resources, or one of
  their parts can be read, its \<open>DeepCopy\<close> returns, and what it returns reads the same: nil for
  nil, else an equal object. From then on the two live apart: no stores into memory that
  existed before the copy change what the copy reads as, and no stores into newer memory, the
  copy's included, change the original. The hypothesis is that the copying methods of the
  machinery's own structs keep their promise.
\<close>

theorem deep_copies_independent:
  assumes "machinery_copies lv lc lib"
  shows "independent_copies (ptr_view (tasks lib) (task_view lib lv)) (ClaudeTask_DeepCopy lib) \<and>
    independent_copies (ptr_view (repos lib) (repo_view lib lv)) (ClaudeRepository_DeepCopy lib) \<and>
    independent_copies (ptr_view (task_lists lib) (list_view (tasks lib) (task_view lib lv) lv))
      (ClaudeTaskList_DeepCopy lib) \<and>
    independent_copies (ptr_view (repo_lists lib) (list_view (repos lib) (repo_view lib lv) lv))
      (ClaudeRepositoryList_DeepCopy lib) \<and>
    independent_copies (ptr_view task_statuses (status_view lib lv)) (ClaudeTaskStatus_DeepCopy lib) \<and>
    independent_copies (ptr_view repo_specs spec_view)
      (ClaudeRepositorySpec_DeepCopy :: ('l cell, ptr option) into) \<and>
    independent_copies (ptr_view repo_statuses (repo_status_view lib lv))
      (ClaudeRepositoryStatus_DeepCopy lib) \<and>
    independent_copies (ptr_view task_specs plain_view)
      (ClaudeTaskSpec_DeepCopy :: ('l cell, ptr option) into) \<and>
    independent_copies (ptr_view cost_reports plain_view)
      (CostReport_DeepCopy :: ('l cell, ptr option) into) \<and>
    independent_copies (ptr_view exchanges plain_view)
      (ClarificationExchange_DeepCopy :: ('l cell, ptr option) into) \<and>
    independent_copies (ptr_view secret_refs plain_view)
      (SecretRef_DeepCopy :: ('l cell, ptr option) into)"
  unfolding ClaudeTask_DeepCopy_def ClaudeRepository_DeepCopy_def ClaudeTaskList_DeepCopy_def
    ClaudeRepositoryList_DeepCopy_def ClaudeTaskStatus_DeepCopy_def ClaudeRepositorySpec_DeepCopy_def
    ClaudeRepositoryStatus_DeepCopy_def ClaudeTaskSpec_DeepCopy_def ClaudeTaskSpec_DeepCopyInto_def
    CostReport_DeepCopy_def CostReport_DeepCopyInto_def ClarificationExchange_DeepCopy_def
    ClarificationExchange_DeepCopyInto_def SecretRef_DeepCopy_def SecretRef_DeepCopyInto_def
  by (rule conjI pointers_independent task_copied [OF assms] repo_copied [OF assms]
      lists_copied [OF assms] status_copied [OF assms] spec_copied repo_status_copied [OF assms]
      plain.deep_copier_axioms go_kinds string_arrays.go_kind_axioms
      secret_ref_arrays.go_kind_axioms cost_report_arrays.go_kind_axioms
      exchange_arrays.go_kind_axioms)+

text \<open>
  An instance of the machinery: a struct is a name with a list of finalizers, copied as its
  generated method copies them, and a time is copied into a new object.
\<close>

definition sample_machinery :: "(string \<times> slice option) machinery" where
  "sample_machinery =
     (let copy = pair_into assign (copy_slice strings assign)
      in \<lparr>ObjectMeta_DeepCopyInto = copy, ListMeta_DeepCopyInto = copy, Condition_DeepCopyInto = copy,
          Time_DeepCopy = copy_pointer times assign, zero_struct = ([], None)\<rparr>)"

definition sample_view :: "(string \<times> slice option, string \<times> string list option) struct_view" where
  "sample_view = pair_view plain_view (slice_view strings plain_view)"

definition sample_cells :: "(string \<times> slice option) struct_cells" where
  "sample_cells = pair_cells no_cells (slice_cells strings no_cells)"

lemma sample_machinery_copies: "machinery_copies sample_view sample_cells sample_machinery"
  unfolding machinery_copies_def sample_machinery_def sample_view_def sample_cells_def
  by (simp add: Let_def pair_copier [OF plain.deep_copier_axioms string_arrays.slices_copied]
      array_copiers(1) [OF plain.deep_copier_axioms])

text \<open>A task that started at time 7, with a cost report and an open question.\<close>

definition sample_task_memory :: "(string \<times> slice option) cell memory" where
  "sample_task_memory =
     [StringArray [''foreground''], TimeArray [7], CostReportArray [zero_cost_report],
      ExchangeArray [\<lparr>Question = ''why?'', Answer = []\<rparr>],
      TaskArray
        [\<lparr>mem_TaskTypeMeta = (''ClaudeTask'', None),
          mem_TaskMeta = (''t1'', Some \<lparr>s_array = 0, s_off = 0, s_len = 1, s_cap = 1\<rparr>),
          mem_Spec = zero_task_spec,
          mem_Status = zero_status_mem\<lparr>mem_StartTime := Some (1, 0), mem_CostReport := Some (2, 0),
            mem_Clarifications := Some \<lparr>s_array = 3, s_off = 0, s_len = 1, s_cap = 1\<rparr>\<rparr>\<rparr>]]"

definition sample_task_value ::
  "(string \<times> string list option) meta_value \<times> claude_task_spec \<times> claude_task_status" where
  "sample_task_value =
     (\<lparr>v_meta = (''t1'', Some [''foreground'']), v_conditions = []\<rparr>, zero_task_spec,
      zero_task_status\<lparr>StartTime := Some 7, CostReport := Some zero_cost_report,
        Clarifications := [\<lparr>Question = ''why?'', Answer = []\<rparr>]\<rparr>)"

lemma sample_task_loads:
  "load (tasks sample_machinery) (4, 0) sample_task_memory = Some
     \<lparr>mem_TaskTypeMeta = (''ClaudeTask'', None),
      mem_TaskMeta = (''t1'', Some \<lparr>s_array = 0, s_off = 0, s_len = Suc 0, s_cap = Suc 0\<rparr>),
      mem_Spec = zero_task_spec,
      mem_Status = zero_status_mem\<lparr>mem_StartTime := Some (Suc 0, 0), mem_CostReport := Some (2, 0),
        mem_Clarifications := Some \<lparr>s_array = 3, s_off = 0, s_len = Suc 0, s_cap = Suc 0\<rparr>\<rparr>\<rparr>"
  "load times (Suc 0, 0) sample_task_memory = Some 7"
  "load cost_reports (2, 0) sample_task_memory = Some zero_cost_report"
  "window strings \<lparr>s_array = 0, s_off = 0, s_len = Suc 0, s_cap = Suc 0\<rparr> sample_task_memory =
     Some [''foreground'']"
  "window exchanges \<lparr>s_array = 3, s_off = 0, s_len = Suc 0, s_cap = Suc 0\<rparr> sample_task_memory =
     Some [\<lparr>Question = ''why?'', Answer = []\<rparr>]"
  by (simp_all add: load_def window_def array_at_def kind_defs sample_task_memory_def)

lemma sample_task_reads:
  "ptr_view (tasks sample_machinery) (task_view sample_machinery sample_view) sample_task_memory
     (Some (4, 0)) = Some (Some sample_task_value)"
  apply (simp add: sample_task_loads task_view_def sample_view_def pair_view_def plain_view_def
      slice_view_def)
  apply (simp add: sample_task_loads status_view_def status_refs_def status_refs_view_def
      pair_view_def plain_view_def ptr_view_def slice_view_def zero_status_mem_def)
  apply (simp add: sample_task_value_def slice_list_def zero_task_status_def)
  done

theorem deep_copies_independent_witness:
  "\<exists>q m'. ClaudeTask_DeepCopy sample_machinery (Some (4, 0)) sample_task_memory = Some (q, m') \<and>
     ptr_view (tasks sample_machinery) (task_view sample_machinery sample_view)
       (stores [(3, ExchangeArray [])] m') q = Some (Some sample_task_value)"
proof -
  have "fst ` set [(3 :: nat, ExchangeArray [] :: (string \<times> slice option) cell)]
      \<subseteq> {..<length sample_task_memory}"
    by (simp add: sample_task_memory_def)
  with independent_copiesD
    [OF conjunct1 [OF deep_copies_independent [OF sample_machinery_copies]] sample_task_reads]
  show ?thesis by metis
qed

end
