(* ===== verification/Cache_Memory.thy ===== *)
theory Cache_Memory
  imports Deep_Copies Allowlist_Cache
begin

section \<open>The cache and its aliases (\<open>internal/controller/allowlist_cache.go\<close>)\<close>

text \<open>
  The cache of theory \<open>Allowlist_Cache\<close> as it lies in memory: its maps hold pointers to
  resources and its global lists are slices. \<open>Set\<close> stores a deep copy of what it is given and
  \<open>Get\<close> returns a deep copy of what it holds, so the cache's resources cannot be changed through
  a pointer that a caller has. \<open>SetGlobalAllowlist\<close> does not copy; its only caller is the startup
  code, which passes lists that it never touches again. \<open>GetMergedAllowlist\<close> appends to a nil
  slice, so its results do not share arrays with the cache. The last theorem puts this together: whatever the
  program stores into memory that the cache does not own, the cache in memory answers every
  question as the cache of values does.
\<close>

subsection \<open>Appending\<close>

text \<open>
  \<open>append(s, t...)\<close>: the elements go behind those of \<open>s\<close> when its capacity allows, else into a
  new array, whose spare capacity \<open>grow\<close> is the runtime's choice.
\<close>

definition read_slice :: "('c, 'a) kind \<Rightarrow> slice option \<Rightarrow> 'c memory \<Rightarrow> 'a list option" where
  "read_slice K s m = (case s of None \<Rightarrow> Some [] | Some sl \<Rightarrow> window K sl m)"

definition append_new ::
  "('c, 'a) kind \<Rightarrow> (nat \<Rightarrow> nat) \<Rightarrow> 'a list \<Rightarrow> 'c memory \<Rightarrow> slice option \<times> 'c memory" where
  "append_new K grow xs m =
     (let n = length xs in
      (Some \<lparr>s_array = length m, s_off = 0, s_len = n, s_cap = n + grow n\<rparr>,
       m @ [wrap K (xs @ replicate (grow n) (zero_value K))]))"

definition append_slice ::
  "('c, 'a) kind \<Rightarrow> (nat \<Rightarrow> nat) \<Rightarrow> slice option \<Rightarrow> slice option \<Rightarrow> 'c memory \<Rightarrow>
   (slice option \<times> 'c memory) option" where
  "append_slice K grow s t m = do {
     xs \<leftarrow> read_slice K s m;
     ys \<leftarrow> read_slice K t m;
     (case s of
        None \<Rightarrow> if ys = [] then Some (None, m) else Some (append_new K grow ys m)
      | Some sl \<Rightarrow>
          if s_len sl + length ys \<le> s_cap sl then do {
            m1 \<leftarrow> fill_array K assign (s_array sl) (s_off sl + s_len sl) ys m;
            Some (Some (sl\<lparr>s_len := s_len sl + length ys\<rparr>), m1)
          }
          else Some (append_new K grow (xs @ ys) m))
   }"

definition array_of :: "slice option \<Rightarrow> nat set" where
  "array_of s = (case s of None \<Rightarrow> {} | Some sl \<Rightarrow> {s_array sl})"

lemma keeps_below_prefix:
  assumes "keeps {..<length m} m m'"
  shows "prefix m m'"
proof -
  have "length m \<le> length m'"
    using assms by (cases "length m") (auto simp: keeps_def)
  moreover have "take (length m) m' = m"
    using assms calculation by (intro nth_equalityI) (auto simp: keeps_def)
  ultimately show ?thesis by (metis take_is_prefix)
qed

lemma read_slice_keeps:
  "read_slice K s m = Some xs \<Longrightarrow> keeps (array_of s) m m' \<Longrightarrow> read_slice K s m' = Some xs"
  by (auto simp: read_slice_def window_def array_at_def array_of_def keeps_def
      split: option.splits if_splits)

lemma read_slice_bounded: "read_slice K s m = Some xs \<Longrightarrow> array_of s \<subseteq> {..<length m}"
  by (auto simp: read_slice_def window_def array_at_def array_of_def split: option.splits if_splits)

lemma fill_array_assign_Cons:
  "fill_array K assign a i (y # ys) m = do { m1 \<leftarrow> store K (a, i) y m; fill_array K assign a (Suc i) ys m1 }"
  by (subst fill_array.simps) (simp add: assign_def [of y])

context go_kind
begin

lemma fill_array_assign:
  "array_at K a m = Some zs \<Longrightarrow> i + length ys \<le> length zs \<Longrightarrow>
     \<exists>m'. fill_array K assign a i ys m = Some m' \<and> length m' = length m \<and> keeps (- {a}) m m' \<and>
       array_at K a m' = Some (take i zs @ ys @ drop (i + length ys) zs)"
proof (induction ys arbitrary: i m zs)
  case Nil
  then show ?case by (simp add: keeps_def)
next
  case (Cons y ys)
  let ?m1 = "m[a := wrap K (zs[i := y])]"
  have a: "a < length m" using Cons.prems(1) by (simp add: array_at_def split: if_splits)
  then have "array_at K a ?m1 = Some (zs[i := y])" by (simp add: array_at_def)
  from Cons.IH [OF this, of "Suc i"] Cons.prems(2) obtain m' where m':
    "fill_array K assign a (Suc i) ys ?m1 = Some m'" "length m' = length ?m1" "keeps (- {a}) ?m1 m'"
    "array_at K a m' = Some (take (Suc i) (zs[i := y]) @ ys @ drop (Suc i + length ys) (zs[i := y]))"
    by auto
  have "keeps (- {a}) m m'" using keeps_trans [OF keeps_update m'(3)] by simp
  then show ?case
    using m' Cons.prems by (simp add: fill_array_assign_Cons store_def take_Suc_conv_app_nth
        del: fill_array.simps)
qed

text \<open>Appending touches the slice's own array at most.\<close>

lemma append_new_reads:
  assumes "append_new K grow zs m = (s', m')"
  shows "prefix m m' \<and> read_slice K s' m' = Some zs \<and> array_of s' \<subseteq> {length m..<length m'}"
  using assms
  by (auto simp: append_new_def Let_def read_slice_def window_def array_at_def array_of_def)

lemma append_slice_reads:
  assumes "read_slice K s m = Some xs" and t: "read_slice K t m = Some ys"
  shows "\<exists>s' m'. append_slice K grow s t m = Some (s', m') \<and> keeps (- array_of s) m m' \<and>
    length m \<le> length m' \<and> read_slice K s' m' = Some (xs @ ys) \<and>
    array_of s' \<subseteq> array_of s \<union> {length m..<length m'}"
proof (cases s)
  case None
  with assms(1) have xs: "xs = []" by (simp add: read_slice_def)
  obtain s' m' where n: "append_new K grow ys m = (s', m')" by fastforce
  note r = append_new_reads [OF n]
  show ?thesis
  proof (cases "ys = []")
    case True
    with None xs t assms(1) show ?thesis
      by (auto simp: append_slice_def read_slice_def array_of_def keeps_def)
  next
    case False
    with None xs t assms(1) n r show ?thesis
      by (auto simp: append_slice_def array_of_def dest: prefix_length_le)
  qed
next
  case (Some sl)
  then obtain zs where zs: "array_at K (s_array sl) m = Some zs" "s_len sl \<le> s_cap sl"
      "s_off sl + s_cap sl \<le> length zs" "xs = take (s_len sl) (drop (s_off sl) zs)"
    using assms(1) by (auto simp: read_slice_def window_def split: option.splits if_splits)
  show ?thesis
  proof (cases "s_len sl + length ys \<le> s_cap sl")
    case True
    let ?a = "s_array sl" and ?i = "s_off sl + s_len sl"
    obtain m' where m': "fill_array K assign ?a ?i ys m = Some m'" "keeps (- {?a}) m m'"
        "length m' = length m" "array_at K ?a m' = Some (take ?i zs @ ys @ drop (?i + length ys) zs)"
      using fill_array_assign [OF zs(1), of ?i ys] zs(3) True by auto
    have "take (s_len sl + length ys) (drop (s_off sl) (take ?i zs @ ys @ drop (?i + length ys) zs))
            = xs @ ys"
      using zs(2,3,4) True by (simp add: take_drop add.commute)
    with zs m'(4) True have "read_slice K (Some (sl\<lparr>s_len := s_len sl + length ys\<rparr>)) m' = Some (xs @ ys)"
      by (simp add: read_slice_def window_def)
    with Some assms(1) t True m' show ?thesis
      by (simp add: append_slice_def array_of_def)
  next
    case False
    obtain s' m' where n: "append_new K grow (xs @ ys) m = (s', m')" by fastforce
    from Some assms(1) t False n append_new_reads [OF n] show ?thesis
      by (auto simp: append_slice_def dest: prefix_length_le)
  qed
qed

end

subsection \<open>The cache in memory\<close>

record pattern_entry_mem =
  mem_re :: "string \<Rightarrow> bool"
  mem_repo :: ptr

record 'c cache_mem =
  mem_exact :: "string \<rightharpoonup> ptr"
  mem_patterns :: "string \<rightharpoonup> pattern_entry_mem"
  mem_clients :: "string \<rightharpoonup> 'c"
  mem_globalUsers :: "slice option"
  mem_globalRoles :: "slice option"

definition Mem_New :: "'c cache_mem" where
  "Mem_New =
     \<lparr>mem_exact = Map.empty, mem_patterns = Map.empty, mem_clients = Map.empty,
      mem_globalUsers = None, mem_globalRoles = None\<rparr>"

text \<open>A copy of nil is nil, and its first use panics.\<close>

definition Mem_Set ::
  "'l machinery \<Rightarrow> regex_compiler \<Rightarrow> string \<Rightarrow> ptr option \<Rightarrow> 'c cache_mem \<Rightarrow> 'l cell memory \<Rightarrow>
   ('c cache_mem \<times> 'l cell memory) option" where
  "Mem_Set lib compile fullName repo c m = do {
     (copied, m1) \<leftarrow> ClaudeRepository_DeepCopy lib repo m;
     q \<leftarrow> copied;
     r \<leftarrow> load (repos lib) q m1;
     let pattern = mem_RepositoryPattern (mem_RSpec r);
     Some
       (if pattern \<noteq> [] then
          (case compile (anchored pattern) of
             None \<Rightarrow> c\<lparr>mem_exact := (mem_exact c)(fullName \<mapsto> q)\<rparr>
           | Some f \<Rightarrow> c\<lparr>mem_patterns := (mem_patterns c)(fullName \<mapsto> \<lparr>mem_re = f, mem_repo = q\<rparr>)\<rparr>)
        else c\<lparr>mem_exact := (mem_exact c)(fullName \<mapsto> q)\<rparr>, m1)
   }"

definition Mem_Delete :: "string \<Rightarrow> 'c cache_mem \<Rightarrow> 'c cache_mem" where
  "Mem_Delete fullName c =
     c\<lparr>mem_exact := (mem_exact c)(fullName := None), mem_patterns := (mem_patterns c)(fullName := None)\<rparr>"

definition Mem_range :: "string list \<Rightarrow> 'c cache_mem \<Rightarrow> pattern_entry_mem list" where
  "Mem_range ord c = List.map_filter (mem_patterns c) ord"

definition Mem_IsAllowed :: "string list \<Rightarrow> 'c cache_mem \<Rightarrow> string \<Rightarrow> bool" where
  "Mem_IsAllowed ord c fullName =
     (if mem_exact c fullName \<noteq> None then True
      else list_ex (\<lambda>e. mem_re e fullName) (Mem_range ord c))"

definition Mem_Get ::
  "'l machinery \<Rightarrow> string list \<Rightarrow> 'c cache_mem \<Rightarrow> string \<Rightarrow> 'l cell memory \<Rightarrow>
   (ptr option \<times> 'l cell memory) option" where
  "Mem_Get lib ord c fullName m =
     (case mem_exact c fullName of
        Some q \<Rightarrow> ClaudeRepository_DeepCopy lib (Some q) m
      | None \<Rightarrow>
          (case find (\<lambda>e. mem_re e fullName) (Mem_range ord c) of
             Some e \<Rightarrow> ClaudeRepository_DeepCopy lib (Some (mem_repo e)) m
           | None \<Rightarrow> Some (None, m)))"

definition Mem_SetGlobalAllowlist ::
  "slice option \<Rightarrow> slice option \<Rightarrow> 'c cache_mem \<Rightarrow> 'c cache_mem" where
  "Mem_SetGlobalAllowlist users roles c = c\<lparr>mem_globalUsers := users, mem_globalRoles := roles\<rparr>"

definition Mem_SetClient :: "string \<Rightarrow> 'c \<Rightarrow> 'c cache_mem \<Rightarrow> 'c cache_mem" where
  "Mem_SetClient fullName cl c = c\<lparr>mem_clients := (mem_clients c)(fullName \<mapsto> cl)\<rparr>"

definition Mem_DeleteClient :: "string \<Rightarrow> 'c cache_mem \<Rightarrow> 'c cache_mem" where
  "Mem_DeleteClient fullName c = c\<lparr>mem_clients := (mem_clients c)(fullName := None)\<rparr>"

definition append_lists ::
  "'l machinery \<Rightarrow> (nat \<Rightarrow> nat) \<Rightarrow> ptr \<Rightarrow> slice option \<times> slice option \<Rightarrow> 'l cell memory \<Rightarrow>
   ((slice option \<times> slice option) \<times> 'l cell memory) option" where
  "append_lists lib grow q acc m = do {
     r \<leftarrow> load (repos lib) q m;
     (users, m1) \<leftarrow> append_slice strings grow (fst acc) (mem_AllowedUsers (mem_RSpec r)) m;
     (roles, m2) \<leftarrow> append_slice strings grow (snd acc) (mem_AllowedRoles (mem_RSpec r)) m1;
     Some ((users, roles), m2)
   }"

definition Mem_GetMergedAllowlist ::
  "'l machinery \<Rightarrow> (nat \<Rightarrow> nat) \<Rightarrow> string list \<Rightarrow> 'c cache_mem \<Rightarrow> string \<Rightarrow> 'l cell memory \<Rightarrow>
   ((slice option \<times> slice option) \<times> 'l cell memory) option" where
  "Mem_GetMergedAllowlist lib grow ord c fullName m = do {
     (users, m1) \<leftarrow> append_slice strings grow None (mem_globalUsers c) m;
     (roles, m2) \<leftarrow> append_slice strings grow None (mem_globalRoles c) m1;
     (case mem_exact c fullName of
        Some q \<Rightarrow> append_lists lib grow q (users, roles) m2
      | None \<Rightarrow>
          (case find (\<lambda>e. mem_re e fullName) (Mem_range ord c) of
             Some e \<Rightarrow> append_lists lib grow (mem_repo e) (users, roles) m2
           | None \<Rightarrow> Some ((users, roles), m2)))
   }"

subsection \<open>What it represents\<close>

text \<open>
  The resource at a pointer, as the other theories see it: \<open>mo\<close> reads name, namespace and
  deletion time off the value of an \<open>ObjectMeta\<close>.
\<close>

type_synonym 'v meta_fields = "'v \<Rightarrow> string \<times> string \<times> time option"

definition repository_of ::
  "'v meta_fields \<Rightarrow> 'v meta_value \<times> claude_repository_spec \<times> claude_repository_status \<Rightarrow>
   claude_repository" where
  "repository_of mo v =
     (let (name, namespace, deleted) = mo (v_meta (fst v))
      in \<lparr>RepoObjName = name, RepoNamespace = namespace, DeletionTimestamp = deleted,
          RSpec = fst (snd v), RStatus = snd (snd v)\<rparr>)"

definition repo_at ::
  "'l machinery \<Rightarrow> ('l, 'v) struct_view \<Rightarrow> 'v meta_fields \<Rightarrow> 'l cell memory \<Rightarrow> ptr option \<Rightarrow>
   claude_repository option" where
  "repo_at lib lv mo m p =
     (case ptr_view (repos lib) (repo_view lib lv) m p of
        Some (Some v) \<Rightarrow> Some (repository_of mo v)
      | _ \<Rightarrow> None)"

definition represents ::
  "'l machinery \<Rightarrow> ('l, 'v) struct_view \<Rightarrow> 'v meta_fields \<Rightarrow> 'l cell memory \<Rightarrow> 'c cache_mem \<Rightarrow>
   'c allowlist_cache \<Rightarrow> bool" where
  "represents lib lv mo m cm c \<longleftrightarrow>
     (\<forall>k. rel_option (\<lambda>q r. repo_at lib lv mo m (Some q) = Some r) (mem_exact cm k) (exact c k)) \<and>
     (\<forall>k. rel_option (\<lambda>e e'. mem_re e = re e' \<and> repo_at lib lv mo m (Some (mem_repo e)) = Some (entry_repo e'))
            (mem_patterns cm k) (patterns c k)) \<and>
     mem_clients cm = clients c \<and>
     read_slice strings (mem_globalUsers cm) m = Some (globalAllowedUsers c) \<and>
     read_slice strings (mem_globalRoles cm) m = Some (globalAllowedRoles c)"

definition owned_pointers :: "'c cache_mem \<Rightarrow> ptr set" where
  "owned_pointers cm = ran (mem_exact cm) \<union> mem_repo ` ran (mem_patterns cm)"

definition cache_cells :: "'l machinery \<Rightarrow> 'l struct_cells \<Rightarrow> 'l cell memory \<Rightarrow> 'c cache_mem \<Rightarrow> nat set"
where
  "cache_cells lib lc m cm =
     (\<Union>q \<in> owned_pointers cm. ptr_cells (repos lib) (repo_cells lib lc) m (Some q)) \<union>
     array_of (mem_globalUsers cm) \<union> array_of (mem_globalRoles cm)"

subsection \<open>Every operation refines the one on values\<close>

lemma repo_pointers_copied:
  assumes "machinery_copies lv lc lib"
  shows "deep_copier (ptr_view (repos lib) (repo_view lib lv)) (ptr_cells (repos lib) (repo_cells lib lc))
           (ClaudeRepository_DeepCopy lib)"
  unfolding ClaudeRepository_DeepCopy_def by (rule array_copiers(1) [OF repo_copied [OF assms] go_kinds(9)])

lemma repo_at_Some:
  "repo_at lib lv mo m p = Some r \<longleftrightarrow>
     (\<exists>v. ptr_view (repos lib) (repo_view lib lv) m p = Some (Some v) \<and> r = repository_of mo v)"
  by (auto simp: repo_at_def split: option.splits)

lemma repo_at_keeps:
  assumes "machinery_copies lv lc lib" and "repo_at lib lv mo m p = Some r"
    and "keeps (ptr_cells (repos lib) (repo_cells lib lc) m p) m m'"
  shows "repo_at lib lv mo m' p = Some r \<and>
    ptr_cells (repos lib) (repo_cells lib lc) m' p = ptr_cells (repos lib) (repo_cells lib lc) m p"
  using assms(2) mem_view.frame [OF deep_copier.axioms(1) [OF repo_pointers_copied [OF assms(1)]] _ assms(3)]
  by (auto simp: repo_at_Some)

lemma repo_at_bounded:
  assumes "machinery_copies lv lc lib" and "repo_at lib lv mo m p = Some r"
  shows "ptr_cells (repos lib) (repo_cells lib lc) m p \<subseteq> {..<length m}"
  using assms(2) mem_view.bounded [OF deep_copier.axioms(1) [OF repo_pointers_copied [OF assms(1)]]]
  by (auto simp: repo_at_Some)

lemma repo_copy:
  assumes "machinery_copies lv lc lib" and "repo_at lib lv mo m (Some p) = Some r"
  obtains q m' where "ClaudeRepository_DeepCopy lib (Some p) m = Some (Some q, m')" and "prefix m m'"
    and "repo_at lib lv mo m' (Some q) = Some r"
    and "ptr_cells (repos lib) (repo_cells lib lc) m' (Some q) \<inter> {..<length m} = {}"
proof -
  from assms(2) obtain v where v: "ptr_view (repos lib) (repo_view lib lv) m (Some p) = Some (Some v)"
    "r = repository_of mo v" unfolding repo_at_Some by blast
  from deep_copier.copies [OF repo_pointers_copied [OF assms(1)] v(1)] obtain y m' where y:
    "ClaudeRepository_DeepCopy lib (Some p) m = Some (y, m')" "prefix m m'"
    "ptr_view (repos lib) (repo_view lib lv) m' y = Some (Some v)"
    "ptr_cells (repos lib) (repo_cells lib lc) m' y \<inter> {..<length m} = {}"
    by blast
  then obtain q where "y = Some q" by (cases y) auto
  with y v(2) show thesis by (intro that) (auto simp: repo_at_Some)
qed

text \<open>The fields that the cache reads itself.\<close>

lemma slice_read:
  "slice_view K plain_view m s = Some v \<Longrightarrow> read_slice K s m = Some (slice_list v)"
  by (cases s) (auto simp: read_slice_def slice_list_def plain_view_def list_all2_eq [symmetric]
      dest: list_all2_mono [where Q = "(=)"])

lemma repo_at_load:
  assumes "repo_at lib lv mo m (Some q) = Some r"
  obtains x where "load (repos lib) q m = Some x"
    and "RepositoryPattern (RSpec r) = mem_RepositoryPattern (mem_RSpec x)"
    and "read_slice strings (mem_AllowedUsers (mem_RSpec x)) m = Some (AllowedUsers (RSpec r))"
    and "read_slice strings (mem_AllowedRoles (mem_RSpec x)) m = Some (AllowedRoles (RSpec r))"
proof -
  from assms obtain x v where x: "load (repos lib) q m = Some x" "repo_view lib lv m x = Some v"
    "r = repository_of mo v" unfolding repo_at_Some by auto
  then obtain l p u ro where "spec_refs_view m (spec_refs (mem_RSpec x)) = Some (l, p, u, ro)"
    "RSpec r = spec_value (mem_RSpec x) (l, p, u, ro)"
    by (auto simp: repo_view_def repository_of_def spec_view_def Let_def split: prod.splits)
  then show thesis
    using x(1) by (intro that [of x])
      (auto simp: spec_refs_view_def spec_refs_def dest: slice_read)
qed

lemma rel_option_Some1: "rel_option R x y \<Longrightarrow> x = Some a \<Longrightarrow> \<exists>b. y = Some b \<and> R a b"
  by (simp add: option_rel_Some1)

lemma represents_exact:
  "represents lib lv mo m cm c \<Longrightarrow> mem_exact cm k = Some q \<Longrightarrow>
     \<exists>r. exact c k = Some r \<and> repo_at lib lv mo m (Some q) = Some r"
  unfolding represents_def by (blast dest: rel_option_Some1)

lemma represents_patterns:
  "represents lib lv mo m cm c \<Longrightarrow> mem_patterns cm k = Some e \<Longrightarrow>
     \<exists>e'. patterns c k = Some e' \<and> mem_re e = re e' \<and>
       repo_at lib lv mo m (Some (mem_repo e)) = Some (entry_repo e')"
  unfolding represents_def by (blast dest: rel_option_Some1)

lemma owned_exact: "mem_exact cm k = Some q \<Longrightarrow> q \<in> owned_pointers cm"
  unfolding owned_pointers_def by (blast intro: ranI)

lemma owned_pattern: "mem_patterns cm k = Some e \<Longrightarrow> mem_repo e \<in> owned_pointers cm"
  unfolding owned_pointers_def by (blast intro: ranI)

lemma owned_readable:
  assumes "represents lib lv mo m cm c" and "q \<in> owned_pointers cm"
  shows "\<exists>r. repo_at lib lv mo m (Some q) = Some r"
proof -
  from assms(2) consider k where "mem_exact cm k = Some q"
    | k e where "mem_patterns cm k = Some e" "q = mem_repo e"
    by (auto simp: owned_pointers_def ran_def)
  then show ?thesis
    by cases (use represents_exact [OF assms(1)] represents_patterns [OF assms(1)] in blast)+
qed

lemma cache_cells_bounded:
  assumes "machinery_copies lv lc lib" and "represents lib lv mo m cm c"
  shows "cache_cells lib lc m cm \<subseteq> {..<length m}"
proof -
  have "ptr_cells (repos lib) (repo_cells lib lc) m (Some q) \<subseteq> {..<length m}" if "q \<in> owned_pointers cm" for q
    using owned_readable [OF assms(2) that] repo_at_bounded [OF assms(1)] by blast
  moreover have "array_of (mem_globalUsers cm) \<union> array_of (mem_globalRoles cm) \<subseteq> {..<length m}"
    using assms(2) read_slice_bounded unfolding represents_def by (meson Un_least)
  ultimately show ?thesis unfolding cache_cells_def by blast
qed

lemma represents_keeps:
  assumes "machinery_copies lv lc lib" and "represents lib lv mo m cm c"
    and "keeps (cache_cells lib lc m cm) m m'"
  shows "represents lib lv mo m' cm c \<and> cache_cells lib lc m' cm = cache_cells lib lc m cm"
proof -
  have own: "repo_at lib lv mo m' (Some q) = repo_at lib lv mo m (Some q) \<and>
      ptr_cells (repos lib) (repo_cells lib lc) m' (Some q) = ptr_cells (repos lib) (repo_cells lib lc) m (Some q)"
    if "q \<in> owned_pointers cm" for q
  proof -
    from owned_readable [OF assms(2) that] obtain r where r: "repo_at lib lv mo m (Some q) = Some r"
      by blast
    have "keeps (ptr_cells (repos lib) (repo_cells lib lc) m (Some q)) m m'"
      by (rule keeps_mono [OF assms(3)]) (use that in \<open>auto simp: cache_cells_def\<close>)
    from repo_at_keeps [OF assms(1) r this] r show ?thesis by simp
  qed
  have globals: "keeps (array_of (mem_globalUsers cm)) m m'" "keeps (array_of (mem_globalRoles cm)) m m'"
    by (rule keeps_mono [OF assms(3)], auto simp: cache_cells_def)+
  have "cache_cells lib lc m' cm = cache_cells lib lc m cm"
    using own by (auto simp: cache_cells_def)
  moreover have "represents lib lv mo m' cm c"
    unfolding represents_def
  proof (intro conjI allI)
    fix k
    have "rel_option (\<lambda>q r. repo_at lib lv mo m (Some q) = Some r) (mem_exact cm k) (exact c k)"
      using assms(2) by (simp add: represents_def)
    then show "rel_option (\<lambda>q r. repo_at lib lv mo m' (Some q) = Some r) (mem_exact cm k) (exact c k)"
    proof (rule option.rel_mono_strong)
      fix q r
      assume "q \<in> set_option (mem_exact cm k)" and r: "repo_at lib lv mo m (Some q) = Some r"
      then have "q \<in> owned_pointers cm" using owned_exact by simp
      with own r show "repo_at lib lv mo m' (Some q) = Some r" by simp
    qed
    have "rel_option (\<lambda>e e'. mem_re e = re e' \<and>
        repo_at lib lv mo m (Some (mem_repo e)) = Some (entry_repo e')) (mem_patterns cm k) (patterns c k)"
      using assms(2) by (simp add: represents_def)
    then show "rel_option (\<lambda>e e'. mem_re e = re e' \<and>
        repo_at lib lv mo m' (Some (mem_repo e)) = Some (entry_repo e')) (mem_patterns cm k) (patterns c k)"
    proof (rule option.rel_mono_strong)
      fix e e'
      assume "e \<in> set_option (mem_patterns cm k)"
        and e': "mem_re e = re e' \<and> repo_at lib lv mo m (Some (mem_repo e)) = Some (entry_repo e')"
      then have "mem_repo e \<in> owned_pointers cm" using owned_pattern by simp
      with own e' show "mem_re e = re e' \<and> repo_at lib lv mo m' (Some (mem_repo e)) = Some (entry_repo e')"
        by simp
    qed
  qed (use assms(2) read_slice_keeps globals in \<open>auto simp: represents_def\<close>)
  ultimately show ?thesis by blast
qed

lemma cache_cells_add:
  assumes "owned_pointers cm' \<subseteq> insert q (owned_pointers cm)"
    and "mem_globalUsers cm' = mem_globalUsers cm" "mem_globalRoles cm' = mem_globalRoles cm"
  shows "cache_cells lib lc m cm' \<subseteq>
    cache_cells lib lc m cm \<union> ptr_cells (repos lib) (repo_cells lib lc) m (Some q)"
proof -
  let ?P = "\<lambda>q. ptr_cells (repos lib) (repo_cells lib lc) m (Some q)"
  have "(\<Union>q \<in> owned_pointers cm'. ?P q) \<subseteq> (\<Union>q \<in> insert q (owned_pointers cm). ?P q)"
    by (rule UN_mono [OF assms(1)]) simp
  then show ?thesis using assms(2,3) by (simp add: cache_cells_def) blast
qed

lemma owned_pointers_update:
  "owned_pointers (cm\<lparr>mem_exact := (mem_exact cm)(n \<mapsto> q)\<rparr>) \<subseteq> insert q (owned_pointers cm)"
  "owned_pointers (cm\<lparr>mem_patterns := (mem_patterns cm)(n \<mapsto> \<lparr>mem_re = f, mem_repo = q\<rparr>)\<rparr>)
     \<subseteq> insert q (owned_pointers cm)"
  by (auto simp: owned_pointers_def ran_def split: if_splits)

lemma represents_prefix:
  "machinery_copies lv lc lib \<Longrightarrow> represents lib lv mo m cm c \<Longrightarrow> prefix m m' \<Longrightarrow>
     represents lib lv mo m' cm c \<and> cache_cells lib lc m' cm = cache_cells lib lc m cm"
  using represents_keeps keeps_prefix by blast

lemma Mem_Set_refines:
  assumes "machinery_copies lv lc lib" and "represents lib lv mo m cm c"
    and "repo_at lib lv mo m (Some p) = Some r"
  shows "\<exists>cm' m'. Mem_Set lib compile n (Some p) cm m = Some (cm', m') \<and> prefix m m' \<and>
    represents lib lv mo m' cm' (AllowlistCache_Set compile n r c) \<and>
    cache_cells lib lc m' cm' \<subseteq> cache_cells lib lc m cm \<union> {length m..<length m'}"
proof -
  obtain q m' where q: "ClaudeRepository_DeepCopy lib (Some p) m = Some (Some q, m')" "prefix m m'"
      "repo_at lib lv mo m' (Some q) = Some r"
      "ptr_cells (repos lib) (repo_cells lib lc) m' (Some q) \<inter> {..<length m} = {}"
    by (rule repo_copy [OF assms(1,3)])
  obtain x where x: "load (repos lib) q m' = Some x"
      "RepositoryPattern (RSpec r) = mem_RepositoryPattern (mem_RSpec x)"
    by (rule repo_at_load [OF q(3)])
  note rep = represents_prefix [OF assms(1,2) q(2)]
  have fresh: "ptr_cells (repos lib) (repo_cells lib lc) m' (Some q) \<subseteq> {length m..<length m'}"
    using q(4) repo_at_bounded [OF assms(1) q(3)] by fastforce
  have "represents lib lv mo m' (cm\<lparr>mem_exact := (mem_exact cm)(n \<mapsto> q)\<rparr>) (c\<lparr>exact := (exact c)(n \<mapsto> r)\<rparr>)"
    using rep q(3) by (auto simp: represents_def)
  moreover have "represents lib lv mo m'
      (cm\<lparr>mem_patterns := (mem_patterns cm)(n \<mapsto> \<lparr>mem_re = f, mem_repo = q\<rparr>)\<rparr>)
      (c\<lparr>patterns := (patterns c)(n \<mapsto> \<lparr>re = f, entry_repo = r\<rparr>)\<rparr>)" for f
    using rep q(3) by (auto simp: represents_def)
  moreover have "cache_cells lib lc m' (cm\<lparr>mem_exact := (mem_exact cm)(n \<mapsto> q)\<rparr>)
      \<subseteq> cache_cells lib lc m cm \<union> {length m..<length m'}"
    using cache_cells_add [OF owned_pointers_update(1)] rep fresh by simp blast
  moreover have "cache_cells lib lc m' (cm\<lparr>mem_patterns := (mem_patterns cm)(n \<mapsto> \<lparr>mem_re = f, mem_repo = q\<rparr>)\<rparr>)
      \<subseteq> cache_cells lib lc m cm \<union> {length m..<length m'}" for f
    using cache_cells_add [OF owned_pointers_update(2)] rep fresh by simp blast
  ultimately show ?thesis
    using q(1,2) x by (auto simp: Mem_Set_def AllowlistCache_Set_def IsPattern_def split: option.splits)
qed

text \<open>The loops over the patterns find related entries.\<close>

definition entry_rel where
  "entry_rel lib lv mo m e e' \<longleftrightarrow>
     mem_re e = re e' \<and> repo_at lib lv mo m (Some (mem_repo e)) = Some (entry_repo e')"

lemma range_related:
  assumes "represents lib lv mo m cm c"
  shows "list_all2 (entry_rel lib lv mo m) (Mem_range ord cm) (range_patterns ord c)"
proof (induction ord)
  case Nil
  then show ?case by (simp add: Mem_range_def range_patterns_def List.map_filter_def)
next
  case (Cons k ord)
  have "rel_option (entry_rel lib lv mo m) (mem_patterns cm k) (patterns c k)"
    using assms unfolding represents_def entry_rel_def by blast
  with Cons show ?case
    by (cases "mem_patterns cm k"; cases "patterns c k")
      (simp_all add: Mem_range_def range_patterns_def List.map_filter_def)
qed

lemma find_related:
  "list_all2 (entry_rel lib lv mo m) es es' \<Longrightarrow>
     rel_option (entry_rel lib lv mo m) (find (\<lambda>e. mem_re e n) es) (find (\<lambda>e. re e n) es')"
  by (induction rule: list_all2_induct) (auto simp: entry_rel_def)

lemma list_ex_related:
  "list_all2 (entry_rel lib lv mo m) es es' \<Longrightarrow>
     list_ex (\<lambda>e. mem_re e n) es = list_ex (\<lambda>e. re e n) es'"
  by (induction rule: list_all2_induct) (auto simp: entry_rel_def)

lemma find_owned:
  "find (\<lambda>e. mem_re e n) (Mem_range ord cm) = Some e \<Longrightarrow> mem_repo e \<in> owned_pointers cm"
  using find_Some_iff [of "\<lambda>e. mem_re e n" "Mem_range ord cm" e] nth_mem [of _ "Mem_range ord cm"]
  by (auto simp: Mem_range_def set_map_filter dest: owned_pattern)

lemma exact_related:
  "represents lib lv mo m cm c \<Longrightarrow>
     rel_option (\<lambda>q r. repo_at lib lv mo m (Some q) = Some r) (mem_exact cm n) (exact c n)"
  by (simp add: represents_def)

lemma Mem_IsAllowed_refines:
  assumes "represents lib lv mo m cm c"
  shows "Mem_IsAllowed ord cm n = AllowlistCache_IsAllowed ord c n"
  using exact_related [OF assms, of n] list_ex_related [OF range_related [OF assms]]
  by (auto simp: Mem_IsAllowed_def AllowlistCache_IsAllowed_def option_rel_Some1 elim: option.rel_cases)

text \<open>What \<open>Get\<close> returns is the caller's own.\<close>

lemma Mem_Get_refines:
  assumes "machinery_copies lv lc lib" and "represents lib lv mo m cm c"
  shows "\<exists>q m'. Mem_Get lib ord cm n m = Some (q, m') \<and> prefix m m' \<and>
    (case AllowlistCache_Get ord c n of None \<Rightarrow> q = None | Some r \<Rightarrow> repo_at lib lv mo m' q = Some r) \<and>
    ptr_cells (repos lib) (repo_cells lib lc) m' q \<inter> {..<length m} = {}"
proof -
  have copy: "\<exists>q m'. ClaudeRepository_DeepCopy lib (Some p) m = Some (q, m') \<and> prefix m m' \<and>
      repo_at lib lv mo m' q = Some r \<and>
      ptr_cells (repos lib) (repo_cells lib lc) m' q \<inter> {..<length m} = {}"
    if "repo_at lib lv mo m (Some p) = Some r" for p r
    by (rule repo_copy [OF assms(1) that]) blast
  show ?thesis
  proof (cases "mem_exact cm n")
    case (Some p)
    then obtain r where "exact c n = Some r" "repo_at lib lv mo m (Some p) = Some r"
      using represents_exact [OF assms(2)] by blast
    with Some copy show ?thesis by (simp add: Mem_Get_def AllowlistCache_Get_def)
  next
    case None
    then have "exact c n = None" using exact_related [OF assms(2), of n] by simp
    moreover from find_related [OF range_related [OF assms(2)]]
    have "rel_option (entry_rel lib lv mo m) (find (\<lambda>e. mem_re e n) (Mem_range ord cm))
        (find (\<lambda>e. re e n) (range_patterns ord c))" .
    ultimately show ?thesis
      using None copy
      by (cases "find (\<lambda>e. mem_re e n) (Mem_range ord cm)";
          cases "find (\<lambda>e. re e n) (range_patterns ord c)")
        (simp_all add: Mem_Get_def AllowlistCache_Get_def entry_rel_def)
  qed
qed

text \<open>The merged lists are the caller's own too.\<close>

definition own_lists ::
  "'l cell memory \<Rightarrow> slice option \<times> slice option \<Rightarrow> 'l cell memory \<Rightarrow> string list \<times> string list \<Rightarrow> bool"
where
  "own_lists m0 acc m v \<longleftrightarrow>
     prefix m0 m \<and>
     read_slice strings (fst acc) m = Some (fst v) \<and> read_slice strings (snd acc) m = Some (snd v) \<and>
     (array_of (fst acc) \<union> array_of (snd acc)) \<inter> {..<length m0} = {} \<and>
     array_of (fst acc) \<inter> array_of (snd acc) = {}"

lemma append_both:
  assumes "own_lists m0 (s, t) m (us, rs)"
    and "read_slice strings u m0 = Some us'" and "read_slice strings r m0 = Some rs'"
  obtains s' m1 t' m2 where "append_slice strings grow s u m = Some (s', m1)"
    and "append_slice strings grow t r m1 = Some (t', m2)" and "prefix m0 m1"
    and "own_lists m0 (s', t') m2 (us @ us', rs @ rs')"
proof -
  from assms(1) have own: "prefix m0 m" "read_slice strings s m = Some us" "read_slice strings t m = Some rs"
      "array_of s \<inter> {..<length m0} = {}" "array_of t \<inter> {..<length m0} = {}" "array_of s \<inter> array_of t = {}"
    by (auto simp: own_lists_def)
  have len: "length m0 \<le> length m" using own(1) by (rule prefix_length_le)
  have below: "prefix m0 m2" if "prefix m0 m1" "keeps (- A) m1 m2" "A \<inter> {..<length m0} = {}"
    for m1 m2 A
  proof -
    have "keeps {..<length m0} m1 m2" by (rule keeps_mono [OF that(2)]) (use that(3) in blast)
    with that(1) show ?thesis by (meson keeps_below_prefix keeps_prefix keeps_trans)
  qed
  have "read_slice strings u m = Some us'" using read_slice_keeps [OF assms(2)] own(1) by auto
  from string_arrays.append_slice_reads [OF own(2) this, of grow] obtain s' m1 where s':
    "append_slice strings grow s u m = Some (s', m1)" "keeps (- array_of s) m m1" "length m \<le> length m1"
    "read_slice strings s' m1 = Some (us @ us')" "array_of s' \<subseteq> array_of s \<union> {length m..<length m1}"
    by blast
  have p1: "prefix m0 m1" by (rule below [OF own(1) s'(2) own(4)])
  have t1: "read_slice strings t m1 = Some rs"
    by (rule read_slice_keeps [OF own(3) keeps_mono [OF s'(2)]]) (use own(6) in blast)
  have "read_slice strings r m1 = Some rs'" using read_slice_keeps [OF assms(3)] p1 by auto
  from string_arrays.append_slice_reads [OF t1 this, of grow] obtain t' m2 where t':
    "append_slice strings grow t r m1 = Some (t', m2)" "keeps (- array_of t) m1 m2" "length m1 \<le> length m2"
    "read_slice strings t' m2 = Some (rs @ rs')" "array_of t' \<subseteq> array_of t \<union> {length m1..<length m2}"
    by blast
  have st: "array_of s' \<inter> array_of t = {}"
    using s'(5) own(6) read_slice_bounded [OF own(3)] by fastforce
  have s2: "read_slice strings s' m2 = Some (us @ us')"
    by (rule read_slice_keeps [OF s'(4) keeps_mono [OF t'(2)]]) (use st in blast)
  have "prefix m0 m2" by (rule below [OF p1 t'(2) own(5)])
  moreover have "array_of s' \<inter> array_of t' = {}"
    using st t'(5) read_slice_bounded [OF s'(4)] by fastforce
  moreover have "(array_of s' \<union> array_of t') \<inter> {..<length m0} = {}"
    using s'(5) t'(5) own(4,5) len s'(3) by fastforce
  ultimately have "own_lists m0 (s', t') m2 (us @ us', rs @ rs')"
    using s2 t'(4) by (simp add: own_lists_def)
  with s'(1) t'(1) p1 show thesis by (rule that)
qed

lemma append_lists_own:
  assumes "machinery_copies lv lc lib" and "repo_at lib lv mo m0 (Some q) = Some r"
    and "own_lists m0 acc m v"
  shows "\<exists>acc' m'. append_lists lib grow q acc m = Some (acc', m') \<and>
    own_lists m0 acc' m' (fst v @ AllowedUsers (RSpec r), snd v @ AllowedRoles (RSpec r))"
proof -
  obtain x where x: "load (repos lib) q m0 = Some x"
      "read_slice strings (mem_AllowedUsers (mem_RSpec x)) m0 = Some (AllowedUsers (RSpec r))"
      "read_slice strings (mem_AllowedRoles (mem_RSpec x)) m0 = Some (AllowedRoles (RSpec r))"
    by (rule repo_at_load [OF assms(2)])
  have "prefix m0 m" using assms(3) by (simp add: own_lists_def)
  with x(1) have "load (repos lib) q m = Some x"
    by (auto simp: load_def array_at_def prefix_def nth_append split: option.splits if_splits)
  moreover have "own_lists m0 (fst acc, snd acc) m (fst v, snd v)" using assms(3) by simp
  from append_both [OF this x(2,3), of grow] obtain s' m1 t' m2 where
    "append_slice strings grow (fst acc) (mem_AllowedUsers (mem_RSpec x)) m = Some (s', m1)"
    "append_slice strings grow (snd acc) (mem_AllowedRoles (mem_RSpec x)) m1 = Some (t', m2)"
    "own_lists m0 (s', t') m2 (fst v @ AllowedUsers (RSpec r), snd v @ AllowedRoles (RSpec r))"
    by metis
  ultimately show ?thesis by (simp add: append_lists_def)
qed

lemma Mem_GetMergedAllowlist_refines:
  assumes "machinery_copies lv lc lib" and "represents lib lv mo m cm c"
  shows "\<exists>acc m'. Mem_GetMergedAllowlist lib grow ord cm n m = Some (acc, m') \<and>
    own_lists m acc m' (AllowlistCache_GetMergedAllowlist ord c n)"
proof -
  have "own_lists m (None, None) m ([], [])" by (simp add: own_lists_def read_slice_def array_of_def)
  moreover have "read_slice strings (mem_globalUsers cm) m = Some (globalAllowedUsers c)"
      "read_slice strings (mem_globalRoles cm) m = Some (globalAllowedRoles c)"
    using assms(2) by (auto simp: represents_def)
  ultimately obtain s m1 t m2 where g: "append_slice strings grow None (mem_globalUsers cm) m = Some (s, m1)"
      "append_slice strings grow None (mem_globalRoles cm) m1 = Some (t, m2)"
      "own_lists m (s, t) m2 (globalAllowedUsers c, globalAllowedRoles c)"
    using append_both [where grow = grow] by (metis append_Nil)
  have app: "\<exists>acc m'. append_lists lib grow q (s, t) m2 = Some (acc, m') \<and> own_lists m acc m'
      (globalAllowedUsers c @ AllowedUsers (RSpec r), globalAllowedRoles c @ AllowedRoles (RSpec r))"
    if "repo_at lib lv mo m (Some q) = Some r" for q r
    using append_lists_own [OF assms(1) that g(3)] by simp
  show ?thesis
  proof (cases "mem_exact cm n")
    case (Some p)
    then obtain r where "exact c n = Some r" "repo_at lib lv mo m (Some p) = Some r"
      using represents_exact [OF assms(2)] by blast
    with Some g app show ?thesis
      by (simp add: Mem_GetMergedAllowlist_def AllowlistCache_GetMergedAllowlist_def Let_def)
  next
    case None
    then have "exact c n = None" using exact_related [OF assms(2), of n] by simp
    moreover from find_related [OF range_related [OF assms(2)]]
    have "rel_option (entry_rel lib lv mo m) (find (\<lambda>e. mem_re e n) (Mem_range ord cm))
        (find (\<lambda>e. re e n) (range_patterns ord c))" .
    ultimately show ?thesis
      using None g app
      by (cases "find (\<lambda>e. mem_re e n) (Mem_range ord cm)";
          cases "find (\<lambda>e. re e n) (range_patterns ord c)")
        (simp_all add: Mem_GetMergedAllowlist_def AllowlistCache_GetMergedAllowlist_def Let_def
          entry_rel_def)
  qed
qed

subsection \<open>The cache among its callers\<close>

text \<open>
  What can happen to a cache and the memory around it, next to what happens to a cache of
  values. \<open>W\<close> are the cells that the cache has taken: those made inside \<open>Set\<close>, and the lists
  that \<open>SetGlobalAllowlist\<close> was given. Any other cell may be overwritten at any time, with
  anything; in particular the objects that \<open>Set\<close> was called with, and those that \<open>Get\<close> and
  \<open>GetMergedAllowlist\<close> have returned.
\<close>

inductive cache_run ::
  "'l machinery \<Rightarrow> regex_compiler \<Rightarrow> (nat \<Rightarrow> nat) \<Rightarrow> ('l, 'v) struct_view \<Rightarrow> 'v meta_fields \<Rightarrow>
   'l cell memory \<Rightarrow> 'c cache_mem \<Rightarrow> nat set \<Rightarrow> 'c allowlist_cache \<Rightarrow> bool"
  for lib compile grow lv mo
where
  new: "cache_run lib compile grow lv mo m Mem_New {} NewAllowlistCache"
| set: "cache_run lib compile grow lv mo m cm W c \<Longrightarrow> repo_at lib lv mo m (Some p) = Some r \<Longrightarrow>
    Mem_Set lib compile n (Some p) cm m = Some (cm', m') \<Longrightarrow>
    cache_run lib compile grow lv mo m' cm' (W \<union> {length m..<length m'}) (AllowlistCache_Set compile n r c)"
| delete: "cache_run lib compile grow lv mo m cm W c \<Longrightarrow>
    cache_run lib compile grow lv mo m (Mem_Delete n cm) W (AllowlistCache_Delete n c)"
| set_globals: "cache_run lib compile grow lv mo m cm W c \<Longrightarrow>
    read_slice strings us m = Some users \<Longrightarrow> read_slice strings rs m = Some roles \<Longrightarrow>
    cache_run lib compile grow lv mo m (Mem_SetGlobalAllowlist us rs cm) (W \<union> array_of us \<union> array_of rs)
      (AllowlistCache_SetGlobalAllowlist users roles c)"
| set_client: "cache_run lib compile grow lv mo m cm W c \<Longrightarrow>
    cache_run lib compile grow lv mo m (Mem_SetClient n cl cm) W (AllowlistCache_SetClient n cl c)"
| delete_client: "cache_run lib compile grow lv mo m cm W c \<Longrightarrow>
    cache_run lib compile grow lv mo m (Mem_DeleteClient n cm) W (AllowlistCache_DeleteClient n c)"
| get: "cache_run lib compile grow lv mo m cm W c \<Longrightarrow> Mem_Get lib ord cm n m = Some (q, m') \<Longrightarrow>
    cache_run lib compile grow lv mo m' cm W c"
| merged: "cache_run lib compile grow lv mo m cm W c \<Longrightarrow>
    Mem_GetMergedAllowlist lib grow ord cm n m = Some (acc, m') \<Longrightarrow>
    cache_run lib compile grow lv mo m' cm W c"
| store: "cache_run lib compile grow lv mo m cm W c \<Longrightarrow> a \<notin> W \<Longrightarrow>
    cache_run lib compile grow lv mo (m[a := x]) cm W c"
| allocate: "cache_run lib compile grow lv mo m cm W c \<Longrightarrow>
    cache_run lib compile grow lv mo (m @ [x]) cm W c"

text \<open>The invariant: the cache depends on cells it has taken only.\<close>

definition cache_inv ::
  "'l machinery \<Rightarrow> ('l, 'v) struct_view \<Rightarrow> 'l struct_cells \<Rightarrow> 'v meta_fields \<Rightarrow> 'l cell memory \<Rightarrow>
   'c cache_mem \<Rightarrow> nat set \<Rightarrow> 'c allowlist_cache \<Rightarrow> bool" where
  "cache_inv lib lv lc mo m cm W c \<longleftrightarrow>
     represents lib lv mo m cm c \<and> cache_cells lib lc m cm \<subseteq> W \<and> W \<subseteq> {..<length m}"

lemma cache_inv_keeps:
  assumes "machinery_copies lv lc lib" and "cache_inv lib lv lc mo m cm W c"
    and "keeps W m m'" and "length m \<le> length m'"
  shows "cache_inv lib lv lc mo m' cm W c"
proof -
  have "keeps (cache_cells lib lc m cm) m m'"
    by (rule keeps_mono [OF assms(3)]) (use assms(2) in \<open>simp add: cache_inv_def\<close>)
  then show ?thesis
    using assms represents_keeps [OF assms(1), of mo m cm c m'] by (auto simp: cache_inv_def)
qed

lemma cache_inv_prefix:
  "machinery_copies lv lc lib \<Longrightarrow> cache_inv lib lv lc mo m cm W c \<Longrightarrow> prefix m m' \<Longrightarrow>
     cache_inv lib lv lc mo m' cm W c"
  by (rule cache_inv_keeps) (auto dest: prefix_length_le)

lemma cache_cells_delete: "cache_cells lib lc m (Mem_Delete n cm) \<subseteq> cache_cells lib lc m cm"
proof -
  have "owned_pointers (Mem_Delete n cm) \<subseteq> owned_pointers cm"
    by (auto simp: owned_pointers_def Mem_Delete_def ran_def split: if_splits)
  then show ?thesis by (auto simp: cache_cells_def Mem_Delete_def)
qed

lemma cache_run_inv:
  assumes "machinery_copies lv lc lib" and "cache_run lib compile grow lv mo m cm W c"
  shows "cache_inv lib lv lc mo m cm W c"
  using assms(2)
proof induction
  case (new m)
  show ?case
    by (simp add: cache_inv_def represents_def Mem_New_def NewAllowlistCache_def read_slice_def
        cache_cells_def owned_pointers_def array_of_def)
next
  case (set m cm W c p r n cm' m')
  then have inv: "represents lib lv mo m cm c" "cache_cells lib lc m cm \<subseteq> W" "W \<subseteq> {..<length m}"
    by (simp_all add: cache_inv_def)
  from Mem_Set_refines [OF assms(1) inv(1) set.hyps(2), of compile n] set.hyps(3)
  have m': "prefix m m'" "represents lib lv mo m' cm' (AllowlistCache_Set compile n r c)"
    "cache_cells lib lc m' cm' \<subseteq> cache_cells lib lc m cm \<union> {length m..<length m'}"
    by auto
  have "{..<length m} \<subseteq> {..<length m'}" using prefix_length_le [OF m'(1)] by simp
  with m' inv(2,3) show ?case by (auto simp: cache_inv_def)
next
  case (delete m cm W c n)
  then show ?case
    using cache_cells_delete [of lib lc m n cm]
    by (auto simp: cache_inv_def represents_def Mem_Delete_def AllowlistCache_Delete_def)
next
  case (set_globals m cm W c us users rs roles)
  then show ?case
    using read_slice_bounded [OF set_globals.hyps(2)] read_slice_bounded [OF set_globals.hyps(3)]
    by (auto simp: cache_inv_def represents_def Mem_SetGlobalAllowlist_def cache_cells_def
        AllowlistCache_SetGlobalAllowlist_def owned_pointers_def)
next
  case (set_client m cm W c n cl)
  then show ?case
    by (simp add: cache_inv_def represents_def Mem_SetClient_def AllowlistCache_SetClient_def
        cache_cells_def owned_pointers_def)
next
  case (delete_client m cm W c n)
  then show ?case
    by (simp add: cache_inv_def represents_def Mem_DeleteClient_def AllowlistCache_DeleteClient_def
        cache_cells_def owned_pointers_def)
next
  case (get m cm W c ord n q m')
  then have "prefix m m'"
    using Mem_Get_refines [OF assms(1), of mo m cm c ord n] by (auto simp: cache_inv_def)
  then show ?case by (rule cache_inv_prefix [OF assms(1) get.IH])
next
  case (merged m cm W c ord n acc m')
  then have "prefix m m'"
    using Mem_GetMergedAllowlist_refines [OF assms(1), of mo m cm c grow ord n]
    by (auto simp: cache_inv_def own_lists_def)
  then show ?case by (rule cache_inv_prefix [OF assms(1) merged.IH])
next
  case (store m cm W c a x)
  then show ?case by (intro cache_inv_keeps [OF assms(1) store.IH]) auto
next
  case (allocate m cm W c x)
  then show ?case by (intro cache_inv_prefix [OF assms(1) allocate.IH]) simp
qed

text \<open>
  C15: The cache keeps its own copies. Start with an empty cache and let anything happen:
  registrations, deletions, changes of clients and global lists, queries, allocations, and stores
  into any cells that the cache has not taken, even the objects that were registered and the
  results of earlier queries. Then the cache in memory answers like the cache of values that
  was told the registered values at the time of their registration: it admits the same names,
  finds the same clients and merges the same lists, and \<open>Get\<close> returns an equal resource or
  nil where the other has none. What the queries return shares no memory with the cache, and
  no query and no registration of a readable resource panics.
\<close>

theorem cache_keeps_own_copies:
  assumes "machinery_copies lv lc lib" and "cache_run lib compile grow lv mo m cm W c"
  shows "Mem_IsAllowed ord cm n = AllowlistCache_IsAllowed ord c n \<and>
    mem_clients cm n = AllowlistCache_GetClient c n \<and>
    (\<exists>q m'. Mem_Get lib ord cm n m = Some (q, m') \<and>
       repo_at lib lv mo m' q = AllowlistCache_Get ord c n \<and>
       (q = None \<longleftrightarrow> AllowlistCache_Get ord c n = None) \<and>
       ptr_cells (repos lib) (repo_cells lib lc) m' q \<inter> W = {}) \<and>
    (\<exists>users roles m'. Mem_GetMergedAllowlist lib grow ord cm n m = Some ((users, roles), m') \<and>
       read_slice strings users m' = Some (fst (AllowlistCache_GetMergedAllowlist ord c n)) \<and>
       read_slice strings roles m' = Some (snd (AllowlistCache_GetMergedAllowlist ord c n)) \<and>
       (array_of users \<union> array_of roles) \<inter> W = {}) \<and>
    (repo_at lib lv mo m p \<noteq> None \<longrightarrow> Mem_Set lib compile n p cm m \<noteq> None)"
proof (intro conjI impI)
  from cache_run_inv [OF assms] have inv: "represents lib lv mo m cm c" "W \<subseteq> {..<length m}"
    by (simp_all add: cache_inv_def)
  show "Mem_IsAllowed ord cm n = AllowlistCache_IsAllowed ord c n"
    by (rule Mem_IsAllowed_refines [OF inv(1)])
  show "mem_clients cm n = AllowlistCache_GetClient c n"
    using inv(1) by (simp add: represents_def AllowlistCache_GetClient_def)
  obtain q m' where q: "Mem_Get lib ord cm n m = Some (q, m')"
      "case AllowlistCache_Get ord c n of None \<Rightarrow> q = None | Some r \<Rightarrow> repo_at lib lv mo m' q = Some r"
      "ptr_cells (repos lib) (repo_cells lib lc) m' q \<inter> {..<length m} = {}"
    using Mem_Get_refines [OF assms(1) inv(1)] by blast
  have none: "repo_at lib lv mo m0 None = None" for m0 by (simp add: repo_at_def)
  then have "repo_at lib lv mo m' q = AllowlistCache_Get ord c n \<and>
      (q = None \<longleftrightarrow> AllowlistCache_Get ord c n = None)"
    using q(2) by (cases q; cases "AllowlistCache_Get ord c n") simp_all
  moreover have "ptr_cells (repos lib) (repo_cells lib lc) m' q \<inter> W = {}" using q(3) inv(2) by auto
  ultimately show "\<exists>q m'. Mem_Get lib ord cm n m = Some (q, m') \<and>
      repo_at lib lv mo m' q = AllowlistCache_Get ord c n \<and>
      (q = None \<longleftrightarrow> AllowlistCache_Get ord c n = None) \<and>
      ptr_cells (repos lib) (repo_cells lib lc) m' q \<inter> W = {}"
    using q(1) by (intro exI [of _ q] exI [of _ m']) simp
  show "\<exists>users roles m'. Mem_GetMergedAllowlist lib grow ord cm n m = Some ((users, roles), m') \<and>
      read_slice strings users m' = Some (fst (AllowlistCache_GetMergedAllowlist ord c n)) \<and>
      read_slice strings roles m' = Some (snd (AllowlistCache_GetMergedAllowlist ord c n)) \<and>
      (array_of users \<union> array_of roles) \<inter> W = {}"
  proof -
    obtain users roles m' where a: "Mem_GetMergedAllowlist lib grow ord cm n m = Some ((users, roles), m')"
        "own_lists m (users, roles) m' (AllowlistCache_GetMergedAllowlist ord c n)"
      using Mem_GetMergedAllowlist_refines [OF assms(1) inv(1), of grow ord n] by auto
    then have "(array_of users \<union> array_of roles) \<inter> W = {}" using inv(2) by (auto simp: own_lists_def)
    with a show ?thesis by (auto simp: own_lists_def)
  qed
  assume "repo_at lib lv mo m p \<noteq> None"
  with none obtain p' r where "p = Some p'" "repo_at lib lv mo m (Some p') = Some r"
    by (cases p) auto
  with Mem_Set_refines [OF assms(1) inv(1), of p' r compile n]
  show "Mem_Set lib compile n p cm m \<noteq> None" by auto
qed

text \<open>
  A resource that is registered and then overwritten where its registrant has it is still
  found as it was.
\<close>

definition acme_memory :: "(string \<times> slice option) cell memory" where
  "acme_memory =
     [RepoArray
        [\<lparr>mem_RepoTypeMeta = ([], None), mem_RepoMeta = (''acme'', None),
          mem_RSpec = zero_repo_spec_mem\<lparr>mem_Owner := ''acme'', mem_Repo := ''app''\<rparr>,
          mem_RStatus = zero_repo_status_mem\<rparr>]]"

definition acme_meta :: "(string \<times> string list option) meta_fields" where
  "acme_meta v = (fst v, [], None)"

definition acme_value :: claude_repository where
  "acme_value =
     \<lparr>RepoObjName = ''acme'', RepoNamespace = [], DeletionTimestamp = None,
      RSpec = \<lparr>Owner = ''acme'', Repo = ''app'', RepositoryPattern = [], Labels = [],
        MaxConcurrentTasks = 0, PATSecretRef = None, AllowedUsers = [], AllowedRoles = []\<rparr>,
      RStatus = \<lparr>ActiveTasks = 0, WebhookID = 0\<rparr>\<rparr>"

lemma acme_reads:
  "repo_at sample_machinery sample_view acme_meta acme_memory (Some (0, 0)) = Some acme_value"
  unfolding repo_at_Some
  by (simp add: load_def array_at_def kind_defs acme_memory_def repo_view_def sample_view_def
      plain_view_def spec_view_def spec_refs_view_def spec_refs_def zero_repo_spec_mem_def
      repo_status_view_def zero_repo_status_mem_def repository_of_def acme_meta_def acme_value_def
      slice_list_def pair_view_def ptr_view_def slice_view_def)

theorem cache_keeps_own_copies_witness:
  "\<exists>m cm W c q m'. cache_run sample_machinery (\<lambda>_. None) (\<lambda>n. n) sample_view acme_meta m cm W
       (c :: unit allowlist_cache) \<and>
     m ! 0 = StringArray [] \<and> Mem_Get sample_machinery [] cm ''acme/app'' m = Some (q, m') \<and>
     repo_at sample_machinery sample_view acme_meta m' q = Some acme_value"
proof -
  let ?run = "cache_run sample_machinery (\<lambda>_. None) (\<lambda>n. n) sample_view acme_meta"
  have new: "?run acme_memory Mem_New {} (NewAllowlistCache :: unit allowlist_cache)"
    by (rule cache_run.new)
  have "represents sample_machinery sample_view acme_meta acme_memory Mem_New
      (NewAllowlistCache :: unit allowlist_cache)"
    using cache_run_inv [OF sample_machinery_copies new] by (simp add: cache_inv_def)
  from Mem_Set_refines [OF sample_machinery_copies this acme_reads, of "\<lambda>_. None" "''acme/app''"]
  obtain cm m1 where s: "Mem_Set sample_machinery (\<lambda>_. None) ''acme/app'' (Some (0, 0)) Mem_New acme_memory
      = Some (cm :: unit cache_mem, m1)" "prefix acme_memory m1"
    by blast
  let ?c = "AllowlistCache_Set (\<lambda>_. None) ''acme/app'' acme_value (NewAllowlistCache :: unit allowlist_cache)"
  let ?W = "{} \<union> {length acme_memory..<length m1}"
  have "0 \<notin> ?W" by (simp add: acme_memory_def)
  from cache_run.store [OF cache_run.set [OF new acme_reads s(1)] this, of "StringArray []"]
  have run: "?run (m1[0 := StringArray []]) cm ?W ?c" .
  have "AllowlistCache_Get [] ?c ''acme/app'' = Some acme_value"
    by (simp add: AllowlistCache_Get_def AllowlistCache_Set_def IsPattern_def acme_value_def)
  moreover have "m1[0 := StringArray []] ! 0 = StringArray []"
    using prefix_length_le [OF s(2)] by (cases m1) (simp_all add: acme_memory_def)
  ultimately show ?thesis
    using run cache_keeps_own_copies [OF sample_machinery_copies run, of "[]" "''acme/app''"] by metis
qed

end
