(* ===== verification/Spec2Isabelle.thy ===== *)
theory Spec2Isabelle
  imports Startup Task_Life Task_Liveness Task_Termination Review_Comments Repo_Properties Cache_Memory
begin

text \<open>
  A verification library for claude-town, a Kubernetes operator that lets a GitHub bot solve
  issues and fix pull requests by running Claude in a sandbox. This header says how the program
  is built, which theory models which part of it, what the lemmas show, and what is left out.

  \<^bold>\<open>The program.\<close> One process (\<open>src/cmd/main.go\<close>) runs an HTTP server and two controllers that
  share one in-memory cache. GitHub delivers events to the webhook handler
  (\<open>src/internal/webhook/github.go\<close>), which checks the signature, decodes the payload, asks the
  cache whether the repository and the user are admitted, and then either answers the question
  of a waiting task or creates a \<open>ClaudeTask\<close> object. The task reconciler
  (\<open>src/internal/controller/claudetask_controller.go\<close>) drives such an object through its phases:
  it claims a sandbox (\<open>src/internal/sandbox/client.go\<close>), waits for it, runs Claude in its pod,
  parses the output, and comments on GitHub through one of two clients
  (\<open>src/internal/github\<close>). The repository reconciler
  (\<open>src/internal/controller/clauderepository_controller.go\<close>) keeps the cache
  (\<open>src/internal/controller/allowlist_cache.go\<close>) in step with the \<open>ClaudeRepository\<close> objects and
  makes their webhooks. The two resources are in \<open>src/api/v1alpha1\<close>.

  \<^bold>\<open>How effects are modelled.\<close> \<open>Effects\<close> has the list of external calls made so far, the history,
  as the state of the monad \<open>io\<close>. A call asks an oracle, a function of the history and the call's
  arguments, and appends itself. The oracles (\<open>Cluster\<close> for the Kubernetes API, the exec stream and
  the clock, \<open>github_api\<close> in \<open>Github_Client\<close>) are arguments of every definition, so a theorem
  about all of them is one about every behaviour of the outside, failures at any call included.
  Two logics over programs carry the proofs: \<open>emits\<close> (each event satisfies a predicate) and
  \<open>traces\<close> (the result is related to the sequence of events), each with introduction rules that
  take a goal apart call by call. \<open>Task_Behaviour\<close> adds \<open>ktraces\<close>, the sequence of key events.

  \<^bold>\<open>The theories.\<close>
  \<^item> \<open>Prelude\<close>: Go's errors, \<open>int64\<close>, the collections of facts.
  \<^item> \<open>Go_Strings\<close>, \<open>Go_Quote\<close>, \<open>Go_Float\<close>, \<open>Go_Json\<close>, \<open>Go_Crypto\<close>: what the program uses of Go's
    standard library (\<open>strings\<close>, \<open>%d\<close> and \<open>%q\<close>, \<open>float64\<close> with \<open>%.4f\<close> and \<open>Sscanf\<close>,
    \<open>encoding/json\<close> down to the text, SHA-256 and HMAC down to 32-bit words).
  \<^item> \<open>Api_Types\<close>: the two resources, one record per struct.
  \<^item> \<open>Cluster\<close>, \<open>Samples\<close>: the oracles of the cluster, and concrete ones for the witnesses.
  \<^item> \<open>Github_Interface\<close>, \<open>Github_Client\<close>: the interface \<open>GitHubClient\<close> as a record of ten
    operations with the locale \<open>github_ops\<close> for what its users rely on, and the App and PAT
    clients, on which the locale is interpreted. The loops over pages are partial functions: a
    GitHub that always offers a next page makes them run for ever.
  \<^item> \<open>Allowlist_Cache\<close>, \<open>Shared_Cache\<close>: every operation of the cache as a function of its state,
    with the abstract registry it stands for and the locale \<open>repo_registry\<close> between them; and the
    cache as the other goroutines see it, a function of the history.
  \<^item> \<open>Go_Memory\<close>, \<open>Deep_Copies\<close>: memory with pointers and slices, the generated copying methods of
    \<open>zz_generated.deepcopy.go\<close> on it, and the locales \<open>mem_view\<close> and \<open>deep_copier\<close>, on which every
    one of them is an instance. \<open>Cache_Memory\<close>: the operations of the cache with the pointers it
    holds, among callers that overwrite whatever they can reach, refine those of
    \<open>Allowlist_Cache\<close>.
  \<^item> \<open>Sandbox\<close>: claim names, claims and the two watch loops of \<open>WaitForReady\<close>, with the locale
    \<open>sandbox_ops\<close> for what the task reconciler relies on.
  \<^item> \<open>Webhook\<close>: \<open>ServeHTTP\<close>, the four event handlers and the signature, with the locale
    \<open>creator_contract\<close> for what the handler asks of its \<open>TaskCreator\<close>; \<open>Task_Creator\<close> is the
    implementation of \<open>cmd/main.go\<close>, on which it is interpreted.
  \<^item> \<open>Claude_Output\<close>: the prompt, the shell command, the markers, the result and the cost report.
  \<^item> \<open>Controller_Runtime\<close>, \<open>Task_Reconciler\<close>: \<open>Reconcile\<close> and the handlers of the phases. A
    panic on a nil interface and a call that never returns are outcomes of their own.
  \<^item> \<open>Task_Behaviour\<close>: the abstract specification of a reconciliation (inductive predicates per
    handler: the writes, claims and runs it can make, in order, and the outcome) and the proof
    that the definitions refine it. \<open>Task_Properties\<close> draws the phase graph, the order of cleanup,
    the meaning of the outcome and the effect of a run's output from it.
  \<^item> \<open>Task_Life\<close>: reconciliations, each possibly cut short after any call, interleaved with
    resumptions; the invariant of the status and what follows from it.
  \<^item> \<open>Task_Liveness\<close>, \<open>Review_Comments\<close>: what a platform that accepts the writes makes of a running
    task, and the way of a review comment from its delivery to the prompt, the command and the
    place of the answers. \<open>Task_Termination\<close>: reconciled on such a platform and answered whenever it
    waits, every task ends within eight visits.
  \<^item> \<open>Repo_Reconciler\<close>, \<open>Repo_Properties\<close>: the repository reconciler, its specification and the
    refinement, and the registry and the hooks after any number of reconciliations.
  \<^item> \<open>Server_Setup\<close>: the flags and the TLS, metrics and manager options made of them.
  \<^item> \<open>Startup\<close>: the configuration from the environment, the choice of the GitHub client, the wiring
    of the parts and the HTTP routes.
  \<^item> This theory: the properties that span components.

  \<^bold>\<open>What is shown.\<close> Deliveries change tasks only when signed and admitted, and exactly as the
  payload asks. The webhook admits what the registry says after any history of reconciliations.
  A task follows the phase graph under crashes at any call, never loses its claim before it has
  ended, is bounded in questions and final once ended; the output of a run decides it; a prompt
  survives the shell's quoting; an answer reaches the next run; a healthy platform decides every
  running task, and ends every task that is answered when it asks. Names of claims are made of the
  characters Kubernetes allows. Deep copies share nothing with their originals, so the cache
  cannot be changed through the resources it is given or gives out. Texts, numbers and signatures
  round-trip. Some theorems state where the code does something other than it means to:
  repositories that stay admitted after their resource is gone, hooks made twice, sandboxes shared
  between tasks, a waiting time counted from the start of the task, a missing GitHub client that
  panics.

  \<^bold>\<open>Bounds.\<close> No fuel is used. Loops over data are structural or have a measure; the loops over
  pages are partial functions, with the return of the loop over an issue's comments proved
  from sensible page numbers; a watch delivers a finite list and ends with an error. Token
  counters and durations are 64-bit words, floats are rounded to 53 bits, other Go integers are
  stored, compared and printed only, and are \<open>int\<close>.

  \<^bold>\<open>Assumptions on code outside the repository.\<close> The API server serialises the writes of an object
  and refuses one computed from an old version, so \<open>Task_Life\<close> runs one step after the other. The
  accessors of unstructured objects, \<open>regexp\<close> and \<open>strconv.IsPrint\<close> are parameters, with concrete
  instances in the witnesses. No other theorem assumes anything of the oracles but what it states.

  The copying methods of the API machinery's structs return equal values that share no memory
  with the original (\<open>machinery_copies\<close>).

  \<^bold>\<open>Not modelled.\<close> The registration of the API types and of the controllers with the
  manager, log lines, the parsing of the command line, the body of HTTP redirects, the run of the
  manager and the server, the end-to-end tests and the Helm chart. The \<open>Conditions\<close> of both
  resources are copied, and otherwise neither read nor written.
\<close>

section \<open>The parts together\<close>

lemma main_setup_Started:
  assumes "run_state (main_setup pl w g compile f getenv) h = (Started p, h')"
  obtains gh where "fst (run_state (setup_github g (read_config getenv)) h) = Inr gh"
    "pCache p = initial_cache (read_config getenv)"
    "pTaskReconciler p = wire_task_reconciler w g (read_config getenv) gh"
    "pRepoReconciler p = wire_repo_reconciler w g compile (read_config getenv) gh"
    "pHandler p = wire_handler w g (read_config getenv) gh"
  using assms
  by (cases "run_state (setup_github g (read_config getenv)) h")
    (auto simp: main_setup_def Let_def split: if_splits sum.splits)

lemmas wiring = wire_task_reconciler_def wire_repo_reconciler_def wire_handler_def NewHandler_def

text \<open>
  C31: The hooks that the program makes lead back to it: a started program with a public name
  registers repository hooks under the address whose path its own HTTP server hands to the
  webhook handler, and a delivery signed with the secret given to those hooks passes the
  handler's signature check.
\<close>

theorem hooks_lead_back:
  assumes "run_state (main_setup pl w g compile f getenv) h = (Started p, h')" and "getenv ''SELF_DNS'' \<noteq> []"
  shows "rrWebhookURL (pRepoReconciler p) = ''https://'' @ getenv ''SELF_DNS'' @ ''/webhooks/github''
    \<and> serve_mux pt (pHandler p sh) ''/webhooks/github'' rq = ServeHTTP pt (pHandler p sh) rq
    \<and> validateSignature body (computeSignature body (rrWebhookSecret (pRepoReconciler p)))
        (webhookSecret (pHandler p sh))"
proof -
  have "clean_path ''/webhooks/github'' = ''/webhooks/github''" by code_simp
  with assms show ?thesis
    by (auto elim!: main_setup_Started simp: wiring hook_url_def read_config_def serve_mux_def
        signature_roundtrip)
qed

text \<open>A platform on which every call succeeds, and environments for the witnesses.\<close>

definition willing_platform :: platform where
  "willing_platform =
     \<lparr>NewCertWatcher_error = (\<lambda>_. None), NewManager_error = (\<lambda>_. None), NewDynamicClient_error = None,
      SetupTask_error = None, SetupRepo_error = None, AddWatcher_error = (\<lambda>_. None),
      AddHealthzCheck_error = None, AddReadyzCheck_error = None\<rparr>"

definition no_flags :: flags where
  "no_flags = parse_flags Map.empty Map.empty"

definition plain_servers :: server_options where
  "plain_servers = projr (setup_servers (\<lambda>_. None) no_flags)"

lemma plain_servers_made: "setup_servers (\<lambda>_. None) no_flags = Inr plain_servers"
  by (simp add: plain_servers_def setup_servers_def make_watcher_def Let_def)

definition no_credentials :: environment where
  "no_credentials key = (if key = ''SELF_DNS'' then ''town.example'' else [])"

definition bare_program :: program where
  "bare_program =
     \<lparr>pManager = manager_setup no_flags plain_servers,
      pCache = initial_cache (read_config no_credentials),
      pTaskReconciler = wire_task_reconciler sample_cluster sample_github (read_config no_credentials) None,
      pRepoReconciler = wire_repo_reconciler sample_cluster sample_github (\<lambda>_. None) (read_config no_credentials) None,
      pHandler = wire_handler sample_cluster sample_github (read_config no_credentials) None,
      pAddr = '':8082''\<rparr>"

lemma bare_program_starts:
  "run_state (main_setup willing_platform sample_cluster sample_github (\<lambda>_. None) no_flags no_credentials) []
     = (Started bare_program, [])"
proof -
  have "fst (run_state (setup_github sample_github (read_config no_credentials)) []) = Inr None"
    "snd (run_state (setup_github sample_github (read_config no_credentials)) []) = []"
    by (simp_all add: setup_github_def read_config_def no_credentials_def ParseInt64_def)
  moreover have "'':'' @ webhookPort (read_config no_credentials) = '':8082''"
    by (simp add: read_config_def no_credentials_def envOrDefault_def Let_def)
  ultimately show ?thesis
    by (cases "run_state (setup_github sample_github (read_config no_credentials)) []")
      (simp add: main_setup_def willing_platform_def bare_program_def plain_servers_made add_runnables_def
        add_watcher_def Let_def split: option.split)
qed

theorem hooks_lead_back_witness:
  "rrWebhookURL (pRepoReconciler bare_program) = ''https://town.example/webhooks/github''"
  using hooks_lead_back [OF bare_program_starts] by (simp add: no_credentials_def)

text \<open>
  C40: Without GitHub credentials the program starts all the same, but no task of a repository
  without a client of its own can run: once its sandbox is placed, every reconciliation of it
  panics on the missing client.
\<close>

theorem no_credentials_no_tasks:
  assumes "run_state (main_setup pl w g compile f getenv) h0 = (Started p, h1)"
    and "ParseInt64 (getenv ''GITHUB_APP_ID'') \<le> 0 \<or> ParseInt64 (getenv ''GITHUB_INSTALLATION_ID'') \<le> 0
         \<or> getenv ''GITHUB_PRIVATE_KEY'' = []"
    and "getenv ''GITHUB_PAT'' = []"
    and "AllowlistCache_GetClient (cache_at s h) (Repository (Spec t)) = None"
    and "Phase (Status t) = Running" and "SandboxClaimName (Status t) \<noteq> []" and "PodName (Status t) \<noteq> []"
    and "CHR ''/'' \<in> set (Repository (Spec t))"
  shows "run_state (reconcile_task (pTaskReconciler p s) t) h = (Panicked, h @ [CacheRead])"
proof -
  from assms(1) obtain gh where
      gh: "fst (run_state (setup_github g (read_config getenv)) h0) = Inr gh"
        "pTaskReconciler p = wire_task_reconciler w g (read_config getenv) gh"
    by (rule main_setup_Started)
  have "gh = None" using gh(1) assms(2,3) by (auto simp: setup_github_def read_config_def)
  with gh(2) show ?thesis
    using no_github_client_panics [of "pTaskReconciler p s" h t] assms(4-8) by (simp add: wiring)
qed

theorem no_credentials_no_tasks_witness:
  "run_state (reconcile_task (pTaskReconciler bare_program (frozen_cache (pCache bare_program) []))
     (sample_task Running)) [] = (Panicked, [] @ [CacheRead])"
proof -
  have "AllowlistCache_GetClient (cache_at (frozen_cache (pCache bare_program) []) []) n = None" for n
    by (simp add: frozen_cache_def bare_program_def initial_cache_def AllowlistCache_GetClient_def
        AllowlistCache_SetGlobalAllowlist_def NewAllowlistCache_def)
  then show ?thesis
    by (intro no_credentials_no_tasks [OF bare_program_starts])
      (simp_all add: no_credentials_def ParseInt64_def sample_task_def Let_def)
qed

text \<open>
  C7: The webhook admits what the reconciler registered: when the cache that the handler finds
  is the one the repository reconciler left after any sequence of reconciliations since the
  start, a repository is admitted exactly when the abstract registry after the same sequence
  has an entry that accepts it.
\<close>

theorem webhook_follows_registry:
  assumes "run_state (main_setup pl w g compile f getenv) h0 = (Started p, h1)"
    and "run_state (reconcile_all (pRepoReconciler p) qs (pCache p)) h2 = (cache_at (tcAllowlist tc) h, h3)"
    and "iteration_order (patterns (cache_at (tcAllowlist tc) h)) (order_at (tcAllowlist tc) h)"
  shows "\<exists>as. list_all2 registry_step qs as
           \<and> (fst (run_state (taskCreator_IsRepoAllowed tc ow rp) h) = Inr True \<longleftrightarrow>
              admits compile (fold (abstract_action (is_regex compile)) as {}) (ow @ ''/'' @ rp))"
proof -
  from assms(1) obtain gh where p: "pCache p = initial_cache (read_config getenv)"
      "pRepoReconciler p = wire_repo_reconciler w g compile (read_config getenv) gh"
    by (rule main_setup_Started)
  then have comp: "rrCompile (pRepoReconciler p) = compile" by (simp add: wiring)
  have wf: "cache_wf compile (pCache p)" "entries (pCache p) = {}"
    using p(1) by (simp_all add: initial_cache_def cache_wf_New)
  from reconcile_all_actions [of "pRepoReconciler p" "pCache p" qs, unfolded comp, OF wf(1)] assms(2)
  obtain as where as: "list_all2 registry_step qs as" "cache_wf compile (cache_at (tcAllowlist tc) h)"
      "entries (cache_at (tcAllowlist tc) h) = fold (abstract_action (is_regex compile)) as {}"
    unfolding traces_def wf(2) by (metis fst_conv)
  show ?thesis
    using as(1) IsRepoAllowed_iff_registered [OF as(2) assms(3), of ow rp]
    by (auto simp: as(3) admits_def full_name_def)
qed

definition registered_cache :: client_cache where
  "registered_cache = AllowlistCache_Set (\<lambda>_. None) ''acme/web'' acme_repo (pCache bare_program)"

definition bare_creator :: creator_env where
  "bare_creator =
     \<lparr>tcClient = sample_cluster, tcNamespace = [], tcAllowlist = frozen_cache registered_cache [],
      tcGhClient = None, tcGithub = sample_github\<rparr>"

theorem webhook_follows_registry_witness:
  "\<exists>as. list_all2 registry_step [acme_repo] as
     \<and> (fst (run_state (taskCreator_IsRepoAllowed bare_creator ''acme'' ''web'') []) = Inr True \<longleftrightarrow>
        admits (\<lambda>_. None) (fold (abstract_action (is_regex (\<lambda>_. None))) as {}) (''acme'' @ ''/'' @ ''web''))"
proof (rule webhook_follows_registry [OF bare_program_starts, where qs = "[acme_repo]"])
  show "run_state (reconcile_all (pRepoReconciler bare_program) [acme_repo] (pCache bare_program)) [] =
      (cache_at (tcAllowlist bare_creator) [], [])"
    by (simp add: reconcile_repo_def own_client_def ensure_webhook_def repo_resolveClient_def
        bare_program_def wiring initial_cache_def AllowlistCache_GetClient_def NewAllowlistCache_def
        AllowlistCache_SetGlobalAllowlist_def acme_repo_def FullName_def IsPattern_def frozen_cache_def
        bare_creator_def registered_cache_def Let_def)
  show "iteration_order (patterns (cache_at (tcAllowlist bare_creator) [])) (order_at (tcAllowlist bare_creator) [])"
    by (simp add: iteration_order_def frozen_cache_def bare_program_def initial_cache_def acme_repo_def
        AllowlistCache_Set_def AllowlistCache_SetGlobalAllowlist_def NewAllowlistCache_def IsPattern_def
        bare_creator_def registered_cache_def)
qed




end
